(* ===== verification/Wire.thy ===== *)
theory Wire
  imports Prelude "HOL-Library.Word"
begin

unbundle bit_operations_syntax

text \<open>
  The byte level of the UDP link. Both ends are modelled: the Python tools work on
  unbounded integers with explicit masks and on \<open>struct\<close> formats, the C++ flight software
  on fixed-width words with shifts. The theory holds Python's little-endian \<open>struct.pack\<close>
  and \<open>struct.unpack\<close> for the format letters the tools use, the byte readers and writers of
  the C++ packet modules, the two CRC-16-CCITT routines, the proof that they agree, and the
  error-detection theorem of the checksum.
\<close>

type_synonym byte = "8 word"
type_synonym u16 = "16 word"
type_synonym u32 = "32 word"
type_synonym u64 = "64 word"

section \<open>Python's struct module, little endian\<close>

primrec le_bytes :: "nat \<Rightarrow> int \<Rightarrow> byte list" where
  "le_bytes 0 v = []"
| "le_bytes (Suc n) v = word_of_int v # le_bytes n (v div 256)"

primrec le_value :: "byte list \<Rightarrow> int" where
  "le_value [] = 0"
| "le_value (b # bs) = uint b + 256 * le_value bs"

lemma length_le_bytes [simp]: "length (le_bytes n v) = n"
  by (induction n arbitrary: v) auto

lemma uint_byte_bounds [simp]: "0 \<le> uint (b :: byte)" "uint (b :: byte) < 256"
  using uint_lt2p [of b] by simp_all

lemma le_value_nonneg [simp]: "0 \<le> le_value bs"
  by (induction bs) auto

lemma le_value_bound: "le_value bs < 256 ^ length bs"
proof (induction bs)
  case (Cons b bs)
  have "uint b \<le> 255" using uint_byte_bounds(2) [of b] by linarith
  then have "uint b + 256 * le_value bs \<le> 255 + 256 * (256 ^ length bs - 1)"
    using Cons by (intro add_mono mult_left_mono) simp_all
  then show ?case by simp
qed simp

lemma le_value_le_bytes: "0 \<le> v \<Longrightarrow> v < 256 ^ n \<Longrightarrow> le_value (le_bytes n v) = v"
proof (induction n arbitrary: v)
  case (Suc n)
  have "v div 256 < 256 ^ n"
    using Suc.prems by (simp add: div_less_iff_less_mult mult.commute)
  with Suc have "le_value (le_bytes n (v div 256)) = v div 256"
    by (simp add: pos_imp_zdiv_nonneg_iff)
  then show ?case
    by (simp add: unsigned_of_int take_bit_eq_mod)
qed simp

lemma byte_256 [simp]: "(256 :: byte) = 0"
  by (rule word_uint_eqI) simp

lemma word_of_int_uint_add_byte: "word_of_int (uint (b :: byte) + 256 * v) = b"
  by simp

lemma le_bytes_le_value: "length bs = n \<Longrightarrow> le_bytes n (le_value bs) = bs"
proof (induction bs arbitrary: n)
  case (Cons b bs)
  have "(uint b + 256 * le_value bs) div 256 = le_value bs"
    by simp
  with Cons show ?case by (auto simp: word_of_int_uint_add_byte)
qed simp

datatype fmt = FmtB | FmtH | FmtI | FmtQ | FmtF

primrec fmt_size :: "fmt \<Rightarrow> nat" where
  "fmt_size FmtB = 1"
| "fmt_size FmtH = 2"
| "fmt_size FmtI = 4"
| "fmt_size FmtQ = 8"
| "fmt_size FmtF = 4"

definition calcsize :: "fmt list \<Rightarrow> nat" where
  "calcsize fs = sum_list (map fmt_size fs)"

text \<open>\<open>struct.pack\<close> checks the number of arguments and the range of each integer, and
  raises \<open>struct.error\<close>. The value of an \<open>f\<close> item is its IEEE bit pattern: the
  conversion between a pattern and a Python float is never looked into.\<close>

fun struct_pack :: "fmt list \<Rightarrow> int list \<Rightarrow> byte list result" where
  "struct_pack [] [] = Inr []"
| "struct_pack (f # fs) (v # vs) =
     (if 0 \<le> v \<and> v < 256 ^ fmt_size f
      then rbind (struct_pack fs vs) (\<lambda>bs. Inr (le_bytes (fmt_size f) v @ bs))
      else Inl (StructError ''argument out of range''))"
| "struct_pack fs vs = Inl (StructError ''wrong number of items'')"

fun unpack_items :: "fmt list \<Rightarrow> byte list \<Rightarrow> int list" where
  "unpack_items [] bs = []"
| "unpack_items (f # fs) bs =
     le_value (take (fmt_size f) bs) # unpack_items fs (drop (fmt_size f) bs)"

definition struct_unpack :: "fmt list \<Rightarrow> byte list \<Rightarrow> int list result" where
  "struct_unpack fs bs =
     (if length bs = calcsize fs then Inr (unpack_items fs bs)
      else Inl (StructError ''unpack requires a buffer of the exact size''))"

lemma calcsize_simps [simp]: "calcsize [] = 0" "calcsize (f # fs) = fmt_size f + calcsize fs"
  by (simp_all add: calcsize_def)

definition fits :: "fmt list \<Rightarrow> int list \<Rightarrow> bool" where
  "fits fs vs \<longleftrightarrow> list_all2 (\<lambda>f v. 0 \<le> v \<and> v < 256 ^ fmt_size f) fs vs"

lemma fits_simps [simp]:
  "fits [] [] = True"
  "fits (f # fs) (v # vs) = (0 \<le> v \<and> v < 256 ^ fmt_size f \<and> fits fs vs)"
  "fits [] (v # vs) = False"
  "fits (f # fs) [] = False"
  by (simp_all add: fits_def)

lemma struct_pack_length: "struct_pack fs vs = Inr bs \<Longrightarrow> length bs = calcsize fs"
  by (induction fs vs arbitrary: bs rule: struct_pack.induct)
    (auto simp: rbind_Inr_iff split: if_splits)

lemma struct_pack_Inr_iff: "(\<exists>bs. struct_pack fs vs = Inr bs) \<longleftrightarrow> fits fs vs"
  by (induction fs vs rule: struct_pack.induct) (auto simp: rbind_Inr_iff)

lemma struct_unpack_pack:
  "struct_pack fs vs = Inr bs \<Longrightarrow> struct_unpack fs bs = Inr vs"
proof (induction fs vs arbitrary: bs rule: struct_pack.induct)
  case (2 f fs v vs)
  then obtain cs where cs: "struct_pack fs vs = Inr cs" "bs = le_bytes (fmt_size f) v @ cs"
    and v: "0 \<le> v" "v < 256 ^ fmt_size f"
    by (auto simp: rbind_Inr_iff split: if_splits)
  with "2.IH" [OF _ cs(1)] have "struct_unpack fs cs = Inr vs" by simp
  with cs v show ?case
    by (auto simp: struct_unpack_def le_value_le_bytes split: if_splits)
qed (auto simp: struct_unpack_def)

lemma struct_pack_unpack:
  "struct_unpack fs bs = Inr vs \<Longrightarrow> struct_pack fs vs = Inr bs"
proof (induction fs arbitrary: bs vs)
  case Nil
  then show ?case by (auto simp: struct_unpack_def split: if_splits)
next
  case (Cons f fs)
  let ?n = "fmt_size f"
  from Cons.prems have len: "length bs = ?n + calcsize fs"
    and vs: "vs = le_value (take ?n bs) # unpack_items fs (drop ?n bs)"
    by (auto simp: struct_unpack_def split: if_splits)
  from len have "struct_unpack fs (drop ?n bs) = Inr (unpack_items fs (drop ?n bs))"
    by (simp add: struct_unpack_def)
  then have IH: "struct_pack fs (unpack_items fs (drop ?n bs)) = Inr (drop ?n bs)"
    by (rule Cons.IH)
  from len have "length (take ?n bs) = ?n" by simp
  with le_value_bound [of "take ?n bs"] have "le_value (take ?n bs) < 256 ^ ?n" by simp
  with len vs IH show ?case by (simp add: le_bytes_le_value)
qed

section \<open>CRC-16-CCITT\<close>

text \<open>The Python routine: unbounded integers, masked to 16 bits after each shift.\<close>

definition crc_bit :: "int \<Rightarrow> int" where
  "crc_bit crc =
     (if crc AND 0x8000 \<noteq> 0 then (push_bit 1 crc XOR 0x1021) AND 0xFFFF
      else push_bit 1 crc AND 0xFFFF)"

definition crc_byte :: "int \<Rightarrow> byte \<Rightarrow> int" where
  "crc_byte crc b = (crc_bit ^^ 8) (crc XOR push_bit 8 (uint b))"

definition crc16_ccitt :: "byte list \<Rightarrow> int" where
  "crc16_ccitt data = foldl crc_byte 0xFFFF data"

text \<open>The C++ routine: a 16-bit register.\<close>

definition cpp_crc_bit :: "u16 \<Rightarrow> u16" where
  "cpp_crc_bit crc =
     (if crc AND 0x8000 \<noteq> 0 then push_bit 1 crc XOR 0x1021 else push_bit 1 crc)"

definition cpp_crc_byte :: "u16 \<Rightarrow> byte \<Rightarrow> u16" where
  "cpp_crc_byte crc b = (cpp_crc_bit ^^ 8) (crc XOR push_bit 8 (ucast b))"

definition command_crc16_ccitt :: "byte list \<Rightarrow> u16" where
  "command_crc16_ccitt bytes = foldl cpp_crc_byte 0xFFFF bytes"

lemma and_ffff_int: "(k :: int) AND 0xFFFF = take_bit 16 k"
proof -
  have "(0xFFFF :: int) = mask 16" by (simp add: mask_eq_exp_minus_1)
  then show ?thesis by (simp only: take_bit_eq_mask)
qed

lemma bit_8000: "bit (0x8000 :: u16) n \<longleftrightarrow> n = 15"
proof -
  have "(0x8000 :: u16) = push_bit 15 1" by simp
  then show ?thesis by (simp only: bit_push_bit_iff bit_1_iff) auto
qed

lemma and_8000_word: "(w :: u16) AND 0x8000 \<noteq> 0 \<longleftrightarrow> bit w 15"
proof
  assume "w AND 0x8000 \<noteq> 0"
  then obtain n where "bit (w AND 0x8000) n" by (metis bit_eqI bit_0_eq bot_apply bot_bool_def)
  then have "bit w n \<and> n = 15" unfolding bit_and_iff bit_8000 .
  then show "bit w 15" by blast
next
  assume "bit w 15"
  then have "bit (w AND 0x8000) 15" by (simp only: bit_and_iff bit_8000)
  then show "w AND 0x8000 \<noteq> 0" by (metis bit_0_eq bot_apply bot_bool_def)
qed

lemma uint_and_8000: "uint (w :: u16) AND 0x8000 = uint (w AND 0x8000)"
  by (simp add: uint_and)

lemma crc_bit_uint: "crc_bit (uint w) = uint (cpp_crc_bit w)"
proof -
  have guard: "uint w AND 0x8000 \<noteq> 0 \<longleftrightarrow> w AND 0x8000 \<noteq> 0"
    by (simp only: uint_and_8000 uint_0_iff not_not)
  have push: "take_bit 16 (push_bit 1 (uint w)) = uint (push_bit 1 w)"
    unfolding unsigned_push_bit_eq by simp
  have poly: "take_bit 16 (0x1021 :: int) = uint (0x1021 :: u16)" by simp
  show ?thesis
    by (simp only: crc_bit_def cpp_crc_bit_def guard and_ffff_int take_bit_xor push poly uint_xor
        split: if_split) simp
qed

lemma crc_bits_uint: "(crc_bit ^^ n) (uint w) = uint ((cpp_crc_bit ^^ n) w)"
  by (induction n) (simp_all add: crc_bit_uint)

lemma crc_byte_uint: "crc_byte (uint w) b = uint (cpp_crc_byte w b)"
proof -
  have small: "take_bit n (uint b) = uint b" if "8 \<le> n" for n
  proof (rule take_bit_int_eq_self)
    have "(256 :: int) \<le> 2 ^ n" using power_increasing [OF that, of "2 :: int"] by simp
    then show "uint b < 2 ^ n" using uint_byte_bounds(2) [of b] by linarith
  qed simp
  have "push_bit 8 (uint b) = uint (push_bit 8 (ucast b :: u16))"
    unfolding unsigned_push_bit_eq take_bit_push_bit unsigned_ucast_eq by (simp add: small)
  then show ?thesis
    by (simp only: crc_byte_def cpp_crc_byte_def uint_xor [symmetric] crc_bits_uint)
qed

lemma foldl_crc_uint: "foldl crc_byte (uint w) bs = uint (foldl cpp_crc_byte w bs)"
  by (induction bs arbitrary: w) (simp_all add: crc_byte_uint)

lemma crc16_ccitt_uint: "crc16_ccitt bs = uint (command_crc16_ccitt bs)"
  using foldl_crc_uint [of "0xFFFF"] by (simp add: crc16_ccitt_def command_crc16_ccitt_def)

lemma crc16_ccitt_range: "0 \<le> crc16_ccitt bs" "crc16_ccitt bs < 65536"
  using uint_lt2p [of "command_crc16_ccitt bs"] by (simp_all add: crc16_ccitt_uint)

section \<open>What the checksum detects\<close>

text \<open>One shift of the register is linear over exclusive or, and injective because the
  polynomial has a constant term. Together these give the detection of every error burst
  that lies within two adjacent bytes.\<close>

lemma cpp_crc_bit_alt:
  "cpp_crc_bit w = push_bit 1 w XOR (if bit w 15 then 0x1021 else 0)"
  by (simp only: cpp_crc_bit_def and_8000_word split: if_split) simp

lemma push_bit_xor_word: "push_bit n (a XOR b) = push_bit n a XOR push_bit n (b :: u16)"
  by (rule bit_word_eqI) (auto simp: bit_push_bit_iff bit_xor_iff)

lemma cpp_crc_bit_xor: "cpp_crc_bit (a XOR b) = cpp_crc_bit a XOR cpp_crc_bit b"
proof -
  have "(if bit (a XOR b) 15 then 0x1021 else 0) =
      (if bit a 15 then 0x1021 else 0) XOR (if bit b 15 then 0x1021 else (0 :: u16))"
    by (simp add: bit_xor_iff)
  then show ?thesis
    unfolding cpp_crc_bit_alt push_bit_xor_word by (simp only: xor.assoc xor.left_commute)
qed

lemma cpp_crc_bits_xor:
  "(cpp_crc_bit ^^ n) (a XOR b) = (cpp_crc_bit ^^ n) a XOR (cpp_crc_bit ^^ n) b"
  by (induction n) (simp_all add: cpp_crc_bit_xor)

lemma cpp_crc_bit_0: "cpp_crc_bit w = 0 \<Longrightarrow> w = 0"
proof -
  assume z: "cpp_crc_bit w = 0"
  have "\<not> bit w 15"
  proof
    assume "bit w 15"
    with z have "bit (push_bit 1 w XOR 0x1021) 0 = bit (0 :: u16) 0"
      by (simp only: cpp_crc_bit_alt if_True)
    then show False by (simp only: bit_xor_iff bit_push_bit_iff) simp
  qed
  with z have push: "push_bit 1 w = 0" by (simp add: cpp_crc_bit_alt)
  show "w = 0"
  proof (rule bit_word_eqI)
    fix n assume "n < LENGTH(16)"
    moreover have "\<not> bit w n" if "n < 15"
    proof
      assume "bit w n"
      with that have "bit (push_bit 1 w) (Suc n)" by (simp only: bit_push_bit_iff) simp
      then show False by (simp only: push) simp
    qed
    moreover note \<open>\<not> bit w 15\<close>
    ultimately show "bit w n = bit (0 :: u16) n"
      by (cases "n = 15") auto
  qed
qed

lemma cpp_crc_bits_0: "(cpp_crc_bit ^^ n) w = 0 \<Longrightarrow> w = 0"
  by (induction n) (auto dest: cpp_crc_bit_0)

lemma xor_eq_0_word: "(a :: u16) XOR b = 0 \<longleftrightarrow> a = b"
  by (metis xor.assoc xor.left_neutral xor.right_neutral xor_self_eq)

lemma cpp_crc_bits_inject: "(cpp_crc_bit ^^ n) a = (cpp_crc_bit ^^ n) b \<longleftrightarrow> a = b"
  by (metis cpp_crc_bits_0 cpp_crc_bits_xor xor_eq_0_word)

lemma xor_cancel_word: "(a :: u16) XOR c = b XOR c \<longleftrightarrow> a = b" "c XOR (a :: u16) = c XOR b \<longleftrightarrow> a = b"
  by (metis xor.assoc xor.right_neutral xor_self_eq, metis xor.assoc xor.left_neutral xor_self_eq)

lemma cpp_crc_byte_inject_state: "cpp_crc_byte w b = cpp_crc_byte w' b \<longleftrightarrow> w = w'"
  by (simp only: cpp_crc_byte_def cpp_crc_bits_inject xor_cancel_word)

lemma foldl_crc_inject_state: "foldl cpp_crc_byte w bs = foldl cpp_crc_byte w' bs \<longleftrightarrow> w = w'"
  by (induction bs arbitrary: w w') (simp_all add: cpp_crc_byte_inject_state)

text \<open>The low byte of the register is shifted out of reach of the polynomial for eight
  steps, so two bytes fed one after the other act like one 16-bit value.\<close>

lemma cpp_crc_bits_low:
  "n \<le> 8 \<Longrightarrow> (cpp_crc_bit ^^ n) (ucast (b :: byte)) = push_bit n (ucast b :: u16)"
proof (induction n)
  case (Suc n)
  then have IH: "(cpp_crc_bit ^^ n) (ucast b) = push_bit n (ucast b :: u16)" by simp
  have "\<not> bit (push_bit n (ucast b :: u16)) 15"
    using Suc.prems by (auto simp: bit_push_bit_iff bit_ucast_iff dest: bit_imp_le_length)
  then have "cpp_crc_bit (push_bit n (ucast b)) = push_bit 1 (push_bit n (ucast b :: u16))"
    unfolding cpp_crc_bit_alt by (simp only: if_False xor.right_neutral)
  then show ?case
    by (simp only: funpow.simps comp_apply IH push_bit_push_bit plus_1_eq_Suc)
qed simp

lemma cpp_crc_two_bytes:
  "cpp_crc_byte (cpp_crc_byte w b1) b2
     = (cpp_crc_bit ^^ 16) (w XOR (push_bit 8 (ucast b1) XOR ucast b2))"
proof -
  let ?x = "w XOR push_bit 8 (ucast b1)"
  have "(cpp_crc_bit ^^ 8) ?x XOR push_bit 8 (ucast b2) = (cpp_crc_bit ^^ 8) (?x XOR ucast b2)"
    by (simp only: cpp_crc_bits_xor cpp_crc_bits_low [of 8 b2, OF order_refl])
  then have "cpp_crc_byte (cpp_crc_byte w b1) b2 = (cpp_crc_bit ^^ 8) ((cpp_crc_bit ^^ 8) (?x XOR ucast b2))"
    by (simp only: cpp_crc_byte_def)
  also have "\<dots> = (cpp_crc_bit ^^ (8 + 8)) (?x XOR ucast b2)"
    by (simp only: funpow_add comp_apply)
  finally show ?thesis by (simp add: xor.assoc)
qed

lemma two_bytes_inject:
  fixes a1 a2 b1 b2 :: byte
  assumes eq: "push_bit 8 (ucast a1) XOR ucast a2 = push_bit 8 (ucast b1) XOR (ucast b2 :: u16)"
  shows "a1 = b1 \<and> a2 = b2"
proof (rule conjI)
  have bits: "bit (push_bit 8 (ucast a1) XOR ucast a2 :: u16) n = bit (push_bit 8 (ucast b1) XOR ucast b2 :: u16) n" for n
    by (simp only: eq)
  show "a1 = b1"
  proof (rule bit_word_eqI)
    fix n assume "n < LENGTH(8)"
    then show "bit a1 n = bit b1 n"
      using bits [of "n + 8"] by (auto simp: bit_xor_iff bit_push_bit_iff bit_ucast_iff dest: bit_imp_le_length)
  qed
  show "a2 = b2"
  proof (rule bit_word_eqI)
    fix n assume "n < LENGTH(8)"
    then show "bit a2 n = bit b2 n"
      using bits [of n] by (auto simp: bit_xor_iff bit_push_bit_iff bit_ucast_iff)
  qed
qed

lemma crc_two_byte_burst:
  assumes "command_crc16_ccitt (pre @ [a1, a2] @ post) = command_crc16_ccitt (pre @ [b1, b2] @ post)"
  shows "a1 = b1 \<and> a2 = b2"
  using assms
  by (simp add: command_crc16_ccitt_def foldl_crc_inject_state cpp_crc_two_bytes
      cpp_crc_bits_inject xor_cancel_word two_bytes_inject)

lemma crc_one_byte_burst:
  assumes "command_crc16_ccitt (pre @ a # post) = command_crc16_ccitt (pre @ b # post)"
  shows "a = b"
proof -
  from assms have "push_bit 8 (ucast a) = push_bit 8 (ucast b :: u16)"
    by (simp add: command_crc16_ccitt_def foldl_crc_inject_state cpp_crc_byte_def
        cpp_crc_bits_inject xor_cancel_word)
  then show ?thesis
    using two_bytes_inject [of a 0 b 0] by simp
qed

end
