(* ===== verification/Cpp_Bytes.thy ===== *)
theory Cpp_Bytes
  imports Wire
begin

unbundle bit_operations_syntax

text \<open>
  The byte readers and writers that \<open>fsw/src/command_packet.cpp\<close> and
  \<open>fsw/src/telemetry_packet.cpp\<close> each define in their anonymous namespace, the proof that
  they move the same little-endian bytes as Python's \<open>struct\<close>, and the interface
  \<open>crc_frame\<close> of a decoder that accepts only frames of one size whose last two bytes are
  the CRC of the others. \<open>std::vector::at\<close> throws out of range; here it returns \<open>None\<close>.
\<close>

section \<open>Writers\<close>

definition append_u8 :: "byte \<Rightarrow> byte list" where
  "append_u8 value = [value]"

definition append_u16 :: "u16 \<Rightarrow> byte list" where
  "append_u16 value = [ucast (value AND 0xFF), ucast (drop_bit 8 value AND 0xFF)]"

definition append_u32 :: "u32 \<Rightarrow> byte list" where
  "append_u32 value =
     [ucast (value AND 0xFF), ucast (drop_bit 8 value AND 0xFF),
      ucast (drop_bit 16 value AND 0xFF), ucast (drop_bit 24 value AND 0xFF)]"

definition append_u64 :: "u64 \<Rightarrow> byte list" where
  "append_u64 value =
     map (\<lambda>shift. ucast (drop_bit shift value AND 0xFF)) [0, 8, 16, 24, 32, 40, 48, 56]"

lemma bit_ff: "bit (0xFF :: 'a::len word) n \<longleftrightarrow> n < 8 \<and> n < LENGTH('a)"
proof -
  have "(0xFF :: 'a word) = mask 8" by (simp add: mask_eq_exp_minus_1)
  then show ?thesis by (simp only: bit_mask_iff) auto
qed

lemma ucast_and_ff: "(ucast (w AND 0xFF :: 'a::len word) :: byte) = ucast w"
  by (intro bit_word_eqI)
    (simp only: bit_ucast_iff bit_and_iff bit_ff, auto dest: bit_imp_le_length)

lemma le_bytes_uint_step:
  "le_bytes (Suc n) (uint (w :: 'a::len word)) = ucast w # le_bytes n (uint (drop_bit 8 w))"
proof -
  have "uint w div 256 = drop_bit 8 (uint w)" by (simp add: drop_bit_eq_div)
  also have "\<dots> = uint (drop_bit 8 w)" unfolding unsigned_drop_bit_eq by (simp add: bintr_uint)
  finally show ?thesis by simp
qed

lemma append_u8_le: "append_u8 v = le_bytes 1 (uint v)"
  by (simp add: append_u8_def)

lemma append_u16_le: "append_u16 v = le_bytes 2 (uint v)"
  unfolding numeral_2_eq_2 One_nat_def le_bytes_uint_step append_u16_def ucast_and_ff
  by simp

lemma append_u32_le: "append_u32 v = le_bytes 4 (uint v)"
proof -
  have "le_bytes (Suc (Suc (Suc (Suc 0)))) (uint v) = append_u32 v"
    unfolding le_bytes_uint_step append_u32_def ucast_and_ff by (simp add: drop_bit_drop_bit)
  then show ?thesis by (simp add: numeral_eq_Suc)
qed

lemma append_u64_le: "append_u64 v = le_bytes 8 (uint v)"
proof -
  have "le_bytes (Suc (Suc (Suc (Suc (Suc (Suc (Suc (Suc 0)))))))) (uint v) = append_u64 v"
    unfolding le_bytes_uint_step append_u64_def ucast_and_ff by (simp add: drop_bit_drop_bit)
  then show ?thesis by (simp add: numeral_eq_Suc)
qed

section \<open>Readers\<close>

definition at :: "byte list \<Rightarrow> nat \<Rightarrow> byte option" where
  "at bytes i = (if i < length bytes then Some (bytes ! i) else None)"

definition read_u8 :: "byte list \<Rightarrow> nat \<Rightarrow> (byte \<times> nat) option" where
  "read_u8 bytes offset = map_option (\<lambda>b. (b, offset + 1)) (at bytes offset)"

definition read_u16 :: "byte list \<Rightarrow> nat \<Rightarrow> (u16 \<times> nat) option" where
  "read_u16 bytes offset =
     Option.bind (at bytes offset) (\<lambda>b0.
     Option.bind (at bytes (offset + 1)) (\<lambda>b1.
       Some (ucast b0 OR push_bit 8 (ucast b1), offset + 2)))"

definition read_u32 :: "byte list \<Rightarrow> nat \<Rightarrow> (u32 \<times> nat) option" where
  "read_u32 bytes offset =
     Option.bind (at bytes offset) (\<lambda>b0.
     Option.bind (at bytes (offset + 1)) (\<lambda>b1.
     Option.bind (at bytes (offset + 2)) (\<lambda>b2.
     Option.bind (at bytes (offset + 3)) (\<lambda>b3.
       Some (((ucast b0 OR push_bit 8 (ucast b1)) OR push_bit 16 (ucast b2)) OR push_bit 24 (ucast b3),
             offset + 4)))))"

fun read_u64_loop :: "nat list \<Rightarrow> u64 \<Rightarrow> byte list \<Rightarrow> nat \<Rightarrow> (u64 \<times> nat) option" where
  "read_u64_loop [] value bytes offset = Some (value, offset)"
| "read_u64_loop (shift # shifts) value bytes offset =
     Option.bind (at bytes offset) (\<lambda>b.
       read_u64_loop shifts (value OR push_bit shift (ucast b)) bytes (offset + 1))"

definition read_u64 :: "byte list \<Rightarrow> nat \<Rightarrow> (u64 \<times> nat) option" where
  "read_u64 bytes offset = read_u64_loop [0, 8, 16, 24, 32, 40, 48, 56] 0 bytes offset"

primrec le_word :: "byte list \<Rightarrow> 'a::len word" where
  "le_word [] = 0"
| "le_word (b # bs) = ucast b OR push_bit 8 (le_word bs)"

lemma le_word_value: "le_word bs = (word_of_int (le_value bs) :: 'a::len word)"
proof (induction bs)
  case (Cons b bs)
  have "(ucast b :: 'a word) + push_bit 8 (le_word bs) = ucast b OR push_bit 8 (le_word bs)"
    by (rule disjunctive_add_eq_or, rule bit_word_eqI)
      (auto simp: bit_and_iff bit_push_bit_iff bit_ucast_iff dest: bit_imp_le_length)
  then have "le_word (b # bs) = (ucast b :: 'a word) + push_bit 8 (le_word bs)" by simp
  also have "\<dots> = word_of_int (uint b) + 256 * (word_of_int (le_value bs) :: 'a word)"
    by (simp add: Cons push_bit_eq_mult mult.commute)
  finally show ?case by simp
qed simp

lemma take_drop_nth:
  "i < length bs \<Longrightarrow> take (Suc n) (drop i bs) = bs ! i # take n (drop (Suc i) bs)"
  by (metis Cons_nth_drop_Suc take_Suc_Cons)

lemma push_bit_or_word: "push_bit n (a OR b) = push_bit n a OR push_bit n (b :: 'a::len word)"
  by (rule bit_word_eqI) (auto simp: bit_push_bit_iff bit_or_iff)

lemma read_u8_eq: "offset + 1 \<le> length bs \<Longrightarrow> read_u8 bs offset = Some (bs ! offset, offset + 1)"
  by (simp add: read_u8_def at_def)

lemma read_u16_eq:
  assumes "offset + 2 \<le> length bs"
  shows "read_u16 bs offset = Some (word_of_int (le_value (take 2 (drop offset bs))), offset + 2)"
proof -
  have "take 2 (drop offset bs) = [bs ! offset, bs ! (offset + 1)]"
    using assms by (simp add: numeral_2_eq_2 take_drop_nth)
  then have "word_of_int (le_value (take 2 (drop offset bs)))
      = (ucast (bs ! offset) OR push_bit 8 (ucast (bs ! (offset + 1))) :: u16)"
    by (simp only: le_word_value [symmetric] le_word.simps push_bit_of_0 or.right_neutral)
  then show ?thesis using assms by (simp only: read_u16_def at_def) simp
qed

lemma read_u32_eq:
  assumes "offset + 4 \<le> length bs"
  shows "read_u32 bs offset = Some (word_of_int (le_value (take 4 (drop offset bs))), offset + 4)"
proof -
  have "take 4 (drop offset bs)
      = [bs ! offset, bs ! (offset + 1), bs ! (offset + 2), bs ! (offset + 3)]"
    using assms by (simp add: numeral_eq_Suc take_drop_nth)
  then have "word_of_int (le_value (take 4 (drop offset bs)))
      = (((ucast (bs ! offset) OR push_bit 8 (ucast (bs ! (offset + 1))))
          OR push_bit 16 (ucast (bs ! (offset + 2)))) OR push_bit 24 (ucast (bs ! (offset + 3))) :: u32)"
    by (simp only: le_word_value [symmetric] le_word.simps push_bit_of_0 or.right_neutral
        push_bit_or_word push_bit_push_bit or.assoc) simp
  then show ?thesis using assms by (simp only: read_u32_def at_def) simp
qed

lemma read_u64_loop_eq:
  "offset + length shifts \<le> length bs \<Longrightarrow>
   shifts = map (\<lambda>i. k + 8 * i) [0..<length shifts] \<Longrightarrow>
   read_u64_loop shifts v bs offset
     = Some (v OR push_bit k (le_word (take (length shifts) (drop offset bs))), offset + length shifts)"
proof (induction shifts arbitrary: v offset k)
  case (Cons s shifts)
  from Cons.prems(2) have s: "s = k"
    by (simp add: upt_conv_Cons del: upt_Suc)
  have "shifts = map (\<lambda>i. k + 8 * i) [1..<Suc (length shifts)]"
    using Cons.prems(2) by (simp add: upt_conv_Cons del: upt_Suc)
  then have shifts: "shifts = map (\<lambda>i. (k + 8) + 8 * i) [0..<length shifts]"
    by (simp add: map_Suc_upt [symmetric] comp_def add.assoc del: upt_Suc)
  show ?case
    using Cons.prems(1) Cons.IH [OF _ shifts, of "Suc offset"]
    by (simp add: at_def s take_drop_nth push_bit_or_word push_bit_push_bit or.assoc add.commute)
qed simp

lemma read_u64_eq:
  assumes "offset + 8 \<le> length bs"
  shows "read_u64 bs offset = Some (word_of_int (le_value (take 8 (drop offset bs))), offset + 8)"
proof -
  have "[0, 8, 16, 24, 32, 40, 48, 56] = map (\<lambda>i. 0 + 8 * i) [0..<8 :: nat]"
    by (simp add: upt_rec)
  with read_u64_loop_eq [of offset "[0, 8, 16, 24, 32, 40, 48, 56]" bs 0 0] assms
  show ?thesis by (simp add: read_u64_def le_word_value)
qed

section \<open>Fields of a frame\<close>

definition field :: "byte list \<Rightarrow> nat \<Rightarrow> nat \<Rightarrow> int" where
  "field bs offset n = le_value (take n (drop offset bs))"

lemma field_nonneg [simp]: "0 \<le> field bs offset n"
  by (simp add: field_def)

lemma field_bound: "field bs offset n < 256 ^ n"
proof -
  have "field bs offset n < 256 ^ length (take n (drop offset bs))"
    unfolding field_def by (rule le_value_bound)
  also have "(256 :: int) ^ length (take n (drop offset bs)) \<le> 256 ^ n"
    by (rule power_increasing) auto
  finally show ?thesis .
qed

lemma word_of_int_eq_uint:
  "0 \<le> x \<Longrightarrow> x < 2 ^ LENGTH('a) \<Longrightarrow> (word_of_int x :: 'a::len word) = w \<longleftrightarrow> x = uint w"
  by (simp add: word_uint_eq_iff unsigned_of_int take_bit_int_eq_self)

lemma field_word16: "(word_of_int (field bs offset 2) :: u16) = w \<longleftrightarrow> field bs offset 2 = uint w"
  using field_bound [of bs offset 2] by (intro word_of_int_eq_uint) simp_all

lemma field_word32: "(word_of_int (field bs offset 4) :: u32) = w \<longleftrightarrow> field bs offset 4 = uint w"
  using field_bound [of bs offset 4] by (intro word_of_int_eq_uint) simp_all

lemma field_word64: "(word_of_int (field bs offset 8) :: u64) = w \<longleftrightarrow> field bs offset 8 = uint w"
  using field_bound [of bs offset 8] by (intro word_of_int_eq_uint) simp_all

lemma int_unat_eq_iff: "int m = k \<Longrightarrow> n = m \<longleftrightarrow> k = int n"
  by auto

lemma unat_field16: "int (unat (word_of_int (field bs offset 2) :: u16)) = field bs offset 2"
  using field_word16 [of bs offset "word_of_int (field bs offset 2)"] by simp

lemmas read_field_eq =
  read_u16_eq [folded field_def] read_u32_eq [folded field_def] read_u64_eq [folded field_def]

lemma field_split:
  "length a = offset \<Longrightarrow> length b = n \<Longrightarrow> field (a @ b @ c) offset n = le_value b"
  by (simp add: field_def)

lemma last_field:
  assumes "length bs = m + n"
  shows "drop m bs = le_bytes n (field bs m n)"
  using assms le_bytes_le_value [of "drop m bs" n] by (simp add: field_def)

text \<open>The packed items of a format, read back at their offsets.\<close>

fun field_items :: "nat \<Rightarrow> fmt list \<Rightarrow> byte list \<Rightarrow> int list" where
  "field_items offset [] bs = []"
| "field_items offset (f # fs) bs =
     field bs offset (fmt_size f) # field_items (offset + fmt_size f) fs bs"

lemma field_items_drop: "field_items offset fs bs = unpack_items fs (drop offset bs)"
  by (induction fs arbitrary: offset) (simp_all add: field_def add.commute)

lemma field_items_append:
  "offset + calcsize fs \<le> length a \<Longrightarrow> field_items offset fs (a @ b) = field_items offset fs a"
  by (induction fs arbitrary: offset) (simp_all add: field_def)

lemma pack_field_items:
  assumes "struct_pack fs vs = Inr payload"
  shows "field_items 0 fs (payload @ trailer) = vs"
proof -
  have "length payload = calcsize fs" by (rule struct_pack_length [OF assms])
  then have "field_items 0 fs (payload @ trailer) = field_items 0 fs payload"
    by (simp add: field_items_append)
  with struct_unpack_pack [OF assms] show ?thesis
    by (simp add: struct_unpack_def field_items_drop split: if_splits)
qed

lemma field_items_pack:
  assumes "calcsize fs \<le> length bs"
  shows "struct_pack fs (field_items 0 fs bs) = Inr (take (calcsize fs) bs)"
proof -
  have "field_items 0 fs bs = field_items 0 fs (take (calcsize fs) bs @ drop (calcsize fs) bs)"
    by simp
  also have "\<dots> = field_items 0 fs (take (calcsize fs) bs)"
    using assms by (intro field_items_append) simp
  finally show ?thesis
    using assms by (intro struct_pack_unpack) (simp add: struct_unpack_def field_items_drop)
qed

end
