(* ===== verification/Frames.thy ===== *)
theory Frames
  imports Cpp_Bytes
begin

text \<open>
  The interface of a frame decoder: it accepts byte strings of exactly one size, and only
  when the last two bytes are the little-endian CRC of the bytes before them. What such a
  decoder rejects is proved once here and holds for the command decoder of the flight
  software and for both telemetry decoders.
\<close>

locale crc_frame =
  fixes frame_size :: nat and decode :: "byte list \<Rightarrow> 'p option"
  assumes frame_size_pos: "2 < frame_size"
    and decode_size: "decode bs = Some p \<Longrightarrow> length bs = frame_size"
    and decode_crc: "decode bs = Some p \<Longrightarrow>
          drop (frame_size - 2) bs = le_bytes 2 (crc16_ccitt (take (frame_size - 2) bs))"
begin

lemma decode_shape:
  assumes "decode bs = Some p"
  shows "\<exists>body. bs = body @ le_bytes 2 (crc16_ccitt body) \<and> length body = frame_size - 2"
proof -
  let ?body = "take (frame_size - 2) bs"
  have "bs = ?body @ drop (frame_size - 2) bs" by simp
  with decode_crc [OF assms] have "bs = ?body @ le_bytes 2 (crc16_ccitt ?body)" by simp
  moreover have "length ?body = frame_size - 2" using decode_size [OF assms] by simp
  ultimately show ?thesis by blast
qed

lemma wrong_size_rejected: "length bs \<noteq> frame_size \<Longrightarrow> decode bs = None"
  using decode_size by (metis not_None_eq)

lemma le_bytes_crc_inject:
  "le_bytes 2 (crc16_ccitt a) = le_bytes 2 (crc16_ccitt b) \<longleftrightarrow> command_crc16_ccitt a = command_crc16_ccitt b"
proof
  assume "le_bytes 2 (crc16_ccitt a) = le_bytes 2 (crc16_ccitt b)"
  then have "le_value (le_bytes 2 (crc16_ccitt a)) = le_value (le_bytes 2 (crc16_ccitt b))" by simp
  then have "crc16_ccitt a = crc16_ccitt b"
    using crc16_ccitt_range [of a] crc16_ccitt_range [of b] by (simp add: le_value_le_bytes)
  then show "command_crc16_ccitt a = command_crc16_ccitt b" by (simp add: crc16_ccitt_uint word_uint_eq_iff)
qed (simp add: crc16_ccitt_uint)

text \<open>Two accepted frames with the same CRC field, bodies differing in a short burst.\<close>

lemma accepted_frames_crc:
  assumes "decode bs = Some p" and "decode bs' = Some p'"
    and "drop (frame_size - 2) bs = drop (frame_size - 2) bs'"
  shows "command_crc16_ccitt (take (frame_size - 2) bs) = command_crc16_ccitt (take (frame_size - 2) bs')"
  using assms(3) decode_crc [OF assms(1)] decode_crc [OF assms(2)] le_bytes_crc_inject by metis

lemma byte_corruption_rejected:
  assumes ok: "decode (pre @ a # post) = Some p" and ne: "b \<noteq> a"
  shows "decode (pre @ b # post) = None"
proof (rule ccontr)
  assume "decode (pre @ b # post) \<noteq> None"
  then obtain p' where ok': "decode (pre @ b # post) = Some p'" by blast
  let ?n = "frame_size - 2"
  show False
  proof (cases "length pre < ?n")
    case True
    then obtain m where m: "?n - length pre = Suc m" by (metis Suc_diff_Suc)
    with True have "drop ?n (pre @ a # post) = drop ?n (pre @ b # post)"
      by (simp add: drop_Cons')
    with accepted_frames_crc [OF ok ok'] True m show False
      using crc_one_byte_burst [of pre a "take m post" b] ne by simp
  next
    case False
    then have "take ?n (pre @ a # post) = take ?n (pre @ b # post)" by simp
    with decode_crc [OF ok] decode_crc [OF ok'] have "drop ?n (pre @ a # post) = drop ?n (pre @ b # post)"
      by simp
    with False ne show False by simp
  qed
qed

lemma burst_corruption_rejected:
  assumes ok: "decode (pre @ [a1, a2] @ post) = Some p" and ne: "[b1, b2] \<noteq> [a1, a2]"
    and inside: "length pre \<noteq> frame_size - 3"
  shows "decode (pre @ [b1, b2] @ post) = None"
proof (rule ccontr)
  assume "decode (pre @ [b1, b2] @ post) \<noteq> None"
  then obtain p' where ok': "decode (pre @ [b1, b2] @ post) = Some p'" by blast
  let ?n = "frame_size - 2"
  show False
  proof (cases "length pre + 2 \<le> ?n")
    case True
    then obtain m where m: "?n - length pre = Suc (Suc m)"
      by (intro that [of "?n - length pre - 2"]) linarith
    with True have "drop ?n (pre @ [a1, a2] @ post) = drop ?n (pre @ [b1, b2] @ post)"
      by simp
    with accepted_frames_crc [OF ok ok'] True m show False
      using crc_two_byte_burst [of pre a1 a2 "take m post" b1 b2] ne by simp
  next
    case False
    with inside frame_size_pos have "?n \<le> length pre" by linarith
    then have "take ?n (pre @ [a1, a2] @ post) = take ?n (pre @ [b1, b2] @ post)" by simp
    with decode_crc [OF ok] decode_crc [OF ok'] have
      "drop ?n (pre @ [a1, a2] @ post) = drop ?n (pre @ [b1, b2] @ post)" by simp
    with \<open>?n \<le> length pre\<close> ne show False by simp
  qed
qed

lemma corruption_rejected:
  assumes ok: "decode (pre @ old @ post) = Some p" and "length new = length old" and "new \<noteq> old"
    and "length old = 1 \<or> length old = 2 \<and> length pre \<noteq> frame_size - 3"
  shows "decode (pre @ new @ post) = None"
proof -
  from assms(4) consider (one) a where "old = [a]"
    | (two) a1 a2 where "old = [a1, a2]" "length pre \<noteq> frame_size - 3"
    by (auto simp: length_Suc_conv numeral_2_eq_2)
  then show ?thesis
  proof cases
    case one
    with assms(2) obtain b where "new = [b]" by (auto simp: length_Suc_conv)
    with one assms(3) ok byte_corruption_rejected [of pre a post p b] show ?thesis by simp
  next
    case two
    with assms(2) obtain b1 b2 where "new = [b1, b2]" by (auto simp: length_Suc_conv)
    with two assms(3) ok burst_corruption_rejected [of pre a1 a2 post p b1 b2] show ?thesis by simp
  qed
qed

end

end
