(* ===== verification/Flight_Types.thy ===== *)
theory Flight_Types
  imports Wire
begin

text \<open>
  The enumerations of the flight software, each with its underlying value and its printed
  name: \<open>Mode\<close> and \<open>FaultCode\<close> (\<open>fsw/include/astra/mode_manager.hpp\<close>), \<open>CommandId\<close>
  (\<open>command_packet.hpp\<close>) and \<open>CommandStatus\<close> (\<open>command_processor.hpp\<close>). A \<open>static_cast\<close> from
  a wider integer first truncates it to the width of the enumeration, then a \<open>switch\<close> tests
  whether the value is an enumerator: \<open>mode_cast\<close> and its kin return \<open>None\<close> when it is not.
\<close>

datatype Mode = BOOT | NOMINAL | DEGRADED_SENSOR | DEGRADED_PAYLOAD | SAFE | RECOVERY | STANDBY | TEST

datatype FaultCode = NONE | SENSOR_TIMEOUT | SENSOR_INVALID_DATA | PAYLOAD_HEARTBEAT_TIMEOUT
  | CPU_OVERLOAD | MEMORY_OVERLOAD | TELEMETRY_SOCKET_FAILURE | COMMAND_BAD_CRC
  | COMMAND_UNKNOWN_ID | COMMAND_TIMEOUT | WATCHDOG_DEADLINE_MISS

datatype CommandId = NOOP | SET_MODE | INJECT_FAULT | REQUEST_TELEMETRY | CLEAR_FAULT

datatype CommandStatus = ACCEPTED | REJECTED_BAD_ARGUMENT | REJECTED_INVALID_TRANSITION
  | REJECTED_UNKNOWN_COMMAND | REJECTED_DUPLICATE_SEQUENCE | REJECTED_REPLAYED_SEQUENCE
  | REJECTED_STALE_TIMESTAMP | REJECTED_FUTURE_TIMESTAMP | REJECTED_GUARD_CONFIGURATION
  | REJECTED_UNAUTHORIZED | REJECTED_RECOVERY_LIMIT

primrec mode_value :: "Mode \<Rightarrow> nat" where
  "mode_value BOOT = 0"
| "mode_value NOMINAL = 1"
| "mode_value DEGRADED_SENSOR = 2"
| "mode_value DEGRADED_PAYLOAD = 3"
| "mode_value SAFE = 4"
| "mode_value RECOVERY = 5"
| "mode_value STANDBY = 6"
| "mode_value TEST = 7"

primrec fault_value :: "FaultCode \<Rightarrow> nat" where
  "fault_value NONE = 0"
| "fault_value SENSOR_TIMEOUT = 100"
| "fault_value SENSOR_INVALID_DATA = 101"
| "fault_value PAYLOAD_HEARTBEAT_TIMEOUT = 200"
| "fault_value CPU_OVERLOAD = 300"
| "fault_value MEMORY_OVERLOAD = 301"
| "fault_value TELEMETRY_SOCKET_FAILURE = 400"
| "fault_value COMMAND_BAD_CRC = 500"
| "fault_value COMMAND_UNKNOWN_ID = 501"
| "fault_value COMMAND_TIMEOUT = 502"
| "fault_value WATCHDOG_DEADLINE_MISS = 600"

primrec command_value :: "CommandId \<Rightarrow> nat" where
  "command_value NOOP = 0"
| "command_value SET_MODE = 1"
| "command_value INJECT_FAULT = 2"
| "command_value REQUEST_TELEMETRY = 3"
| "command_value CLEAR_FAULT = 4"

primrec status_value :: "CommandStatus \<Rightarrow> nat" where
  "status_value ACCEPTED = 0"
| "status_value REJECTED_BAD_ARGUMENT = 1"
| "status_value REJECTED_INVALID_TRANSITION = 2"
| "status_value REJECTED_UNKNOWN_COMMAND = 3"
| "status_value REJECTED_DUPLICATE_SEQUENCE = 4"
| "status_value REJECTED_REPLAYED_SEQUENCE = 5"
| "status_value REJECTED_STALE_TIMESTAMP = 6"
| "status_value REJECTED_FUTURE_TIMESTAMP = 7"
| "status_value REJECTED_GUARD_CONFIGURATION = 8"
| "status_value REJECTED_UNAUTHORIZED = 9"
| "status_value REJECTED_RECOVERY_LIMIT = 10"

primrec mode_to_string :: "Mode \<Rightarrow> string" where
  "mode_to_string BOOT = ''BOOT''"
| "mode_to_string NOMINAL = ''NOMINAL''"
| "mode_to_string DEGRADED_SENSOR = ''DEGRADED_SENSOR''"
| "mode_to_string DEGRADED_PAYLOAD = ''DEGRADED_PAYLOAD''"
| "mode_to_string SAFE = ''SAFE''"
| "mode_to_string RECOVERY = ''RECOVERY''"
| "mode_to_string STANDBY = ''STANDBY''"
| "mode_to_string TEST = ''TEST''"

primrec fault_to_string :: "FaultCode \<Rightarrow> string" where
  "fault_to_string NONE = ''NONE''"
| "fault_to_string SENSOR_TIMEOUT = ''SENSOR_TIMEOUT''"
| "fault_to_string SENSOR_INVALID_DATA = ''SENSOR_INVALID_DATA''"
| "fault_to_string PAYLOAD_HEARTBEAT_TIMEOUT = ''PAYLOAD_HEARTBEAT_TIMEOUT''"
| "fault_to_string CPU_OVERLOAD = ''CPU_OVERLOAD''"
| "fault_to_string MEMORY_OVERLOAD = ''MEMORY_OVERLOAD''"
| "fault_to_string TELEMETRY_SOCKET_FAILURE = ''TELEMETRY_SOCKET_FAILURE''"
| "fault_to_string COMMAND_BAD_CRC = ''COMMAND_BAD_CRC''"
| "fault_to_string COMMAND_UNKNOWN_ID = ''COMMAND_UNKNOWN_ID''"
| "fault_to_string COMMAND_TIMEOUT = ''COMMAND_TIMEOUT''"
| "fault_to_string WATCHDOG_DEADLINE_MISS = ''WATCHDOG_DEADLINE_MISS''"

primrec command_id_to_string :: "CommandId \<Rightarrow> string" where
  "command_id_to_string NOOP = ''NOOP''"
| "command_id_to_string SET_MODE = ''SET_MODE''"
| "command_id_to_string INJECT_FAULT = ''INJECT_FAULT''"
| "command_id_to_string REQUEST_TELEMETRY = ''REQUEST_TELEMETRY''"
| "command_id_to_string CLEAR_FAULT = ''CLEAR_FAULT''"

primrec command_status_to_string :: "CommandStatus \<Rightarrow> string" where
  "command_status_to_string ACCEPTED = ''ACCEPTED''"
| "command_status_to_string REJECTED_BAD_ARGUMENT = ''REJECTED_BAD_ARGUMENT''"
| "command_status_to_string REJECTED_INVALID_TRANSITION = ''REJECTED_INVALID_TRANSITION''"
| "command_status_to_string REJECTED_UNKNOWN_COMMAND = ''REJECTED_UNKNOWN_COMMAND''"
| "command_status_to_string REJECTED_DUPLICATE_SEQUENCE = ''REJECTED_DUPLICATE_SEQUENCE''"
| "command_status_to_string REJECTED_REPLAYED_SEQUENCE = ''REJECTED_REPLAYED_SEQUENCE''"
| "command_status_to_string REJECTED_STALE_TIMESTAMP = ''REJECTED_STALE_TIMESTAMP''"
| "command_status_to_string REJECTED_FUTURE_TIMESTAMP = ''REJECTED_FUTURE_TIMESTAMP''"
| "command_status_to_string REJECTED_GUARD_CONFIGURATION = ''REJECTED_GUARD_CONFIGURATION''"
| "command_status_to_string REJECTED_UNAUTHORIZED = ''REJECTED_UNAUTHORIZED''"
| "command_status_to_string REJECTED_RECOVERY_LIMIT = ''REJECTED_RECOVERY_LIMIT''"

definition all_modes :: "Mode list" where
  "all_modes = [BOOT, NOMINAL, DEGRADED_SENSOR, DEGRADED_PAYLOAD, SAFE, RECOVERY, STANDBY, TEST]"

definition all_faults :: "FaultCode list" where
  "all_faults = [NONE, SENSOR_TIMEOUT, SENSOR_INVALID_DATA, PAYLOAD_HEARTBEAT_TIMEOUT, CPU_OVERLOAD,
     MEMORY_OVERLOAD, TELEMETRY_SOCKET_FAILURE, COMMAND_BAD_CRC, COMMAND_UNKNOWN_ID, COMMAND_TIMEOUT,
     WATCHDOG_DEADLINE_MISS]"

definition all_commands :: "CommandId list" where
  "all_commands = [NOOP, SET_MODE, INJECT_FAULT, REQUEST_TELEMETRY, CLEAR_FAULT]"

definition all_statuses :: "CommandStatus list" where
  "all_statuses = [ACCEPTED, REJECTED_BAD_ARGUMENT, REJECTED_INVALID_TRANSITION,
     REJECTED_UNKNOWN_COMMAND, REJECTED_DUPLICATE_SEQUENCE, REJECTED_REPLAYED_SEQUENCE,
     REJECTED_STALE_TIMESTAMP, REJECTED_FUTURE_TIMESTAMP, REJECTED_GUARD_CONFIGURATION,
     REJECTED_UNAUTHORIZED, REJECTED_RECOVERY_LIMIT]"

lemma all_enumerators [simp]:
  "m \<in> set all_modes" "f \<in> set all_faults" "c \<in> set all_commands" "s \<in> set all_statuses"
  by (cases m, simp_all add: all_modes_def) (cases f, simp_all add: all_faults_def,
      cases c, simp_all add: all_commands_def, cases s, simp_all add: all_statuses_def)

lemma mode_value_inject [simp]: "mode_value a = mode_value b \<longleftrightarrow> a = b"
  by (cases a; cases b) simp_all

lemma command_value_inject [simp]: "command_value a = command_value b \<longleftrightarrow> a = b"
  by (cases a; cases b) simp_all

lemma status_value_inject [simp]: "status_value a = status_value b \<longleftrightarrow> a = b"
  by (cases a; cases b) simp_all

lemma fault_value_inject [simp]: "fault_value a = fault_value b \<longleftrightarrow> a = b"
  by (cases a; cases b) simp_all

lemma enum_values_bounded:
  "mode_value m < 8" "fault_value f \<le> 600" "command_value c < 5" "status_value s < 11"
  by (cases m, simp_all) (cases f, simp_all, cases c, simp_all, cases s, simp_all)

text \<open>Fault codes are compared by their underlying value.\<close>

instantiation FaultCode :: linorder
begin

definition less_eq_FaultCode :: "FaultCode \<Rightarrow> FaultCode \<Rightarrow> bool" where
  "less_eq_FaultCode a b \<longleftrightarrow> fault_value a \<le> fault_value b"

definition less_FaultCode :: "FaultCode \<Rightarrow> FaultCode \<Rightarrow> bool" where
  "less_FaultCode a b \<longleftrightarrow> fault_value a < fault_value b"

instance
  by standard (auto simp: less_eq_FaultCode_def less_FaultCode_def)

end

section \<open>Casts from integers\<close>

definition mode_cast :: "'a::len word \<Rightarrow> Mode option" where
  "mode_cast w = find (\<lambda>m. mode_value m = unat (ucast w :: byte)) all_modes"

definition fault_cast :: "'a::len word \<Rightarrow> FaultCode option" where
  "fault_cast w = find (\<lambda>f. fault_value f = unat (ucast w :: u16)) all_faults"

definition command_cast :: "'a::len word \<Rightarrow> CommandId option" where
  "command_cast w = find (\<lambda>c. command_value c = unat (ucast w :: u16)) all_commands"

lemma find_value_Some_iff:
  assumes "\<And>x. x \<in> set xs" and "\<And>x y. f x = f y \<Longrightarrow> x = y"
  shows "find (\<lambda>x. f x = n) xs = Some y \<longleftrightarrow> f y = n"
proof
  assume "f y = n"
  moreover obtain z where "find (\<lambda>x. f x = n) xs = Some z"
    using \<open>f y = n\<close> assms(1) [of y] by (cases "find (\<lambda>x. f x = n) xs") (auto simp: find_None_iff)
  moreover from this have "f z = n" by (auto dest: find_SomeD)
  ultimately show "find (\<lambda>x. f x = n) xs = Some y" using assms(2) [of z y] by simp
qed (auto dest: find_SomeD)

lemma mode_cast_Some_iff: "mode_cast w = Some m \<longleftrightarrow> mode_value m = unat (ucast w :: byte)"
  unfolding mode_cast_def by (rule find_value_Some_iff) simp_all

lemma fault_cast_Some_iff: "fault_cast w = Some f \<longleftrightarrow> fault_value f = unat (ucast w :: u16)"
  unfolding fault_cast_def by (rule find_value_Some_iff) simp_all

lemma command_cast_Some_iff: "command_cast w = Some c \<longleftrightarrow> command_value c = unat (ucast w :: u16)"
  unfolding command_cast_def by (rule find_value_Some_iff) simp_all

end
