(* ===== verification/Py_Strings.thy ===== *)
theory Py_Strings
  imports Prelude
begin

text \<open>
  The operations of Python's \<open>str\<close> that the tools use, written out over character lists:
  \<open>strip\<close>, \<open>startswith\<close>, \<open>endswith\<close>, \<open>split\<close>, \<open>partition\<close>, \<open>join\<close>, substring search, the
  decimal and hexadecimal formats, and \<open>int(text)\<close>.
\<close>

section \<open>Whitespace and strip\<close>

text \<open>\<open>str.isspace\<close> on the characters of code below 256.\<close>

definition is_space :: "char \<Rightarrow> bool" where
  "is_space c \<longleftrightarrow> (of_char c :: nat) \<in> {9, 10, 11, 12, 13, 28, 29, 30, 31, 32, 133, 160}"

definition lstrip :: "string \<Rightarrow> string" where
  "lstrip s = dropWhile is_space s"

definition rstrip :: "string \<Rightarrow> string" where
  "rstrip s = rev (dropWhile is_space (rev s))"

definition strip :: "string \<Rightarrow> string" where
  "strip s = rstrip (lstrip s)"

definition strip_char :: "char \<Rightarrow> string \<Rightarrow> string" where
  "strip_char c s = rev (dropWhile (\<lambda>x. x = c) (rev (dropWhile (\<lambda>x. x = c) s)))"

definition rstrip_char :: "char \<Rightarrow> string \<Rightarrow> string" where
  "rstrip_char c s = rev (dropWhile (\<lambda>x. x = c) (rev s))"

lemma rstrip_Nil [simp]: "rstrip [] = []" and lstrip_Nil [simp]: "lstrip [] = []"
  by (simp_all add: rstrip_def lstrip_def)

lemma strip_Nil [simp]: "strip [] = []"
  by (simp add: strip_def)

lemma lstrip_id: "s = [] \<or> \<not> is_space (hd s) \<Longrightarrow> lstrip s = s"
  by (cases s) (auto simp: lstrip_def)

lemma rstrip_id: "s = [] \<or> \<not> is_space (last s) \<Longrightarrow> rstrip s = s"
proof -
  assume "s = [] \<or> \<not> is_space (last s)"
  then have "dropWhile is_space (rev s) = rev s"
    by (cases "rev s") (auto simp: last_rev hd_rev [symmetric] dest: arg_cong [where f = rev])
  then show ?thesis by (simp add: rstrip_def)
qed

lemma strip_id: "\<forall>c\<in>set s. \<not> is_space c \<Longrightarrow> strip s = s"
  by (cases "s = []") (simp_all add: strip_def lstrip_id rstrip_id)

lemma rstrip_append_space: "is_space c \<Longrightarrow> rstrip (s @ [c]) = rstrip s"
  by (simp add: rstrip_def)

lemma rstrip_last: "rstrip s = [] \<or> \<not> is_space (last (rstrip s))"
  by (cases "dropWhile is_space (rev s)")
    (auto simp: rstrip_def last_rev hd_dropWhile dest: hd_dropWhile [where P = is_space]
      simp del: hd_dropWhile, metis hd_dropWhile list.sel(1) list.distinct(1))

lemma lstrip_hd: "lstrip s = [] \<or> \<not> is_space (hd (lstrip s))"
  by (metis hd_dropWhile lstrip_def)

lemma rstrip_prefix: "\<exists>w. s = rstrip s @ w"
  by (metis rev_append rev_rev_ident rstrip_def takeWhile_dropWhile_id)

lemma strip_strip [simp]: "strip (strip s) = strip s"
proof -
  let ?t = "lstrip s"
  obtain w where w: "?t = rstrip ?t @ w" using rstrip_prefix by blast
  have "lstrip (rstrip ?t) = rstrip ?t"
  proof (rule lstrip_id)
    show "rstrip ?t = [] \<or> \<not> is_space (hd (rstrip ?t))"
      using lstrip_hd [of s] w by (metis append_is_Nil_conv hd_append2)
  qed
  moreover have "rstrip (rstrip ?t) = rstrip ?t"
    by (rule rstrip_id) (rule rstrip_last)
  ultimately show ?thesis by (simp add: strip_def)
qed

section \<open>Prefixes, suffixes, substrings\<close>

definition startswith :: "string \<Rightarrow> string \<Rightarrow> bool" where
  "startswith s p \<longleftrightarrow> take (length p) s = p"

definition endswith :: "string \<Rightarrow> string \<Rightarrow> bool" where
  "endswith s p \<longleftrightarrow> length p \<le> length s \<and> drop (length s - length p) s = p"

lemma startswith_iff: "startswith s p \<longleftrightarrow> (\<exists>t. s = p @ t)"
  by (metis append_eq_conv_conj startswith_def)

lemma endswith_iff: "endswith s p \<longleftrightarrow> (\<exists>t. s = t @ p)"
  by (metis append_take_drop_id diff_add_inverse2 append_eq_conv_conj endswith_def length_append
      le_add2)

text \<open>\<open>s.split(sep, 1)\<close> and \<open>s.partition(sep)\<close>: what precedes and follows the first
  occurrence, or \<open>None\<close> when there is none.\<close>

fun split_once :: "string \<Rightarrow> string \<Rightarrow> (string \<times> string) option" where
  "split_once sep [] = (if sep = [] then Some ([], []) else None)"
| "split_once sep (c # s) =
     (if startswith (c # s) sep then Some ([], drop (length sep) (c # s))
      else map_option (\<lambda>(a, b). (c # a, b)) (split_once sep s))"

definition contains :: "string \<Rightarrow> string \<Rightarrow> bool" where
  "contains s sub \<longleftrightarrow> split_once sub s \<noteq> None"

lemma split_once_SomeD: "split_once sep s = Some (a, b) \<Longrightarrow> s = a @ sep @ b"
  by (induction s arbitrary: a)
    (auto simp: startswith_iff split: if_splits)

lemma split_once_None: "split_once sep s = None \<Longrightarrow> s \<noteq> a @ sep @ b"
proof (induction s arbitrary: a)
  case Nil
  then show ?case by (auto split: if_splits)
next
  case (Cons c s)
  then have no: "\<not> startswith (c # s) sep" and none: "split_once sep s = None"
    by (auto split: if_splits)
  show ?case
  proof (cases a)
    case Nil
    with no show ?thesis by (auto simp: startswith_iff)
  next
    case (Cons d a')
    with Cons.IH [OF none, of a'] show ?thesis by auto
  qed
qed

lemma contains_iff: "contains s sub \<longleftrightarrow> (\<exists>a b. s = a @ sub @ b)"
  unfolding contains_def
  by (metis not_Some_eq split_once_None split_once_SomeD surj_pair)

lemma split_once_append:
  assumes "split_once sep a = None" and "\<not> (\<exists>u v. a = u @ v \<and> v \<noteq> [] \<and> v \<noteq> sep \<and> startswith sep v)"
    and "sep \<noteq> []"
  shows "split_once sep (a @ sep @ b) = Some (a, b)"
  using assms
proof (induction a)
  case Nil
  then show ?case by (cases sep) (auto simp: startswith_iff)
next
  case (Cons c a)
  have none: "split_once sep a = None" and nosep: "\<not> startswith (c # a) sep"
    using Cons.prems(1) by (auto split: if_splits)
  have "\<not> startswith (c # (a @ sep @ b)) sep"
  proof
    assume "startswith (c # (a @ sep @ b)) sep"
    then obtain t where t: "(c # a) @ sep @ b = sep @ t" by (auto simp: startswith_iff)
    then consider (long) w where "c # a = sep @ w" | (short) w where "sep = (c # a) @ w"
      using append_eq_append_conv2 [of "c # a" "sep @ b" sep t] by auto
    then show False
    proof cases
      case long
      with nosep show False by (auto simp: startswith_iff)
    next
      case short
      show False
      proof (cases "w = []")
        case True
        with short nosep show False by (auto simp: startswith_iff)
      next
        case False
        with short have "c # a \<noteq> sep" and "startswith sep (c # a)" by (auto simp: startswith_iff)
        with Cons.prems(2) show False by (metis append_Nil list.distinct(1))
      qed
    qed
  qed
  moreover have "split_once sep (a @ sep @ b) = Some (a, b)"
  proof (rule Cons.IH [OF none _ Cons.prems(3)])
    show "\<not> (\<exists>u v. a = u @ v \<and> v \<noteq> [] \<and> v \<noteq> sep \<and> startswith sep v)"
      using Cons.prems(2) by (metis append_Cons)
  qed
  ultimately show ?case by simp
qed

section \<open>split on one character, and join\<close>

fun split_char :: "char \<Rightarrow> string \<Rightarrow> string list" where
  "split_char c [] = [[]]"
| "split_char c (x # xs) =
     (if x = c then [] # split_char c xs
      else (case split_char c xs of [] \<Rightarrow> [[x]] | w # ws \<Rightarrow> (x # w) # ws))"

fun join :: "string \<Rightarrow> string list \<Rightarrow> string" where
  "join sep [] = []"
| "join sep [s] = s"
| "join sep (s # t # ss) = s @ sep @ join sep (t # ss)"

lemma split_char_nonempty [simp]: "split_char c s \<noteq> []"
  by (induction s) (auto split: list.splits)

lemma join_split_char: "join [c] (split_char c s) = s"
proof (induction s)
  case (Cons x xs)
  obtain w ws where ws: "split_char c xs = w # ws"
    by (cases "split_char c xs") auto
  from Cons ws show ?case by (cases ws) auto
qed simp

lemma split_char_no_sep: "w \<in> set (split_char c s) \<Longrightarrow> c \<notin> set w"
  by (induction s arbitrary: w) (auto split: if_splits list.splits)

lemma split_char_id: "c \<notin> set s \<Longrightarrow> split_char c s = [s]"
  by (induction s) auto

lemma split_char_append:
  "c \<notin> set a \<Longrightarrow> split_char c (a @ c # b) = a # split_char c b"
  by (induction a) auto

lemma split_char_join:
  "ws \<noteq> [] \<Longrightarrow> \<forall>w\<in>set ws. c \<notin> set w \<Longrightarrow> split_char c (join [c] ws) = ws"
  by (induction "[c]" ws rule: join.induct) (auto simp: split_char_id split_char_append)

section \<open>Decimal and hexadecimal formats\<close>

definition digit_char :: "nat \<Rightarrow> char" where
  "digit_char d = char_of (48 + d)"

definition digit_val :: "char \<Rightarrow> nat option" where
  "digit_val c = (let k = (of_char c :: nat) in if 48 \<le> k \<and> k \<le> 57 then Some (k - 48) else None)"

fun str_nat :: "nat \<Rightarrow> string" where
  "str_nat n = (if n < 10 then [digit_char n] else str_nat (n div 10) @ [digit_char (n mod 10)])"

declare str_nat.simps [simp del]

definition str_int :: "int \<Rightarrow> string" where
  "str_int i = (if i < 0 then CHR ''-'' # str_nat (nat (- i)) else str_nat (nat i))"

text \<open>The format \<open>:03d\<close> and its kin on a non-negative number.\<close>

definition zero_pad :: "nat \<Rightarrow> string \<Rightarrow> string" where
  "zero_pad w s = replicate (w - length s) (CHR ''0'') @ s"

definition hex_char :: "nat \<Rightarrow> char" where
  "hex_char d = (if d < 10 then char_of (48 + d) else char_of (55 + d))"

fun hex_nat :: "nat \<Rightarrow> string" where
  "hex_nat n = (if n < 16 then [hex_char n] else hex_nat (n div 16) @ [hex_char (n mod 16)])"

declare hex_nat.simps [simp del]

lemma digit_val_digit_char [simp]: "d < 10 \<Longrightarrow> digit_val (digit_char d) = Some d"
  by (simp add: digit_val_def digit_char_def Let_def)

lemma digit_val_SomeD: "digit_val c = Some d \<Longrightarrow> d < 10 \<and> c = digit_char d"
  by (auto simp: digit_val_def digit_char_def Let_def split: if_splits)

lemma digit_not_space: "digit_val c = Some d \<Longrightarrow> \<not> is_space c"
  by (auto simp: digit_val_def is_space_def Let_def split: if_splits)

lemma digit_not_sign:
  "digit_val (CHR ''_'') = None" "digit_val (CHR ''-'') = None" "digit_val (CHR ''+'') = None"
  by (simp_all add: digit_val_def Let_def)

lemma digit_char_not_sign:
  assumes "d < 10"
  shows "digit_char d \<noteq> CHR ''_''" "digit_char d \<noteq> CHR ''-''" "digit_char d \<noteq> CHR ''+''"
  using assms digit_val_digit_char digit_not_sign by (metis option.distinct(1))+

lemma str_nat_nonempty [simp]: "str_nat n \<noteq> []"
  by (subst str_nat.simps) simp

lemma str_nat_digits: "c \<in> set (str_nat n) \<Longrightarrow> \<exists>d<10. c = digit_char d"
proof (induction n rule: str_nat.induct)
  case (1 n)
  then show ?case
    by (cases "n < 10") (auto simp: str_nat.simps [of n] intro: exI [of _ "n mod 10"])
qed

section \<open>\<open>int(text)\<close>\<close>

text \<open>After the first digit: more digits, each optionally preceded by one underscore.\<close>

fun read_digits :: "nat \<Rightarrow> string \<Rightarrow> nat option" where
  "read_digits acc [] = Some acc"
| "read_digits acc (c # cs) =
     (if c = CHR ''_''
      then (case cs of [] \<Rightarrow> None
            | d # ds \<Rightarrow> (case digit_val d of None \<Rightarrow> None | Some k \<Rightarrow> read_digits (10 * acc + k) ds))
      else (case digit_val c of None \<Rightarrow> None | Some k \<Rightarrow> read_digits (10 * acc + k) cs))"

definition read_nat :: "string \<Rightarrow> nat option" where
  "read_nat s = (case s of [] \<Rightarrow> None
     | c # cs \<Rightarrow> (case digit_val c of None \<Rightarrow> None | Some k \<Rightarrow> read_digits k cs))"

text \<open>Python's \<open>int(text)\<close> in base 10: surrounding whitespace, an optional sign, digits.
  The interpreter's limit on the number of digits is not modelled, and the message quotes
  the text without \<open>repr\<close>'s escapes.\<close>

definition py_int :: "string \<Rightarrow> int result" where
  "py_int text =
     (let t = strip text;
          bad = Inl (ValueError (''invalid literal for int() with base 10: '' @ [CHR 0x27] @ text @ [CHR 0x27]))
      in case t of
           [] \<Rightarrow> bad
         | c # cs \<Rightarrow>
             (if c = CHR ''-'' then (case read_nat cs of None \<Rightarrow> bad | Some n \<Rightarrow> Inr (- int n))
              else if c = CHR ''+'' then (case read_nat cs of None \<Rightarrow> bad | Some n \<Rightarrow> Inr (int n))
              else (case read_nat t of None \<Rightarrow> bad | Some n \<Rightarrow> Inr (int n))))"

lemma read_digits_snoc:
  "d < 10 \<Longrightarrow> \<forall>c\<in>set s. \<exists>k. digit_val c = Some k \<Longrightarrow> read_digits acc s = Some n
    \<Longrightarrow> read_digits acc (s @ [digit_char d]) = Some (10 * n + d)"
  by (induction acc s rule: read_digits.induct)
    (auto simp: digit_not_sign digit_char_not_sign split: if_splits option.splits list.splits
      dest: digit_val_SomeD)

lemma read_nat_snoc:
  assumes "d < 10" "s \<noteq> []" "\<forall>c\<in>set s. \<exists>k. digit_val c = Some k" "read_nat s = Some n"
  shows "read_nat (s @ [digit_char d]) = Some (10 * n + d)"
  using assms read_digits_snoc
  by (cases s) (auto simp: read_nat_def split: option.splits)

lemma str_nat_digit_vals: "\<forall>c\<in>set (str_nat n). \<exists>k. digit_val c = Some k"
  using str_nat_digits digit_val_digit_char by blast

lemma read_nat_str_nat [simp]: "read_nat (str_nat n) = Some n"
proof (induction n rule: str_nat.induct)
  case (1 n)
  show ?case
  proof (cases "n < 10")
    case True
    then show ?thesis by (simp add: str_nat.simps [of n] read_nat_def)
  next
    case False
    with "1.IH" have "read_nat (str_nat (n div 10)) = Some (n div 10)" by simp
    with False read_nat_snoc [OF _ str_nat_nonempty str_nat_digit_vals, of "n mod 10" "n div 10"]
    show ?thesis by (simp add: str_nat.simps [of n])
  qed
qed

lemma strip_str_nat [simp]: "strip (str_nat n) = str_nat n"
  using str_nat_digit_vals digit_not_space by (intro strip_id) blast

lemma strip_minus_str_nat [simp]: "strip (CHR ''-'' # str_nat n) = CHR ''-'' # str_nat n"
  using str_nat_digit_vals digit_not_space
  by (intro strip_id) (auto simp: is_space_def)

lemma str_nat_not_sign: "str_nat n = c # cs \<Longrightarrow> c \<noteq> CHR ''-'' \<and> c \<noteq> CHR ''+''"
  using str_nat_digit_vals [of n] digit_not_sign by auto

lemma py_int_str_int: "py_int (str_int i) = Inr i"
proof (cases "i < 0")
  case True
  then show ?thesis by (simp add: str_int_def py_int_def Let_def)
next
  case False
  obtain c cs where s: "str_nat (nat i) = c # cs" by (cases "str_nat (nat i)") auto
  from s read_nat_str_nat [of "nat i"] strip_str_nat [of "nat i"] str_nat_not_sign [OF s] False
  show ?thesis by (simp add: str_int_def py_int_def Let_def)
qed

lemma str_int_inject [simp]: "str_int i = str_int j \<longleftrightarrow> i = j"
  by (metis py_int_str_int Inr_inject)

lemma str_nat_inject [simp]: "str_nat m = str_nat n \<longleftrightarrow> m = n"
  by (metis option.inject read_nat_str_nat)

end
