(* ===== verification/Command_Link.thy ===== *)
theory Command_Link
  imports Frames Flight_Types Py_Strings
begin

unbundle bit_operations_syntax

text \<open>
  The uplink. On the ground, \<open>tools/send_command.py\<close> builds a command packet and
  \<open>tools/generate_command_fuzz_corpus.py\<close> builds valid and damaged ones; in flight,
  \<open>fsw/src/command_packet.cpp\<close> serializes and deserializes them. The theorems relate the two
  programs: what the sender packs, the flight software unpacks field by field, and every
  frame the flight software accepts is one the sender can produce.
\<close>

section \<open>Ground: send_command.py\<close>

definition COMMAND_MAGIC :: int where
  "COMMAND_MAGIC = 0x434D4453"

definition COMMAND_VERSION :: int where
  "COMMAND_VERSION = 1"

definition COMMANDS :: "(string, int) dict" where
  "COMMANDS = [(''NOOP'', 0), (''SET_MODE'', 1), (''INJECT_FAULT'', 2), (''REQUEST_TELEMETRY'', 3),
     (''CLEAR_FAULT'', 4)]"

definition MODES :: "(string, int) dict" where
  "MODES = [(''BOOT'', 0), (''NOMINAL'', 1), (''DEGRADED_SENSOR'', 2), (''DEGRADED_PAYLOAD'', 3),
     (''SAFE'', 4), (''RECOVERY'', 5), (''STANDBY'', 6), (''TEST'', 7)]"

definition FAULTS :: "(string, int) dict" where
  "FAULTS = [(''NONE'', 0), (''SENSOR_TIMEOUT'', 100), (''SENSOR_INVALID_DATA'', 101),
     (''PAYLOAD_HEARTBEAT_TIMEOUT'', 200), (''CPU_OVERLOAD'', 300), (''MEMORY_OVERLOAD'', 301),
     (''TELEMETRY_SOCKET_FAILURE'', 400), (''COMMAND_BAD_CRC'', 500), (''COMMAND_UNKNOWN_ID'', 501),
     (''COMMAND_TIMEOUT'', 502), (''WATCHDOG_DEADLINE_MISS'', 600)]"

definition parse_argument :: "string \<Rightarrow> string option \<Rightarrow> int result" where
  "parse_argument command arg =
     (if command = ''SET_MODE'' then
        (case arg of None \<Rightarrow> Inl (ValueError ''SET_MODE requires --argument MODE'')
         | Some a \<Rightarrow> dict_index MODES a)
      else if command = ''INJECT_FAULT'' then
        (case arg of None \<Rightarrow> Inl (ValueError ''INJECT_FAULT requires --argument FAULT'')
         | Some a \<Rightarrow> dict_index FAULTS a)
      else Inr 0)"

definition command_fmt :: "fmt list" where
  "command_fmt = [FmtI, FmtH, FmtI, FmtQ, FmtH, FmtI]"

text \<open>\<open>now_ms\<close> is \<open>int(time.time() * 1000)\<close>, read only when no timestamp is given.\<close>

definition build_packet :: "int \<Rightarrow> int \<Rightarrow> string \<Rightarrow> int \<Rightarrow> int option \<Rightarrow> byte list result" where
  "build_packet now_ms seqn command argument_value timestamp =
     (let timestamp_ms = (case timestamp of None \<Rightarrow> now_ms | Some t \<Rightarrow> t) in
      rbind (dict_index COMMANDS command) (\<lambda>command_id.
      rbind (struct_pack command_fmt
               [COMMAND_MAGIC, COMMAND_VERSION, seqn, timestamp_ms, command_id, argument_value])
        (\<lambda>payload.
      rbind (struct_pack [FmtH] [crc16_ccitt payload]) (\<lambda>trailer.
        Inr (payload @ trailer)))))"

record send_args =
  arg_host :: string
  arg_port :: int
  arg_sequence :: int
  arg_timestamp_ms :: "int option"
  arg_command :: string
  arg_argument :: "string option"

text \<open>\<open>main\<close> after \<open>argparse\<close>: the datagram handed to \<open>sendto\<close> and the line printed.\<close>

definition sent_line :: "send_args \<Rightarrow> int \<Rightarrow> string" where
  "sent_line args argument_value =
     ''Sent command '' @ arg_command args @ '' argument='' @
     (case arg_argument args of None \<Rightarrow> str_int argument_value
      | Some a \<Rightarrow> if a = [] then str_int argument_value else a) @
     '' seq='' @ str_int (arg_sequence args) @ '' timestamp_ms='' @
     (case arg_timestamp_ms args of None \<Rightarrow> ''now'' | Some t \<Rightarrow> str_int t) @
     '' to '' @ arg_host args @ '':'' @ str_int (arg_port args)"

definition send_main :: "int \<Rightarrow> send_args \<Rightarrow> (byte list \<times> (string \<times> int) \<times> string) result" where
  "send_main now_ms args =
     rbind (parse_argument (arg_command args) (arg_argument args)) (\<lambda>argument_value.
     rbind (build_packet now_ms (arg_sequence args) (arg_command args) argument_value
              (arg_timestamp_ms args)) (\<lambda>packet.
       Inr (packet, (arg_host args, arg_port args), sent_line args argument_value)))"

section \<open>Ground: generate_command_fuzz_corpus.py\<close>

record corpus_fields =
  cf_sequence :: int
  cf_timestamp_ms :: int
  cf_command_id :: int
  cf_argument :: int
  cf_magic :: int
  cf_version :: int
  cf_valid_crc :: bool

definition command_packet :: "corpus_fields \<Rightarrow> byte list result" where
  "command_packet f =
     rbind (struct_pack command_fmt
              [cf_magic f, cf_version f, cf_sequence f, cf_timestamp_ms f, cf_command_id f, cf_argument f])
       (\<lambda>without_crc.
     let crc = crc16_ccitt without_crc;
         crc' = (if cf_valid_crc f then crc else crc XOR 0x0001)
     in rbind (struct_pack [FmtH] [crc']) (\<lambda>trailer. Inr (without_crc @ trailer)))"

definition corpus_default :: "int \<Rightarrow> int \<Rightarrow> int \<Rightarrow> int \<Rightarrow> corpus_fields" where
  "corpus_default s t c a = \<lparr>cf_sequence = s, cf_timestamp_ms = t, cf_command_id = c, cf_argument = a,
     cf_magic = COMMAND_MAGIC, cf_version = COMMAND_VERSION, cf_valid_crc = True\<rparr>"

definition seed_cases :: "(string \<times> byte list \<times> string) list result" where
  "seed_cases =
     rbind (command_packet (corpus_default 0 0 0 0)) (\<lambda>valid_noop.
     rbind (command_packet (corpus_default 1 1000 1 1)) (\<lambda>valid_set_mode.
     rbind (command_packet (corpus_default 2 2000 2 300)) (\<lambda>valid_fault.
     rbind (command_packet (corpus_default 3 3000 3 0)) (\<lambda>valid_request.
     rbind (command_packet (corpus_default 4 4000 4 0)) (\<lambda>valid_clear.
     rbind (command_packet ((corpus_default 5 5000 0 0)\<lparr>cf_valid_crc := False\<rparr>)) (\<lambda>bad_crc.
     rbind (command_packet ((corpus_default 6 6000 0 0)\<lparr>cf_magic := 0xDEADBEEF\<rparr>)) (\<lambda>bad_magic.
     rbind (command_packet ((corpus_default 7 7000 0 0)\<lparr>cf_version := 2\<rparr>)) (\<lambda>bad_version.
     rbind (command_packet (corpus_default 8 8000 99 0)) (\<lambda>bad_command_id.
     Inr [(''empty'', [], ''empty input''),
       (''one_byte'', [0], ''minimal malformed input''),
       (''valid_noop'', valid_noop, ''valid NOOP packet''),
       (''valid_set_mode'', valid_set_mode, ''valid SET_MODE NOMINAL packet''),
       (''valid_inject_fault'', valid_fault, ''valid INJECT_FAULT CPU_OVERLOAD packet''),
       (''valid_request_telemetry'', valid_request, ''valid REQUEST_TELEMETRY packet''),
       (''valid_clear_fault'', valid_clear, ''valid CLEAR_FAULT packet''),
       (''bad_crc'', bad_crc, ''fixed-size packet with invalid CRC''),
       (''bad_magic'', bad_magic, ''valid CRC but invalid magic''),
       (''bad_version'', bad_version, ''valid CRC but unsupported version''),
       (''bad_command_id'', bad_command_id, ''valid CRC but unknown command ID''),
       (''truncated_valid'', butlast valid_set_mode, ''valid packet truncated by one byte''),
       (''oversized_valid'', valid_set_mode @ [0], ''valid packet with one trailing byte''),
       (''all_ff'', replicate 26 0xFF, ''fixed-size high-value input''),
       (''large_input'', map word_of_nat [0..<64], ''input above protocol length'')])))))))))"

section \<open>Flight: command_packet.cpp\<close>

record CommandPacket =
  cp_sequence_number :: u32
  cp_timestamp_ms :: u64
  cp_command_id :: CommandId
  cp_argument :: u32

definition COMMAND_PACKET_SIZE_BYTES :: nat where
  "COMMAND_PACKET_SIZE_BYTES = 26"

definition CPP_COMMAND_MAGIC :: u32 where
  "CPP_COMMAND_MAGIC = 0x434D4453"

definition CPP_COMMAND_VERSION :: u16 where
  "CPP_COMMAND_VERSION = 1"

definition serialize_command_packet :: "CommandPacket \<Rightarrow> byte list" where
  "serialize_command_packet packet =
     (let bytes = append_u32 CPP_COMMAND_MAGIC @ append_u16 CPP_COMMAND_VERSION @
            append_u32 (cp_sequence_number packet) @ append_u64 (cp_timestamp_ms packet) @
            append_u16 (of_nat (command_value (cp_command_id packet))) @
            append_u32 (cp_argument packet);
          crc = command_crc16_ccitt bytes
      in bytes @ append_u16 crc)"

text \<open>\<open>None\<close> is an exception out of \<open>at\<close>, \<open>Some None\<close> the return value \<open>false\<close>,
  \<open>Some (Some p)\<close> the return value \<open>true\<close> with the packet written to \<open>packet_out\<close>.\<close>

definition deserialize_command_packet :: "byte list \<Rightarrow> CommandPacket option option" where
  "deserialize_command_packet bytes =
     (if length bytes \<noteq> COMMAND_PACKET_SIZE_BYTES then Some None
      else
        let without_crc = take (length bytes - 2) bytes;
            expected_crc = command_crc16_ccitt without_crc
        in Option.bind (read_u16 bytes (length bytes - 2)) (\<lambda>(actual_crc, _).
          if actual_crc \<noteq> expected_crc then Some None
          else
            Option.bind (read_u32 bytes 0) (\<lambda>(magic, offset).
            Option.bind (read_u16 bytes offset) (\<lambda>(version, offset).
              if magic \<noteq> CPP_COMMAND_MAGIC then Some None
              else if version \<noteq> CPP_COMMAND_VERSION then Some None
              else
                Option.bind (read_u32 bytes offset) (\<lambda>(sequence_number, offset).
                Option.bind (read_u64 bytes offset) (\<lambda>(timestamp_ms, offset).
                Option.bind (read_u16 bytes offset) (\<lambda>(raw_command_id, offset).
                  case command_cast raw_command_id of
                    None \<Rightarrow> Some None
                  | Some command_id \<Rightarrow>
                      Option.bind (read_u32 bytes offset) (\<lambda>(argument, offset).
                        Some (Some \<lparr>cp_sequence_number = sequence_number,
                          cp_timestamp_ms = timestamp_ms, cp_command_id = command_id,
                          cp_argument = argument\<rparr>)))))))))"

definition decode_command :: "byte list \<Rightarrow> CommandPacket option" where
  "decode_command bytes = Option.bind (deserialize_command_packet bytes) id"

definition command_argument_to_mode :: "u32 \<Rightarrow> Mode option" where
  "command_argument_to_mode argument = mode_cast argument"

definition command_argument_to_fault :: "u32 \<Rightarrow> FaultCode option" where
  "command_argument_to_fault argument = fault_cast argument"

section \<open>The decoder on a frame of the right size\<close>

lemma cpp_constants:
  "uint CPP_COMMAND_MAGIC = COMMAND_MAGIC" "uint CPP_COMMAND_VERSION = COMMAND_VERSION"
  by (simp_all add: CPP_COMMAND_MAGIC_def COMMAND_MAGIC_def CPP_COMMAND_VERSION_def COMMAND_VERSION_def)

lemma deserialize_eq:
  assumes "length bs = 26"
  shows "deserialize_command_packet bs = Some
     (if field bs 24 2 = crc16_ccitt (take 24 bs) \<and> field bs 0 4 = COMMAND_MAGIC
         \<and> field bs 4 2 = COMMAND_VERSION
      then map_option (\<lambda>c. \<lparr>cp_sequence_number = word_of_int (field bs 6 4),
              cp_timestamp_ms = word_of_int (field bs 10 8), cp_command_id = c,
              cp_argument = word_of_int (field bs 20 4)\<rparr>)
            (command_cast (word_of_int (field bs 18 2) :: u16))
      else None)"
proof -
  have reads: "read_u16 bs 24 = Some (word_of_int (field bs 24 2), 26)"
    "read_u32 bs 0 = Some (word_of_int (field bs 0 4), 4)"
    "read_u16 bs 4 = Some (word_of_int (field bs 4 2), 6)"
    "read_u32 bs 6 = Some (word_of_int (field bs 6 4), 10)"
    "read_u64 bs 10 = Some (word_of_int (field bs 10 8), 18)"
    "read_u16 bs 18 = Some (word_of_int (field bs 18 2), 20)"
    "read_u32 bs 20 = Some (word_of_int (field bs 20 4), 24)"
    using assms read_field_eq(1) [of 24 bs] read_field_eq(2) [of 0 bs] read_field_eq(1) [of 4 bs]
      read_field_eq(2) [of 6 bs] read_field_eq(3) [of 10 bs] read_field_eq(1) [of 18 bs]
      read_field_eq(2) [of 20 bs] by simp_all
  have guards: "word_of_int (field bs 24 2) = command_crc16_ccitt (take 24 bs) \<longleftrightarrow>
      field bs 24 2 = crc16_ccitt (take 24 bs)"
    "word_of_int (field bs 0 4) = CPP_COMMAND_MAGIC \<longleftrightarrow> field bs 0 4 = COMMAND_MAGIC"
    "word_of_int (field bs 4 2) = CPP_COMMAND_VERSION \<longleftrightarrow> field bs 4 2 = COMMAND_VERSION"
    by (simp_all only: field_word16 field_word32 cpp_constants crc16_ccitt_uint)
  have size: "length bs - 2 = 24" "\<not> length bs \<noteq> COMMAND_PACKET_SIZE_BYTES"
    using assms by (simp_all add: COMMAND_PACKET_SIZE_BYTES_def)
  show ?thesis
    unfolding deserialize_command_packet_def Let_def size(1) if_not_P [OF size(2)] reads
      Option.bind.simps prod.case guards
    by (cases "command_cast (word_of_int (field bs 18 2) :: u16)")
      (simp_all only: option.case reads Option.bind.simps prod.case option.map not_not simp_thms
        split: if_split, blast)
qed

lemma deserialize_no_throw: "deserialize_command_packet bs \<noteq> None"
  by (cases "length bs = 26")
    (auto simp: deserialize_eq, simp add: deserialize_command_packet_def COMMAND_PACKET_SIZE_BYTES_def)

lemma packet_eq_iff:
  "\<lparr>cp_sequence_number = a, cp_timestamp_ms = b, cp_command_id = c, cp_argument = d\<rparr> = p \<longleftrightarrow>
     a = cp_sequence_number p \<and> b = cp_timestamp_ms p \<and> c = cp_command_id p \<and> d = cp_argument p"
  by (cases p) auto

lemma command_cast_field:
  "command_cast (word_of_int (field bs offset 2) :: u16) = Some c
     \<longleftrightarrow> field bs offset 2 = int (command_value c)"
  unfolding command_cast_Some_iff ucast_id by (rule int_unat_eq_iff, rule unat_field16)

lemma decode_command_Some_iff:
  "decode_command bs = Some p \<longleftrightarrow>
     length bs = 26 \<and> field bs 24 2 = crc16_ccitt (take 24 bs) \<and> field bs 0 4 = COMMAND_MAGIC \<and>
     field bs 4 2 = COMMAND_VERSION \<and> field bs 6 4 = uint (cp_sequence_number p) \<and>
     field bs 10 8 = uint (cp_timestamp_ms p) \<and> field bs 18 2 = int (command_value (cp_command_id p)) \<and>
     field bs 20 4 = uint (cp_argument p)"
proof (cases "length bs = 26")
  case True
  show ?thesis
    unfolding decode_command_def deserialize_eq [OF True] Option.bind.simps id_apply
    by (simp only: map_option_eq_Some packet_eq_iff command_cast_field field_word32 field_word64 True
        option.distinct simp_thms split: if_split, blast)
next
  case False
  then show ?thesis
    by (simp add: decode_command_def deserialize_command_packet_def COMMAND_PACKET_SIZE_BYTES_def)
qed

interpretation command_frame: crc_frame 26 decode_command
proof
  fix bs p assume "decode_command bs = Some p"
  then have len: "length bs = 26" and crc: "field bs 24 2 = crc16_ccitt (take 24 bs)"
    by (simp_all add: decode_command_Some_iff)
  show "length bs = 26" by (fact len)
  show "drop (26 - 2) bs = le_bytes 2 (crc16_ccitt (take (26 - 2) bs))"
    using last_field [of bs 24 2] len crc by simp
qed simp

section \<open>Frames made by the ground tools\<close>

lemma calcsize_command_fmt [simp]: "calcsize command_fmt = 24"
  by (simp add: command_fmt_def)

lemma frame_fields:
  assumes pack: "struct_pack command_fmt [m, v, s, t, c, a] = Inr payload" and len: "length trailer = 2"
  shows "length (payload @ trailer) = 26" "take 24 (payload @ trailer) = payload"
    "field (payload @ trailer) 24 2 = le_value trailer"
    "field (payload @ trailer) 0 4 = m" "field (payload @ trailer) 4 2 = v"
    "field (payload @ trailer) 6 4 = s" "field (payload @ trailer) 10 8 = t"
    "field (payload @ trailer) 18 2 = c" "field (payload @ trailer) 20 4 = a"
proof -
  have "length payload = 24" using struct_pack_length [OF pack] by simp
  then show "length (payload @ trailer) = 26" "take 24 (payload @ trailer) = payload"
    "field (payload @ trailer) 24 2 = le_value trailer"
    using len field_split [of payload 24 trailer 2 "[]"] by simp_all
  show "field (payload @ trailer) 0 4 = m" "field (payload @ trailer) 4 2 = v"
    "field (payload @ trailer) 6 4 = s" "field (payload @ trailer) 10 8 = t"
    "field (payload @ trailer) 18 2 = c" "field (payload @ trailer) 20 4 = a"
    using pack_field_items [OF pack, of trailer] by (simp_all add: command_fmt_def)
qed

lemma frame_of_fields:
  assumes "length bs = 26"
  shows "struct_pack command_fmt [field bs 0 4, field bs 4 2, field bs 6 4, field bs 10 8,
           field bs 18 2, field bs 20 4] = Inr (take 24 bs)"
  using field_items_pack [of command_fmt bs] assms by (simp add: command_fmt_def)

lemma COMMANDS_lookup_iff:
  "dict_index COMMANDS name = Inr v \<longleftrightarrow> (\<exists>c. name = command_id_to_string c \<and> v = int (command_value c))"
proof
  assume "dict_index COMMANDS name = Inr v"
  then have "(name, v) \<in> set COMMANDS" by (auto simp: dict_index_Inr_iff dest: map_of_SomeD)
  then show "\<exists>c. name = command_id_to_string c \<and> v = int (command_value c)"
    by (auto simp: COMMANDS_def intro: exI [of _ NOOP] exI [of _ SET_MODE] exI [of _ INJECT_FAULT]
        exI [of _ REQUEST_TELEMETRY] exI [of _ CLEAR_FAULT])
next
  assume "\<exists>c. name = command_id_to_string c \<and> v = int (command_value c)"
  then obtain c where "name = command_id_to_string c" "v = int (command_value c)" by blast
  then show "dict_index COMMANDS name = Inr v"
    by (cases c) (simp_all add: dict_index_def COMMANDS_def)
qed

lemma MODES_lookup: "dict_index MODES (mode_to_string m) = Inr (int (mode_value m))"
  by (cases m) (simp_all add: dict_index_def MODES_def)

lemma FAULTS_lookup: "dict_index FAULTS (fault_to_string f) = Inr (int (fault_value f))"
  by (cases f) (simp_all add: dict_index_def FAULTS_def)

lemma corpus_packet_decode:
  assumes "command_packet f = Inr bs"
  shows "decode_command bs = Some p \<longleftrightarrow>
     cf_valid_crc f \<and> cf_magic f = COMMAND_MAGIC \<and> cf_version f = COMMAND_VERSION \<and>
     cf_sequence f = uint (cp_sequence_number p) \<and> cf_timestamp_ms f = uint (cp_timestamp_ms p) \<and>
     cf_command_id f = int (command_value (cp_command_id p)) \<and> cf_argument f = uint (cp_argument p)"
proof -
  let ?crc = "\<lambda>payload. if cf_valid_crc f then crc16_ccitt payload else crc16_ccitt payload XOR 1"
  from assms obtain payload trailer where pack: "struct_pack command_fmt [cf_magic f, cf_version f,
      cf_sequence f, cf_timestamp_ms f, cf_command_id f, cf_argument f] = Inr payload"
    and tr: "struct_pack [FmtH] [?crc payload] = Inr trailer" and bs: "bs = payload @ trailer"
    by (auto simp: command_packet_def Let_def rbind_Inr_iff)
  from struct_pack_length [OF tr] have len: "length trailer = 2" by simp
  from tr have val: "le_value trailer = ?crc payload"
    by (auto simp: le_value_le_bytes split: if_splits)
  have "crc16_ccitt payload XOR 1 \<noteq> crc16_ccitt payload"
    by (metis xor.left_commute xor.right_neutral xor_self_eq zero_neq_one)
  then have "le_value trailer = crc16_ccitt payload \<longleftrightarrow> cf_valid_crc f" by (simp add: val)
  moreover have "length payload = 24" using struct_pack_length [OF pack] by simp
  ultimately show ?thesis
    using frame_fields [OF pack len] by (simp add: decode_command_Some_iff bs len)
qed

lemma pack_crc: "struct_pack [FmtH] [crc16_ccitt bs] = Inr (le_bytes 2 (crc16_ccitt bs))"
  using crc16_ccitt_range [of bs] by simp

lemma build_packet_eq:
  "build_packet now_ms s (command_id_to_string c) a (Some t) = Inr bs \<longleftrightarrow>
     (\<exists>payload. struct_pack command_fmt
         [COMMAND_MAGIC, COMMAND_VERSION, s, t, int (command_value c), a] = Inr payload \<and>
       bs = payload @ le_bytes 2 (crc16_ccitt payload))"
proof -
  have "dict_index COMMANDS (command_id_to_string c) = Inr (int (command_value c))"
    using COMMANDS_lookup_iff by blast
  then show ?thesis
    by (auto simp: build_packet_def rbind_Inr_iff pack_crc simp del: struct_pack.simps)
qed

lemma le_value_crc [simp]: "le_value (le_bytes 2 (crc16_ccitt payload)) = crc16_ccitt payload"
  using crc16_ccitt_range [of payload] by (simp add: le_value_le_bytes)

lemma decode_command_build_iff:
  "decode_command bs = Some p \<longleftrightarrow>
     build_packet now_ms (uint (cp_sequence_number p)) (command_id_to_string (cp_command_id p))
       (uint (cp_argument p)) (Some (uint (cp_timestamp_ms p))) = Inr bs"
proof
  assume dec: "decode_command bs = Some p"
  then have len: "length bs = 26" by (simp add: decode_command_Some_iff)
  have "drop 24 bs = le_bytes 2 (field bs 24 2)" using last_field [of bs 24 2] len by simp
  then have "bs = take 24 bs @ le_bytes 2 (crc16_ccitt (take 24 bs))"
    using dec by (metis append_take_drop_id decode_command_Some_iff)
  with frame_of_fields [OF len] dec show "build_packet now_ms (uint (cp_sequence_number p))
      (command_id_to_string (cp_command_id p)) (uint (cp_argument p)) (Some (uint (cp_timestamp_ms p))) = Inr bs"
    unfolding build_packet_eq decode_command_Some_iff by auto
next
  assume "build_packet now_ms (uint (cp_sequence_number p)) (command_id_to_string (cp_command_id p))
      (uint (cp_argument p)) (Some (uint (cp_timestamp_ms p))) = Inr bs"
  then obtain payload where pack: "struct_pack command_fmt [COMMAND_MAGIC, COMMAND_VERSION,
      uint (cp_sequence_number p), uint (cp_timestamp_ms p), int (command_value (cp_command_id p)),
      uint (cp_argument p)] = Inr payload"
    and bs: "bs = payload @ le_bytes 2 (crc16_ccitt payload)"
    unfolding build_packet_eq by blast
  have "length payload = 24" using struct_pack_length [OF pack] by simp
  with frame_fields [OF pack, of "le_bytes 2 (crc16_ccitt payload)"]
  show "decode_command bs = Some p" by (simp add: decode_command_Some_iff bs)
qed

lemma deserialize_decode: "deserialize_command_packet bs = Some (decode_command bs)"
  using deserialize_no_throw [of bs] by (cases "deserialize_command_packet bs") (auto simp: decode_command_def)

section \<open>Properties of the uplink\<close>

text \<open>C1: the flight software's \<open>deserialize_command_packet\<close> accepts exactly the frames that
  \<open>build_packet\<close> of \<open>send_command.py\<close> builds: it returns true with packet \<open>p\<close> if and only if
  the sender, given the fields of \<open>p\<close>, produces these very bytes. So every command sent is
  received field by field, and no other byte string of any length is taken for a command.\<close>

theorem uplink_accepts_exactly_built_packets:
  "deserialize_command_packet bs = Some (Some p) \<longleftrightarrow>
     build_packet now_ms (uint (cp_sequence_number p)) (command_id_to_string (cp_command_id p))
       (uint (cp_argument p)) (Some (uint (cp_timestamp_ms p))) = Inr bs"
  unfolding deserialize_decode option.inject by (rule decode_command_build_iff)

text \<open>The Python builder and the C++ serializer are the same function. For a known
  command whose sequence number, timestamp (given, or the current time) and argument fit 32,
  64 and 32 bits, \<open>build_packet\<close> returns byte for byte what \<open>serialize_command_packet\<close>
  writes for the same fields; a field out of range raises \<open>struct.error\<close> and nothing is sent.\<close>

theorem build_packet_is_serialize:
  "build_packet now_ms s (command_id_to_string c) a ts =
     (let t = (case ts of None \<Rightarrow> now_ms | Some t \<Rightarrow> t) in
      if 0 \<le> s \<and> s < 2 ^ 32 \<and> 0 \<le> t \<and> t < 2 ^ 64 \<and> 0 \<le> a \<and> a < 2 ^ 32
      then Inr (serialize_command_packet \<lparr>cp_sequence_number = word_of_int s,
             cp_timestamp_ms = word_of_int t, cp_command_id = c, cp_argument = word_of_int a\<rparr>)
      else Inl (StructError ''argument out of range''))"
proof -
  let ?t = "case ts of None \<Rightarrow> now_ms | Some t \<Rightarrow> t"
  have idx: "dict_index COMMANDS (command_id_to_string c) = Inr (int (command_value c))"
    using COMMANDS_lookup_iff by blast
  have cmd: "command_value c < 65536" using enum_values_bounded(3) [of c] by simp
  have head: "build_packet now_ms s (command_id_to_string c) a ts =
      rbind (struct_pack command_fmt [COMMAND_MAGIC, COMMAND_VERSION, s, ?t, int (command_value c), a])
        (\<lambda>payload. Inr (payload @ le_bytes 2 (crc16_ccitt payload)))"
    by (simp add: build_packet_def idx pack_crc del: struct_pack.simps)
  show ?thesis
  proof (cases "0 \<le> s \<and> s < 2 ^ 32 \<and> 0 \<le> ?t \<and> ?t < 2 ^ 64 \<and> 0 \<le> a \<and> a < 2 ^ 32")
    case True
    let ?p = "\<lparr>cp_sequence_number = word_of_int s, cp_timestamp_ms = word_of_int ?t,
        cp_command_id = c, cp_argument = word_of_int a\<rparr>"
    from True have ints: "uint (word_of_int s :: u32) = s" "uint (word_of_int ?t :: u64) = ?t"
      "uint (word_of_int a :: u32) = a"
      by (simp_all add: unsigned_of_int take_bit_int_eq_self)
    have cmdw: "uint (of_nat (command_value c) :: u16) = int (command_value c)"
      using cmd by (simp add: unsigned_of_nat take_bit_nat_eq_self)
    let ?payload = "le_bytes 4 COMMAND_MAGIC @ le_bytes 2 COMMAND_VERSION @ le_bytes 4 s @
        le_bytes 8 ?t @ le_bytes 2 (int (command_value c)) @ le_bytes 4 a"
    have "struct_pack command_fmt [COMMAND_MAGIC, COMMAND_VERSION, s, ?t, int (command_value c), a]
        = Inr ?payload"
      using True cmd by (simp add: command_fmt_def COMMAND_MAGIC_def COMMAND_VERSION_def)
    moreover have "serialize_command_packet ?p = ?payload @ le_bytes 2 (crc16_ccitt ?payload)"
      by (simp add: serialize_command_packet_def Let_def append_u16_le append_u32_le append_u64_le
          ints cmdw cpp_constants crc16_ccitt_uint)
    ultimately show ?thesis using True by (simp add: head Let_def del: struct_pack.simps)
  next
    case False
    then have "struct_pack command_fmt [COMMAND_MAGIC, COMMAND_VERSION, s, ?t, int (command_value c), a]
        = Inl (StructError ''argument out of range'')"
      using cmd by (auto simp: command_fmt_def COMMAND_MAGIC_def COMMAND_VERSION_def)
    with False show ?thesis by (auto simp: head Let_def simp del: struct_pack.simps)
  qed
qed

text \<open>C2: no corruption of a single byte of an accepted command frame is accepted, wherever
  the byte lies (FSW-REQ-108 asks this for single bits), and no corruption of two adjacent
  bytes is, unless the two bytes are the last one of the argument and the first one of the CRC.\<close>

theorem uplink_corruption_rejected:
  assumes "deserialize_command_packet (pre @ old @ post) = Some (Some p)"
    and "length new = length old" and "new \<noteq> old"
    and "length old = 1 \<or> length old = 2 \<and> length pre \<noteq> 23"
  shows "deserialize_command_packet (pre @ new @ post) = Some None"
  using command_frame.corruption_rejected [of pre old post p new] assms by (simp add: deserialize_decode)

lemma sample_command_frame:
  "build_packet 0 7 ''NOOP'' 0 (Some 9) =
     Inr [0x53, 0x44, 0x4D, 0x43, 1, 0, 7, 0, 0, 0, 9, 0, 0, 0, 0, 0, 0, 0, 0, 0, 0, 0, 0, 0, 0x25, 0xC3]"
  by code_simp

lemma sample_command_decodes:
  "deserialize_command_packet
     [0x53, 0x44, 0x4D, 0x43, 1, 0, 7, 0, 0, 0, 9, 0, 0, 0, 0, 0, 0, 0, 0, 0, 0, 0, 0, 0, 0x25, 0xC3] =
   Some (Some \<lparr>cp_sequence_number = 7, cp_timestamp_ms = 9, cp_command_id = NOOP, cp_argument = 0\<rparr>)"
  unfolding deserialize_decode option.inject
  by (rule decode_command_build_iff [of _ _ 0, THEN iffD2]) (simp add: sample_command_frame)

theorem uplink_corruption_rejected_witness:
  "deserialize_command_packet
     [0x53, 0x44, 0x4D, 0x43, 1, 0, 7, 0, 0, 0, 9, 0, 0, 0, 0, 0, 0, 0, 1, 0, 0, 0, 0, 0, 0x25, 0xC3] =
   Some None"
  using uplink_corruption_rejected [of
    "[0x53, 0x44, 0x4D, 0x43, 1, 0, 7, 0, 0, 0, 9, 0, 0, 0, 0, 0, 0, 0]" "[0]" "[0, 0, 0, 0, 0, 0x25, 0xC3]"
    _ "[1]"] sample_command_decodes by simp

lemma crc_step_89: "(cpp_crc_bit ^^ 8) 0x8900 = 0xA1"
proof -
  have "(crc_bit ^^ 8) 0x8900 = 0xA1" by code_simp
  then show ?thesis
    using crc_bits_uint [of 8 "0x8900"] by (simp add: word_uint_eq_iff)
qed

lemma crc_last_byte_xor:
  "command_crc16_ccitt (pre @ [a XOR 0x89]) = command_crc16_ccitt (pre @ [a]) XOR 0xA1"
proof -
  have "push_bit 8 (ucast (a XOR 0x89)) = push_bit 8 (ucast a) XOR (0x8900 :: u16)"
    by (simp add: unsigned_xor_eq push_bit_xor)
  then have "cpp_crc_byte w (a XOR 0x89) = cpp_crc_byte w a XOR (cpp_crc_bit ^^ 8) 0x8900" for w
    unfolding cpp_crc_byte_def by (simp only: xor.assoc [symmetric] cpp_crc_bits_xor)
  then show ?thesis by (simp only: command_crc16_ccitt_def foldl_append foldl.simps crc_step_89)
qed

lemma append_u16_xor_low: "append_u16 (w XOR 0xA1) = [hd (append_u16 w) XOR 0xA1, append_u16 w ! 1]"
  by (simp add: append_u16_def ucast_and_ff drop_bit_xor unsigned_xor_eq)

lemma crc_field_xor:
  assumes "[c, d] = le_bytes 2 (crc16_ccitt (pre @ [a]))"
  shows "[c XOR 0xA1, d] = le_bytes 2 (crc16_ccitt (pre @ [a XOR 0x89]))"
proof -
  have "[c, d] = append_u16 (command_crc16_ccitt (pre @ [a]))"
    using assms by (simp add: crc16_ccitt_uint append_u16_le)
  then have "[c XOR 0xA1, d] = append_u16 (command_crc16_ccitt (pre @ [a]) XOR 0xA1)"
    by (metis append_u16_xor_low list.sel(1) nth_Cons_0 nth_Cons_Suc One_nat_def)
  then show ?thesis by (simp only: crc_last_byte_xor crc16_ccitt_uint append_u16_le)
qed

text \<open>C37: the exception in the previous property is real, and it is not a single unlucky
  frame. The CRC is computed most significant bit first but sent low byte first, so a
  16-bit burst across the boundary is not covered: on \<^emph>\<open>every\<close> accepted frame, flipping the
  bits \<open>0x89\<close> of the last argument byte together with the bits \<open>0xA1\<close> of the following CRC
  byte gives another accepted frame, with a different argument.\<close>

theorem uplink_straddling_burst_accepted:
  assumes "deserialize_command_packet (pre @ [a, c, d]) = Some (Some p)"
  shows "\<exists>p'. deserialize_command_packet (pre @ [a XOR 0x89, c XOR 0xA1, d]) = Some (Some p') \<and>
           cp_argument p' \<noteq> cp_argument p"
proof -
  let ?bs = "pre @ [a, c, d]" and ?bs' = "pre @ [a XOR 0x89, c XOR 0xA1, d]"
  from assms have dec: "decode_command ?bs = Some p" by (simp add: deserialize_decode)
  then have len: "length pre = 23" by (simp add: decode_command_Some_iff)
  have crc: "[c, d] = le_bytes 2 (crc16_ccitt (pre @ [a]))"
    using command_frame.decode_crc [OF dec] len by simp
  define p' where "p' = p\<lparr>cp_argument := word_of_int (field ?bs' 20 4)\<rparr>"
  have sel: "cp_sequence_number p' = cp_sequence_number p" "cp_timestamp_ms p' = cp_timestamp_ms p"
    "cp_command_id p' = cp_command_id p" "cp_argument p' = word_of_int (field ?bs' 20 4)"
    by (simp_all add: p'_def)
  have same: "field ?bs' i n = field ?bs i n" if "i + n \<le> 23" for i n
    using that len by (simp add: field_def)
  have crc': "field ?bs' 24 2 = crc16_ccitt (take 24 ?bs')"
    using crc_field_xor [OF crc] len by (simp add: field_def)
  have dec': "decode_command ?bs' = Some p'"
  proof -
    have arg: "field ?bs' 20 4 = uint (word_of_int (field ?bs' 20 4) :: u32)"
      by (rule field_word32 [THEN iffD1]) (rule refl)
    have "length ?bs' = 26" using len by simp
    moreover have "0 + 4 \<le> (23 :: nat)" "4 + 2 \<le> (23 :: nat)" "6 + 4 \<le> (23 :: nat)"
      "10 + 8 \<le> (23 :: nat)" "18 + 2 \<le> (23 :: nat)" by simp_all
    moreover note dec [unfolded decode_command_Some_iff]
    ultimately show ?thesis
      unfolding decode_command_Some_iff sel by (intro conjI crc' arg) (simp_all only: same)
  qed
  have "cp_argument p' \<noteq> cp_argument p"
  proof
    assume "cp_argument p' = cp_argument p"
    then have "p' = p" by (simp add: p'_def)
    with dec dec' have "?bs' = ?bs" unfolding decode_command_build_iff [of _ _ 0] by simp
    then have "a XOR (a XOR 0x89) = a XOR a" by simp
    then show False by (simp add: xor.assoc [symmetric])
  qed
  with dec' show ?thesis by (auto simp: deserialize_decode)
qed

theorem uplink_straddling_burst_accepted_witness:
  "\<exists>p'. deserialize_command_packet
     [0x53, 0x44, 0x4D, 0x43, 1, 0, 7, 0, 0, 0, 9, 0, 0, 0, 0, 0, 0, 0, 0, 0, 0, 0, 0, 0x89, 0x84, 0xC3] =
   Some (Some p') \<and> cp_argument p' \<noteq> 0"
  using uplink_straddling_burst_accepted [of
    "[0x53, 0x44, 0x4D, 0x43, 1, 0, 7, 0, 0, 0, 9, 0, 0, 0, 0, 0, 0, 0, 0, 0, 0, 0, 0]" 0 "0x25" "0xC3"]
    sample_command_decodes by simp

section \<open>The fuzz corpus\<close>

lemma corpus_packet_total:
  assumes "\<forall>(w, v) \<in> set (zip [4, 2, 4, 8, 2, 4] [cf_magic f, cf_version f, cf_sequence f,
      cf_timestamp_ms f, cf_command_id f, cf_argument f]). 0 \<le> v \<and> v < 256 ^ w"
  shows "\<exists>bs. command_packet f = Inr bs \<and> length bs = 26"
proof -
  obtain payload where pack: "struct_pack command_fmt [cf_magic f, cf_version f, cf_sequence f,
      cf_timestamp_ms f, cf_command_id f, cf_argument f] = Inr payload"
    using assms by (auto simp: command_fmt_def)
  have "struct_pack [FmtH] [if cf_valid_crc f then crc16_ccitt payload else crc16_ccitt payload XOR 1] =
      Inr (le_bytes 2 (if cf_valid_crc f then crc16_ccitt payload else crc16_ccitt payload XOR 1))"
    using crc16_ccitt_range [of payload] XOR_upper [of "crc16_ccitt payload" 16 1] by (auto )
  with pack struct_pack_length [OF pack] show ?thesis
    by (simp add: command_packet_def Let_def del: struct_pack.simps)
qed

lemma command_value_surj: "k \<in> {0..4} \<longleftrightarrow> (\<exists>c. k = int (command_value c))"
proof -
  have "(\<exists>c. k = int (command_value c)) \<longleftrightarrow> k \<in> (\<lambda>c. int (command_value c)) ` set all_commands"
    by auto
  also have "(\<lambda>c. int (command_value c)) ` set all_commands = {0..4}"
    by (simp add: all_commands_def) (auto simp: set_eq_iff)
  finally show ?thesis by simp
qed

lemma uint_range_surj: "(\<exists>w::'a::len word. x = uint w) \<longleftrightarrow> 0 \<le> x \<and> x < 2 ^ LENGTH('a)"
  by (auto intro: exI [of _ "word_of_int x :: 'a word"] simp: unsigned_of_int take_bit_int_eq_self)

lemma corpus_packet_accepted:
  assumes "command_packet f = Inr bs"
  shows "decode_command bs = None \<longleftrightarrow>
    \<not> (cf_valid_crc f \<and> cf_magic f = COMMAND_MAGIC \<and> cf_version f = COMMAND_VERSION \<and>
       cf_command_id f \<in> {0..4})"
proof -
  from assms have r: "0 \<le> cf_sequence f" "cf_sequence f < 2 ^ 32" "0 \<le> cf_timestamp_ms f"
      "cf_timestamp_ms f < 2 ^ 64" "0 \<le> cf_argument f" "cf_argument f < 2 ^ 32"
      by (auto simp: command_packet_def rbind_Inr_iff command_fmt_def split: if_splits)
  then have u: "\<exists>w::u32. cf_sequence f = uint w" "\<exists>w::u64. cf_timestamp_ms f = uint w" "\<exists>w::u32. cf_argument f = uint w"
    by (simp_all add: uint_range_surj)
  show ?thesis
    unfolding command_value_surj not_Some_eq [symmetric] corpus_packet_decode [OF assms]
    using u by (auto) (metis CommandPacket.select_convs)
qed
lemma all_ff_rejected: "decode_command (replicate 26 0xFF) = None"
proof (rule ccontr)
  assume "decode_command (replicate 26 0xFF) \<noteq> None"
  then have "field (replicate 26 0xFF) 0 4 = COMMAND_MAGIC" by (auto simp: decode_command_Some_iff)
  moreover have "field (replicate 26 0xFF) 0 4 = 0xFFFFFFFF" by code_simp
  ultimately show False by (simp add: COMMAND_MAGIC_def)
qed

lemma corpus_default_sel [simp]:
  "cf_sequence (corpus_default s t c a) = s" "cf_timestamp_ms (corpus_default s t c a) = t"
  "cf_command_id (corpus_default s t c a) = c" "cf_argument (corpus_default s t c a) = a"
  "cf_magic (corpus_default s t c a) = COMMAND_MAGIC" "cf_version (corpus_default s t c a) = COMMAND_VERSION"
  "cf_valid_crc (corpus_default s t c a)"
  by (simp_all add: corpus_default_def)

text \<open>The seed corpus of \<open>generate_command_fuzz_corpus.py\<close> is what its descriptions say.
  All fifteen seeds are built (no \<open>struct.error\<close>), under distinct names, and of them the
  flight decoder accepts exactly the five whose names begin with \<open>valid_\<close>.\<close>

theorem seed_corpus_classified:
  "\<exists>seeds. seed_cases = Inr seeds \<and> length seeds = 15 \<and> distinct (map fst seeds) \<and>
     map fst (filter (\<lambda>(_, bs, _). deserialize_command_packet bs \<noteq> Some None) seeds) =
       [''valid_noop'', ''valid_set_mode'', ''valid_inject_fault'', ''valid_request_telemetry'',
        ''valid_clear_fault'']"
proof -
  note cst = COMMAND_MAGIC_def COMMAND_VERSION_def
  obtain b0 where b0: "command_packet (corpus_default 0 0 0 0) = Inr b0" "length b0 = 26"
    using corpus_packet_total [of "corpus_default 0 0 0 0"] by (auto simp: cst)
  obtain b1 where b1: "command_packet (corpus_default 1 1000 1 1) = Inr b1" "length b1 = 26"
    using corpus_packet_total [of "corpus_default 1 1000 1 1"] by (auto simp: cst)
  obtain b2 where b2: "command_packet (corpus_default 2 2000 2 300) = Inr b2" "length b2 = 26"
    using corpus_packet_total [of "corpus_default 2 2000 2 300"] by (auto simp: cst)
  obtain b3 where b3: "command_packet (corpus_default 3 3000 3 0) = Inr b3" "length b3 = 26"
    using corpus_packet_total [of "corpus_default 3 3000 3 0"] by (auto simp: cst)
  obtain b4 where b4: "command_packet (corpus_default 4 4000 4 0) = Inr b4" "length b4 = 26"
    using corpus_packet_total [of "corpus_default 4 4000 4 0"] by (auto simp: cst)
  let ?f5 = "(corpus_default 5 5000 0 0)\<lparr>cf_valid_crc := False\<rparr>"
  obtain b5 where b5: "command_packet ?f5 = Inr b5" "length b5 = 26"
    using corpus_packet_total [of ?f5] by (auto simp: cst)
  let ?f6 = "(corpus_default 6 6000 0 0)\<lparr>cf_magic := 0xDEADBEEF\<rparr>"
  obtain b6 where b6: "command_packet ?f6 = Inr b6" "length b6 = 26"
    using corpus_packet_total [of ?f6] by (auto simp: cst)
  let ?f7 = "(corpus_default 7 7000 0 0)\<lparr>cf_version := 2\<rparr>"
  obtain b7 where b7: "command_packet ?f7 = Inr b7" "length b7 = 26"
    using corpus_packet_total [of ?f7] by (auto simp: cst)
  obtain b8 where b8: "command_packet (corpus_default 8 8000 99 0) = Inr b8" "length b8 = 26"
    using corpus_packet_total [of "corpus_default 8 8000 99 0"] by (auto simp: cst)
  note acc = b0(1) b1(1) b2(1) b3(1) b4(1) b5(1) b6(1) b7(1) b8(1)
  have size: "decode_command bs = None" if "length bs \<noteq> 26" for bs
    using that by (rule command_frame.wrong_size_rejected)
  have dec: "decode_command b0 \<noteq> None" "decode_command b1 \<noteq> None" "decode_command b2 \<noteq> None"
    "decode_command b3 \<noteq> None" "decode_command b4 \<noteq> None" "decode_command b5 = None"
    "decode_command b6 = None" "decode_command b7 = None" "decode_command b8 = None"
    by (simp_all add: acc [THEN corpus_packet_accepted] cst)
  have sizes: "decode_command [] = None" "decode_command [0] = None" "decode_command (butlast b1) = None"
    "decode_command (b1 @ [0]) = None" "decode_command (map word_of_nat [0..<64]) = None"
    using b1(2) by (simp_all add: size)
  show ?thesis
    using dec by (simp add: seed_cases_def acc deserialize_decode sizes all_ff_rejected del: upt_Suc upt_rec_numeral)
qed

section \<open>What the sender builds, the flight software decodes\<close>

lemma build_packet_decodes:
  assumes "build_packet now_ms s name a ts = Inr bs"
  shows "\<exists>p. decode_command bs = Some p \<and> uint (cp_sequence_number p) = s \<and>
     uint (cp_timestamp_ms p) = (case ts of None \<Rightarrow> now_ms | Some t \<Rightarrow> t) \<and>
     command_id_to_string (cp_command_id p) = name \<and> uint (cp_argument p) = a"
proof -
  let ?t = "case ts of None \<Rightarrow> now_ms | Some t \<Rightarrow> t"
  from assms obtain k payload where k: "dict_index COMMANDS name = Inr k"
    and pack: "struct_pack command_fmt [COMMAND_MAGIC, COMMAND_VERSION, s, ?t, k, a] = Inr payload"
    by (auto simp: build_packet_def rbind_Inr_iff simp del: struct_pack.simps)
  from k obtain c where name: "name = command_id_to_string c" using COMMANDS_lookup_iff by blast
  from pack have "0 \<le> s" "s < 2 ^ 32" "0 \<le> ?t" "?t < 2 ^ 64" "0 \<le> a" "a < 2 ^ 32"
    by (auto simp: command_fmt_def split: if_splits)
  then obtain sw :: u32 and tw :: u64 and aw :: u32 where w: "s = uint sw" "?t = uint tw" "a = uint aw"
    using uint_range_surj [of s, where 'a = 32] uint_range_surj [of ?t, where 'a = 64]
      uint_range_surj [of a, where 'a = 32] by auto
  let ?p = "\<lparr>cp_sequence_number = sw, cp_timestamp_ms = tw, cp_command_id = c, cp_argument = aw\<rparr> :: CommandPacket"
  have "build_packet now_ms s name a ts = build_packet now_ms s name a (Some ?t)"
    by (simp add: build_packet_def)
  then have "decode_command bs = Some ?p"
    using assms by (simp add: decode_command_build_iff [of _ _ now_ms] w name)
  then show ?thesis using w name by (intro exI [of _ ?p]) simp
qed

section \<open>Command arguments\<close>

text \<open>C36: what argument a command really carries. \<open>command_argument_to_mode\<close> and
  \<open>command_argument_to_fault\<close> narrow the 32-bit argument to 8 and to 16 bits before they
  compare it, so an argument is accepted as mode \<open>m\<close> (fault \<open>f\<close>) exactly when its low 8
  (low 16) bits are the enumerator's value. The out-of-range argument 257, for instance, is
  taken for NOMINAL and 65836 for CPU_OVERLOAD.\<close>

theorem argument_decoding_truncates:
  "(command_argument_to_mode w = Some m \<longleftrightarrow> unat w mod 2 ^ 8 = mode_value m) \<and>
   (command_argument_to_fault w = Some f \<longleftrightarrow> unat w mod 2 ^ 16 = fault_value f)"
  by (auto simp: command_argument_to_mode_def mode_cast_Some_iff command_argument_to_fault_def
      fault_cast_Some_iff unsigned_ucast_eq take_bit_eq_mod)

end
