(* ===== verification/Telemetry_Link.thy ===== *)
theory Telemetry_Link
  imports Frames Flight_Types Py_Strings
begin

text \<open>
  The downlink. In flight, \<open>fsw/src/telemetry_packet.cpp\<close> serializes a health packet (and can
  read it back); on the ground, \<open>tools/telemetry_receiver.py\<close> and
  \<open>tools/telemetry_dashboard.py\<close> decode and print it. A \<open>float\<close> is represented by its 32 bits,
  which is what \<open>memcpy\<close> puts on the wire; \<open>format_2f\<close> is Python's \<open>:.2f\<close> of that value.
\<close>

section \<open>Flight: telemetry_packet.cpp\<close>

record TelemetryPacket =
  tp_sequence_number :: u32
  tp_timestamp_ms :: u64
  tp_mode :: Mode
  tp_last_fault :: FaultCode
  tp_cpu_load_percent :: u32
  tp_memory_load_percent :: u32
  tp_heartbeat_count :: u32
  tp_last_command_sequence_number :: u32
  tp_last_command_id :: byte
  tp_last_command_status :: byte

definition CPP_TELEMETRY_MAGIC :: u32 where
  "CPP_TELEMETRY_MAGIC = 0x41535452"

definition CPP_TELEMETRY_VERSION :: u16 where
  "CPP_TELEMETRY_VERSION = 1"

definition CPP_TELEMETRY_PACKET_TYPE_HEALTH :: u16 where
  "CPP_TELEMETRY_PACKET_TYPE_HEALTH = 1"

definition CPP_TELEMETRY_PACKET_SIZE_BYTES :: nat where
  "CPP_TELEMETRY_PACKET_SIZE_BYTES = 43"

text \<open>\<open>telemetry_crc16_ccitt\<close> has the same body as \<open>command_crc16_ccitt\<close>.\<close>

definition telemetry_crc16_ccitt :: "byte list \<Rightarrow> u16" where
  "telemetry_crc16_ccitt bytes = foldl cpp_crc_byte 0xFFFF bytes"

definition serialize_telemetry_packet :: "TelemetryPacket \<Rightarrow> byte list" where
  "serialize_telemetry_packet packet =
     (let bytes = append_u32 CPP_TELEMETRY_MAGIC @ append_u16 CPP_TELEMETRY_VERSION @
            append_u16 CPP_TELEMETRY_PACKET_TYPE_HEALTH @
            append_u32 (tp_sequence_number packet) @ append_u64 (tp_timestamp_ms packet) @
            append_u8 (of_nat (mode_value (tp_mode packet))) @
            append_u16 (of_nat (fault_value (tp_last_fault packet))) @
            append_u32 (tp_cpu_load_percent packet) @ append_u32 (tp_memory_load_percent packet) @
            append_u32 (tp_heartbeat_count packet) @
            append_u32 (tp_last_command_sequence_number packet) @
            append_u8 (tp_last_command_id packet) @ append_u8 (tp_last_command_status packet);
          crc = telemetry_crc16_ccitt bytes
      in bytes @ append_u16 crc)"

text \<open>\<open>None\<close> is an exception out of \<open>at\<close>, \<open>Some None\<close> the return value \<open>false\<close>.\<close>

definition deserialize_telemetry_packet :: "byte list \<Rightarrow> TelemetryPacket option option" where
  "deserialize_telemetry_packet bytes =
     (if length bytes \<noteq> CPP_TELEMETRY_PACKET_SIZE_BYTES then Some None
      else
        let without_crc = take (length bytes - 2) bytes;
            expected_crc = telemetry_crc16_ccitt without_crc
        in Option.bind (read_u16 bytes (length bytes - 2)) (\<lambda>(actual_crc, _).
          if actual_crc \<noteq> expected_crc then Some None
          else
            Option.bind (read_u32 bytes 0) (\<lambda>(magic, offset).
            Option.bind (read_u16 bytes offset) (\<lambda>(version, offset).
            Option.bind (read_u16 bytes offset) (\<lambda>(packet_type, offset).
              if magic \<noteq> CPP_TELEMETRY_MAGIC then Some None
              else if version \<noteq> CPP_TELEMETRY_VERSION then Some None
              else if packet_type \<noteq> CPP_TELEMETRY_PACKET_TYPE_HEALTH then Some None
              else
                Option.bind (read_u32 bytes offset) (\<lambda>(sequence_number, offset).
                Option.bind (read_u64 bytes offset) (\<lambda>(timestamp_ms, offset).
                Option.bind (read_u8 bytes offset) (\<lambda>(raw_mode, offset).
                  case mode_cast raw_mode of None \<Rightarrow> Some None | Some mode \<Rightarrow>
                Option.bind (read_u16 bytes offset) (\<lambda>(raw_fault, offset).
                  case fault_cast raw_fault of None \<Rightarrow> Some None | Some last_fault \<Rightarrow>
                Option.bind (read_u32 bytes offset) (\<lambda>(cpu_load, offset).
                Option.bind (read_u32 bytes offset) (\<lambda>(memory_load, offset).
                Option.bind (read_u32 bytes offset) (\<lambda>(heartbeat_count, offset).
                Option.bind (read_u32 bytes offset) (\<lambda>(last_sequence, offset).
                Option.bind (read_u8 bytes offset) (\<lambda>(last_id, offset).
                Option.bind (read_u8 bytes offset) (\<lambda>(last_status, offset).
                  Some (Some \<lparr>tp_sequence_number = sequence_number, tp_timestamp_ms = timestamp_ms,
                    tp_mode = mode, tp_last_fault = last_fault, tp_cpu_load_percent = cpu_load,
                    tp_memory_load_percent = memory_load, tp_heartbeat_count = heartbeat_count,
                    tp_last_command_sequence_number = last_sequence, tp_last_command_id = last_id,
                    tp_last_command_status = last_status\<rparr>))))))))))))))))"

definition decode_telemetry :: "byte list \<Rightarrow> TelemetryPacket option" where
  "decode_telemetry bytes = Option.bind (deserialize_telemetry_packet bytes) id"

section \<open>Ground: telemetry_receiver.py\<close>

definition TELEMETRY_MAGIC :: int where
  "TELEMETRY_MAGIC = 0x41535452"

definition TELEMETRY_VERSION :: int where
  "TELEMETRY_VERSION = 1"

definition TELEMETRY_PACKET_TYPE_HEALTH :: int where
  "TELEMETRY_PACKET_TYPE_HEALTH = 1"

definition TELEMETRY_PACKET_SIZE_BYTES :: nat where
  "TELEMETRY_PACKET_SIZE_BYTES = 43"

definition MODE_NAMES :: "(int, string) dict" where
  "MODE_NAMES = [(0, ''BOOT''), (1, ''NOMINAL''), (2, ''DEGRADED_SENSOR''), (3, ''DEGRADED_PAYLOAD''),
     (4, ''SAFE''), (5, ''RECOVERY''), (6, ''STANDBY''), (7, ''TEST'')]"

definition FAULT_NAMES :: "(int, string) dict" where
  "FAULT_NAMES = [(0, ''NONE''), (100, ''SENSOR_TIMEOUT''), (101, ''SENSOR_INVALID_DATA''),
     (200, ''PAYLOAD_HEARTBEAT_TIMEOUT''), (300, ''CPU_OVERLOAD''), (301, ''MEMORY_OVERLOAD''),
     (400, ''TELEMETRY_SOCKET_FAILURE''), (500, ''COMMAND_BAD_CRC''), (501, ''COMMAND_UNKNOWN_ID''),
     (502, ''COMMAND_TIMEOUT''), (600, ''WATCHDOG_DEADLINE_MISS'')]"

definition COMMAND_NAMES :: "(int, string) dict" where
  "COMMAND_NAMES = [(0, ''NOOP''), (1, ''SET_MODE''), (2, ''INJECT_FAULT''), (3, ''REQUEST_TELEMETRY''),
     (4, ''CLEAR_FAULT'')]"

definition COMMAND_STATUSES :: "(int, string) dict" where
  "COMMAND_STATUSES = [(0, ''ACCEPTED''), (1, ''REJECTED_BAD_ARGUMENT''),
     (2, ''REJECTED_INVALID_TRANSITION''), (3, ''REJECTED_UNKNOWN_COMMAND''),
     (4, ''REJECTED_DUPLICATE_SEQUENCE''), (5, ''REJECTED_REPLAYED_SEQUENCE''),
     (6, ''REJECTED_STALE_TIMESTAMP''), (7, ''REJECTED_FUTURE_TIMESTAMP''),
     (8, ''REJECTED_GUARD_CONFIGURATION''), (9, ''REJECTED_UNAUTHORIZED''),
     (10, ''REJECTED_RECOVERY_LIMIT'')]"

definition unknown_name :: "int \<Rightarrow> string" where
  "unknown_name v = ''UNKNOWN('' @ str_int v @ '')''"

definition command_name :: "int \<Rightarrow> string" where
  "command_name command_id =
     (if command_id = 0 then ''NONE''
      else dict_get_default COMMAND_NAMES command_id (unknown_name command_id))"

definition telemetry_fmt :: "fmt list" where
  "telemetry_fmt = [FmtI, FmtH, FmtH, FmtI, FmtQ, FmtB, FmtH, FmtF, FmtF, FmtI, FmtI, FmtB, FmtB, FmtH]"

text \<open>\<open>struct.unpack_from\<close>: a buffer too short raises \<open>struct.error\<close>.\<close>

definition struct_unpack_from :: "fmt list \<Rightarrow> byte list \<Rightarrow> nat \<Rightarrow> int list result" where
  "struct_unpack_from fs data offset =
     (if offset + calcsize fs \<le> length data then Inr (unpack_items fs (drop offset data))
      else Inl (StructError ''unpack_from requires a larger buffer''))"

definition hex_str :: "nat \<Rightarrow> int \<Rightarrow> string" where
  "hex_str w v = ''0x'' @ zero_pad w (hex_nat (nat v))"

record health_fields =
  hf_sequence_number :: int
  hf_timestamp_ms :: int
  hf_mode :: int
  hf_last_fault :: int
  hf_cpu_load_percent :: int
  hf_memory_load_percent :: int
  hf_heartbeat_count :: int
  hf_last_command_sequence_number :: int
  hf_last_command_id :: int
  hf_last_command_status :: int

text \<open>The checks and the unpacking with which both \<open>decode_packet\<close> functions begin.\<close>

definition unpack_health :: "byte list \<Rightarrow> health_fields result" where
  "unpack_health data =
     (if length data \<noteq> TELEMETRY_PACKET_SIZE_BYTES
      then Inl (ValueError (''wrong packet size: '' @ str_nat (length data) @ '' bytes''))
      else
        let expected_crc = crc16_ccitt (take (length data - 2) data) in
        rbind (struct_unpack_from [FmtH] data (TELEMETRY_PACKET_SIZE_BYTES - 2)) (\<lambda>crcs.
        let actual_crc = hd crcs in
        if actual_crc \<noteq> expected_crc
        then Inl (ValueError (''bad CRC: expected '' @ hex_str 4 expected_crc @ '', got '' @ hex_str 4 actual_crc))
        else
          rbind (struct_unpack telemetry_fmt data) (\<lambda>items.
          case items of
            [magic, version, packet_type, sequence_number, timestamp_ms, mode, last_fault, cpu, mem,
             heartbeat_count, last_command_sequence_number, last_command_id, last_command_status, crc] \<Rightarrow>
              if magic \<noteq> TELEMETRY_MAGIC then Inl (ValueError (''bad magic: '' @ hex_str 8 magic))
              else if version \<noteq> TELEMETRY_VERSION
              then Inl (ValueError (''unsupported version: '' @ str_int version))
              else if packet_type \<noteq> TELEMETRY_PACKET_TYPE_HEALTH
              then Inl (ValueError (''unsupported packet type: '' @ str_int packet_type))
              else Inr \<lparr>hf_sequence_number = sequence_number, hf_timestamp_ms = timestamp_ms,
                hf_mode = mode, hf_last_fault = last_fault, hf_cpu_load_percent = cpu,
                hf_memory_load_percent = mem, hf_heartbeat_count = heartbeat_count,
                hf_last_command_sequence_number = last_command_sequence_number,
                hf_last_command_id = last_command_id, hf_last_command_status = last_command_status\<rparr>
          | _ \<Rightarrow> Inl (ValueError ''not enough values to unpack''))))"

text \<open>The dictionary \<open>decode_packet\<close> returns; the two programs differ in the type of the last entry.\<close>

record 's telemetry_dict =
  td_sequence_number :: int
  td_timestamp_ms :: int
  td_mode :: string
  td_last_fault :: string
  td_cpu_load_percent :: int
  td_memory_load_percent :: int
  td_heartbeat_count :: int
  td_last_command_sequence_number :: int
  td_last_command_id :: string
  td_last_command_status :: 's

definition decode_packet :: "byte list \<Rightarrow> string telemetry_dict result" where
  "decode_packet data =
     rbind (unpack_health data) (\<lambda>f.
       Inr \<lparr>td_sequence_number = hf_sequence_number f, td_timestamp_ms = hf_timestamp_ms f,
         td_mode = dict_get_default MODE_NAMES (hf_mode f) (unknown_name (hf_mode f)),
         td_last_fault = dict_get_default FAULT_NAMES (hf_last_fault f) (unknown_name (hf_last_fault f)),
         td_cpu_load_percent = hf_cpu_load_percent f, td_memory_load_percent = hf_memory_load_percent f,
         td_heartbeat_count = hf_heartbeat_count f,
         td_last_command_sequence_number = hf_last_command_sequence_number f,
         td_last_command_id = command_name (hf_last_command_id f),
         td_last_command_status = dict_get_default COMMAND_STATUSES (hf_last_command_status f)
           (unknown_name (hf_last_command_status f))\<rparr>)"

text \<open>Python's \<open>:.2f\<close> of a single-precision value given by its bits: the exact value,
  rounded half to even to hundredths.\<close>

definition round_half_even :: "nat \<Rightarrow> nat \<Rightarrow> nat" where
  "round_half_even n d =
     (let q = n div d; r = n mod d in
      if 2 * r < d then q else if 2 * r > d then Suc q else if even q then q else Suc q)"

definition float_hundredths :: "nat \<Rightarrow> nat \<Rightarrow> nat" where
  "float_hundredths e m =
     (let m' = (if e = 0 then m else m + 2 ^ 23); e' = (if e = 0 then 1 else e) in
      if e' \<ge> 150 then 100 * m' * 2 ^ (e' - 150) else round_half_even (100 * m') (2 ^ (150 - e')))"

definition format_2f :: "int \<Rightarrow> string" where
  "format_2f raw =
     (let r = nat raw; e = r div 2 ^ 23 mod 256; m = r mod 2 ^ 23;
          sign = (if r div 2 ^ 31 mod 2 = 1 then ''-'' else '''')
      in if e = 255 then (if m = 0 then sign @ ''inf'' else ''nan'')
         else let n = float_hundredths e m in
           sign @ str_nat (n div 100) @ ''.'' @ zero_pad 2 (str_nat (n mod 100)))"

definition py_repr_address :: "string \<times> int \<Rightarrow> string" where
  "py_repr_address a = ''('' @ [CHR 39] @ fst a @ [CHR 39] @ '', '' @ str_int (snd a) @ '')''"

text \<open>One turn of the \<open>while True\<close> loop of \<open>main\<close>: the line printed for one datagram.\<close>

definition receiver_line :: "string \<times> int \<Rightarrow> byte list \<Rightarrow> string result" where
  "receiver_line address data =
     (case decode_packet data of
        Inl (ValueError e) \<Rightarrow> Inr (py_repr_address address @ '': rejected packet: '' @ e)
      | Inl e \<Rightarrow> Inl e
      | Inr packet \<Rightarrow> Inr (py_repr_address address @ '': '' @
          ''seq='' @ str_int (td_sequence_number packet) @
          '' t_ms='' @ str_int (td_timestamp_ms packet) @
          '' mode='' @ td_mode packet @
          '' fault='' @ td_last_fault packet @
          '' cpu='' @ format_2f (td_cpu_load_percent packet) @ ''%'' @
          '' mem='' @ format_2f (td_memory_load_percent packet) @ ''%'' @
          '' hb='' @ str_int (td_heartbeat_count packet) @
          '' ack_seq='' @ str_int (td_last_command_sequence_number packet) @
          '' ack_cmd='' @ td_last_command_id packet @
          '' ack_status='' @ td_last_command_status packet))"

section \<open>Ground: telemetry_dashboard.py\<close>

definition DASHBOARD_MODES :: "(int, string) dict" where
  "DASHBOARD_MODES = [(0, ''BOOT''), (1, ''NOMINAL''), (2, ''DEGRADED_SENSOR''), (3, ''DEGRADED_PAYLOAD''),
     (4, ''SAFE''), (5, ''RECOVERY'')]"

definition dashboard_decode_packet :: "byte list \<Rightarrow> int telemetry_dict result" where
  "dashboard_decode_packet data =
     rbind (unpack_health data) (\<lambda>f.
       Inr \<lparr>td_sequence_number = hf_sequence_number f, td_timestamp_ms = hf_timestamp_ms f,
         td_mode = dict_get_default DASHBOARD_MODES (hf_mode f) (unknown_name (hf_mode f)),
         td_last_fault = dict_get_default FAULT_NAMES (hf_last_fault f) (unknown_name (hf_last_fault f)),
         td_cpu_load_percent = hf_cpu_load_percent f, td_memory_load_percent = hf_memory_load_percent f,
         td_heartbeat_count = hf_heartbeat_count f,
         td_last_command_sequence_number = hf_last_command_sequence_number f,
         td_last_command_id = command_name (hf_last_command_id f),
         td_last_command_status = hf_last_command_status f\<rparr>)"

definition dashboard_screen :: "string \<times> int \<Rightarrow> byte list \<Rightarrow> string list result" where
  "dashboard_screen address data =
     (case dashboard_decode_packet data of
        Inl (ValueError e) \<Rightarrow> Inr [py_repr_address address @ '': rejected packet: '' @ e]
      | Inl e \<Rightarrow> Inl e
      | Inr packet \<Rightarrow> Inr [
          [CHR 27] @ ''[2J'' @ [CHR 27] @ ''[HAstraSim-FSW Live Dashboard'',
          replicate 32 (CHR ''=''),
          ''Source: '' @ fst address @ '':'' @ str_int (snd address),
          ''Seq:    '' @ str_int (td_sequence_number packet),
          ''Mode:   '' @ td_mode packet,
          ''Fault:  '' @ td_last_fault packet,
          ''CPU:    '' @ format_2f (td_cpu_load_percent packet) @ ''%'',
          ''Mem:    '' @ format_2f (td_memory_load_percent packet) @ ''%'',
          ''HB:     '' @ str_int (td_heartbeat_count packet),
          replicate 32 (CHR ''-''),
          ''Ack seq:    '' @ str_int (td_last_command_sequence_number packet),
          ''Ack command:'' @ td_last_command_id packet,
          ''Ack status: '' @ str_int (td_last_command_status packet)])"

section \<open>The decoders on a frame\<close>

lemma calcsize_telemetry_fmt [simp]: "calcsize telemetry_fmt = 43"
  by (simp add: telemetry_fmt_def)

lemma telemetry_crc: "telemetry_crc16_ccitt = command_crc16_ccitt"
  by (simp add: fun_eq_iff telemetry_crc16_ccitt_def command_crc16_ccitt_def)

lemma telemetry_constants:
  "uint CPP_TELEMETRY_MAGIC = TELEMETRY_MAGIC" "uint CPP_TELEMETRY_VERSION = TELEMETRY_VERSION"
  "uint CPP_TELEMETRY_PACKET_TYPE_HEALTH = TELEMETRY_PACKET_TYPE_HEALTH"
  by (simp_all add: CPP_TELEMETRY_MAGIC_def TELEMETRY_MAGIC_def CPP_TELEMETRY_VERSION_def
      TELEMETRY_VERSION_def CPP_TELEMETRY_PACKET_TYPE_HEALTH_def TELEMETRY_PACKET_TYPE_HEALTH_def)

lemma field_byte: "offset < length bs \<Longrightarrow> field bs offset 1 = uint (bs ! offset)"
  by (simp add: field_def take_drop_nth)

lemma read_u8_field:
  "offset + 1 \<le> length bs \<Longrightarrow> read_u8 bs offset = Some (word_of_int (field bs offset 1), offset + 1)"
  by (simp add: read_u8_eq field_byte [simplified])

lemma field_word8: "(word_of_int (field bs offset 1) :: byte) = w \<longleftrightarrow> field bs offset 1 = uint w"
  using field_bound [of bs offset 1] by (intro word_of_int_eq_uint) simp_all

definition health_header :: "byte list \<Rightarrow> bool" where
  "health_header bs \<longleftrightarrow> length bs = 43 \<and> field bs 41 2 = crc16_ccitt (take 41 bs) \<and>
     field bs 0 4 = TELEMETRY_MAGIC \<and> field bs 4 2 = TELEMETRY_VERSION \<and>
     field bs 6 2 = TELEMETRY_PACKET_TYPE_HEALTH"

definition health_of :: "byte list \<Rightarrow> health_fields" where
  "health_of bs = \<lparr>hf_sequence_number = field bs 8 4, hf_timestamp_ms = field bs 12 8,
     hf_mode = field bs 20 1, hf_last_fault = field bs 21 2, hf_cpu_load_percent = field bs 23 4,
     hf_memory_load_percent = field bs 27 4, hf_heartbeat_count = field bs 31 4,
     hf_last_command_sequence_number = field bs 35 4, hf_last_command_id = field bs 39 1,
     hf_last_command_status = field bs 40 1\<rparr>"

lemma unpack_health_Inr_iff: "unpack_health bs = Inr h \<longleftrightarrow> health_header bs \<and> h = health_of bs"
proof (cases "length bs = 43")
  case True
  have items: "struct_unpack telemetry_fmt bs = Inr [field bs 0 4, field bs 4 2, field bs 6 2,
      field bs 8 4, field bs 12 8, field bs 20 1, field bs 21 2, field bs 23 4, field bs 27 4,
      field bs 31 4, field bs 35 4, field bs 39 1, field bs 40 1, field bs 41 2]"
    using True field_items_drop [of 0 telemetry_fmt bs]
    by (simp add: struct_unpack_def telemetry_fmt_def del: unpack_items.simps)
  have crc: "struct_unpack_from [FmtH] bs 41 = Inr [field bs 41 2]"
    using True by (simp add: struct_unpack_from_def field_def)
  show ?thesis
    using True by (auto simp: unpack_health_def TELEMETRY_PACKET_SIZE_BYTES_def Let_def crc items
        health_header_def health_of_def)
next
  case False
  then show ?thesis by (simp add: unpack_health_def TELEMETRY_PACKET_SIZE_BYTES_def health_header_def)
qed

lemma unpack_health_error: "unpack_health bs = Inl e \<Longrightarrow> \<exists>msg. e = ValueError msg"
proof (cases "length bs = 43")
  case True
  have items: "\<exists>vs. struct_unpack telemetry_fmt bs = Inr vs" "\<exists>v. struct_unpack_from [FmtH] bs 41 = Inr v"
    using True by (simp_all add: struct_unpack_def struct_unpack_from_def)
  moreover assume "unpack_health bs = Inl e"
  ultimately show ?thesis
    using True by (auto simp: unpack_health_def TELEMETRY_PACKET_SIZE_BYTES_def Let_def
        split: list.splits if_splits)
qed (auto simp: unpack_health_def TELEMETRY_PACKET_SIZE_BYTES_def)

lemma mode_cast_field:
  "mode_cast (word_of_int (field bs offset 1) :: byte) = Some m
     \<longleftrightarrow> field bs offset 1 = int (mode_value m)"
proof -
  have "int (unat (word_of_int (field bs offset 1) :: byte)) = field bs offset 1"
    using field_word8 [of bs offset "word_of_int (field bs offset 1)"] by simp
  then show ?thesis unfolding mode_cast_Some_iff ucast_id by (rule int_unat_eq_iff)
qed

lemma fault_cast_field:
  "fault_cast (word_of_int (field bs offset 2) :: u16) = Some f
     \<longleftrightarrow> field bs offset 2 = int (fault_value f)"
  unfolding fault_cast_Some_iff ucast_id by (rule int_unat_eq_iff, rule unat_field16)

definition telemetry_of :: "Mode \<Rightarrow> FaultCode \<Rightarrow> byte list \<Rightarrow> TelemetryPacket" where
  "telemetry_of m f bs = \<lparr>tp_sequence_number = word_of_int (field bs 8 4),
     tp_timestamp_ms = word_of_int (field bs 12 8), tp_mode = m, tp_last_fault = f,
     tp_cpu_load_percent = word_of_int (field bs 23 4), tp_memory_load_percent = word_of_int (field bs 27 4),
     tp_heartbeat_count = word_of_int (field bs 31 4),
     tp_last_command_sequence_number = word_of_int (field bs 35 4),
     tp_last_command_id = word_of_int (field bs 39 1), tp_last_command_status = word_of_int (field bs 40 1)\<rparr>"

lemma deserialize_telemetry_eq:
  assumes "length bs = 43"
  shows "deserialize_telemetry_packet bs = Some
     (if health_header bs
      then (case mode_cast (word_of_int (field bs 20 1) :: byte) of None \<Rightarrow> None
            | Some m \<Rightarrow> map_option (\<lambda>f. telemetry_of m f bs) (fault_cast (word_of_int (field bs 21 2) :: u16)))
      else None)"
proof -
  have reads: "read_u16 bs 41 = Some (word_of_int (field bs 41 2), 43)"
    "read_u32 bs 0 = Some (word_of_int (field bs 0 4), 4)"
    "read_u16 bs 4 = Some (word_of_int (field bs 4 2), 6)"
    "read_u16 bs 6 = Some (word_of_int (field bs 6 2), 8)"
    "read_u32 bs 8 = Some (word_of_int (field bs 8 4), 12)"
    "read_u64 bs 12 = Some (word_of_int (field bs 12 8), 20)"
    "read_u8 bs 20 = Some (word_of_int (field bs 20 1), 21)"
    "read_u16 bs 21 = Some (word_of_int (field bs 21 2), 23)"
    "read_u32 bs 23 = Some (word_of_int (field bs 23 4), 27)"
    "read_u32 bs 27 = Some (word_of_int (field bs 27 4), 31)"
    "read_u32 bs 31 = Some (word_of_int (field bs 31 4), 35)"
    "read_u32 bs 35 = Some (word_of_int (field bs 35 4), 39)"
    "read_u8 bs 39 = Some (word_of_int (field bs 39 1), 40)"
    "read_u8 bs 40 = Some (word_of_int (field bs 40 1), 41)"
    using assms read_field_eq(1) [of 41 bs] read_field_eq(2) [of 0 bs] read_field_eq(1) [of 4 bs]
      read_field_eq(1) [of 6 bs] read_field_eq(2) [of 8 bs] read_field_eq(3) [of 12 bs]
      read_u8_field [of 20 bs] read_field_eq(1) [of 21 bs] read_field_eq(2) [of 23 bs]
      read_field_eq(2) [of 27 bs] read_field_eq(2) [of 31 bs] read_field_eq(2) [of 35 bs]
      read_u8_field [of 39 bs] read_u8_field [of 40 bs] by simp_all
  have guards: "word_of_int (field bs 41 2) = telemetry_crc16_ccitt (take 41 bs) \<longleftrightarrow>
      field bs 41 2 = crc16_ccitt (take 41 bs)"
    "word_of_int (field bs 0 4) = CPP_TELEMETRY_MAGIC \<longleftrightarrow> field bs 0 4 = TELEMETRY_MAGIC"
    "word_of_int (field bs 4 2) = CPP_TELEMETRY_VERSION \<longleftrightarrow> field bs 4 2 = TELEMETRY_VERSION"
    "word_of_int (field bs 6 2) = CPP_TELEMETRY_PACKET_TYPE_HEALTH \<longleftrightarrow>
      field bs 6 2 = TELEMETRY_PACKET_TYPE_HEALTH"
    by (simp_all only: field_word16 field_word32 telemetry_constants crc16_ccitt_uint telemetry_crc)
  have size: "length bs - 2 = 41" "\<not> length bs \<noteq> CPP_TELEMETRY_PACKET_SIZE_BYTES"
    using assms by (simp_all add: CPP_TELEMETRY_PACKET_SIZE_BYTES_def)
  show ?thesis
    unfolding deserialize_telemetry_packet_def Let_def size(1) if_not_P [OF size(2)] reads
      Option.bind.simps prod.case guards health_header_def telemetry_of_def
    by (cases "mode_cast (word_of_int (field bs 20 1) :: byte)";
        cases "fault_cast (word_of_int (field bs 21 2) :: u16)")
      (simp_all only: option.case reads Option.bind.simps prod.case option.map not_not simp_thms assms
        split: if_split, blast+)
qed

lemma telemetry_eq_iff:
  "telemetry_of m f bs = p \<longleftrightarrow> field bs 8 4 = uint (tp_sequence_number p) \<and>
     field bs 12 8 = uint (tp_timestamp_ms p) \<and> m = tp_mode p \<and> f = tp_last_fault p \<and>
     field bs 23 4 = uint (tp_cpu_load_percent p) \<and> field bs 27 4 = uint (tp_memory_load_percent p) \<and>
     field bs 31 4 = uint (tp_heartbeat_count p) \<and>
     field bs 35 4 = uint (tp_last_command_sequence_number p) \<and>
     field bs 39 1 = uint (tp_last_command_id p) \<and> field bs 40 1 = uint (tp_last_command_status p)"
  unfolding telemetry_of_def field_word32 [symmetric] field_word64 [symmetric] field_word8 [symmetric]
  by (cases p) (simp only: TelemetryPacket.simps TelemetryPacket.ext_inject, blast)

lemma deserialize_telemetry_no_throw: "deserialize_telemetry_packet bs = Some (decode_telemetry bs)"
  by (cases "length bs = 43")
    (simp_all add: decode_telemetry_def deserialize_telemetry_eq,
     simp add: deserialize_telemetry_packet_def CPP_TELEMETRY_PACKET_SIZE_BYTES_def)

lemma decode_telemetry_Some_iff:
  "decode_telemetry bs = Some p \<longleftrightarrow>
     health_header bs \<and> telemetry_of (tp_mode p) (tp_last_fault p) bs = p \<and>
     field bs 20 1 = int (mode_value (tp_mode p)) \<and> field bs 21 2 = int (fault_value (tp_last_fault p))"
proof (cases "length bs = 43")
  case True
  have sel: "tp_mode (telemetry_of m f bs) = m" "tp_last_fault (telemetry_of m f bs) = f" for m f
    by (simp_all add: telemetry_of_def)
  have casts: "(case mo of None \<Rightarrow> None | Some m \<Rightarrow> map_option (\<lambda>f. telemetry_of m f bs) fo) = Some p \<longleftrightarrow>
      (\<exists>m f. mo = Some m \<and> fo = Some f \<and> telemetry_of m f bs = p)" for mo fo
    by (auto split: option.splits)
  show ?thesis
    unfolding decode_telemetry_def deserialize_telemetry_eq [OF True] Option.bind.simps id_apply
    by (simp only: casts mode_cast_field fault_cast_field option.distinct simp_thms split: if_split)
      (metis sel)
next
  case False
  then show ?thesis
    by (simp add: decode_telemetry_def deserialize_telemetry_packet_def CPP_TELEMETRY_PACKET_SIZE_BYTES_def
        health_header_def)
qed

section \<open>Serialization and its inverse\<close>

definition payload_items :: "TelemetryPacket \<Rightarrow> int list" where
  "payload_items p = [TELEMETRY_MAGIC, TELEMETRY_VERSION, TELEMETRY_PACKET_TYPE_HEALTH,
     uint (tp_sequence_number p), uint (tp_timestamp_ms p), int (mode_value (tp_mode p)),
     int (fault_value (tp_last_fault p)), uint (tp_cpu_load_percent p), uint (tp_memory_load_percent p),
     uint (tp_heartbeat_count p), uint (tp_last_command_sequence_number p),
     uint (tp_last_command_id p), uint (tp_last_command_status p)]"

lemma uint_lt_words:
  "uint (a :: byte) < 256" "uint (b :: u16) < 65536" "uint (c :: u32) < 4294967296"
  "uint (d :: u64) < 18446744073709551616"
  using uint_lt2p [of a] uint_lt2p [of b] uint_lt2p [of c] uint_lt2p [of d] by simp_all

lemma serialize_telemetry_pack:
  "\<exists>payload. struct_pack (butlast telemetry_fmt) (payload_items p) = Inr payload \<and> length payload = 41 \<and>
     serialize_telemetry_packet p = payload @ le_bytes 2 (crc16_ccitt payload)"
proof -
  have small: "uint (of_nat (mode_value (tp_mode p)) :: byte) = int (mode_value (tp_mode p))"
    "uint (of_nat (fault_value (tp_last_fault p)) :: u16) = int (fault_value (tp_last_fault p))"
    "mode_value (tp_mode p) < 256" "fault_value (tp_last_fault p) < 65536"
    using enum_values_bounded(1) [of "tp_mode p"] enum_values_bounded(2) [of "tp_last_fault p"]
    by (simp_all add: unsigned_of_nat take_bit_nat_eq_self)
  let ?payload = "le_bytes 4 TELEMETRY_MAGIC @ le_bytes 2 TELEMETRY_VERSION @
    le_bytes 2 TELEMETRY_PACKET_TYPE_HEALTH @ le_bytes 4 (uint (tp_sequence_number p)) @
    le_bytes 8 (uint (tp_timestamp_ms p)) @ le_bytes 1 (int (mode_value (tp_mode p))) @
    le_bytes 2 (int (fault_value (tp_last_fault p))) @ le_bytes 4 (uint (tp_cpu_load_percent p)) @
    le_bytes 4 (uint (tp_memory_load_percent p)) @ le_bytes 4 (uint (tp_heartbeat_count p)) @
    le_bytes 4 (uint (tp_last_command_sequence_number p)) @ le_bytes 1 (uint (tp_last_command_id p)) @
    le_bytes 1 (uint (tp_last_command_status p))"
  have "struct_pack (butlast telemetry_fmt) (payload_items p) = Inr ?payload"
    using small(3,4) uint_lt_words
    by (simp add: payload_items_def telemetry_fmt_def TELEMETRY_MAGIC_def TELEMETRY_VERSION_def
        TELEMETRY_PACKET_TYPE_HEALTH_def del: le_bytes.simps)
  moreover have "serialize_telemetry_packet p = ?payload @ le_bytes 2 (crc16_ccitt ?payload)"
    by (simp add: serialize_telemetry_packet_def Let_def append_u8_le append_u16_le append_u32_le
        append_u64_le small(1,2) telemetry_constants telemetry_crc crc16_ccitt_uint del: le_bytes.simps)
  ultimately show ?thesis by auto
qed

lemma telemetry_frame_items:
  assumes "length bs = 43"
  shows "field_items 0 (butlast telemetry_fmt) bs = payload_items p \<longleftrightarrow>
     field bs 0 4 = TELEMETRY_MAGIC \<and> field bs 4 2 = TELEMETRY_VERSION \<and>
     field bs 6 2 = TELEMETRY_PACKET_TYPE_HEALTH \<and>
     telemetry_of (tp_mode p) (tp_last_fault p) bs = p \<and>
     field bs 20 1 = int (mode_value (tp_mode p)) \<and> field bs 21 2 = int (fault_value (tp_last_fault p))"
  unfolding telemetry_eq_iff payload_items_def telemetry_fmt_def by auto

lemma decode_telemetry_serialize_iff:
  "decode_telemetry bs = Some p \<longleftrightarrow> serialize_telemetry_packet p = bs"
proof -
  obtain payload where pack: "struct_pack (butlast telemetry_fmt) (payload_items p) = Inr payload"
    and len: "length payload = 41"
    and ser: "serialize_telemetry_packet p = payload @ le_bytes 2 (crc16_ccitt payload)"
    using serialize_telemetry_pack by blast
  show ?thesis
  proof
    assume dec: "decode_telemetry bs = Some p"
    then have size: "length bs = 43" and crc: "field bs 41 2 = crc16_ccitt (take 41 bs)"
      by (simp_all add: decode_telemetry_Some_iff health_header_def)
    from dec size have "field_items 0 (butlast telemetry_fmt) bs = payload_items p"
      unfolding decode_telemetry_Some_iff health_header_def by (simp only: telemetry_frame_items)
    then have "payload = take 41 bs"
      using pack field_items_pack [of "butlast telemetry_fmt" bs] size by (simp add: telemetry_fmt_def)
    moreover have "drop 41 bs = le_bytes 2 (field bs 41 2)" using last_field [of bs 41 2] size by simp
    ultimately show "serialize_telemetry_packet p = bs"
      unfolding ser crc by (metis append_take_drop_id)
  next
    assume "serialize_telemetry_packet p = bs"
    then have bs: "bs = payload @ le_bytes 2 (crc16_ccitt payload)" by (simp add: ser)
    then have size: "length bs = 43" using len by simp
    have "field_items 0 (butlast telemetry_fmt) bs = payload_items p"
      unfolding bs by (rule pack_field_items [OF pack])
    moreover have "field bs 41 2 = crc16_ccitt (take 41 bs)"
      using field_split [of payload 41 "le_bytes 2 (crc16_ccitt payload)" 2 "[]"] len
        crc16_ccitt_range [of payload] by (simp add: bs le_value_le_bytes)
    ultimately show "decode_telemetry bs = Some p"
      unfolding telemetry_frame_items [OF size] decode_telemetry_Some_iff health_header_def
      using size by blast
  qed
qed

section \<open>The three decoders as frame decoders\<close>

definition to_option :: "'a result \<Rightarrow> 'a option" where
  "to_option r = (case r of Inl _ \<Rightarrow> None | Inr x \<Rightarrow> Some x)"

lemma to_option_Some_iff: "to_option r = Some x \<longleftrightarrow> r = Inr x"
  by (auto simp: to_option_def split: sum.splits)

lemma to_option_None_iff: "to_option r = None \<longleftrightarrow> (\<exists>e. r = Inl e)"
  by (auto simp: to_option_def split: sum.splits)

lemma health_header_frame:
  assumes "health_header bs"
  shows "length bs = 43" "drop 41 bs = le_bytes 2 (crc16_ccitt (take 41 bs))"
proof -
  show len: "length bs = 43" using assms by (simp add: health_header_def)
  show "drop 41 bs = le_bytes 2 (crc16_ccitt (take 41 bs))"
    using assms last_field [of bs 41 2] len by (simp add: health_header_def)
qed

interpretation telemetry_frame: crc_frame 43 decode_telemetry
  by unfold_locales (auto simp: decode_telemetry_Some_iff health_header_frame)

interpretation receiver_frame: crc_frame 43 "\<lambda>bs. to_option (decode_packet bs)"
  by unfold_locales (auto simp: to_option_Some_iff decode_packet_def rbind_Inr_iff unpack_health_Inr_iff
      health_header_frame)

interpretation dashboard_frame: crc_frame 43 "\<lambda>bs. to_option (dashboard_decode_packet bs)"
  by unfold_locales (auto simp: to_option_Some_iff dashboard_decode_packet_def rbind_Inr_iff
      unpack_health_Inr_iff health_header_frame)

section \<open>Names\<close>

lemma MODE_NAMES_lookup:
  "dict_get_default MODE_NAMES (int (mode_value m)) d = mode_to_string m"
  by (cases m) (simp_all add: MODE_NAMES_def dict_get_default_def)

lemma FAULT_NAMES_lookup:
  "dict_get_default FAULT_NAMES (int (fault_value f)) d = fault_to_string f"
  by (cases f) (simp_all add: FAULT_NAMES_def dict_get_default_def)

lemma COMMAND_STATUSES_lookup:
  "dict_get_default COMMAND_STATUSES (int (status_value s)) d = command_status_to_string s"
  by (cases s) (simp_all add: COMMAND_STATUSES_def dict_get_default_def)

lemma command_name_lookup:
  "command_name (int (command_value c)) = (if c = NOOP then ''NONE'' else command_id_to_string c)"
  by (cases c) (simp_all add: command_name_def COMMAND_NAMES_def dict_get_default_def)

lemma MODE_NAMES_known:
  assumes "dict_get_default MODE_NAMES v (unknown_name v) = mode_to_string m"
  shows "v = int (mode_value m)"
proof (cases "map_of MODE_NAMES v")
  case None
  with assms have "unknown_name v = mode_to_string m" by (simp add: dict_get_default_def)
  then show ?thesis by (cases m) (simp_all add: unknown_name_def)
next
  case (Some s)
  then have "(v, s) \<in> set MODE_NAMES" by (rule map_of_SomeD)
  with Some assms show ?thesis by (cases m) (auto simp: MODE_NAMES_def dict_get_default_def)
qed

lemma FAULT_NAMES_known:
  assumes "dict_get_default FAULT_NAMES v (unknown_name v) = fault_to_string f"
  shows "v = int (fault_value f)"
proof (cases "map_of FAULT_NAMES v")
  case None
  with assms have "unknown_name v = fault_to_string f" by (simp add: dict_get_default_def)
  then show ?thesis by (cases f) (simp_all add: unknown_name_def)
next
  case (Some s)
  then have "(v, s) \<in> set FAULT_NAMES" by (rule map_of_SomeD)
  with Some assms show ?thesis by (cases f) (auto simp: FAULT_NAMES_def dict_get_default_def)
qed

section \<open>Properties of the downlink\<close>

text \<open>C31: the flight software's telemetry decoder inverts its serializer and accepts nothing
  else: \<open>deserialize_telemetry_packet\<close> returns true with packet \<open>p\<close> if and only if the bytes are
  \<open>serialize_telemetry_packet p\<close>; on every other byte string it returns false without an
  out-of-range access.\<close>

theorem telemetry_decodes_exactly_serialized:
  "deserialize_telemetry_packet bs = Some (Some p) \<longleftrightarrow> serialize_telemetry_packet p = bs"
  by (simp add: deserialize_telemetry_no_throw decode_telemetry_serialize_iff)

lemma decode_serialized:
  "decode_packet (serialize_telemetry_packet (p\<lparr>tp_last_command_id := of_nat (command_value c),
       tp_last_command_status := of_nat (status_value st)\<rparr>)) =
   Inr \<lparr>td_sequence_number = uint (tp_sequence_number p), td_timestamp_ms = uint (tp_timestamp_ms p),
     td_mode = mode_to_string (tp_mode p), td_last_fault = fault_to_string (tp_last_fault p),
     td_cpu_load_percent = uint (tp_cpu_load_percent p),
     td_memory_load_percent = uint (tp_memory_load_percent p),
     td_heartbeat_count = uint (tp_heartbeat_count p),
     td_last_command_sequence_number = uint (tp_last_command_sequence_number p),
     td_last_command_id = (if c = NOOP then ''NONE'' else command_id_to_string c),
     td_last_command_status = command_status_to_string st\<rparr>"
proof -
  let ?p = "p\<lparr>tp_last_command_id := of_nat (command_value c), tp_last_command_status := of_nat (status_value st)\<rparr>"
  let ?bs = "serialize_telemetry_packet ?p"
  have "decode_telemetry ?bs = Some ?p" by (simp add: decode_telemetry_serialize_iff)
  then have h: "health_header ?bs" and f: "telemetry_of (tp_mode ?p) (tp_last_fault ?p) ?bs = ?p"
    "field ?bs 20 1 = int (mode_value (tp_mode ?p))" "field ?bs 21 2 = int (fault_value (tp_last_fault ?p))"
    unfolding decode_telemetry_Some_iff by blast+
  have small: "uint (of_nat (command_value c) :: byte) = int (command_value c)"
    "uint (of_nat (status_value st) :: byte) = int (status_value st)"
    using enum_values_bounded(3) [of c] enum_values_bounded(4) [of st]
    by (simp_all add: unsigned_of_nat take_bit_nat_eq_self)
  have "unpack_health ?bs = Inr (health_of ?bs)" using h by (simp add: unpack_health_Inr_iff)
  moreover note f(1) [unfolded telemetry_eq_iff] f(2,3)
  ultimately show ?thesis
    by (simp add: decode_packet_def health_of_def small MODE_NAMES_lookup FAULT_NAMES_lookup
        COMMAND_STATUSES_lookup command_name_lookup del: One_nat_def)
qed

text \<open>C32: what the ground shows is what the flight software reported. For every packet with
  an enumerated last command and status, \<open>decode_packet\<close> of \<open>telemetry_receiver.py\<close> succeeds on
  the serialized bytes and returns every field: numbers as numbers, the mode, fault and status by
  the names the flight software uses for them, and the command by its name, with the one
  exception that command 0 (NOOP) is shown as NONE.\<close>

theorem receiver_shows_flight_telemetry:
  "decode_packet (serialize_telemetry_packet (p\<lparr>tp_last_command_id := of_nat (command_value c),
       tp_last_command_status := of_nat (status_value st)\<rparr>)) =
   Inr \<lparr>td_sequence_number = uint (tp_sequence_number p), td_timestamp_ms = uint (tp_timestamp_ms p),
     td_mode = mode_to_string (tp_mode p), td_last_fault = fault_to_string (tp_last_fault p),
     td_cpu_load_percent = uint (tp_cpu_load_percent p),
     td_memory_load_percent = uint (tp_memory_load_percent p),
     td_heartbeat_count = uint (tp_heartbeat_count p),
     td_last_command_sequence_number = uint (tp_last_command_sequence_number p),
     td_last_command_id = (if c = NOOP then ''NONE'' else command_id_to_string c),
     td_last_command_status = command_status_to_string st\<rparr>"
  by (rule decode_serialized)

text \<open>How the two decoders of the same frame relate. The flight decoder accepts a byte
  string exactly when \<open>telemetry_receiver.py\<close> accepts it and shows a mode and a fault the flight
  software knows: the receiver is more lenient only on those two fields, where it shows
  \<open>UNKNOWN(n)\<close> instead of rejecting the packet.\<close>

theorem receiver_accepts_flight_frames:
  "(\<exists>p. deserialize_telemetry_packet bs = Some (Some p)) \<longleftrightarrow>
     (\<exists>v. decode_packet bs = Inr v \<and> td_mode v \<in> mode_to_string ` set all_modes \<and>
          td_last_fault v \<in> fault_to_string ` set all_faults)"
proof -
  have "(\<exists>p. deserialize_telemetry_packet bs = Some (Some p)) \<longleftrightarrow> health_header bs \<and>
      (\<exists>m f. field bs 20 1 = int (mode_value m) \<and> field bs 21 2 = int (fault_value f))"
  proof -
    have sel: "tp_mode (telemetry_of m f bs) = m" "tp_last_fault (telemetry_of m f bs) = f" for m f
      by (simp_all add: telemetry_of_def)
    show ?thesis
      unfolding deserialize_telemetry_no_throw option.inject decode_telemetry_Some_iff
      by (metis sel)
  qed
  also have "\<dots> \<longleftrightarrow> health_header bs \<and>
      (\<exists>m. dict_get_default MODE_NAMES (field bs 20 1) (unknown_name (field bs 20 1)) = mode_to_string m) \<and>
      (\<exists>f. dict_get_default FAULT_NAMES (field bs 21 2) (unknown_name (field bs 21 2)) = fault_to_string f)"
    using MODE_NAMES_known FAULT_NAMES_known MODE_NAMES_lookup FAULT_NAMES_lookup by metis
  also have "\<dots> \<longleftrightarrow> (\<exists>v. decode_packet bs = Inr v \<and> td_mode v \<in> mode_to_string ` set all_modes \<and>
      td_last_fault v \<in> fault_to_string ` set all_faults)"
    by (auto simp: decode_packet_def rbind_Inr_iff unpack_health_Inr_iff health_of_def image_iff)
  finally show ?thesis .
qed

text \<open>C33: corrupted telemetry is never shown. If the receiver (or the dashboard) accepts a
  frame, then after any change of a single byte, or of two adjacent bytes other than the last
  payload byte with the first CRC byte, it raises \<open>ValueError\<close> and so prints a rejection line.\<close>

theorem downlink_corruption_rejected:
  assumes "decode_packet (pre @ old @ post) = Inr v"
    and "length new = length old" and "new \<noteq> old"
    and "length old = 1 \<or> length old = 2 \<and> length pre \<noteq> 40"
  shows "\<exists>msg. decode_packet (pre @ new @ post) = Inl (ValueError msg) \<and>
           dashboard_decode_packet (pre @ new @ post) = Inl (ValueError msg)"
proof -
  have "to_option (decode_packet (pre @ old @ post)) = Some v"
    using assms(1) by (simp add: to_option_Some_iff)
  from receiver_frame.corruption_rejected [OF this assms(2,3)] assms(4)
  have "to_option (decode_packet (pre @ new @ post)) = None" by simp
  then obtain e where "unpack_health (pre @ new @ post) = Inl e"
    by (auto simp: to_option_None_iff decode_packet_def rbind_Inl_iff)
  with unpack_health_error show ?thesis
    by (force simp: decode_packet_def dashboard_decode_packet_def)
qed

lemma sample_telemetry_frame:
  "decode_packet [0x52, 0x54, 0x53, 0x41, 1, 0, 1, 0, 5, 0, 0, 0, 0xE8, 3, 0, 0, 0, 0, 0, 0,
      1, 0, 0, 0, 0, 0x48, 0x41, 0, 0, 0x20, 0x42, 3, 0, 0, 0, 2, 0, 0, 0, 1, 0, 8, 0x1A] =
   Inr \<lparr>td_sequence_number = 5, td_timestamp_ms = 1000, td_mode = ''NOMINAL'', td_last_fault = ''NONE'',
     td_cpu_load_percent = 0x41480000, td_memory_load_percent = 0x42200000, td_heartbeat_count = 3,
     td_last_command_sequence_number = 2, td_last_command_id = ''SET_MODE'',
     td_last_command_status = ''ACCEPTED''\<rparr>"
  by code_simp

theorem downlink_corruption_rejected_witness:
  "\<exists>msg. decode_packet [0x52, 0x54, 0x53, 0x41, 1, 0, 1, 0, 5, 0, 0, 0, 0xE8, 3, 0, 0, 0, 0, 0, 0,
      4, 0, 0, 0, 0, 0x48, 0x41, 0, 0, 0x20, 0x42, 3, 0, 0, 0, 2, 0, 0, 0, 1, 0, 8, 0x1A] = Inl (ValueError msg) \<and>
     dashboard_decode_packet [0x52, 0x54, 0x53, 0x41, 1, 0, 1, 0, 5, 0, 0, 0, 0xE8, 3, 0, 0, 0, 0, 0, 0,
      4, 0, 0, 0, 0, 0x48, 0x41, 0, 0, 0x20, 0x42, 3, 0, 0, 0, 2, 0, 0, 0, 1, 0, 8, 0x1A] = Inl (ValueError msg)"
  using downlink_corruption_rejected [of
      "[0x52, 0x54, 0x53, 0x41, 1, 0, 1, 0, 5, 0, 0, 0, 0xE8, 3, 0, 0, 0, 0, 0, 0]" "[1]"
      "[0, 0, 0, 0, 0x48, 0x41, 0, 0, 0x20, 0x42, 3, 0, 0, 0, 2, 0, 0, 0, 1, 0, 8, 0x1A]" _ "[4]"]
    sample_telemetry_frame by simp

text \<open>No frame of any content is ever shown with command NOOP: \<open>command_name\<close> maps
  identifier 0 to NONE before it consults the table in which 0 is NOOP, so the acknowledgement
  of an accepted NOOP cannot be told from no command at all.\<close>

theorem receiver_never_shows_noop:
  "\<not> (\<exists>v. decode_packet bs = Inr v \<and> td_last_command_id v = ''NOOP'')"
proof -
  have "command_name k \<noteq> ''NOOP''" for k
  proof (cases "k = 0 \<or> map_of COMMAND_NAMES k = None")
    case False
    then obtain s where "map_of COMMAND_NAMES k = Some s" "k \<noteq> 0" by auto
    moreover from this(1) have "(k, s) \<in> set COMMAND_NAMES" by (rule map_of_SomeD)
    ultimately show ?thesis by (auto simp: COMMAND_NAMES_def command_name_def dict_get_default_def)
  qed (auto simp: command_name_def dict_get_default_def unknown_name_def)
  then show ?thesis by (auto simp: decode_packet_def rbind_Inr_iff)
qed

text \<open>The dashboard accepts exactly the frames the receiver accepts and shows the same
  numbers, fault and command, but its mode table ends at RECOVERY: modes 6 and 7, STANDBY and
  TEST, appear as \<open>UNKNOWN(6)\<close> and \<open>UNKNOWN(7)\<close>.\<close>

theorem dashboard_agrees_with_receiver:
  "(\<exists>msg. decode_packet bs = Inl (ValueError msg) \<and> dashboard_decode_packet bs = Inl (ValueError msg)) \<or>
   (\<exists>v w. decode_packet bs = Inr v \<and> dashboard_decode_packet bs = Inr w \<and>
      td_sequence_number w = td_sequence_number v \<and> td_timestamp_ms w = td_timestamp_ms v \<and>
      td_mode w = (if td_mode v = ''STANDBY'' then ''UNKNOWN(6)''
                   else if td_mode v = ''TEST'' then ''UNKNOWN(7)'' else td_mode v) \<and>
      td_last_fault w = td_last_fault v \<and> td_cpu_load_percent w = td_cpu_load_percent v \<and>
      td_memory_load_percent w = td_memory_load_percent v \<and>
      td_heartbeat_count w = td_heartbeat_count v \<and>
      td_last_command_sequence_number w = td_last_command_sequence_number v \<and>
      td_last_command_id w = td_last_command_id v)"
proof (cases "unpack_health bs")
  case (Inl e)
  with unpack_health_error show ?thesis by (force simp: decode_packet_def dashboard_decode_packet_def)
next
  case (Inr h)
  have digits: "str_nat 6 = ''6''" "str_nat 7 = ''7''" by code_simp+
  have mode: "dict_get_default DASHBOARD_MODES k (unknown_name k) =
      (let n = dict_get_default MODE_NAMES k (unknown_name k) in
       if n = ''STANDBY'' then ''UNKNOWN(6)'' else if n = ''TEST'' then ''UNKNOWN(7)'' else n)" for k
    by (auto simp: dict_get_default_def DASHBOARD_MODES_def MODE_NAMES_def unknown_name_def Let_def
        str_int_def digits)
  from Inr show ?thesis
    by (simp add: decode_packet_def dashboard_decode_packet_def mode Let_def)
qed

end
