(* ===== verification/Json.thy ===== *)
theory Json
  imports Complex_Main Py_Strings
begin

text \<open>
  Values of \<open>json.loads\<close> and \<open>yaml.safe_load\<close> as the tools handle them. An object is the
  association list of its distinct keys in order; a finite float is the rational it denotes
  (NaN and the infinities, which \<open>json\<close> also reads, are left out). In Python \<open>bool\<close> is a
  subclass of \<open>int\<close>, and numbers of the three types compare by value.
\<close>

datatype json =
  JNull
| JBool bool
| JInt int
| JFloat rat
| JStr string
| JArr "json list"
| JObj "(string \<times> json) list"

type_synonym json_object = "(string, json) dict"

definition isinstance_str :: "json option \<Rightarrow> bool" where
  "isinstance_str v = (case v of Some (JStr _) \<Rightarrow> True | _ \<Rightarrow> False)"

definition isinstance_int :: "json option \<Rightarrow> bool" where
  "isinstance_int v = (case v of Some (JInt _) \<Rightarrow> True | Some (JBool _) \<Rightarrow> True | _ \<Rightarrow> False)"

definition isinstance_bool :: "json option \<Rightarrow> bool" where
  "isinstance_bool v = (case v of Some (JBool _) \<Rightarrow> True | _ \<Rightarrow> False)"

definition isinstance_number :: "json option \<Rightarrow> bool" where
  "isinstance_number v = (case v of Some (JFloat _) \<Rightarrow> True | _ \<Rightarrow> isinstance_int v)"

definition isinstance_dict :: "json option \<Rightarrow> bool" where
  "isinstance_dict v = (case v of Some (JObj _) \<Rightarrow> True | _ \<Rightarrow> False)"

definition isinstance_list :: "json option \<Rightarrow> bool" where
  "isinstance_list v = (case v of Some (JArr _) \<Rightarrow> True | _ \<Rightarrow> False)"

text \<open>The number a numeric value stands for.\<close>

definition num_value :: "json option \<Rightarrow> rat" where
  "num_value v = (case v of Some (JInt i) \<Rightarrow> of_int i | Some (JBool b) \<Rightarrow> (if b then 1 else 0)
     | Some (JFloat r) \<Rightarrow> r | _ \<Rightarrow> 0)"

text \<open>Truth value testing, and equality with an integer or a string.\<close>

fun truthy :: "json \<Rightarrow> bool" where
  "truthy JNull = False"
| "truthy (JBool b) = b"
| "truthy (JInt i) = (i \<noteq> 0)"
| "truthy (JFloat r) = (r \<noteq> 0)"
| "truthy (JStr s) = (s \<noteq> [])"
| "truthy (JArr xs) = (xs \<noteq> [])"
| "truthy (JObj kvs) = (kvs \<noteq> [])"

definition eq_int :: "json option \<Rightarrow> int \<Rightarrow> bool" where
  "eq_int v i \<longleftrightarrow> isinstance_number v \<and> num_value v = of_int i"

definition eq_str :: "json option \<Rightarrow> string \<Rightarrow> bool" where
  "eq_str v s \<longleftrightarrow> v = Some (JStr s)"

text \<open>The constructor \<open>int(...)\<close>: truncation of floats, parsing of strings.\<close>

fun int_of :: "json \<Rightarrow> int result" where
  "int_of (JInt i) = Inr i"
| "int_of (JBool b) = Inr (if b then 1 else 0)"
| "int_of (JFloat r) = Inr (if r \<ge> 0 then \<lfloor>r\<rfloor> else \<lceil>r\<rceil>)"
| "int_of (JStr s) = py_int s"
| "int_of _ = Inl (TypeError ''int() argument must be a string or a number'')"

lemma num_value_simps [simp]:
  "num_value (Some (JInt i)) = of_int i" "num_value (Some (JBool b)) = (if b then 1 else 0)"
  "num_value (Some (JFloat r)) = r"
  by (simp_all add: num_value_def)

lemma isinstance_simps [simp]:
  "isinstance_number None = False" "isinstance_number (Some (JInt i))" "isinstance_number (Some (JBool b))"
  "isinstance_number (Some (JFloat r))" "isinstance_int (Some (JInt i))" "isinstance_int (Some (JBool b))"
  "isinstance_int (Some (JFloat r)) = False" "isinstance_int None = False"
  "isinstance_bool (Some (JBool b))" "isinstance_bool (Some (JInt i)) = False"
  "isinstance_bool (Some (JFloat r)) = False"
  by (simp_all add: isinstance_number_def isinstance_int_def isinstance_bool_def)

text \<open>A checker collects problems; a tool exits with 0 when there are none.\<close>

locale problem_checker =
  fixes problems :: "'a \<Rightarrow> string list" and acceptable :: "'a \<Rightarrow> bool"
  assumes problems_iff: "problems a = [] \<longleftrightarrow> acceptable a"
begin

lemma exit_status: "(if problems a \<noteq> [] then 1 else 0 :: int) = (if acceptable a then 0 else 1)"
  by (simp add: problems_iff)

lemma problem_reported: "\<not> acceptable a \<Longrightarrow> \<exists>p. p \<in> set (problems a)"
  using problems_iff [of a] by (cases "problems a") auto

end

end
