(* ===== verification/Scenario_Runner.thy ===== *)
theory Scenario_Runner
  imports Command_Link Telemetry_Link Json
begin

text \<open>
  \<open>tools/run_scenario.py\<close>: a scenario is a list of steps; each may send a command through
  \<open>send_command.py\<close> and waits for a telemetry packet that meets its expectation, while a
  listener thread appends received packets to a shared list. The two threads interleave: what
  the listener appends between two reads of the list by the main thread is an argument of the
  model. Console output, the server process and the clock are outside the model.
\<close>

section \<open>Commands\<close>

definition resolve_step_timestamp :: "json_object \<Rightarrow> int \<Rightarrow> int option result" where
  "resolve_step_timestamp step now_ms =
     (case (dict_get step ''timestamp_ms'', dict_get step ''timestamp_offset_ms'') of
        (Some _, Some _) \<Rightarrow>
          Inl (ValueError ''scenario step cannot define both timestamp_ms and timestamp_offset_ms'')
      | (Some exact, None) \<Rightarrow> rbind (int_of exact) (\<lambda>t. Inr (Some t))
      | (None, Some offset) \<Rightarrow> rbind (int_of offset) (\<lambda>d. Inr (Some (now_ms + d)))
      | (None, None) \<Rightarrow> Inr None)"

text \<open>\<open>send_command\<close> runs \<open>send_command.py\<close> as a child process: the numbers travel as text and
  are parsed again by \<open>argparse\<close>, which also rejects an unknown command; a non-zero exit raises
  \<open>CalledProcessError\<close>, here a \<open>RuntimeError\<close>. \<open>sender_ms\<close> is the child's clock. Texts that
  \<open>argparse\<close> would take for an option (an argument with a leading minus sign) are not modelled here; for
  all others \<open>Command_Lines\<close> shows that the child's parser gives this result.\<close>

definition child_args :: "string \<Rightarrow> int \<Rightarrow> int \<Rightarrow> string \<Rightarrow> string option \<Rightarrow> int option \<Rightarrow> send_args result" where
  "child_args host port sequence command argument timestamp_ms =
     rbind (py_int (str_int port)) (\<lambda>p.
     rbind (py_int (str_int sequence)) (\<lambda>s.
     rbind (case timestamp_ms of None \<Rightarrow> Inr None
            | Some t \<Rightarrow> rbind (py_int (str_int t)) (\<lambda>t'. Inr (Some t'))) (\<lambda>ts.
     if command \<notin> set (dict_keys COMMANDS) then Inl (RuntimeError ''argparse: invalid choice'')
     else Inr \<lparr>arg_host = host, arg_port = p, arg_sequence = s, arg_timestamp_ms = ts,
            arg_command = command, arg_argument = argument\<rparr>)))"

definition send_command ::
  "int \<Rightarrow> string \<Rightarrow> int \<Rightarrow> int \<Rightarrow> string \<Rightarrow> string option \<Rightarrow> int option \<Rightarrow> byte list result" where
  "send_command sender_ms host port sequence command argument timestamp_ms =
     (case rbind (child_args host port sequence command argument timestamp_ms) (send_main sender_ms) of
        Inl e \<Rightarrow> Inl (RuntimeError ''send_command.py returned non-zero exit status'')
      | Inr (packet, _, _) \<Rightarrow> Inr packet)"

section \<open>Telemetry\<close>

datatype received = Packet "string telemetry_dict" | DecodeError string

text \<open>One turn of the listener with a datagram; an exception other than \<open>ValueError\<close> ends the thread.\<close>

definition telemetry_listener :: "byte list \<Rightarrow> received list \<Rightarrow> received list result" where
  "telemetry_listener data packets =
     (case decode_packet data of
        Inr v \<Rightarrow> Inr (packets @ [Packet v])
      | Inl (ValueError e) \<Rightarrow> Inr (packets @ [DecodeError e])
      | Inl e \<Rightarrow> Inl e)"

text \<open>\<open>packet_matches\<close>. The value of \<open>expect\<close> is whatever the scenario file holds there; the
  operators \<open>in\<close> and \<open>[]\<close> are those of its type. A key is \<open>in\<close> a mapping that has it, in a list
  that has it as an element and in a string that has it as a substring; only a mapping has
  string subscripts. Dates and the other scalars of YAML behave as the numbers do here.\<close>

definition key_in :: "string \<Rightarrow> json \<Rightarrow> bool result" where
  "key_in key expected =
     (case expected of
        JObj entries \<Rightarrow> Inr (dict_get entries key \<noteq> None)
      | JArr xs \<Rightarrow> Inr (JStr key \<in> set xs)
      | JStr s \<Rightarrow> Inr (contains s key)
      | _ \<Rightarrow> Inl (TypeError ''argument is not iterable''))"

definition subscript :: "json \<Rightarrow> string \<Rightarrow> json result" where
  "subscript expected key =
     (case expected of
        JObj entries \<Rightarrow> (case dict_get entries key of None \<Rightarrow> Inl (KeyError key) | Some v \<Rightarrow> Inr v)
      | JArr _ \<Rightarrow> Inl (TypeError ''list indices must be integers or slices, not str'')
      | JStr _ \<Rightarrow> Inl (TypeError ''string indices must be integers'')
      | _ \<Rightarrow> Inl (TypeError ''object is not subscriptable''))"

definition expected_status :: "json \<Rightarrow> json" where
  "expected_status v =
     (if isinstance_int (Some v)
      then let k = \<lfloor>num_value (Some v)\<rfloor> in JStr (dict_get_default COMMAND_STATUSES k (unknown_name k)) else v)"

text \<open>For each scenario key, when \<open>packet.get(packet_key)\<close> equals a value.\<close>

definition checks :: "string telemetry_dict \<Rightarrow> (string \<times> (json \<Rightarrow> bool)) list" where
  "checks packet =
     [(''ack_seq'', \<lambda>v. eq_int (Some v) (td_last_command_sequence_number packet)),
      (''ack_cmd'', \<lambda>v. eq_str (Some v) (td_last_command_id packet)),
      (''ack_status'', \<lambda>v. eq_str (Some v) (td_last_command_status packet)),
      (''mode'', \<lambda>v. eq_str (Some v) (td_mode packet)),
      (''fault'', \<lambda>v. eq_str (Some v) (td_last_fault packet))]"

fun match_checks :: "(string \<times> (json \<Rightarrow> bool)) list \<Rightarrow> json \<Rightarrow> bool result" where
  "match_checks [] expected = Inr True"
| "match_checks ((scenario_key, equals) # rest) expected =
     rbind (key_in scenario_key expected) (\<lambda>found.
     if \<not> found then match_checks rest expected
     else
       rbind (subscript expected scenario_key) (\<lambda>v.
       let expected_value = (if scenario_key = ''ack_status'' then expected_status v else v) in
       if \<not> equals expected_value then Inr False else match_checks rest expected))"

definition packet_matches :: "string telemetry_dict \<Rightarrow> json \<Rightarrow> bool result" where
  "packet_matches packet expected = match_checks (checks packet) expected"

definition acceptable :: "json \<Rightarrow> received \<Rightarrow> bool result" where
  "acceptable expected r = (case r of DecodeError _ \<Rightarrow> Inr False | Packet v \<Rightarrow> packet_matches v expected)"

text \<open>The inner loop: the first packet for which the test is true; the test may raise.\<close>

fun find_first :: "('a \<Rightarrow> bool result) \<Rightarrow> 'a list \<Rightarrow> 'a option result" where
  "find_first test [] = Inr None"
| "find_first test (x # xs) = rbind (test x) (\<lambda>b. if b then Inr (Some x) else find_first test xs)"

text \<open>\<open>wait_for_expectation\<close>: one element of \<open>rounds\<close> per turn of the loop before the deadline. Its
  first component is what the listener appended before the slice \<open>packets[checked:]\<close> is taken, its
  second what it appended after that and before \<open>checked = len(packets)\<close>. The result is the match,
  if any, and the list as it stands then.\<close>

fun wait_loop :: "json \<Rightarrow> nat \<Rightarrow> received list \<Rightarrow> (received list \<times> received list) list
    \<Rightarrow> (received option \<times> received list) result" where
  "wait_loop expected checked packets [] = Inr (None, packets)"
| "wait_loop expected checked packets ((before, between) # rounds) =
     (let packets1 = packets @ before in
      rbind (find_first (acceptable expected) (drop checked packets1)) (\<lambda>m.
      case m of
        Some p \<Rightarrow> Inr (Some p, packets1)
      | None \<Rightarrow> let packets2 = packets1 @ between in wait_loop expected (length packets2) packets2 rounds))"

definition wait_for_expectation ::
  "received list \<Rightarrow> json \<Rightarrow> (received list \<times> received list) list \<Rightarrow> (received option \<times> received list) result" where
  "wait_for_expectation packets expected rounds = wait_loop expected 0 packets rounds"

section \<open>Steps\<close>

record scenario_env =
  se_runner_ms :: int
  se_sender_ms :: int
  se_rounds :: "(received list \<times> received list) list"

record run_state =
  rs_passed :: bool
  rs_sequence :: int
  rs_sent :: "byte list list"
  rs_packets :: "received list"

text \<open>The keys \<open>command\<close> and \<open>argument\<close> of a step: absent or null is \<open>None\<close>. A value that is
  not a string makes \<open>subprocess\<close> raise \<open>TypeError\<close>.\<close>

definition optional_str :: "json_object \<Rightarrow> string \<Rightarrow> string option result" where
  "optional_str step key =
     (case dict_get step key of
        None \<Rightarrow> Inr None | Some JNull \<Rightarrow> Inr None | Some (JStr s) \<Rightarrow> Inr (Some s)
      | Some _ \<Rightarrow> Inl (TypeError ''expected str, bytes or os.PathLike object''))"

text \<open>\<open>step.get("expect", {})\<close>: a value that is not a mapping raises nothing here.\<close>

definition expectation :: "json_object \<Rightarrow> json" where
  "expectation step = (case dict_get step ''expect'' of None \<Rightarrow> JObj [] | Some v \<Rightarrow> v)"

definition send_step :: "string \<Rightarrow> int \<Rightarrow> scenario_env \<Rightarrow> json_object \<Rightarrow> run_state \<Rightarrow> run_state result" where
  "send_step host port env step st =
     rbind (optional_str step ''command'') (\<lambda>command.
     case command of None \<Rightarrow> Inr st
     | Some cmd \<Rightarrow>
         rbind (resolve_step_timestamp step (se_runner_ms env)) (\<lambda>timestamp_ms.
         rbind (optional_str step ''argument'') (\<lambda>argument.
         rbind (send_command (se_sender_ms env) host port (rs_sequence st) cmd argument timestamp_ms) (\<lambda>packet.
           Inr (st\<lparr>rs_sequence := rs_sequence st + 1, rs_sent := rs_sent st @ [packet]\<rparr>)))))"

fun run_steps :: "string \<Rightarrow> int \<Rightarrow> (json_object \<times> scenario_env) list \<Rightarrow> run_state \<Rightarrow> run_state result" where
  "run_steps host port [] st = Inr st"
| "run_steps host port ((step, env) # steps) st =
     rbind (send_step host port env step st) (\<lambda>st1.
     rbind (wait_for_expectation (rs_packets st1) (expectation step) (se_rounds env)) (\<lambda>(matched, packets).
     case matched of
       None \<Rightarrow> Inr (st1\<lparr>rs_passed := False, rs_packets := packets\<rparr>)
     | Some _ \<Rightarrow> run_steps host port steps (st1\<lparr>rs_packets := packets\<rparr>)))"

definition initial_run :: run_state where
  "initial_run = \<lparr>rs_passed = True, rs_sequence = 1, rs_sent = [], rs_packets = []\<rparr>"

text \<open>The checks of \<open>main\<close> before anything is started.\<close>

definition check_steps :: "json \<Rightarrow> json_object list result" where
  "check_steps steps =
     (case steps of
        JArr xs \<Rightarrow>
          rmap (\<lambda>x. case x of
              JObj step \<Rightarrow>
                if dict_get step ''timestamp_ms'' \<noteq> None \<and> dict_get step ''timestamp_offset_ms'' \<noteq> None
                then Inl (ValueError ''scenario step cannot define both timestamp_ms and timestamp_offset_ms'')
                else Inr step
            | _ \<Rightarrow> Inl (ValueError ''every scenario step must be a mapping'')) xs
      | _ \<Rightarrow> Inl (ValueError ''scenario steps must be a list''))"

text \<open>The arguments with which \<open>main\<close> starts the flight software.\<close>

definition int_or_zero :: "json \<Rightarrow> int result" where
  "int_or_zero v = (if truthy v then int_of v else Inr 0)"

definition present :: "json option \<Rightarrow> bool" where
  "present v \<longleftrightarrow> (case v of None \<Rightarrow> False | Some JNull \<Rightarrow> False | Some _ \<Rightarrow> True)"

definition server_args :: "string \<Rightarrow> string \<Rightarrow> int \<Rightarrow> int \<Rightarrow> int \<Rightarrow> json option \<Rightarrow> json option \<Rightarrow> string list result" where
  "server_args exe host command_port telemetry_port loop_count sensor_timeout_loop watchdog_timeout_loop =
     rbind (if present sensor_timeout_loop \<or> present watchdog_timeout_loop
            then rbind (int_or_zero (case sensor_timeout_loop of None \<Rightarrow> JNull | Some v \<Rightarrow> v)) (\<lambda>i. Inr [str_int i])
            else Inr []) (\<lambda>sensor.
     rbind (if present watchdog_timeout_loop
            then rbind (int_of (the watchdog_timeout_loop)) (\<lambda>i. Inr [str_int i]) else Inr []) (\<lambda>watchdog.
       Inr ([exe, str_int command_port, host, str_int telemetry_port, str_int loop_count] @ sensor @ watchdog)))"

definition int_key :: "json_object \<Rightarrow> string \<Rightarrow> int \<Rightarrow> int result" where
  "int_key scenario key d = (case dict_get scenario key of None \<Rightarrow> Inr d | Some v \<Rightarrow> int_of v)"

text \<open>\<open>main\<close>: its exit status with the final state of the run, given whether the server executable
  exists and the environments of the steps.\<close>

definition scenario_main ::
  "string \<Rightarrow> bool \<Rightarrow> json_object \<Rightarrow> scenario_env list \<Rightarrow> (int \<times> run_state) result" where
  "scenario_main host server_exists scenario envs =
     rbind (int_key scenario ''command_port'' 6000) (\<lambda>command_port.
     rbind (int_key scenario ''telemetry_port'' 5005) (\<lambda>telemetry_port.
     rbind (int_key scenario ''loop_count'' 22) (\<lambda>loop_count.
     case check_steps (case dict_get scenario ''steps'' of None \<Rightarrow> JArr [] | Some v \<Rightarrow> v) of
       Inl e \<Rightarrow> Inr (1, initial_run)
     | Inr steps \<Rightarrow>
         if \<not> server_exists then Inr (1, initial_run)
         else
           rbind (server_args ''astra_fsw_command_telemetry_demo'' host command_port telemetry_port loop_count
                    (dict_get scenario ''sensor_timeout_loop'') (dict_get scenario ''watchdog_timeout_loop'')) (\<lambda>_.
           rbind (run_steps host command_port (zip steps envs) initial_run) (\<lambda>st.
             Inr (if rs_passed st then 0 else 1, st))))))"

definition packet_line :: "received \<Rightarrow> string" where
  "packet_line r =
     (case r of
        DecodeError e \<Rightarrow> ''decode_error='' @ e
      | Packet p \<Rightarrow>
          ''seq='' @ str_int (td_sequence_number p) @ '' t_ms='' @ str_int (td_timestamp_ms p) @
          '' mode='' @ td_mode p @ '' fault='' @ td_last_fault p @
          '' ack_seq='' @ str_int (td_last_command_sequence_number p) @
          '' ack_cmd='' @ td_last_command_id p @ '' ack_status='' @ td_last_command_status p @
          '' cpu='' @ format_2f (td_cpu_load_percent p) @ ''% mem='' @ format_2f (td_memory_load_percent p) @
          ''% hb='' @ str_int (td_heartbeat_count p))"

text \<open>\<open>write_report\<close>: the text of the report; \<open>yaml_dump\<close> stands for \<open>yaml.safe_dump\<close>.\<close>

definition scenario_report ::
  "(json_object \<Rightarrow> string) \<Rightarrow> string \<Rightarrow> bool \<Rightarrow> received list \<Rightarrow> string \<Rightarrow> json_object \<Rightarrow> string" where
  "scenario_report yaml_dump name passed packets server_output scenario =
     join [CHR 10]
       ([''# Scenario Output: '' @ name, '''', ''Result: '' @ (if passed then ''PASS'' else ''FAIL''), '''',
         ''## Scenario'', '''', ''```yaml'', rstrip (yaml_dump scenario), ''```'', '''',
         ''## Telemetry Packets'', '''', ''```text''] @ map packet_line packets @
        [''```'', '''', ''## C++ Server Output'', '''', ''```text'', rstrip server_output, ''```'', ''''])"

section \<open>When a packet matches\<close>

text \<open>The conjunction that \<open>packet_matches\<close> computes on a mapping.\<close>

definition meets_expectation :: "string telemetry_dict \<Rightarrow> json_object \<Rightarrow> bool" where
  "meets_expectation packet expected \<longleftrightarrow>
     (case dict_get expected ''ack_seq'' of None \<Rightarrow> True
      | Some v \<Rightarrow> eq_int (Some v) (td_last_command_sequence_number packet)) \<and>
     (case dict_get expected ''ack_cmd'' of None \<Rightarrow> True
      | Some v \<Rightarrow> eq_str (Some v) (td_last_command_id packet)) \<and>
     (case dict_get expected ''ack_status'' of None \<Rightarrow> True
      | Some v \<Rightarrow> eq_str (Some (expected_status v)) (td_last_command_status packet)) \<and>
     (case dict_get expected ''mode'' of None \<Rightarrow> True | Some v \<Rightarrow> eq_str (Some v) (td_mode packet)) \<and>
     (case dict_get expected ''fault'' of None \<Rightarrow> True | Some v \<Rightarrow> eq_str (Some v) (td_last_fault packet))"

lemma match_checks_mapping:
  "match_checks cs (JObj e) = Inr (list_all (\<lambda>(key, equals).
     case dict_get e key of None \<Rightarrow> True
     | Some v \<Rightarrow> equals (if key = ''ack_status'' then expected_status v else v)) cs)"
  by (induction cs) (auto simp: key_in_def subscript_def Let_def split: option.split)

lemma packet_matches_mapping: "packet_matches v (JObj e) = Inr (meets_expectation v e)"
  by (simp add: packet_matches_def match_checks_mapping checks_def meets_expectation_def
      cong: option.case_cong)

definition scenario_keys :: "string list" where
  "scenario_keys = [''ack_seq'', ''ack_cmd'', ''ack_status'', ''mode'', ''fault'']"

lemma keys_of_checks: "map fst (checks packet) = scenario_keys"
  by (simp add: checks_def scenario_keys_def)

lemma checks_nonempty: "checks packet \<noteq> []"
  by (simp add: checks_def)

text \<open>A list or a string either names none of the keys and matches everything, or raises.\<close>

lemma match_checks_sequence:
  "match_checks cs (JArr xs) = Inr True \<longleftrightarrow> list_all (\<lambda>key. JStr key \<notin> set xs) (map fst cs)"
  "match_checks cs (JStr s) = Inr True \<longleftrightarrow> list_all (\<lambda>key. \<not> contains s key) (map fst cs)"
  by (induction cs; auto simp: key_in_def subscript_def split: if_splits)+

lemma match_checks_scalar:
  "cs \<noteq> [] \<Longrightarrow> match_checks cs JNull \<noteq> Inr b" "cs \<noteq> [] \<Longrightarrow> match_checks cs (JBool x) \<noteq> Inr b"
  "cs \<noteq> [] \<Longrightarrow> match_checks cs (JInt i) \<noteq> Inr b" "cs \<noteq> [] \<Longrightarrow> match_checks cs (JFloat r) \<noteq> Inr b"
  by (cases cs; auto simp: key_in_def)+

lemma packet_matches_iff:
  "packet_matches v expected = Inr True \<longleftrightarrow>
     (case expected of
        JObj e \<Rightarrow> meets_expectation v e
      | JArr xs \<Rightarrow> list_all (\<lambda>key. JStr key \<notin> set xs) scenario_keys
      | JStr s \<Rightarrow> list_all (\<lambda>key. \<not> contains s key) scenario_keys
      | _ \<Rightarrow> False)"
proof (cases expected)
  case (JObj e)
  then show ?thesis by (simp add: packet_matches_mapping)
qed (simp_all add: packet_matches_def match_checks_sequence match_checks_scalar keys_of_checks checks_nonempty)

text \<open>\<open>expect: SAFE\<close> instead of \<open>expect: {mode: SAFE}\<close>: every decoded packet matches.\<close>

lemma string_expectation_matches_everything: "packet_matches v (JStr ''SAFE'') = Inr True"
  by (simp add: packet_matches_iff scenario_keys_def) (code_simp)

section \<open>What a wait examines\<close>

lemma find_first_append:
  "find_first test (xs @ ys) =
     rbind (find_first test xs) (\<lambda>m. case m of None \<Rightarrow> find_first test ys | Some x \<Rightarrow> Inr (Some x))"
proof (induction xs)
  case (Cons x xs)
  then show ?case by (cases "test x") simp_all
qed simp

lemma find_first_total:
  "(\<And>x. test x = Inr (q x)) \<Longrightarrow> find_first test xs = Inr (find q xs)"
  by (induction xs) simp_all


definition answers :: "json_object \<Rightarrow> received \<Rightarrow> bool" where
  "answers expected r = (case r of DecodeError _ \<Rightarrow> False | Packet v \<Rightarrow> meets_expectation v expected)"

lemma acceptable_mapping: "acceptable (JObj e) r = Inr (answers e r)"
  by (simp add: acceptable_def answers_def packet_matches_mapping split: received.split)

lemma wait_loop_turn:
  "wait_loop expected checked packets ((before, between) # rounds) =
     rbind (find_first (acceptable expected) (drop checked (packets @ before))) (\<lambda>m. case m of
         Some p \<Rightarrow> Inr (Some p, packets @ before)
       | None \<Rightarrow> wait_loop expected (length (packets @ before @ between)) (packets @ before @ between) rounds)"
  by (simp only: wait_loop.simps Let_def append_assoc)

declare wait_loop.simps(2) [simp del]

lemma wait_loop_find:
  "rbind (wait_loop expected checked packets rounds) (\<lambda>(m, _). Inr m) =
     (if rounds = [] then Inr None
      else find_first (acceptable expected) (drop checked (packets @ fst (hd rounds)) @ concat (map fst (tl rounds))))"
proof (induction rounds arbitrary: checked packets)
  case (Cons r rounds)
  obtain before between where r: "r = (before, between)" by (cases r)
  let ?p = "packets @ before @ between"
  have next_turns: "rbind (wait_loop expected (length ?p) ?p rounds) (\<lambda>(m, _). Inr m) =
      find_first (acceptable expected) (concat (map fst rounds))"
    unfolding Cons.IH by (cases rounds) simp_all
  show ?case
  proof (cases "find_first (acceptable expected) (drop checked (packets @ before))")
    case (Inr m)
    with next_turns show ?thesis
      by (cases m) (simp_all add: r wait_loop_turn find_first_append [of _ "drop checked (packets @ before)"] del: drop_append)
  qed (simp add: r wait_loop_turn find_first_append [of _ "drop checked (packets @ before)"] del: drop_append)
qed simp


lemma wait_mapping:
  "rbind (wait_for_expectation packets (JObj e) rounds) (\<lambda>(m, _). Inr m) =
     Inr (if rounds = [] then None
       else find (answers e) (packets @ fst (hd rounds) @ concat (map fst (tl rounds))))"
  by (simp add: wait_for_expectation_def wait_loop_find find_first_total [OF acceptable_mapping])

lemma wait_mapping_returns: "\<exists>m packets'. wait_for_expectation packets (JObj e) rounds = Inr (m, packets')"
  using wait_mapping [of packets e rounds] by (cases "wait_for_expectation packets (JObj e) rounds") auto

text \<open>C39: what \<open>wait_for_expectation\<close> examines. Provided the deadline leaves at least one turn of the
  loop, it tests the packets received before the wait began and those received, turn by turn,
  before the list is sliced, in that order, up to the first match or the first exception: when
  the expectation is a mapping, no test raises, and the wait returns the first packet among them
  that meets it, and \<open>None\<close> only if none of them does. A packet the listener appends after the
  slice and before \<open>checked = len(packets)\<close> is skipped for good: it is in no turn's slice, so an
  acceptable packet arriving then is missed.\<close>

theorem wait_examines_all_but_raced_packets:
  "rbind (wait_for_expectation packets expected ((before, between) # rounds)) (\<lambda>(m, _). Inr m) =
     find_first (acceptable expected) (packets @ before @ concat (map fst rounds)) \<and>
   rbind (wait_for_expectation packets (JObj e) ((before, between) # rounds)) (\<lambda>(m, _). Inr m) =
     Inr (find (answers e) (packets @ before @ concat (map fst rounds)))"
  using find_first_total [OF acceptable_mapping]
  by (simp add: wait_for_expectation_def wait_loop_find del: wait_loop.simps)

section \<open>Properties of a run\<close>

lemma send_command_decodes:
  assumes "send_command sender_ms host port sequence command argument ts = Inr bs"
  shows "\<exists>p. decode_command bs = Some p \<and> uint (cp_sequence_number p) = sequence \<and>
           command_id_to_string (cp_command_id p) = command"
proof -
  have "child_args host port sequence command argument ts = (if command \<notin> set (dict_keys COMMANDS)
      then Inl (RuntimeError ''argparse: invalid choice'')
      else Inr \<lparr>arg_host = host, arg_port = port, arg_sequence = sequence, arg_timestamp_ms = ts,
        arg_command = command, arg_argument = argument\<rparr>)"
    by (cases ts) (simp_all add: child_args_def py_int_str_int)
  with assms obtain a where "build_packet sender_ms sequence command a ts = Inr bs"
    by (auto simp: send_command_def send_main_def rbind_Inr_iff split: sum.splits if_splits)
  then show ?thesis using build_packet_decodes by blast
qed

definition sent_ok :: "run_state \<Rightarrow> bool" where
  "sent_ok st \<longleftrightarrow> rs_sequence st = int (length (rs_sent st)) + 1 \<and>
     (\<forall>k<length (rs_sent st). \<exists>p. decode_command (rs_sent st ! k) = Some p \<and>
        uint (cp_sequence_number p) = int k + 1)"

lemma send_step_ok:
  assumes "send_step host port env step st = Inr st'" and "sent_ok st"
  shows "sent_ok st' \<and> rs_packets st' = rs_packets st \<and> rs_passed st' = rs_passed st"
proof (cases "optional_str step ''command''")
  case (Inr command)
  show ?thesis
  proof (cases command)
    case None
    with Inr assms show ?thesis by (simp add: send_step_def)
  next
    case (Some cmd)
    with Inr assms(1) obtain arg ts bs where
      "send_command (se_sender_ms env) host port (rs_sequence st) cmd arg ts = Inr bs"
      and st': "st' = st\<lparr>rs_sequence := rs_sequence st + 1, rs_sent := rs_sent st @ [bs]\<rparr>"
      by (auto simp: send_step_def rbind_Inr_iff)
    from send_command_decodes [OF this(1)] assms(2) show ?thesis
      by (auto simp: sent_ok_def st' nth_append less_Suc_eq)
  qed
qed (use assms in \<open>simp add: send_step_def\<close>)

lemma run_steps_Cons_Inr:
  assumes "run_steps host port ((step, env) # steps) st = Inr st'"
  obtains st1 m packets where "send_step host port env step st = Inr st1"
    and "wait_for_expectation (rs_packets st1) (expectation step) (se_rounds env) = Inr (m, packets)"
    and "case m of None \<Rightarrow> st' = st1\<lparr>rs_passed := False, rs_packets := packets\<rparr>
     | Some _ \<Rightarrow> run_steps host port steps (st1\<lparr>rs_packets := packets\<rparr>) = Inr st'"
  using assms by (auto simp: rbind_Inr_iff split: option.splits)

lemma run_steps_sent:
  "run_steps host port steps st = Inr st' \<Longrightarrow> sent_ok st \<Longrightarrow> sent_ok st'"
proof (induction steps arbitrary: st)
  case (Cons se steps)
  obtain step env where se: "se = (step, env)" by (cases se)
  from Cons.prems(1) [unfolded se] show ?case
  proof (cases rule: run_steps_Cons_Inr)
    case (1 st1 m packets)
    have "sent_ok (st1\<lparr>rs_packets := ps\<rparr>)" "sent_ok (st1\<lparr>rs_passed := False, rs_packets := ps\<rparr>)" for ps
      using send_step_ok [OF 1(1) Cons.prems(2)] by (simp_all add: sent_ok_def)
    with 1(3) Cons.IH show ?thesis by (auto split: option.splits)
  qed
qed simp

text \<open>The commands of a scenario are numbered as the flight software expects. In a run that ends
  without an exception, the \<open>k\<close>-th datagram sent (from 1) is one the flight software decodes, to
  a packet with sequence number \<open>k\<close>, whatever steps without a command lie in between.\<close>

theorem scenario_commands_numbered:
  assumes "run_steps host port steps initial_run = Inr st" and "k < length (rs_sent st)"
  shows "\<exists>p. deserialize_command_packet (rs_sent st ! k) = Some (Some p) \<and>
           uint (cp_sequence_number p) = int k + 1"
proof -
  have "sent_ok st" using run_steps_sent [OF assms(1)] by (simp add: sent_ok_def initial_run_def)
  with assms(2) show ?thesis by (simp add: sent_ok_def deserialize_decode)
qed

lemma sample_request:
  "build_packet 7 1 ''REQUEST_TELEMETRY'' 0 None =
     Inr [0x53, 0x44, 0x4D, 0x43, 1, 0, 1, 0, 0, 0, 7, 0, 0, 0, 0, 0, 0, 0, 3, 0, 0, 0, 0, 0, 0x2D, 0xED]"
  by code_simp

definition sample_steps :: "(json_object \<times> scenario_env) list" where
  "sample_steps = [([(''command'', JStr ''REQUEST_TELEMETRY'')], \<lparr>se_runner_ms = 5, se_sender_ms = 7, se_rounds = []\<rparr>)]"

lemma sample_run:
  "run_steps ''127.0.0.1'' 6000 sample_steps initial_run =
     Inr \<lparr>rs_passed = False, rs_sequence = 2,
       rs_sent = [[0x53, 0x44, 0x4D, 0x43, 1, 0, 1, 0, 0, 0, 7, 0, 0, 0, 0, 0, 0, 0, 3, 0, 0, 0, 0, 0, 0x2D, 0xED]], rs_packets = []\<rparr>"
  by (simp add: sample_steps_def initial_run_def send_step_def optional_str_def resolve_step_timestamp_def
      send_command_def child_args_def py_int_str_int send_main_def parse_argument_def COMMANDS_def
      sample_request expectation_def wait_for_expectation_def)

theorem scenario_commands_numbered_witness:
  "\<exists>p. deserialize_command_packet
     [0x53, 0x44, 0x4D, 0x43, 1, 0, 1, 0, 0, 0, 7, 0, 0, 0, 0, 0, 0, 0, 3, 0, 0, 0, 0, 0, 0x2D, 0xED] = Some (Some p) \<and>
     uint (cp_sequence_number p) = 1"
  using scenario_commands_numbered [OF sample_run, of 0] by simp










end
