(* ===== verification/Campaigns.thy ===== *)
theory Campaigns
  imports Scenario_Runner
begin

text \<open>
  The campaigns built on the scenario runner: \<open>tools/run_fdir_campaign.py\<close>,
  \<open>tools/run_monte_carlo.py\<close> and \<open>tools/run_hil_smoke_test.py\<close>. Each generates scenarios, runs
  \<open>run_scenario.py\<close> on them as a child process and reports. The child process is a parameter: a
  function from the scenario written to its input file to its outcome; the scenarios of one
  campaign all differ, so that such a function covers every course of a campaign. Temporary files
  and, except where noted, console output are left out.
\<close>

section \<open>Child processes, paths and text\<close>

text \<open>What \<open>TimeoutExpired.stdout\<close> holds: nothing, text, or bytes, as POSIX systems leave it even
  with \<open>text=True\<close>; bytes are given by the text they decode to.\<close>

datatype captured = NoOutput | CapturedText string | CapturedBytes string

datatype proc_outcome = Completed int string | TimeoutExpired captured

definition relative_to :: "string \<Rightarrow> string \<Rightarrow> string result" where
  "relative_to path repo =
     (if path = repo then Inr ''.''
      else if startswith path (repo @ ''/'') then Inr (drop (length repo + 1) path)
      else Inl (ValueError ''path is not in the subpath''))"

text \<open>\<open>repo / path\<close>, for paths without dot segments.\<close>

definition path_under :: "string \<Rightarrow> string \<Rightarrow> string" where
  "path_under repo path = (if startswith path ''/'' then path else repo @ ''/'' @ path)"

definition lower_char :: "char \<Rightarrow> char" where
  "lower_char c = (if CHR ''A'' \<le> c \<and> c \<le> CHR ''Z'' then char_of (of_char c + 32 :: nat) else c)"

definition lower :: "string \<Rightarrow> string" where
  "lower s = map lower_char s"

definition str_entry :: "json_object \<Rightarrow> string \<Rightarrow> string" where
  "str_entry scenario key = (case dict_get scenario key of Some (JStr s) \<Rightarrow> s | _ \<Rightarrow> [])"

definition pass_fail :: "bool \<Rightarrow> string" where
  "pass_fail ok = (if ok then ''PASS'' else ''FAIL'')"

section \<open>The FDIR campaign\<close>

record FaultCase =
  fc_fault :: string
  fc_expected_mode :: string

definition FAULT_CASES :: "FaultCase list" where
  "FAULT_CASES =
     [\<lparr>fc_fault = ''SENSOR_TIMEOUT'', fc_expected_mode = ''SAFE''\<rparr>,
      \<lparr>fc_fault = ''SENSOR_INVALID_DATA'', fc_expected_mode = ''SAFE''\<rparr>,
      \<lparr>fc_fault = ''PAYLOAD_HEARTBEAT_TIMEOUT'', fc_expected_mode = ''DEGRADED_PAYLOAD''\<rparr>,
      \<lparr>fc_fault = ''CPU_OVERLOAD'', fc_expected_mode = ''DEGRADED_PAYLOAD''\<rparr>,
      \<lparr>fc_fault = ''MEMORY_OVERLOAD'', fc_expected_mode = ''SAFE''\<rparr>,
      \<lparr>fc_fault = ''TELEMETRY_SOCKET_FAILURE'', fc_expected_mode = ''SAFE''\<rparr>,
      \<lparr>fc_fault = ''COMMAND_BAD_CRC'', fc_expected_mode = ''NOMINAL''\<rparr>,
      \<lparr>fc_fault = ''COMMAND_UNKNOWN_ID'', fc_expected_mode = ''NOMINAL''\<rparr>,
      \<lparr>fc_fault = ''COMMAND_TIMEOUT'', fc_expected_mode = ''SAFE''\<rparr>,
      \<lparr>fc_fault = ''WATCHDOG_DEADLINE_MISS'', fc_expected_mode = ''SAFE''\<rparr>]"

definition scenario_for :: "FaultCase \<Rightarrow> nat \<Rightarrow> json_object" where
  "scenario_for fc index =
     [(''name'', JStr (''fdir_'' @ lower (fc_fault fc))),
      (''description'', JStr (''Exercise the explicit FDIR disposition for '' @ fc_fault fc @ ''.'')),
      (''requirements'', JArr [JStr ''FSW-REQ-207'', JStr ''FSW-REQ-208'', JStr ''FSW-REQ-113'']),
      (''command_port'', JInt (6100 + int index)),
      (''telemetry_port'', JInt (5100 + int index)),
      (''loop_count'', JInt 20),
      (''steps'', JArr
        [JObj [(''name'', JStr ''enter nominal''), (''command'', JStr ''SET_MODE''), (''argument'', JStr ''NOMINAL''),
           (''expect'', JObj [(''ack_seq'', JInt 1), (''ack_cmd'', JStr ''SET_MODE''),
              (''ack_status'', JStr ''ACCEPTED''), (''mode'', JStr ''NOMINAL''), (''fault'', JStr ''NONE'')])],
         JObj [(''name'', JStr (''inject '' @ fc_fault fc)), (''command'', JStr ''INJECT_FAULT''),
           (''argument'', JStr (fc_fault fc)),
           (''expect'', JObj [(''ack_seq'', JInt 2), (''ack_cmd'', JStr ''INJECT_FAULT''),
              (''ack_status'', JStr ''ACCEPTED''), (''mode'', JStr (fc_expected_mode fc)),
              (''fault'', JStr (fc_fault fc))])]])]"

type_synonym fdir_result = "FaultCase \<times> string \<times> bool \<times> string"

text \<open>\<open>(error.stdout or "") + text\<close>: concatenating bytes and text raises \<open>TypeError\<close>.\<close>

definition stdout_plus :: "captured \<Rightarrow> string \<Rightarrow> string result" where
  "stdout_plus c text =
     (case c of
        NoOutput \<Rightarrow> Inr text
      | CapturedText s \<Rightarrow> Inr (s @ text)
      | CapturedBytes b \<Rightarrow> if b = [] then Inr text else Inl (TypeError ''can only concatenate bytes to bytes''))"

definition fdir_run_case :: "(json_object \<Rightarrow> proc_outcome) \<Rightarrow> nat \<times> FaultCase \<Rightarrow> fdir_result result" where
  "fdir_run_case proc = (\<lambda>(index, fc).
     let scenario = scenario_for fc index; name = str_entry scenario ''name'' in
     case proc scenario of
       TimeoutExpired c \<Rightarrow>
         rbind (stdout_plus c (CHR 10 # ''ERROR: scenario timed out'')) (\<lambda>output_text. Inr (fc, name, False, output_text))
     | Completed returncode out \<Rightarrow> Inr (fc, name, returncode = 0, out))"

definition fdir_report :: "string \<Rightarrow> fdir_result list \<Rightarrow> string" where
  "fdir_report build_dir results =
     (let passed = length (filter (\<lambda>(_, _, ok, _). ok) results);
          failed = length results - passed;
          failures = filter (\<lambda>(_, _, ok, _). \<not> ok) results
      in join [CHR 10]
        ([''# ASTRA-OS Ten-Case FDIR Campaign'', '''', ''Result: '' @ pass_fail (failed = 0), '''',
          ''Build directory: `'' @ build_dir @ ''`'', ''Cases: `'' @ str_nat (length results) @ ''`'',
          ''Passed: `'' @ str_nat passed @ ''`'', ''Failed: `'' @ str_nat failed @ ''`'', '''',
          ''The campaign injects each supported fault through the UDP command/telemetry scenario boundary. '' @
            ''It verifies the typed acknowledgement, active fault indication, and resulting operational mode. '' @
            ''It does not prove coverage of every physical detection mechanism.'', '''',
          ''| Fault | Expected mode | Result | Scenario report |'', ''|---|---|---|---|''] @
         map (\<lambda>(fc, name, ok, _). ''| `'' @ fc_fault fc @ ''` | `'' @ fc_expected_mode fc @ ''` | '' @ pass_fail ok @
            '' | `reports/scenario_'' @ name @ ''_output.txt` |'') results @
         (if failures \<noteq> [] then ['''', ''## Failure logs'', ''''] @
            concat (map (\<lambda>(fc, _, _, output_text).
              [''### '' @ fc_fault fc, '''', ''```text'', rstrip output_text, ''```'', '''']) failures)
          else []))
      @ [CHR 10])"

text \<open>\<open>main\<close>: the report written, if any, and the exit status.\<close>

definition fdir_main ::
  "(json_object \<Rightarrow> proc_outcome) \<Rightarrow> string \<Rightarrow> string \<Rightarrow> string \<Rightarrow> (string \<times> string) option \<times> int result" where
  "fdir_main proc repo build_dir output_arg =
     (let output = path_under repo output_arg in
      case rmap (fdir_run_case proc) (List.enumerate 0 FAULT_CASES) of
        Inl e \<Rightarrow> (None, Inl e)
      | Inr results \<Rightarrow>
          (Some (output, fdir_report build_dir results),
           rbind (relative_to output repo) (\<lambda>_.
             Inr (if length (filter (\<lambda>(_, _, ok, _). \<not> ok) results) = 0 then 0 else 1))))"

section \<open>The HIL smoke test\<close>

definition hil_main :: "(string list \<Rightarrow> int) \<Rightarrow> string \<Rightarrow> string \<Rightarrow> string \<Rightarrow> int \<times> string list" where
  "hil_main exec python repo build_dir =
     (let returncode = exec [python, repo @ ''/tools/run_scenario.py'', repo @ ''/scenarios/hil_smoke_test.yaml'',
            ''--build-dir'', build_dir]
      in if returncode \<noteq> 0
         then (returncode, [''== Running HIL smoke test =='', ''ERROR: HIL smoke test failed.''])
         else (0, [''== Running HIL smoke test =='', ''HIL smoke test passed.'']))"

section \<open>The Monte Carlo campaign\<close>

text \<open>The generator \<open>random.Random\<close> is a parameter: \<open>draw\<close> yields a number and the next state, and
  \<open>randint\<close> and \<open>choice\<close> reduce it to their documented ranges.\<close>

type_synonym 'g generator = "'g \<Rightarrow> nat \<times> 'g"

definition randint :: "'g generator \<Rightarrow> int \<Rightarrow> int \<Rightarrow> 'g \<Rightarrow> int \<times> 'g" where
  "randint draw lo hi g = (let (n, g1) = draw g in (lo + int n mod (hi - lo + 1), g1))"

definition choice :: "'g generator \<Rightarrow> 'a list \<Rightarrow> 'g \<Rightarrow> 'a \<times> 'g" where
  "choice draw xs g = (let (n, g1) = draw g in (xs ! (n mod length xs), g1))"

record template =
  tm_suffix :: string
  tm_description :: string
  tm_loop_count :: int
  tm_sensor_timeout_loop :: "int option"
  tm_watchdog_timeout_loop :: "int option"
  tm_requirements :: "string list"
  tm_steps :: "json list"

definition command_step :: "string \<Rightarrow> string \<Rightarrow> string option \<Rightarrow> int \<Rightarrow> int \<Rightarrow> string \<Rightarrow> string \<Rightarrow> json" where
  "command_step name command argument ack_seq ack_status mode fault =
     JObj ([(''name'', JStr name), (''command'', JStr command)] @
       (case argument of None \<Rightarrow> [] | Some a \<Rightarrow> [(''argument'', JStr a)]) @
       [(''expect'', JObj [(''ack_seq'', JInt ack_seq), (''ack_cmd'', JStr command), (''ack_status'', JInt ack_status),
          (''mode'', JStr mode), (''fault'', JStr fault)])])"

definition wait_step :: "string \<Rightarrow> string \<Rightarrow> string \<Rightarrow> json" where
  "wait_step name mode fault =
     JObj [(''name'', JStr name), (''expect'', JObj [(''mode'', JStr mode), (''fault'', JStr fault)])]"

definition templates :: "int \<Rightarrow> int \<Rightarrow> template list" where
  "templates sensor_timeout_loop watchdog_timeout_loop =
     [\<lparr>tm_suffix = ''nominal_transition'',
       tm_description = ''Randomized verification of BOOT to NOMINAL transition.'',
       tm_loop_count = 12, tm_sensor_timeout_loop = None, tm_watchdog_timeout_loop = None,
       tm_requirements = [''FSW-REQ-002'', ''FSW-REQ-106'', ''VER-REQ-006''],
       tm_steps = [command_step ''set nominal'' ''SET_MODE'' (Some ''NOMINAL'') 1 0 ''NOMINAL'' ''NONE'']\<rparr>,
      \<lparr>tm_suffix = ''invalid_transition'',
       tm_description = ''Randomized verification of invalid transition rejection.'',
       tm_loop_count = 12, tm_sensor_timeout_loop = None, tm_watchdog_timeout_loop = None,
       tm_requirements = [''FSW-REQ-003'', ''FSW-REQ-106'', ''VER-REQ-006''],
       tm_steps = [command_step ''reject boot to recovery'' ''SET_MODE'' (Some ''RECOVERY'') 1 2 ''BOOT'' ''NONE'']\<rparr>,
      \<lparr>tm_suffix = ''cpu_fault_clear'',
       tm_description = ''Randomized verification of CPU fault and fault clearing.'',
       tm_loop_count = 22, tm_sensor_timeout_loop = None, tm_watchdog_timeout_loop = None,
       tm_requirements = [''FSW-REQ-002'', ''FSW-REQ-004'', ''FSW-REQ-005'', ''FSW-REQ-106'', ''VER-REQ-006''],
       tm_steps = [command_step ''set nominal'' ''SET_MODE'' (Some ''NOMINAL'') 1 0 ''NOMINAL'' ''NONE'',
         command_step ''inject cpu fault'' ''INJECT_FAULT'' (Some ''CPU_OVERLOAD'') 2 0 ''DEGRADED_PAYLOAD'' ''CPU_OVERLOAD'',
         command_step ''clear fault'' ''CLEAR_FAULT'' None 3 0 ''DEGRADED_PAYLOAD'' ''NONE'']\<rparr>,
      \<lparr>tm_suffix = ''sensor_timeout'',
       tm_description = ''Randomized verification of sensor timeout forcing SAFE mode.'',
       tm_loop_count = 22, tm_sensor_timeout_loop = Some sensor_timeout_loop, tm_watchdog_timeout_loop = None,
       tm_requirements = [''FSW-REQ-002'', ''FSW-REQ-006'', ''FSW-REQ-106'', ''VER-REQ-006''],
       tm_steps = [command_step ''set nominal before sensor timeout'' ''SET_MODE'' (Some ''NOMINAL'') 1 0 ''NOMINAL'' ''NONE'',
         wait_step ''wait for sensor timeout safe mode'' ''SAFE'' ''SENSOR_TIMEOUT'']\<rparr>,
      \<lparr>tm_suffix = ''watchdog_timeout'',
       tm_description = ''Randomized verification of watchdog timeout forcing SAFE mode.'',
       tm_loop_count = 22, tm_sensor_timeout_loop = None, tm_watchdog_timeout_loop = Some watchdog_timeout_loop,
       tm_requirements = [''FSW-REQ-002'', ''FSW-REQ-007'', ''FSW-REQ-106'', ''VER-REQ-006''],
       tm_steps = [command_step ''set nominal before watchdog timeout'' ''SET_MODE'' (Some ''NOMINAL'') 1 0 ''NOMINAL'' ''NONE'',
         wait_step ''wait for watchdog timeout safe mode'' ''SAFE'' ''WATCHDOG_DEADLINE_MISS'']\<rparr>]"

definition case_scenario :: "int \<Rightarrow> int \<Rightarrow> template \<Rightarrow> json_object" where
  "case_scenario command_port trial_id tm =
     [(''name'', JStr (''monte_carlo_trial_'' @ zero_pad 3 (str_int trial_id) @ ''_'' @ tm_suffix tm)),
      (''description'', JStr (tm_description tm)),
      (''requirements'', JArr (map JStr (tm_requirements tm))),
      (''command_port'', JInt command_port),
      (''telemetry_port'', JInt (command_port + 1)),
      (''loop_count'', JInt (tm_loop_count tm)),
      (''steps'', JArr (tm_steps tm))] @
     (case tm_sensor_timeout_loop tm of None \<Rightarrow> [] | Some l \<Rightarrow> [(''sensor_timeout_loop'', JInt l)]) @
     (case tm_watchdog_timeout_loop tm of None \<Rightarrow> [] | Some l \<Rightarrow> [(''watchdog_timeout_loop'', JInt l)])"

definition make_case :: "'g generator \<Rightarrow> int \<Rightarrow> 'g \<Rightarrow> json_object \<times> 'g" where
  "make_case draw trial_id g =
     (let (command_port, g1) = randint draw 20000 50000 g;
          (sensor_timeout_loop, g2) = randint draw 7 11 g1;
          (watchdog_timeout_loop, g3) = randint draw 7 11 g2;
          (tm, g4) = choice draw (templates sensor_timeout_loop watchdog_timeout_loop) g3
      in (case_scenario command_port trial_id tm, g4))"

text \<open>\<open>f"{timeout_s:.1f}"\<close>, for the exact value of the float.\<close>

definition format_1f :: "rat \<Rightarrow> string" where
  "format_1f r =
     (let (n, d) = quotient_of r; tenths = round_half_even (nat (10 * n)) (nat d)
      in str_nat (tenths div 10) @ ''.'' @ str_nat (tenths mod 10))"

fun captured_text :: "captured \<Rightarrow> string" where
  "captured_text NoOutput = []"
| "captured_text (CapturedText s) = s"
| "captured_text (CapturedBytes b) = b"

definition run_trial :: "(json_object \<Rightarrow> proc_outcome) \<Rightarrow> json_object \<Rightarrow> rat \<Rightarrow> bool \<times> string" where
  "run_trial proc scenario timeout_s =
     (case proc scenario of
        Completed returncode out \<Rightarrow> (returncode = 0, out)
      | TimeoutExpired c \<Rightarrow>
          let partial_output = captured_text c;
              message = ''Trial timed out after '' @ format_1f timeout_s @ '' seconds. '' @
                ''This is recorded as a failed trial rather than crashing the campaign.''
          in (False, if partial_output \<noteq> [] then message @ CHR 10 # ''Partial output:'' @ CHR 10 # partial_output
                     else message))"

type_synonym trial = "json_object \<times> bool \<times> string"

definition replace_first :: "string \<Rightarrow> string \<Rightarrow> string \<Rightarrow> string" where
  "replace_first s old new = (case split_once old s of None \<Rightarrow> s | Some (a, b) \<Rightarrow> a @ new @ b)"

definition str_items :: "json_object \<Rightarrow> string \<Rightarrow> string list" where
  "str_items scenario key = (case dict_get scenario key of
     Some (JArr xs) \<Rightarrow> concat (map (\<lambda>x. case x of JStr s \<Rightarrow> [s] | _ \<Rightarrow> []) xs) | _ \<Rightarrow> [])"

definition monte_report :: "int \<Rightarrow> trial list \<Rightarrow> string" where
  "monte_report seed trials =
     (let passed = length (filter (\<lambda>(_, ok, _). ok) trials);
          failed = length trials - passed;
          failures = filter (\<lambda>(_, ok, _). \<not> ok) trials
      in join [CHR 10]
        ([''# Monte Carlo Regression Report'', '''', ''Seed: `'' @ str_int seed @ ''`'',
          ''Trials: `'' @ str_nat (length trials) @ ''`'', ''Passed: `'' @ str_nat passed @ ''`'',
          ''Failed: `'' @ str_nat failed @ ''`'', ''Result: '' @ pass_fail (failed = 0), '''',
          ''## Trial Summary'', '''', ''| Trial | Scenario Type | Result | Requirements |'', ''|---|---|---|---|''] @
         map (\<lambda>(scenario, ok, _). let name = str_entry scenario ''name'' in
            ''| '' @ name @ '' | '' @ replace_first name ''monte_carlo_trial_'' '''' @ '' | '' @ pass_fail ok @ '' | '' @
            join '', '' (str_items scenario ''requirements'') @ '' |'') trials @
         (if failures \<noteq> [] then ['''', ''## Failure Logs'', ''''] @
            concat (map (\<lambda>(scenario, _, output).
              [''### '' @ str_entry scenario ''name'', '''', ''```text'', rstrip output, ''```'', '''']) failures)
          else [])) @ [CHR 10])"

text \<open>The loop of \<open>main\<close> over the trial numbers.\<close>

fun run_trials :: "'g generator \<Rightarrow> (json_object \<Rightarrow> proc_outcome) \<Rightarrow> rat \<Rightarrow> int list \<Rightarrow> 'g \<Rightarrow> trial list" where
  "run_trials draw proc timeout_s [] g = []"
| "run_trials draw proc timeout_s (trial_id # ids) g =
     (let (scenario, g1) = make_case draw trial_id g;
          (ok, output) = run_trial proc scenario timeout_s
      in (scenario, ok, output) # run_trials draw proc timeout_s ids g1)"

record monte_args =
  ma_trials :: int
  ma_seed :: int
  ma_output :: string
  ma_trial_timeout_s :: rat

text \<open>\<open>main\<close>: the report written, if any, and the exit status; \<open>SystemExit\<close> with a message is an
  error. \<open>seeded\<close> is \<open>random.Random\<close>.\<close>

definition monte_main ::
  "'g generator \<Rightarrow> (int \<Rightarrow> 'g) \<Rightarrow> (json_object \<Rightarrow> proc_outcome) \<Rightarrow> string \<Rightarrow> monte_args
    \<Rightarrow> (string \<times> string) option \<times> int result" where
  "monte_main draw seeded proc repo args =
     (if ma_trials args \<le> 0 then (None, Inl (SystemExit ''ERROR: --trials must be positive''))
      else if ma_trial_timeout_s args \<le> 0
      then (None, Inl (SystemExit ''ERROR: --trial-timeout-s must be positive''))
      else
        let trials = run_trials draw proc (ma_trial_timeout_s args) [1..ma_trials args] (seeded (ma_seed args));
            output_path = path_under repo (ma_output args);
            passed = length (filter (\<lambda>(_, ok, _). ok) trials);
            failed = length trials - passed
        in (Some (output_path, monte_report (ma_seed args) trials),
            rbind (relative_to output_path repo) (\<lambda>_. Inr (if failed = 0 then 0 else 1))))"

section \<open>The outcome of the FDIR campaign\<close>

definition aborts :: "(json_object \<Rightarrow> proc_outcome) \<Rightarrow> bool" where
  "aborts proc \<longleftrightarrow> list_ex (\<lambda>(index, fc).
     case proc (scenario_for fc index) of TimeoutExpired (CapturedBytes b) \<Rightarrow> b \<noteq> [] | _ \<Rightarrow> False)
     (List.enumerate 0 FAULT_CASES)"

definition all_exit_zero :: "(json_object \<Rightarrow> proc_outcome) \<Rightarrow> bool" where
  "all_exit_zero proc \<longleftrightarrow> list_all (\<lambda>(index, fc).
     case proc (scenario_for fc index) of Completed code _ \<Rightarrow> code = 0 | TimeoutExpired _ \<Rightarrow> False)
     (List.enumerate 0 FAULT_CASES)"

lemma fdir_run_case_error:
  "(\<exists>e. fdir_run_case proc (index, fc) = Inl e) \<longleftrightarrow>
     (case proc (scenario_for fc index) of TimeoutExpired (CapturedBytes b) \<Rightarrow> b \<noteq> [] | _ \<Rightarrow> False)"
  "fdir_run_case proc (index, fc) = Inl e \<Longrightarrow> \<exists>text. e = TypeError text"
  by (auto simp: fdir_run_case_def stdout_plus_def Let_def split: proc_outcome.splits captured.splits if_splits)

lemma fdir_run_case_ok:
  "fdir_run_case proc (index, fc) = Inr (fc', name, ok, out) \<Longrightarrow>
     ok \<longleftrightarrow> (case proc (scenario_for fc index) of Completed code _ \<Rightarrow> code = 0 | TimeoutExpired _ \<Rightarrow> False)"
  by (auto simp: fdir_run_case_def Let_def rbind_Inr_iff split: proc_outcome.splits)

lemma rmap_error: "rmap f xs = Inl e \<Longrightarrow> \<exists>x\<in>set xs. f x = Inl e"
  by (induction xs) (auto simp: rbind_Inl_iff)

lemma rmap_error_exists: "x \<in> set xs \<Longrightarrow> f x = Inl e \<Longrightarrow> \<exists>e'. rmap f xs = Inl e'"
proof (induction xs)
  case (Cons y ys)
  then show ?case by (cases "f y"; cases "rmap f ys") auto
qed simp

lemma list_all2_same_pred: "list_all2 (\<lambda>x y. P x \<longleftrightarrow> Q y) xs ys \<Longrightarrow> list_all P xs \<longleftrightarrow> list_all Q ys"
  by (induction rule: list_all2_induct) simp_all

text \<open>C28: the outcome of the FDIR campaign. If some case times out with output captured as bytes, the
  campaign ends with a \<open>TypeError\<close> and writes no report at all. Otherwise it writes its report,
  and its exit status is 0 exactly if every one of the ten scenarios exited with 0 in time,
  provided the report lies inside the repository (a \<open>ValueError\<close> follows the report if not).\<close>

theorem fdir_campaign_outcome:
  "if aborts proc then \<exists>text. fdir_main proc repo build_dir output_arg = (None, Inl (TypeError text))
   else (\<exists>report. fst (fdir_main proc repo build_dir output_arg) = Some (path_under repo output_arg, report)) \<and>
     snd (fdir_main proc repo build_dir output_arg) =
       rbind (relative_to (path_under repo output_arg) repo) (\<lambda>_. Inr (if all_exit_zero proc then 0 else 1))"
proof (cases "rmap (fdir_run_case proc) (List.enumerate 0 FAULT_CASES)")
  case (Inl e)
  then obtain index fc where "(index, fc) \<in> set (List.enumerate 0 FAULT_CASES)" "fdir_run_case proc (index, fc) = Inl e"
    using rmap_error by fast
  then have "aborts proc" "\<exists>text. e = TypeError text"
    using fdir_run_case_error [of proc index fc] unfolding aborts_def list_ex_iff by blast+
  with Inl show ?thesis by (auto simp: fdir_main_def Let_def)
next
  case (Inr results)
  then have all2: "list_all2 (\<lambda>x y. fdir_run_case proc x = Inr y) (List.enumerate 0 FAULT_CASES) results"
    by (simp add: rmap_Inr_iff)
  have "\<not> aborts proc"
  proof
    assume "aborts proc"
    then obtain x e where "x \<in> set (List.enumerate 0 FAULT_CASES)" "fdir_run_case proc x = Inl e"
      unfolding aborts_def list_ex_iff using fdir_run_case_error(1) [of proc] by fast
    with rmap_error_exists [of x "List.enumerate 0 FAULT_CASES" "fdir_run_case proc" e] Inr show False by simp
  qed
  moreover have "length (filter (\<lambda>(_, _, ok, _). \<not> ok) results) = 0 \<longleftrightarrow> all_exit_zero proc"
  proof -
    have "list_all2 (\<lambda>x y. (case x of (index, fc) \<Rightarrow> case proc (scenario_for fc index) of
        Completed code _ \<Rightarrow> code = 0 | TimeoutExpired _ \<Rightarrow> False) \<longleftrightarrow> (case y of (_, _, ok, _) \<Rightarrow> ok))
      (List.enumerate 0 FAULT_CASES) results"
      by (rule list_all2_mono [OF all2]) (auto dest!: fdir_run_case_ok)
    from list_all2_same_pred [OF this] show ?thesis by (simp add: filter_empty_conv all_exit_zero_def list_all_iff case_prod_unfold)
  qed
  ultimately show ?thesis by (auto simp: fdir_main_def Let_def Inr)
qed

section \<open>The scenarios of the Monte Carlo campaign\<close>

lemma randint_bounds: "lo \<le> hi \<Longrightarrow> lo \<le> fst (randint draw lo hi g) \<and> fst (randint draw lo hi g) \<le> hi"
  using pos_mod_bound [of "hi - lo + 1" "int (fst (draw g))"] by (auto simp: randint_def split_beta)

lemma choice_member: "xs \<noteq> [] \<Longrightarrow> fst (choice draw xs g) \<in> set xs"
  by (simp add: choice_def split_beta)

lemma make_case_template:
  "\<exists>p tm l1 l2. fst (make_case draw trial_id g) = case_scenario p trial_id tm \<and> tm \<in> set (templates l1 l2) \<and>
     20000 \<le> p \<and> p \<le> 50000"
proof -
  let ?r1 = "randint draw 20000 50000 g" let ?r2 = "randint draw 7 11 (snd ?r1)" let ?r3 = "randint draw 7 11 (snd ?r2)"
  have "fst (make_case draw trial_id g) =
      case_scenario (fst ?r1) trial_id (fst (choice draw (templates (fst ?r2) (fst ?r3)) (snd ?r3)))"
    by (simp add: make_case_def Let_def split_beta)
  moreover have "fst (choice draw (templates (fst ?r2) (fst ?r3)) (snd ?r3)) \<in> set (templates (fst ?r2) (fst ?r3))"
    by (rule choice_member) (simp add: templates_def)
  moreover have "20000 \<le> fst ?r1" "fst ?r1 \<le> 50000" using randint_bounds [of 20000 50000 draw g] by simp_all
  ultimately show ?thesis by blast
qed

text \<open>A step that raises no exception when it is sent with a sequence number and a clock in range.\<close>

definition runnable :: "json_object \<Rightarrow> bool" where
  "runnable step \<longleftrightarrow> (\<exists>e. expectation step = JObj e) \<and>
     dict_get step ''timestamp_ms'' = None \<and> dict_get step ''timestamp_offset_ms'' = None \<and>
     (\<exists>arg. optional_str step ''argument'' = Inr arg \<and>
       (optional_str step ''command'' = Inr None \<or>
        (\<exists>c v. optional_str step ''command'' = Inr (Some (command_id_to_string c)) \<and>
           parse_argument (command_id_to_string c) arg = Inr v \<and> 0 \<le> v \<and> v < 2 ^ 32)))"

lemma build_packet_in_range:
  assumes "0 \<le> s" "s < 2 ^ 32" "0 \<le> now" "now < 2 ^ 64" "0 \<le> v" "v < 2 ^ 32"
  shows "\<exists>bs. build_packet now s (command_id_to_string c) v None = Inr bs"
proof -
  have k: "dict_index COMMANDS (command_id_to_string c) = Inr (int (command_value c))"
    using COMMANDS_lookup_iff by blast
  have "int (command_value c) < 2 ^ 16" by (cases c) simp_all
  with assms have "\<exists>payload. struct_pack command_fmt [COMMAND_MAGIC, COMMAND_VERSION, s, now, int (command_value c), v] = Inr payload"
    by (simp add: command_fmt_def COMMAND_MAGIC_def COMMAND_VERSION_def)
  then show ?thesis by (auto simp: build_packet_def k pack_crc simp del: struct_pack.simps)
qed

lemma send_step_runnable:
  assumes "runnable step" and "0 \<le> rs_sequence st" and "rs_sequence st < 2 ^ 32"
    and "0 \<le> se_sender_ms env" and "se_sender_ms env < 2 ^ 64"
  shows "\<exists>st'. send_step host port env step st = Inr st' \<and> rs_sequence st \<le> rs_sequence st' \<and> rs_sequence st' \<le> rs_sequence st + 1"
proof -
  from assms(1) obtain arg where arg: "optional_str step ''argument'' = Inr arg"
    and cmd: "optional_str step ''command'' = Inr None \<or>
      (\<exists>c v. optional_str step ''command'' = Inr (Some (command_id_to_string c)) \<and>
         parse_argument (command_id_to_string c) arg = Inr v \<and> 0 \<le> v \<and> v < 2 ^ 32)"
    and ts: "resolve_step_timestamp step (se_runner_ms env) = Inr None"
    by (auto simp: runnable_def resolve_step_timestamp_def)
  show ?thesis
  proof (cases "optional_str step ''command'' = Inr None")
    case True
    then show ?thesis by (simp add: send_step_def)
  next
    case False
    with cmd obtain c v where c: "optional_str step ''command'' = Inr (Some (command_id_to_string c))"
      and v: "parse_argument (command_id_to_string c) arg = Inr v" "0 \<le> v" "v < 2 ^ 32" by blast
    obtain bs where "build_packet (se_sender_ms env) (rs_sequence st) (command_id_to_string c) v None = Inr bs"
      using build_packet_in_range assms(2-5) v(2,3) by blast
    moreover have "command_id_to_string c \<in> set (dict_keys COMMANDS)" by (cases c) (simp_all add: COMMANDS_def)
    ultimately have "send_command (se_sender_ms env) host port (rs_sequence st) (command_id_to_string c) arg None = Inr bs"
      using v(1) by (simp add: send_command_def child_args_def py_int_str_int send_main_def)
    then show ?thesis by (simp add: send_step_def c ts arg)
  qed
qed

lemma run_steps_runnable:
  "list_all (\<lambda>(step, env). runnable step \<and> 0 \<le> se_sender_ms env \<and> se_sender_ms env < 2 ^ 64) steps \<Longrightarrow>
     0 \<le> rs_sequence st \<Longrightarrow> rs_sequence st + int (length steps) < 2 ^ 32 \<Longrightarrow>
     \<exists>st'. run_steps host port steps st = Inr st'"
proof (induction steps arbitrary: st)
  case (Cons se steps)
  obtain step env where se: "se = (step, env)" by (cases se)
  with Cons.prems obtain st1 where st1: "send_step host port env step st = Inr st1"
    "rs_sequence st \<le> rs_sequence st1" "rs_sequence st1 \<le> rs_sequence st + 1"
    using send_step_runnable [of step st env host port] by auto
  obtain e where e: "expectation step = JObj e" using Cons.prems(1) by (auto simp: se runnable_def)
  obtain m packets where w: "wait_for_expectation (rs_packets st1) (JObj e) (se_rounds env) = Inr (m, packets)"
    using wait_mapping_returns by blast
  have "\<exists>st'. run_steps host port steps (st1\<lparr>rs_packets := ps\<rparr>) = Inr st'" for ps
    using Cons.prems st1 by (intro Cons.IH) auto
  then show ?case by (auto simp: se st1(1) e w split: option.split)
qed simp

lemma template_steps_runnable:
  assumes "tm \<in> set (templates l1 l2)"
  shows "\<exists>steps. tm_steps tm = map JObj steps \<and> list_all runnable steps \<and> length steps \<le> 3"
proof -
  have cmd: "\<exists>step. command_step name (command_id_to_string c) arg n st m f = JObj step \<and> runnable step"
    if "parse_argument (command_id_to_string c) arg = Inr v" "0 \<le> v" "v < 2 ^ 32" for name c arg n st m f v
    using that unfolding command_step_def
    by (cases arg) (auto simp: runnable_def expectation_def optional_str_def)
  have wait: "\<exists>step. wait_step name m f = JObj step \<and> runnable step" for name m f
    by (auto simp: wait_step_def runnable_def expectation_def optional_str_def)
  have args: "parse_argument ''SET_MODE'' (Some ''NOMINAL'') = Inr 1" "parse_argument ''SET_MODE'' (Some ''RECOVERY'') = Inr 5"
    "parse_argument ''INJECT_FAULT'' (Some ''CPU_OVERLOAD'') = Inr 300" "parse_argument ''CLEAR_FAULT'' None = Inr 0"
    by (simp_all add: parse_argument_def dict_index_def MODES_def FAULTS_def)
  note c = cmd [of SET_MODE, simplified, OF args(1), simplified] cmd [of SET_MODE, simplified, OF args(2), simplified]
    cmd [of INJECT_FAULT, simplified, OF args(3), simplified] cmd [of CLEAR_FAULT, simplified, OF args(4), simplified]
  have "\<exists>steps. xs = map JObj steps \<and> list_all runnable steps \<and> length steps \<le> 3"
    if "list_all (\<lambda>x. \<exists>step. x = JObj step \<and> runnable step) xs" "length xs \<le> 3" for xs
  proof -
    from that(1) have "\<exists>steps. xs = map JObj steps \<and> list_all runnable steps"
    proof (induction xs)
      case (Cons x xs)
      then obtain step steps where "x = JObj step" "runnable step" "xs = map JObj steps" "list_all runnable steps" by auto
      then show ?case by (intro exI [of _ "step # steps"]) simp
    qed simp
    with that(2) show ?thesis by auto
  qed
  then show ?thesis using assms c wait by (auto simp: templates_def)
qed

text \<open>C29: the scenarios the Monte Carlo campaign generates are well typed. Whatever the generator
  draws, the ports are consecutive and valid, every key that \<open>run_scenario.py\<close> reads holds a value
  of the type it needs, and with clocks that fit 64 bits the runner ends with an exit status
  rather than an exception: in particular every command is accepted by \<open>send_command.py\<close>.\<close>

theorem monte_carlo_scenarios_well_typed:
  assumes "list_all (\<lambda>env. 0 \<le> se_sender_ms env \<and> se_sender_ms env < 2 ^ 64) envs"
  shows "\<exists>p c st. dict_get (fst (make_case draw trial_id g)) ''command_port'' = Some (JInt p) \<and>
    dict_get (fst (make_case draw trial_id g)) ''telemetry_port'' = Some (JInt (p + 1)) \<and>
    20000 \<le> p \<and> p < 65535 \<and>
    scenario_main host True (fst (make_case draw trial_id g)) envs = Inr (c, st)"
proof -
  obtain p tm l1 l2 where mc: "fst (make_case draw trial_id g) = case_scenario p trial_id tm"
    and tm: "tm \<in> set (templates l1 l2)" and p: "20000 \<le> p" "p \<le> 50000"
    using make_case_template [of draw trial_id g] by blast
  obtain steps where steps: "tm_steps tm = map JObj steps" "list_all runnable steps" "length steps \<le> 3"
    using template_steps_runnable [OF tm] by blast
  have "\<exists>st. run_steps host p (zip steps envs) initial_run = Inr st"
    using steps(2,3) assms by (intro run_steps_runnable)
      (auto simp: list_all_iff initial_run_def dest: set_zip_leftD set_zip_rightD)
  moreover have "check_steps (JArr (map JObj steps)) = Inr steps"
  proof -
    have "rmap g (map JObj steps) = Inr steps" if "list_all (\<lambda>x. g (JObj x) = Inr x) steps" for g
      using that by (induction steps) simp_all
    then show ?thesis using steps(2) by (auto simp: check_steps_def list_all_iff runnable_def)
  qed
  ultimately show ?thesis using p
    by (cases "tm_sensor_timeout_loop tm"; cases "tm_watchdog_timeout_loop tm")
      (auto simp: mc case_scenario_def steps(1) scenario_main_def int_key_def server_args_def present_def int_or_zero_def)
qed

theorem monte_carlo_scenarios_well_typed_witness:
  "\<exists>p c st. dict_get (fst (make_case (\<lambda>n. (n, n + 1)) 1 0)) ''command_port'' = Some (JInt p) \<and> p < 65535 \<and>
    scenario_main ''127.0.0.1'' True (fst (make_case (\<lambda>n. (n, n + 1)) 1 0))
      [\<lparr>se_runner_ms = 0, se_sender_ms = 1751328000000, se_rounds = []\<rparr>] = Inr (c, st)"
  using monte_carlo_scenarios_well_typed [of "[\<lparr>se_runner_ms = 0, se_sender_ms = 1751328000000, se_rounds = []\<rparr>]"
      "\<lambda>n. (n, n + 1)" 1 0 "''127.0.0.1''"] by auto

section \<open>The outcome of the Monte Carlo campaign\<close>

lemma filter_all_length: "length xs - length (filter P xs) = 0 \<longleftrightarrow> list_all P xs"
proof -
  have "length xs - length (filter P xs) = length (filter (\<lambda>x. \<not> P x) xs)"
    using sum_length_filter_compl [of P xs] by arith
  then show ?thesis by (simp add: filter_empty_conv list_all_iff)
qed

lemma run_trials_outcome:
  "length (run_trials draw proc timeout_s ids g) = length ids"
  "list_all (\<lambda>(scenario, ok, _). ok \<longleftrightarrow> (case proc scenario of Completed code _ \<Rightarrow> code = 0 | TimeoutExpired _ \<Rightarrow> False))
     (run_trials draw proc timeout_s ids g)"
  by (induction ids arbitrary: g)
    (auto simp: run_trial_def Let_def split: prod.splits proc_outcome.splits if_splits)

text \<open>Unlike the FDIR campaign, this one records a timeout as a failed trial: with valid arguments it
  always reports on every trial, and exits with 0 exactly if every trial exited with 0 in time.\<close>

lemma monte_carlo_outcome:
  "if ma_trials args \<le> 0 \<or> ma_trial_timeout_s args \<le> 0
   then \<exists>text. monte_main draw seeded proc repo args = (None, Inl (SystemExit text))
   else \<exists>trials. length trials = nat (ma_trials args) \<and>
     list_all (\<lambda>(scenario, ok, _). ok \<longleftrightarrow>
       (case proc scenario of Completed code _ \<Rightarrow> code = 0 | TimeoutExpired _ \<Rightarrow> False)) trials \<and>
     monte_main draw seeded proc repo args =
       (Some (path_under repo (ma_output args), monte_report (ma_seed args) trials),
        rbind (relative_to (path_under repo (ma_output args)) repo)
          (\<lambda>_. Inr (if list_all (\<lambda>(_, ok, _). ok) trials then 0 else 1)))"
proof -
  let ?ts = "run_trials draw proc (ma_trial_timeout_s args) [1..ma_trials args] (seeded (ma_seed args))"
  show ?thesis
  proof (cases "ma_trials args \<le> 0 \<or> ma_trial_timeout_s args \<le> 0")
    case False
    then have "monte_main draw seeded proc repo args =
        (Some (path_under repo (ma_output args), monte_report (ma_seed args) ?ts),
         rbind (relative_to (path_under repo (ma_output args)) repo)
          (\<lambda>_. Inr (if list_all (\<lambda>(_, ok, _). ok) ?ts then 0 else 1)))"
      unfolding filter_all_length [symmetric] by (simp add: monte_main_def Let_def del: diff_is_0_eq)
    moreover have "length ?ts = nat (ma_trials args)" by (simp add: run_trials_outcome(1))
    ultimately show ?thesis using False run_trials_outcome(2) by metis
  qed (auto simp: monte_main_def)
qed

end
