(* ===== verification/Flight_Modes.thy ===== *)
theory Flight_Modes
  imports Flight_Types Py_Strings
begin

text \<open>
  Modes, fault responses and recovery of the flight software: \<open>fsw/src/mode_manager.cpp\<close>,
  \<open>fsw/src/fdir_manager.cpp\<close> and \<open>fsw/src/recovery_supervisor.cpp\<close>. The only state of a
  \<open>ModeManager\<close> is its mode, so operations on it take and return a \<open>Mode\<close>.
\<close>

section \<open>ModeManager\<close>

fun is_valid_transition :: "Mode \<Rightarrow> Mode \<Rightarrow> bool" where
  "is_valid_transition from to =
     (if from = to then True
      else case from of
        BOOT \<Rightarrow> to = STANDBY \<or> to = NOMINAL \<or> to = SAFE
      | STANDBY \<Rightarrow> to = NOMINAL \<or> to = TEST \<or> to = SAFE
      | NOMINAL \<Rightarrow> to = STANDBY \<or> to = DEGRADED_SENSOR \<or> to = DEGRADED_PAYLOAD \<or> to = SAFE
      | DEGRADED_SENSOR \<Rightarrow> to = STANDBY \<or> to = RECOVERY \<or> to = SAFE
      | DEGRADED_PAYLOAD \<Rightarrow> to = STANDBY \<or> to = NOMINAL \<or> to = RECOVERY \<or> to = SAFE
      | TEST \<Rightarrow> to = STANDBY \<or> to = SAFE
      | SAFE \<Rightarrow> to = RECOVERY
      | RECOVERY \<Rightarrow> to = STANDBY \<or> to = NOMINAL \<or> to = SAFE)"

definition transition_to :: "Mode \<Rightarrow> Mode \<Rightarrow> bool \<times> Mode" where
  "transition_to next_mode mode =
     (if \<not> is_valid_transition mode next_mode then (False, mode) else (True, next_mode))"

definition handle_fault :: "FaultCode \<Rightarrow> Mode \<Rightarrow> Mode" where
  "handle_fault fault mode =
     (case fault of
        SENSOR_TIMEOUT \<Rightarrow> snd (transition_to SAFE mode)
      | SENSOR_INVALID_DATA \<Rightarrow> snd (transition_to SAFE mode)
      | TELEMETRY_SOCKET_FAILURE \<Rightarrow> snd (transition_to SAFE mode)
      | WATCHDOG_DEADLINE_MISS \<Rightarrow> snd (transition_to SAFE mode)
      | PAYLOAD_HEARTBEAT_TIMEOUT \<Rightarrow> snd (transition_to DEGRADED_PAYLOAD mode)
      | CPU_OVERLOAD \<Rightarrow> snd (transition_to DEGRADED_PAYLOAD mode)
      | _ \<Rightarrow> mode)"

section \<open>FdirManager\<close>

datatype FaultSeverity = SEVERITY_NONE | ADVISORY | DEGRADED | SEVERITY_CRITICAL

datatype FaultResponse =
  RESPONSE_NONE | HOLD_CURRENT_MODE | ENTER_DEGRADED_SENSOR | ENTER_DEGRADED_PAYLOAD | ENTER_SAFE

fun fault_severity_to_string :: "FaultSeverity \<Rightarrow> string" where
  "fault_severity_to_string SEVERITY_NONE = ''NONE''"
| "fault_severity_to_string ADVISORY = ''ADVISORY''"
| "fault_severity_to_string DEGRADED = ''DEGRADED''"
| "fault_severity_to_string SEVERITY_CRITICAL = ''CRITICAL''"

fun fault_response_to_string :: "FaultResponse \<Rightarrow> string" where
  "fault_response_to_string RESPONSE_NONE = ''NONE''"
| "fault_response_to_string HOLD_CURRENT_MODE = ''HOLD_CURRENT_MODE''"
| "fault_response_to_string ENTER_DEGRADED_SENSOR = ''ENTER_DEGRADED_SENSOR''"
| "fault_response_to_string ENTER_DEGRADED_PAYLOAD = ''ENTER_DEGRADED_PAYLOAD''"
| "fault_response_to_string ENTER_SAFE = ''ENTER_SAFE''"

record FaultDisposition =
  fd_fault :: FaultCode
  fd_severity :: FaultSeverity
  fd_response :: FaultResponse
  fd_priority :: byte
  fd_latched :: bool
  fd_operator_clear_required :: bool
  fd_detection_source :: string
  fd_recovery_rule :: string

definition disposition ::
  "FaultCode \<Rightarrow> FaultSeverity \<Rightarrow> FaultResponse \<Rightarrow> byte \<Rightarrow> bool \<Rightarrow> bool \<Rightarrow> string \<Rightarrow> string \<Rightarrow> FaultDisposition"
  where
  "disposition f sev resp prio lat opc src rule = \<lparr>fd_fault = f, fd_severity = sev, fd_response = resp,
     fd_priority = prio, fd_latched = lat, fd_operator_clear_required = opc, fd_detection_source = src,
     fd_recovery_rule = rule\<rparr>"

fun disposition_for :: "FaultCode \<Rightarrow> FaultDisposition" where
  "disposition_for NONE =
     disposition NONE SEVERITY_NONE RESPONSE_NONE 0 False False ''none'' ''none''"
| "disposition_for SENSOR_TIMEOUT =
     disposition SENSOR_TIMEOUT SEVERITY_CRITICAL ENTER_SAFE 90 True True
       ''health monitor sensor age'' ''operator clear after valid sensor dwell''"
| "disposition_for SENSOR_INVALID_DATA =
     disposition SENSOR_INVALID_DATA SEVERITY_CRITICAL ENTER_SAFE 85 True True
       ''sensor validity monitor'' ''operator clear after valid sensor dwell''"
| "disposition_for PAYLOAD_HEARTBEAT_TIMEOUT =
     disposition PAYLOAD_HEARTBEAT_TIMEOUT DEGRADED ENTER_DEGRADED_PAYLOAD 50 True False
       ''payload heartbeat monitor'' ''clear after heartbeat recovery dwell''"
| "disposition_for CPU_OVERLOAD =
     disposition CPU_OVERLOAD DEGRADED ENTER_DEGRADED_PAYLOAD 60 True False
       ''resource monitor'' ''clear after CPU recovery dwell''"
| "disposition_for MEMORY_OVERLOAD =
     disposition MEMORY_OVERLOAD SEVERITY_CRITICAL ENTER_SAFE 80 True True
       ''resource monitor'' ''operator clear after memory recovery dwell''"
| "disposition_for TELEMETRY_SOCKET_FAILURE =
     disposition TELEMETRY_SOCKET_FAILURE SEVERITY_CRITICAL ENTER_SAFE 75 True True
       ''telemetry transport'' ''operator clear after transport recovery''"
| "disposition_for COMMAND_BAD_CRC =
     disposition COMMAND_BAD_CRC ADVISORY HOLD_CURRENT_MODE 20 False False
       ''command decoder'' ''automatic after valid packet''"
| "disposition_for COMMAND_UNKNOWN_ID =
     disposition COMMAND_UNKNOWN_ID ADVISORY HOLD_CURRENT_MODE 15 False False
       ''command decoder'' ''automatic after valid command''"
| "disposition_for COMMAND_TIMEOUT =
     disposition COMMAND_TIMEOUT SEVERITY_CRITICAL ENTER_SAFE 70 True True
       ''command-link monitor'' ''operator clear after link recovery''"
| "disposition_for WATCHDOG_DEADLINE_MISS =
     disposition WATCHDOG_DEADLINE_MISS SEVERITY_CRITICAL ENTER_SAFE 100 True True
       ''watchdog'' ''operator clear after timing investigation''"

definition select_step :: "FaultCode \<times> FaultDisposition \<Rightarrow> FaultCode \<Rightarrow> FaultCode \<times> FaultDisposition" where
  "select_step sel fault =
     (if fault = NONE then sel
      else
        let candidate = disposition_for fault;
            higher_priority = fd_priority candidate > fd_priority (snd sel);
            deterministic_tie_break = fd_priority candidate = fd_priority (snd sel) \<and>
              fd_fault candidate < fd_fault (snd sel)
        in if higher_priority \<or> deterministic_tie_break then (fault, candidate) else sel)"

definition select_primary_fault :: "FaultCode list \<Rightarrow> FaultCode" where
  "select_primary_fault active_faults =
     fst (foldl select_step (NONE, disposition_for NONE) active_faults)"

fun response_mode :: "FaultResponse \<Rightarrow> Mode \<Rightarrow> Mode" where
  "response_mode RESPONSE_NONE current_mode = current_mode"
| "response_mode HOLD_CURRENT_MODE current_mode = current_mode"
| "response_mode ENTER_DEGRADED_SENSOR current_mode = DEGRADED_SENSOR"
| "response_mode ENTER_DEGRADED_PAYLOAD current_mode = DEGRADED_PAYLOAD"
| "response_mode ENTER_SAFE current_mode = SAFE"

record FdirActionResult =
  fa_disposition :: FaultDisposition
  fa_mode_before :: Mode
  fa_requested_mode :: Mode
  fa_mode_after :: Mode
  fa_transition_attempted :: bool
  fa_transition_succeeded :: bool
  fa_safe_fallback_used :: bool

definition apply_fault :: "Mode \<Rightarrow> FaultCode \<Rightarrow> FdirActionResult \<times> Mode" where
  "apply_fault mode fault =
     (let d = disposition_for fault;
          result = \<lparr>fa_disposition = d, fa_mode_before = mode,
            fa_requested_mode = response_mode (fd_response d) mode, fa_mode_after = mode,
            fa_transition_attempted = False, fa_transition_succeeded = False,
            fa_safe_fallback_used = False\<rparr>
      in if fd_response d = RESPONSE_NONE \<or> fd_response d = HOLD_CURRENT_MODE then (result, mode)
         else
           let (ok, mode1) = transition_to (fa_requested_mode result) mode;
               result1 = result\<lparr>fa_transition_attempted := True, fa_transition_succeeded := ok\<rparr>
           in if \<not> ok \<and> fa_requested_mode result1 \<noteq> SAFE
              then let (ok2, mode2) = transition_to SAFE mode1
                   in (result1\<lparr>fa_safe_fallback_used := True, fa_requested_mode := SAFE,
                         fa_transition_succeeded := ok2, fa_mode_after := mode2\<rparr>, mode2)
              else (result1\<lparr>fa_mode_after := mode1\<rparr>, mode1))"

section \<open>RecoverySupervisor\<close>

datatype RecoveryAttemptStatus = RECOVERY_SUCCESS | RECOVERY_FAILED | FAIL_SAFE_FORCED | INVALID_CONFIGURATION

record RecoveryAttemptResult =
  ra_status :: RecoveryAttemptStatus
  ra_failed_attempts :: u32
  ra_maximum_failed_attempts :: u32
  ra_fail_safe_forced :: bool

record RecoverySupervisor =
  rs_maximum_failed_attempts :: u32
  rs_valid :: bool
  rs_validation_error :: string
  rs_failed_attempts :: u32

definition recovery_supervisor :: "u32 \<Rightarrow> RecoverySupervisor" where
  "recovery_supervisor maximum =
     (if maximum = 0
      then \<lparr>rs_maximum_failed_attempts = maximum, rs_valid = False,
        rs_validation_error = ''maximum failed recovery attempts must be greater than zero'',
        rs_failed_attempts = 0\<rparr>
      else \<lparr>rs_maximum_failed_attempts = maximum, rs_valid = True, rs_validation_error = '''',
        rs_failed_attempts = 0\<rparr>)"

definition begin_session :: "RecoverySupervisor \<Rightarrow> RecoverySupervisor" where
  "begin_session rs = rs\<lparr>rs_failed_attempts := 0\<rparr>"

definition record_success :: "RecoverySupervisor \<Rightarrow> RecoveryAttemptResult \<times> RecoverySupervisor" where
  "record_success rs =
     (let result = \<lparr>ra_status = RECOVERY_SUCCESS, ra_failed_attempts = 0,
            ra_maximum_failed_attempts = rs_maximum_failed_attempts rs, ra_fail_safe_forced = False\<rparr>
      in if \<not> rs_valid rs
         then (result\<lparr>ra_status := INVALID_CONFIGURATION, ra_failed_attempts := rs_failed_attempts rs\<rparr>, rs)
         else (result, rs\<lparr>rs_failed_attempts := 0\<rparr>))"

definition record_failure ::
  "Mode \<Rightarrow> RecoverySupervisor \<Rightarrow> RecoveryAttemptResult \<times> Mode \<times> RecoverySupervisor" where
  "record_failure mode rs =
     (let result = \<lparr>ra_status = RECOVERY_SUCCESS, ra_failed_attempts = 0,
            ra_maximum_failed_attempts = rs_maximum_failed_attempts rs, ra_fail_safe_forced = False\<rparr>
      in if \<not> rs_valid rs
         then (result\<lparr>ra_status := INVALID_CONFIGURATION, ra_failed_attempts := rs_failed_attempts rs\<rparr>, mode, rs)
         else
           let rs1 = rs\<lparr>rs_failed_attempts := rs_failed_attempts rs + 1\<rparr>;
               result1 = result\<lparr>ra_failed_attempts := rs_failed_attempts rs1\<rparr>
           in if rs_failed_attempts rs1 \<ge> rs_maximum_failed_attempts rs1
              then let (forced, mode1) = transition_to SAFE mode
                   in (result1\<lparr>ra_fail_safe_forced := forced,
                         ra_status := (if forced then FAIL_SAFE_FORCED else RECOVERY_FAILED)\<rparr>, mode1, rs1)
              else (result1\<lparr>ra_status := RECOVERY_FAILED\<rparr>, mode, rs1))"

section \<open>Modes under faults\<close>

lemma transition_to_SAFE [simp]: "transition_to SAFE mode = (True, SAFE)"
  by (cases mode) (simp_all add: transition_to_def)

lemma transition_to_True_iff: "transition_to m mode = (True, mode') \<longleftrightarrow> is_valid_transition mode m \<and> mode' = m"
  by (auto simp: transition_to_def simp del: is_valid_transition.simps)

lemma transition_to_False_iff:
  "transition_to m mode = (False, mode') \<longleftrightarrow> \<not> is_valid_transition mode m \<and> mode' = mode"
  by (auto simp: transition_to_def simp del: is_valid_transition.simps)

lemma disposition_sel [simp]:
  "fd_fault (disposition f sev resp prio lat opc src rule) = f"
  "fd_severity (disposition f sev resp prio lat opc src rule) = sev"
  "fd_response (disposition f sev resp prio lat opc src rule) = resp"
  "fd_priority (disposition f sev resp prio lat opc src rule) = prio"
  "fd_latched (disposition f sev resp prio lat opc src rule) = lat"
  "fd_operator_clear_required (disposition f sev resp prio lat opc src rule) = opc"
  by (simp_all add: disposition_def)

lemma fd_fault_disposition_for [simp]: "fd_fault (disposition_for f) = f"
  by (cases f) simp_all

lemma priority_inject: "fd_priority (disposition_for f) = fd_priority (disposition_for g) \<longleftrightarrow> f = g"
  by (cases f; cases g) simp_all

lemma priority_positive: "f \<noteq> NONE \<Longrightarrow> fd_priority (disposition_for f) > fd_priority (disposition_for NONE)"
  by (cases f) simp_all

definition fault_target :: "FaultCode \<Rightarrow> Mode \<Rightarrow> Mode" where
  "fault_target fault mode =
     (case fd_severity (disposition_for fault) of
        SEVERITY_NONE \<Rightarrow> mode | ADVISORY \<Rightarrow> mode
      | DEGRADED \<Rightarrow> if mode = NOMINAL \<or> mode = DEGRADED_PAYLOAD then DEGRADED_PAYLOAD else SAFE
      | SEVERITY_CRITICAL \<Rightarrow> SAFE)"

lemma apply_fault_mode: "snd (apply_fault mode fault) = fault_target fault mode"
  by (cases fault; cases mode) (simp_all add: apply_fault_def fault_target_def transition_to_def)

lemma apply_fault_disposition [simp]: "fa_disposition (fst (apply_fault mode fault)) = disposition_for fault"
  by (auto simp: apply_fault_def Let_def split: prod.splits)

section \<open>Fault selection\<close>

abbreviation prio :: "FaultCode \<Rightarrow> byte" where
  "prio f \<equiv> fd_priority (disposition_for f)"

definition higher :: "FaultCode \<Rightarrow> FaultCode \<Rightarrow> FaultCode" where
  "higher a b = (if prio a < prio b then b else a)"

lemma select_step_higher: "select_step (f, disposition_for f) g = (higher f g, disposition_for (higher f g))"
proof -
  have "fd_priority (disposition_for g) = fd_priority (disposition_for f) \<and> g < f \<longleftrightarrow> False"
    using priority_inject [of g f] by auto
  moreover have "\<not> prio f < prio NONE" by (cases f) simp_all
  ultimately show ?thesis by (auto simp: select_step_def Let_def higher_def)
qed

lemma foldl_select:
  "foldl select_step (f, disposition_for f) fs = (foldl higher f fs, disposition_for (foldl higher f fs))"
  by (induction fs arbitrary: f) (simp_all add: select_step_higher)

lemma higher_prio: "prio f \<le> prio (higher f g)" "prio g \<le> prio (higher f g)"
  by (auto simp: higher_def not_less)

lemma foldl_higher_member: "foldl higher f fs \<in> insert f (set fs)"
  by (induction fs arbitrary: f) (auto simp: higher_def split: if_splits)

lemma foldl_higher_max: "g \<in> insert f (set fs) \<Longrightarrow> prio g \<le> prio (foldl higher f fs)"
proof (induction fs arbitrary: f g)
  case (Cons a fs)
  have "prio g \<le> prio (higher f a) \<or> g \<in> set fs"
    using Cons.prems higher_prio(1) [of f a] higher_prio(2) [of a f] by auto
  moreover have "prio (higher f a) \<le> prio (foldl higher (higher f a) fs)" by (rule Cons.IH) simp
  ultimately show ?case using Cons.IH [of g "higher f a"] by auto
qed simp

lemma select_primary_fault_foldl: "select_primary_fault fs = foldl higher NONE fs"
  by (simp only: select_primary_fault_def foldl_select fst_conv)

lemma select_primary_fault_spec:
  "select_primary_fault fs = s \<longleftrightarrow>
     s \<in> insert NONE (set fs) \<and> (\<forall>f\<in>insert NONE (set fs). prio f \<le> prio s)"
proof
  show "select_primary_fault fs = s \<Longrightarrow>
      s \<in> insert NONE (set fs) \<and> (\<forall>f\<in>insert NONE (set fs). prio f \<le> prio s)"
    unfolding select_primary_fault_foldl using foldl_higher_member foldl_higher_max by blast
next
  assume s: "s \<in> insert NONE (set fs) \<and> (\<forall>f\<in>insert NONE (set fs). prio f \<le> prio s)"
  then have "prio s = prio (foldl higher NONE fs)"
    using foldl_higher_member [of NONE fs] foldl_higher_max [of s NONE fs] by (meson order_antisym)
  then show "select_primary_fault fs = s"
    unfolding select_primary_fault_foldl priority_inject by simp
qed

text \<open>C11: simultaneous faults are resolved by priority and nothing else (FSW-REQ-209). The
  fault selected is an active one (or NONE when only NONE is active) of the highest
  priority, and it is the only such one: whatever order, and however often, the active faults
  are listed, the selection is the same.\<close>

theorem primary_fault_is_highest_priority:
  "select_primary_fault fs = s \<longleftrightarrow>
     s \<in> insert NONE (set fs) \<and>
     (\<forall>f\<in>insert NONE (set fs). fd_priority (disposition_for f) \<le> fd_priority (disposition_for s))"
  by (rule select_primary_fault_spec)

theorem primary_fault_is_highest_priority_witness:
  "select_primary_fault [CPU_OVERLOAD, WATCHDOG_DEADLINE_MISS, SENSOR_TIMEOUT] = WATCHDOG_DEADLINE_MISS"
  unfolding primary_fault_is_highest_priority by simp

text \<open>The response to every fault in every mode. A critical fault leads to SAFE from any
  mode; a degraded fault leads to DEGRADED_PAYLOAD from NOMINAL and DEGRADED_PAYLOAD and falls
  back to SAFE from every other mode, the fallback being reported; an advisory fault, and NONE,
  change nothing. The result's \<open>mode_after\<close> is the new mode, and a transition that is
  attempted always succeeds.\<close>

theorem fault_response_total:
  "apply_fault mode fault = (r, mode') \<longleftrightarrow>
     mode' = (case fd_severity (disposition_for fault) of
        SEVERITY_NONE \<Rightarrow> mode | ADVISORY \<Rightarrow> mode
      | DEGRADED \<Rightarrow> if mode \<in> {NOMINAL, DEGRADED_PAYLOAD} then DEGRADED_PAYLOAD else SAFE
      | SEVERITY_CRITICAL \<Rightarrow> SAFE) \<and>
     r = \<lparr>fa_disposition = disposition_for fault, fa_mode_before = mode, fa_requested_mode = mode',
       fa_mode_after = mode',
       fa_transition_attempted = (fd_severity (disposition_for fault) \<in> {DEGRADED, SEVERITY_CRITICAL}),
       fa_transition_succeeded = (fd_severity (disposition_for fault) \<in> {DEGRADED, SEVERITY_CRITICAL}),
       fa_safe_fallback_used = (fd_severity (disposition_for fault) = DEGRADED \<and> mode' = SAFE)\<rparr>"
  by (cases fault; cases mode) (auto simp: apply_fault_def transition_to_def)

end
