(* ===== verification/Step_System.thy ===== *)
theory Step_System
  imports Prelude
begin

text \<open>
  Components that consume a sequence of inputs: a step takes an input and a state to an
  output and a state. The interfaces below say what a component promises about one step, and
  the lemmas carry it to every sequence of inputs.
\<close>

primrec run :: "('i \<Rightarrow> 's \<Rightarrow> 'o \<times> 's) \<Rightarrow> 'i list \<Rightarrow> 's \<Rightarrow> 's" where
  "run step [] s = s"
| "run step (i # is) s = run step is (snd (step i s))"

primrec outputs :: "('i \<Rightarrow> 's \<Rightarrow> 'o \<times> 's) \<Rightarrow> 'i list \<Rightarrow> 's \<Rightarrow> 'o list" where
  "outputs step [] s = []"
| "outputs step (i # is) s = fst (step i s) # outputs step is (snd (step i s))"

lemma run_append [simp]: "run step (a @ b) s = run step b (run step a s)"
  by (induction a arbitrary: s) simp_all

lemma length_outputs [simp]: "length (outputs step is s) = length is"
  by (induction "is" arbitrary: s) simp_all

lemma outputs_append [simp]: "outputs step (a @ b) s = outputs step a s @ outputs step b (run step a s)"
  by (induction a arbitrary: s) simp_all

text \<open>Every step keeps the invariant.\<close>

locale invariant_system =
  fixes step :: "'i \<Rightarrow> 's \<Rightarrow> 'o \<times> 's" and inv :: "'s \<Rightarrow> bool"
  assumes inv_step: "inv s \<Longrightarrow> inv (snd (step i s))"
begin

lemma inv_run: "inv s \<Longrightarrow> inv (run step is s)"
  by (induction "is" arbitrary: s) (simp_all add: inv_step)

lemma inv_outputs:
  assumes "inv s" and "\<And>i s. inv s \<Longrightarrow> P (fst (step i s))"
  shows "\<forall>out\<in>set (outputs step is s). P out"
  using assms by (induction "is" arbitrary: s) (auto dest: inv_step)

end

text \<open>A condition that, once reached, inputs of a certain kind cannot undo, and what every later
  output then shows.\<close>

locale latching_system = invariant_system +
  fixes benign :: "'i \<Rightarrow> bool" and latched :: "'s \<Rightarrow> bool" and shows_latch :: "'o \<Rightarrow> bool"
  assumes latched_step: "inv s \<Longrightarrow> latched s \<Longrightarrow> benign i \<Longrightarrow> latched (snd (step i s))"
    and latched_output: "inv s \<Longrightarrow> latched s \<Longrightarrow> benign i \<Longrightarrow> shows_latch (fst (step i s))"
begin

lemma latched_run: "inv s \<Longrightarrow> latched s \<Longrightarrow> \<forall>i\<in>set is. benign i \<Longrightarrow> latched (run step is s)"
  by (induction "is" arbitrary: s) (simp_all add: inv_step latched_step)

lemma latched_outputs:
  "inv s \<Longrightarrow> latched s \<Longrightarrow> \<forall>i\<in>set is. benign i \<Longrightarrow> \<forall>out\<in>set (outputs step is s). shows_latch out"
  by (induction "is" arbitrary: s) (auto dest: inv_step latched_step latched_output)

end

end
