(* ===== verification/Command_Guard.thy ===== *)
theory Command_Guard
  imports Command_Link Step_System
begin

text \<open>
  What stands between a decoded ground command and the command processor: the sequence and
  timestamp guard (\<open>fsw/src/ground_command_guard.cpp\<close>) and the authorization policy
  (\<open>fsw/src/command_authorizer.cpp\<close>).
\<close>

section \<open>GroundCommandGuard\<close>

datatype GuardStatus =
  GUARD_ACCEPTED | GUARD_DUPLICATE_SEQUENCE | GUARD_REPLAYED_SEQUENCE | GUARD_STALE_TIMESTAMP
  | GUARD_FUTURE_TIMESTAMP | GUARD_INVALID_CONFIGURATION

record GuardResult =
  gr_status :: GuardStatus
  gr_sequence_consumed :: bool
  gr_sequence_initialized :: bool
  gr_highest_sequence :: u32
  gr_age_ms :: u64
  gr_future_skew_ms :: u64

record GroundCommandGuard =
  gg_maximum_age_ms :: u64
  gg_maximum_future_skew_ms :: u64
  gg_valid :: bool
  gg_validation_error :: string
  gg_sequence_initialized :: bool
  gg_highest_sequence :: u32

definition ground_command_guard :: "u64 \<Rightarrow> u64 \<Rightarrow> GroundCommandGuard" where
  "ground_command_guard maximum_age_ms maximum_future_skew_ms =
     (let guard = \<lparr>gg_maximum_age_ms = maximum_age_ms, gg_maximum_future_skew_ms = maximum_future_skew_ms,
            gg_valid = False, gg_validation_error = '''', gg_sequence_initialized = False,
            gg_highest_sequence = 0\<rparr>
      in if maximum_age_ms = - 1
         then guard\<lparr>gg_validation_error := ''maximum command age must leave room for bounded comparison''\<rparr>
         else if maximum_future_skew_ms = - 1
         then guard\<lparr>gg_validation_error := ''maximum future skew must leave room for bounded comparison''\<rparr>
         else guard\<lparr>gg_valid := True\<rparr>)"

definition sequence_is_newer :: "u32 \<Rightarrow> u32 \<Rightarrow> bool" where
  "sequence_is_newer candidate reference =
     (let forward_distance = candidate - reference
      in forward_distance \<noteq> 0 \<and> forward_distance < 0x80000000)"

text \<open>The part of \<open>evaluate\<close> after the timestamp checks.\<close>

definition check_sequence :: "u32 \<Rightarrow> GuardResult \<Rightarrow> GroundCommandGuard \<Rightarrow> GuardResult \<times> GroundCommandGuard" where
  "check_sequence sequence_number result guard =
     (let accepted = (result\<lparr>gr_status := GUARD_ACCEPTED, gr_sequence_consumed := True,
            gr_sequence_initialized := True, gr_highest_sequence := sequence_number\<rparr>,
            guard\<lparr>gg_sequence_initialized := True, gg_highest_sequence := sequence_number\<rparr>)
      in if \<not> gg_sequence_initialized guard then accepted
         else if sequence_number = gg_highest_sequence guard
         then (result\<lparr>gr_status := GUARD_DUPLICATE_SEQUENCE\<rparr>, guard)
         else if \<not> sequence_is_newer sequence_number (gg_highest_sequence guard)
         then (result\<lparr>gr_status := GUARD_REPLAYED_SEQUENCE\<rparr>, guard)
         else accepted)"

definition guard_evaluate ::
  "u32 \<times> u64 \<times> u64 \<Rightarrow> GroundCommandGuard \<Rightarrow> GuardResult \<times> GroundCommandGuard" where
  "guard_evaluate = (\<lambda>(sequence_number, command_timestamp_ms, mission_time_ms) guard.
     let result = \<lparr>gr_status = GUARD_ACCEPTED, gr_sequence_consumed = False,
           gr_sequence_initialized = gg_sequence_initialized guard,
           gr_highest_sequence = gg_highest_sequence guard, gr_age_ms = 0, gr_future_skew_ms = 0\<rparr>
     in if \<not> gg_valid guard then (result\<lparr>gr_status := GUARD_INVALID_CONFIGURATION\<rparr>, guard)
        else if command_timestamp_ms > mission_time_ms then
          let result1 = result\<lparr>gr_future_skew_ms := command_timestamp_ms - mission_time_ms\<rparr>
          in if gr_future_skew_ms result1 > gg_maximum_future_skew_ms guard
             then (result1\<lparr>gr_status := GUARD_FUTURE_TIMESTAMP\<rparr>, guard)
             else check_sequence sequence_number result1 guard
        else
          let result1 = result\<lparr>gr_age_ms := mission_time_ms - command_timestamp_ms\<rparr>
          in if gr_age_ms result1 > gg_maximum_age_ms guard
             then (result1\<lparr>gr_status := GUARD_STALE_TIMESTAMP\<rparr>, guard)
             else check_sequence sequence_number result1 guard)"

section \<open>CommandAuthorizer\<close>

datatype AuthorizationStatus = AUTHORIZED | AUTH_REJECTED_COMMAND | AUTH_REJECTED_ARGUMENT

record AuthorizationConfig =
  ac_allow_noop :: bool
  ac_allow_set_mode :: bool
  ac_allow_fault_injection :: bool
  ac_allow_telemetry_request :: bool
  ac_allow_fault_clear :: bool
  ac_allow_test_mode :: bool

record AuthorizationResult =
  ar_status :: AuthorizationStatus
  ar_authorized :: bool
  ar_message :: string

definition auth_ok :: AuthorizationResult where
  "auth_ok = \<lparr>ar_status = AUTHORIZED, ar_authorized = True, ar_message = ''Command authorized''\<rparr>"

definition auth_rejected :: "AuthorizationStatus \<Rightarrow> string \<Rightarrow> AuthorizationResult" where
  "auth_rejected status message = \<lparr>ar_status = status, ar_authorized = False, ar_message = message\<rparr>"

definition authorize :: "AuthorizationConfig \<Rightarrow> CommandPacket \<Rightarrow> AuthorizationResult" where
  "authorize c packet =
     (case cp_command_id packet of
        NOOP \<Rightarrow> if ac_allow_noop c then auth_ok
          else auth_rejected AUTH_REJECTED_COMMAND ''NOOP is disabled by command authorization policy''
      | SET_MODE \<Rightarrow>
          if \<not> ac_allow_set_mode c
          then auth_rejected AUTH_REJECTED_COMMAND ''SET_MODE is disabled by command authorization policy''
          else if command_argument_to_mode (cp_argument packet) = Some TEST \<and> \<not> ac_allow_test_mode c
          then auth_rejected AUTH_REJECTED_ARGUMENT ''TEST mode is disabled by command authorization policy''
          else auth_ok
      | INJECT_FAULT \<Rightarrow> if ac_allow_fault_injection c then auth_ok
          else auth_rejected AUTH_REJECTED_COMMAND ''INJECT_FAULT is disabled by command authorization policy''
      | REQUEST_TELEMETRY \<Rightarrow> if ac_allow_telemetry_request c then auth_ok
          else auth_rejected AUTH_REJECTED_COMMAND ''REQUEST_TELEMETRY is disabled by command authorization policy''
      | CLEAR_FAULT \<Rightarrow> if ac_allow_fault_clear c then auth_ok
          else auth_rejected AUTH_REJECTED_COMMAND ''CLEAR_FAULT is disabled by command authorization policy'')"

section \<open>What the guard accepts\<close>

definition timely :: "u64 \<Rightarrow> u64 \<Rightarrow> GroundCommandGuard \<Rightarrow> bool" where
  "timely t now guard \<longleftrightarrow> unat t \<le> unat now + unat (gg_maximum_future_skew_ms guard) \<and>
     unat now \<le> unat t + unat (gg_maximum_age_ms guard)"

definition fresh :: "u32 \<Rightarrow> GroundCommandGuard \<Rightarrow> bool" where
  "fresh s guard \<longleftrightarrow> \<not> gg_sequence_initialized guard \<or> sequence_is_newer s (gg_highest_sequence guard)"

lemma timely_word:
  "timely t now guard \<longleftrightarrow>
     (if t > now then t - now \<le> gg_maximum_future_skew_ms guard else now - t \<le> gg_maximum_age_ms guard)"
proof (cases "t > now")
  case True
  then have "unat (t - now) = unat t - unat now" "unat now < unat t"
    by (simp_all add: unat_sub [OF less_imp_le] word_less_nat_alt)
  with True show ?thesis by (auto simp: timely_def word_le_nat_alt)
next
  case False
  then have "unat (now - t) = unat now - unat t" "unat t \<le> unat now"
    by (simp_all add: unat_sub word_le_nat_alt not_less)
  with False show ?thesis by (auto simp: timely_def word_le_nat_alt)
qed

lemma guard_evaluate_cases:
  "gg_valid guard \<Longrightarrow> timely t now guard \<Longrightarrow> fresh s guard \<Longrightarrow>
     gr_status (fst (guard_evaluate (s, t, now) guard)) = GUARD_ACCEPTED \<and>
     snd (guard_evaluate (s, t, now) guard) = guard\<lparr>gg_sequence_initialized := True, gg_highest_sequence := s\<rparr>"
  "\<not> (gg_valid guard \<and> timely t now guard \<and> fresh s guard) \<Longrightarrow>
     gr_status (fst (guard_evaluate (s, t, now) guard)) \<noteq> GUARD_ACCEPTED \<and>
     snd (guard_evaluate (s, t, now) guard) = guard"
  by (auto simp: guard_evaluate_def check_sequence_def Let_def timely_word fresh_def not_less not_le
      sequence_is_newer_def split: if_splits)

lemma guard_accepted_iff:
  "gr_status (fst (guard_evaluate (s, t, now) guard)) = GUARD_ACCEPTED
     \<longleftrightarrow> gg_valid guard \<and> timely t now guard \<and> fresh s guard"
  using guard_evaluate_cases by blast

lemma guard_state:
  "snd (guard_evaluate (s, t, now) guard) =
     (if gg_valid guard \<and> timely t now guard \<and> fresh s guard
      then guard\<lparr>gg_sequence_initialized := True, gg_highest_sequence := s\<rparr> else guard)"
  using guard_evaluate_cases by (simp del: not_all)

section \<open>Sequences of commands\<close>

interpretation guard_system: invariant_system guard_evaluate gg_sequence_initialized
proof
  fix g :: GroundCommandGuard and i :: "u32 \<times> u64 \<times> u64"
  assume "gg_sequence_initialized g"
  then show "gg_sequence_initialized (snd (guard_evaluate i g))"
    by (cases i) (auto simp: guard_state)
qed

text \<open>How far a sequence of commands moves the highest accepted number, counted without wrap.\<close>

primrec advance :: "(u32 \<times> u64 \<times> u64) list \<Rightarrow> GroundCommandGuard \<Rightarrow> nat" where
  "advance [] guard = 0"
| "advance (c # cs) guard =
     (let guard' = snd (guard_evaluate c guard)
      in unat (gg_highest_sequence guard' - gg_highest_sequence guard) + advance cs guard')"

lemma highest_after_run:
  "gg_highest_sequence (run guard_evaluate cs g) = gg_highest_sequence g + of_nat (advance cs g)"
  by (induction cs arbitrary: g) (simp_all add: Let_def)

lemma not_newer_behind:
  assumes "n \<le> 2 ^ 31"
  shows "\<not> sequence_is_newer h (h + of_nat n)"
proof (cases "n = 0")
  case False
  have "uint (- (of_nat n :: u32)) = 2 ^ 32 - int n"
  proof -
    have "uint (- (of_nat n :: u32)) = (- int n) mod 2 ^ 32"
      by (simp add: uint_word_ariths(4) unsigned_of_nat take_bit_eq_mod of_nat_mod mod_minus_eq)
    also have "\<dots> = (- int n + 2 ^ 32) mod 2 ^ 32" by simp
    also have "\<dots> = 2 ^ 32 - int n" using False assms by (intro mod_pos_pos_trivial [THEN trans]) auto
    finally show ?thesis .
  qed
  then have "\<not> - (of_nat n :: u32) < 0x80000000" using assms by (simp add: word_less_def)
  then show ?thesis by (simp add: sequence_is_newer_def Let_def)
qed (simp add: sequence_is_newer_def)

text \<open>C12: exactly which commands pass the guard. With a valid configuration a command is
  accepted if and only if its timestamp is at most the allowed skew ahead of and at most the
  allowed age behind mission time (compared as numbers, without wrap-around), and its sequence
  number is the first one seen or lies at distance 1 to 2^31 - 1 ahead of the highest accepted
  one, modulo 2^32 (FSW-REQ-109, 110, 111, 115). An accepted command becomes the highest one;
  a rejected one leaves the guard as it was.\<close>

theorem guard_accepts_exactly_fresh_commands:
  "(case guard_evaluate (s, t, now) guard of (r, guard') \<Rightarrow>
     (gr_status r = GUARD_ACCEPTED \<longleftrightarrow>
        gg_valid guard \<and> unat t \<le> unat now + unat (gg_maximum_future_skew_ms guard) \<and>
        unat now \<le> unat t + unat (gg_maximum_age_ms guard) \<and>
        (if gg_sequence_initialized guard
         then (uint s - uint (gg_highest_sequence guard)) mod 2 ^ 32 \<in> {1..<2 ^ 31} else True)) \<and>
     guard' = (if gr_status r = GUARD_ACCEPTED
               then guard\<lparr>gg_sequence_initialized := True, gg_highest_sequence := s\<rparr> else guard))"
proof -
  have newer: "sequence_is_newer s h \<longleftrightarrow> (uint s - uint h) mod 2 ^ 32 \<in> {1..<2 ^ 31}" for h
  proof -
    have "uint (s - h) = (uint s - uint h) mod 2 ^ 32" by (simp add: uint_word_ariths)
    moreover have "s - h \<noteq> 0 \<longleftrightarrow> 1 \<le> uint (s - h)"
    proof -
      have "uint (s - h) \<noteq> 0 \<longleftrightarrow> 1 \<le> uint (s - h)" using uint_ge_0 [of "s - h"] by linarith
      then show ?thesis by (simp only: uint_0_iff)
    qed
    ultimately show ?thesis by (simp add: sequence_is_newer_def Let_def word_less_def)
  qed
  obtain r guard' where ev: "guard_evaluate (s, t, now) guard = (r, guard')" by fastforce
  have acc: "gr_status r = GUARD_ACCEPTED \<longleftrightarrow> gg_valid guard \<and> timely t now guard \<and> fresh s guard"
    using guard_accepted_iff [of s t now guard] by (simp only: ev fst_conv)
  have "guard' = (if gr_status r = GUARD_ACCEPTED
      then guard\<lparr>gg_sequence_initialized := True, gg_highest_sequence := s\<rparr> else guard)"
    using guard_state [of s t now guard] by (simp only: ev snd_conv acc)
  moreover have "fresh s guard \<longleftrightarrow> (if gg_sequence_initialized guard
      then (uint s - uint (gg_highest_sequence guard)) mod 2 ^ 32 \<in> {1..<2 ^ 31} else True)"
    by (cases "gg_sequence_initialized guard")
      (simp_all only: fresh_def newer if_True if_False not_True_eq_False not_False_eq_True simp_thms)
  ultimately show ?thesis
    unfolding ev prod.case using acc unfolding timely_def by (simp only: conj_assoc)
qed

text \<open>C7: no replay. Once a command has been accepted, its sequence number is rejected
  whenever it comes again, whatever commands, timestamps and mission times come in between, as
  long as the accepted sequence numbers have not moved on by more than 2^31 in total; and the
  rejected command leaves the guard unchanged.\<close>

theorem accepted_command_never_replayed:
  assumes "gr_status (fst (guard_evaluate (s, t, now) guard)) = GUARD_ACCEPTED"
    and "guard' = snd (guard_evaluate (s, t, now) guard)"
    and "advance cmds guard' \<le> 2 ^ 31"
  shows "gr_status (fst (guard_evaluate (s, t', now') (run guard_evaluate cmds guard'))) \<noteq> GUARD_ACCEPTED \<and>
         snd (guard_evaluate (s, t', now') (run guard_evaluate cmds guard')) = run guard_evaluate cmds guard'"
proof -
  have "gg_highest_sequence guard' = s" "gg_sequence_initialized guard'"
    using assms(1,2) guard_state [of s t now guard] by (auto simp: guard_accepted_iff)
  then have "\<not> fresh s (run guard_evaluate cmds guard')"
    using not_newer_behind [OF assms(3), of s] guard_system.inv_run [of guard' cmds]
    by (simp add: fresh_def highest_after_run)
  then show ?thesis using guard_evaluate_cases(2) by blast
qed

theorem accepted_command_never_replayed_witness:
  "gr_status (fst (guard_evaluate (0xFFFFFFFF, 10, 30)
     (run guard_evaluate [(0, 11, 20)] (snd (guard_evaluate (0xFFFFFFFF, 10, 10) (ground_command_guard 5000 1000))))))
   \<noteq> GUARD_ACCEPTED"
proof -
  let ?g = "snd (guard_evaluate (0xFFFFFFFF, 10, 10) (ground_command_guard 5000 1000))"
  have "gr_status (fst (guard_evaluate (0xFFFFFFFF, 10, 10) (ground_command_guard 5000 1000))) = GUARD_ACCEPTED"
    by code_simp
  moreover have "advance [(0, 11, 20)] ?g = 1" by code_simp
  ultimately show ?thesis
    using accepted_command_never_replayed [of "0xFFFFFFFF" 10 10 "ground_command_guard 5000 1000" ?g "[(0, 11, 20)]" 10 30]
    by simp
qed

end
