(* ===== verification/Event_Log.thy ===== *)
theory Event_Log
  imports Wire Step_System
begin

text \<open>
  The bounded event log of \<open>fsw/src/event_logger.cpp\<close>: a vector used as a ring buffer. The
  refinement theorem says that its snapshot is the tail of everything ever logged. The size
  \<open>std::size_t\<close> of the vector is a natural number, the two counters are 64-bit words.
\<close>

datatype EventSeverity = EVENT_DEBUG | EVENT_INFO | EVENT_WARNING | EVENT_ERROR | EVENT_CRITICAL

datatype EventSource =
  SOURCE_SYSTEM | SOURCE_COMMAND | SOURCE_MODE | SOURCE_HEALTH | SOURCE_WATCHDOG | SOURCE_FDIR
  | SOURCE_SCHEDULER | SOURCE_TELEMETRY | SOURCE_CONFIGURATION

record EventRecord =
  er_sequence :: u64
  er_timestamp_ms :: u64
  er_severity :: EventSeverity
  er_source :: EventSource
  er_code :: u16
  er_message :: string

record EventLogger =
  el_capacity :: nat
  el_records :: "EventRecord list"
  el_start_index :: nat
  el_next_sequence :: u64
  el_dropped_count :: u64

definition event_logger :: "nat \<Rightarrow> EventLogger" where
  "event_logger capacity = \<lparr>el_capacity = capacity, el_records = [], el_start_index = 0,
     el_next_sequence = 1, el_dropped_count = 0\<rparr>"

definition log_valid :: "EventLogger \<Rightarrow> bool" where
  "log_valid el \<longleftrightarrow> el_capacity el > 0"

record log_entry =
  le_timestamp_ms :: u64
  le_severity :: EventSeverity
  le_source :: EventSource
  le_code :: u16
  le_message :: string

definition entry_record :: "u64 \<Rightarrow> log_entry \<Rightarrow> EventRecord" where
  "entry_record n e = \<lparr>er_sequence = n, er_timestamp_ms = le_timestamp_ms e, er_severity = le_severity e,
     er_source = le_source e, er_code = le_code e, er_message = le_message e\<rparr>"

definition log_event :: "log_entry \<Rightarrow> EventLogger \<Rightarrow> u64 \<times> EventLogger" where
  "log_event e el =
     (if \<not> log_valid el then (0, el)
      else
        let r = entry_record (el_next_sequence el) e;
            el1 = el\<lparr>el_next_sequence := el_next_sequence el + 1\<rparr>
        in if length (el_records el1) < el_capacity el1
           then (el_next_sequence el1 - 1, el1\<lparr>el_records := el_records el1 @ [r]\<rparr>)
           else (el_next_sequence el1 - 1,
                 el1\<lparr>el_records := (el_records el1)[el_start_index el1 := r],
                   el_start_index := (el_start_index el1 + 1) mod el_capacity el1,
                   el_dropped_count := el_dropped_count el1 + 1\<rparr>))"

definition snapshot :: "EventLogger \<Rightarrow> EventRecord list" where
  "snapshot el =
     map (\<lambda>offset. el_records el ! ((el_start_index el + offset) mod length (el_records el)))
       [0..<length (el_records el)]"

definition log_clear :: "EventLogger \<Rightarrow> EventLogger" where
  "log_clear el = el\<lparr>el_records := [], el_start_index := 0, el_dropped_count := 0\<rparr>"

section \<open>The ring buffer\<close>

definition log_wf :: "EventLogger \<Rightarrow> bool" where
  "log_wf el \<longleftrightarrow> 0 < el_capacity el \<and> length (el_records el) \<le> el_capacity el \<and>
     (if length (el_records el) < el_capacity el then el_start_index el = 0
      else el_start_index el < el_capacity el)"

lemma snapshot_rotate: "log_wf el \<Longrightarrow> snapshot el = rotate (el_start_index el) (el_records el)"
  by (rule nth_equalityI) (simp_all add: snapshot_def nth_rotate)

lemma rotate_update:
  assumes "i < length xs"
  shows "rotate (Suc i mod length xs) (xs[i := r]) = tl (rotate i xs) @ [r]"
proof -
  have "rotate (Suc i mod length xs) (xs[i := r]) = rotate (Suc i) (xs[i := r])"
    by (metis length_list_update rotate_conv_mod)
  also have "\<dots> = rotate1 (rotate i (xs[i := r]))" by simp
  also have "rotate i (xs[i := r]) = r # tl (rotate i xs)"
  proof -
    have "drop i xs = xs ! i # drop (Suc i) xs" using assms by (simp add: Cons_nth_drop_Suc)
    then show ?thesis
      using assms by (simp add: rotate_drop_take upd_conv_take_nth_drop)
  qed
  finally show ?thesis by simp
qed

lemma log_event_snapshot:
  assumes wf: "log_wf el"
  shows "log_wf (snd (log_event e el))"
    and "snapshot (snd (log_event e el)) =
      (let r = entry_record (el_next_sequence el) e
       in if length (el_records el) < el_capacity el then snapshot el @ [r] else tl (snapshot el) @ [r])"
    and "length (el_records (snd (log_event e el))) = min (Suc (length (el_records el))) (el_capacity el)"
proof -
  have valid: "log_valid el" using wf by (simp add: log_wf_def log_valid_def)
  show wf': "log_wf (snd (log_event e el))"
    using wf valid by (auto simp: log_event_def log_wf_def Let_def)
  show "length (el_records (snd (log_event e el))) = min (Suc (length (el_records el))) (el_capacity el)"
    using wf valid by (auto simp: log_event_def log_wf_def Let_def)
  show "snapshot (snd (log_event e el)) =
      (let r = entry_record (el_next_sequence el) e
       in if length (el_records el) < el_capacity el then snapshot el @ [r] else tl (snapshot el) @ [r])"
  proof (cases "length (el_records el) < el_capacity el")
    case True
    with wf have "el_start_index el = 0" by (simp add: log_wf_def)
    with True valid show ?thesis
      by (simp add: snapshot_rotate [OF wf] snapshot_rotate [OF wf'])
        (simp add: log_event_def Let_def)
  next
    case False
    with wf have "length (el_records el) = el_capacity el" "el_start_index el < el_capacity el"
      by (simp_all add: log_wf_def)
    with False valid show ?thesis
      using rotate_update [of "el_start_index el" "el_records el"]
      by (simp add: snapshot_rotate [OF wf] snapshot_rotate [OF wf'])
        (simp add: log_event_def Let_def)
  qed
qed

interpretation log_system: invariant_system log_event log_wf
  by unfold_locales (rule log_event_snapshot(1))

text \<open>Everything logged, with its sequence numbers, and how much of it is kept.\<close>

primrec logged :: "u64 \<Rightarrow> log_entry list \<Rightarrow> EventRecord list" where
  "logged n [] = []"
| "logged n (e # es) = entry_record n e # logged (n + 1) es"

lemma length_logged [simp]: "length (logged n es) = length es"
  by (induction es arbitrary: n) simp_all

lemma log_event_fields:
  assumes "log_wf el"
  shows "el_capacity (snd (log_event e el)) = el_capacity el"
    "el_next_sequence (snd (log_event e el)) = el_next_sequence el + 1"
    "el_dropped_count (snd (log_event e el)) =
       el_dropped_count el + (if length (el_records el) < el_capacity el then 0 else 1)"
  using assms by (auto simp: log_event_def log_wf_def log_valid_def Let_def)

definition keep_last :: "nat \<Rightarrow> 'a list \<Rightarrow> 'a list" where
  "keep_last n xs = drop (length xs - n) xs"

lemma keep_last_snoc:
  "0 < n \<Longrightarrow> length xs \<le> n \<Longrightarrow>
   keep_last n ((if length xs < n then xs @ [y] else tl xs @ [y]) @ ys) = keep_last n (xs @ y # ys)"
proof (cases "length xs < n")
  case False
  assume "0 < n" "length xs \<le> n"
  with False obtain a zs where xs: "xs = a # zs" "length (zs @ y # ys) \<ge> n"
    by (cases xs) auto
  then show ?thesis using False by (simp add: keep_last_def Suc_diff_le)
qed simp

lemma length_snapshot [simp]: "length (snapshot el) = length (el_records el)"
  by (simp add: snapshot_def)

lemma snapshot_run:
  assumes "log_wf el"
  shows "snapshot (run log_event es el) = keep_last (el_capacity el) (snapshot el @ logged (el_next_sequence el) es)
    \<and> el_dropped_count (run log_event es el) =
        el_dropped_count el + of_nat (length (el_records el) + length es - el_capacity el)
    \<and> el_next_sequence (run log_event es el) = el_next_sequence el + of_nat (length es)"
  using assms
proof (induction es arbitrary: el)
  case Nil
  then show ?case by (simp add: keep_last_def log_wf_def)
next
  case (Cons e es)
  let ?el = "snd (log_event e el)"
  have wf': "log_wf ?el" by (rule log_system.inv_step [OF Cons.prems])
  have le: "0 < el_capacity el" "length (el_records el) \<le> el_capacity el"
    using Cons.prems by (auto simp: log_wf_def)
  have snap: "keep_last (el_capacity el) (snapshot ?el @ logged (el_next_sequence el + 1) es) =
      keep_last (el_capacity el) (snapshot el @ logged (el_next_sequence el) (e # es))"
    using keep_last_snoc [of "el_capacity el" "snapshot el" _ "logged (el_next_sequence el + 1) es"] le
    by (simp add: log_event_snapshot(2) [OF Cons.prems] Let_def)
  show ?case
    using Cons.IH [OF wf'] snap le
    by (simp add: log_event_fields [OF Cons.prems] log_event_snapshot(3) [OF Cons.prems] min_def)
qed

text \<open>C10: the ring buffer is a bounded log (FSW-REQ-212). Starting from an empty logger of any
  capacity, valid or not, after logging any sequence of events the snapshot is exactly the
  last \<open>capacity\<close> of them, oldest first, numbered consecutively from 1; the dropped count is
  the number of events no longer held, and never more than \<open>capacity\<close> records are kept.\<close>

theorem event_log_keeps_last_events:
  "snapshot (run log_event es (event_logger capacity)) =
     drop (length es - capacity) (if capacity = 0 then [] else logged 1 es) \<and>
   el_dropped_count (run log_event es (event_logger capacity)) =
     (if capacity = 0 then 0 else of_nat (length es - capacity)) \<and>
   length (el_records (run log_event es (event_logger capacity))) \<le> capacity"
proof (cases "capacity = 0")
  case True
  have "run log_event es (event_logger 0) = event_logger 0"
    by (induction es) (simp_all add: log_event_def log_valid_def event_logger_def)
  with True show ?thesis by (simp add: event_logger_def snapshot_def)
next
  case False
  then have wf: "log_wf (event_logger capacity)" by (simp add: log_wf_def event_logger_def)
  have "log_wf (run log_event es (event_logger capacity))" using wf by (rule log_system.inv_run)
  moreover have "el_capacity (run log_event es el) = el_capacity el" for el
    by (induction es arbitrary: el) (simp_all add: log_event_def Let_def)
  ultimately have "length (el_records (run log_event es (event_logger capacity))) \<le> capacity"
    by (simp add: log_wf_def event_logger_def)
  with False snapshot_run [OF wf, of es] show ?thesis
    by (simp add: event_logger_def keep_last_def snapshot_def)
qed

end
