(* ===== verification/Flight_App.thy ===== *)
theory Flight_App
  imports Flight_Modes Command_Guard Event_Log Telemetry_Link
begin

text \<open>
  The flight software application: the command processor (\<open>fsw/src/command_processor.cpp\<close>),
  the health monitor (\<open>health_monitor.cpp\<close>), the watchdog (\<open>watchdog.cpp\<close>) and the step
  function that composes them with the guard, the authorizer and the event log
  (\<open>flight_software_app.cpp\<close>). The command processor holds a reference to the mode manager of
  the application; here it takes and returns the mode.
\<close>

section \<open>CommandProcessor\<close>

record CommandResult =
  cr_status :: CommandStatus
  cr_command_id :: CommandId
  cr_sequence_number :: u32
  cr_resulting_mode :: Mode
  cr_resulting_fault :: FaultCode
  cr_message :: string

record CommandProcessor =
  pr_recovery :: RecoverySupervisor
  pr_last_fault :: FaultCode
  pr_valid :: bool
  pr_validation_error :: string

definition command_processor :: "u32 \<Rightarrow> CommandProcessor" where
  "command_processor maximum_failed_attempts =
     (let rs = recovery_supervisor maximum_failed_attempts
      in \<lparr>pr_recovery = rs, pr_last_fault = NONE, pr_valid = rs_valid rs,
          pr_validation_error = (if rs_valid rs then '''' else rs_validation_error rs)\<rparr>)"

type_synonym processor_state = "Mode \<times> CommandProcessor"

text \<open>Each handler returns the status, the message and the new state.\<close>

definition process_set_mode :: "u32 \<Rightarrow> processor_state \<Rightarrow> (CommandStatus \<times> string) \<times> processor_state" where
  "process_set_mode argument = (\<lambda>(mode_before, pr).
     case command_argument_to_mode argument of
       None \<Rightarrow> ((REJECTED_BAD_ARGUMENT, ''SET_MODE rejected: invalid mode argument''), (mode_before, pr))
     | Some requested_mode \<Rightarrow>
         let (transitioned, mode1) = transition_to requested_mode mode_before in
         if \<not> transitioned then
           let invalid = (REJECTED_INVALID_TRANSITION, ''SET_MODE rejected: invalid mode transition'') in
           if mode_before = RECOVERY \<and> requested_mode \<noteq> RECOVERY then
             let (recovery_result, mode2, rs) = record_failure mode1 (pr_recovery pr) in
             if ra_fail_safe_forced recovery_result
             then ((REJECTED_RECOVERY_LIMIT, ''SET_MODE rejected: recovery failure limit reached attempts='' @
                      str_nat (unat (ra_failed_attempts recovery_result)) @ '' fail_safe=SAFE''),
                   (mode2, pr\<lparr>pr_recovery := rs\<rparr>))
             else (invalid, (mode2, pr\<lparr>pr_recovery := rs\<rparr>))
           else (invalid, (mode1, pr))
         else
           let pr1 = (if mode_before = SAFE \<and> requested_mode = RECOVERY
                      then pr\<lparr>pr_recovery := begin_session (pr_recovery pr)\<rparr>
                      else if mode_before = RECOVERY \<and> requested_mode \<noteq> RECOVERY
                      then pr\<lparr>pr_recovery := snd (record_success (pr_recovery pr))\<rparr>
                      else pr)
           in ((ACCEPTED, ''SET_MODE accepted''), (mode1, pr1)))"

definition process_inject_fault :: "u32 \<Rightarrow> processor_state \<Rightarrow> (CommandStatus \<times> string) \<times> processor_state" where
  "process_inject_fault argument = (\<lambda>(mode, pr).
     case command_argument_to_fault argument of
       None \<Rightarrow> ((REJECTED_BAD_ARGUMENT, ''INJECT_FAULT rejected: invalid fault argument''), (mode, pr))
     | Some requested_fault \<Rightarrow>
         let (action, mode1) = apply_fault mode requested_fault
         in ((ACCEPTED, ''INJECT_FAULT accepted: severity='' @
                fault_severity_to_string (fd_severity (fa_disposition action)) @ '' response='' @
                fault_response_to_string (fd_response (fa_disposition action)) @
                (if fa_safe_fallback_used action then '' fallback=ENTER_SAFE'' else '''')),
             (mode1, pr\<lparr>pr_last_fault := requested_fault\<rparr>)))"

definition process :: "CommandPacket \<Rightarrow> processor_state \<Rightarrow> CommandResult \<times> processor_state" where
  "process packet state =
     (let ((status, message), state1) =
        (case cp_command_id packet of
           NOOP \<Rightarrow> ((ACCEPTED, ''NOOP accepted''), state)
         | REQUEST_TELEMETRY \<Rightarrow> ((ACCEPTED, ''Telemetry request accepted''), state)
         | CLEAR_FAULT \<Rightarrow> ((ACCEPTED, ''Fault state cleared''),
             (fst state, (snd state)\<lparr>pr_last_fault := NONE\<rparr>))
         | SET_MODE \<Rightarrow> process_set_mode (cp_argument packet) state
         | INJECT_FAULT \<Rightarrow> process_inject_fault (cp_argument packet) state)
      in (\<lparr>cr_status = status, cr_command_id = cp_command_id packet,
            cr_sequence_number = cp_sequence_number packet, cr_resulting_mode = fst state1,
            cr_resulting_fault = pr_last_fault (snd state1), cr_message = message\<rparr>, state1))"

section \<open>HealthMonitor\<close>

text \<open>Comparison of two single-precision values given by their bits; false when one is a NaN.\<close>

definition float_nan :: "u32 \<Rightarrow> bool" where
  "float_nan raw \<longleftrightarrow> uint raw mod 2 ^ 31 > 0x7F800000"

definition float_key :: "u32 \<Rightarrow> int" where
  "float_key raw = (if uint raw \<ge> 2 ^ 31 then - (uint raw - 2 ^ 31) else uint raw)"

definition float_ge :: "u32 \<Rightarrow> u32 \<Rightarrow> bool" where
  "float_ge a b \<longleftrightarrow> \<not> float_nan a \<and> \<not> float_nan b \<and> float_key a \<ge> float_key b"

datatype HealthStatus = HEALTH_OK | HEALTH_WARNING | HEALTH_CRITICAL

record HealthThresholds =
  ht_cpu_warning_percent :: u32
  ht_cpu_critical_percent :: u32
  ht_memory_warning_percent :: u32
  ht_memory_critical_percent :: u32
  ht_sensor_timeout_ms :: u32
  ht_payload_timeout_ms :: u32
  ht_loop_deadline_ms :: u32

text \<open>The defaults 80.0F, 95.0F, 85.0F and 95.0F by their bits.\<close>

definition default_thresholds :: HealthThresholds where
  "default_thresholds = \<lparr>ht_cpu_warning_percent = 0x42A00000, ht_cpu_critical_percent = 0x42BE0000,
     ht_memory_warning_percent = 0x42AA0000, ht_memory_critical_percent = 0x42BE0000,
     ht_sensor_timeout_ms = 1000, ht_payload_timeout_ms = 1500, ht_loop_deadline_ms = 250\<rparr>"

record HealthSnapshot =
  hs_cpu_load_percent :: u32
  hs_memory_load_percent :: u32
  hs_sensor_age_ms :: u32
  hs_payload_age_ms :: u32
  hs_loop_duration_ms :: u32

record HealthReport =
  hr_status :: HealthStatus
  hr_fault :: FaultCode
  hr_message :: string
  hr_cpu_ok :: bool
  hr_memory_ok :: bool
  hr_sensor_ok :: bool
  hr_payload_ok :: bool
  hr_loop_timing_ok :: bool

definition set_warning_if_ok :: "FaultCode \<Rightarrow> string \<Rightarrow> HealthReport \<Rightarrow> HealthReport" where
  "set_warning_if_ok fault message report =
     (if hr_status report = HEALTH_OK
      then report\<lparr>hr_status := HEALTH_WARNING, hr_fault := fault, hr_message := message\<rparr> else report)"

definition set_critical :: "FaultCode \<Rightarrow> string \<Rightarrow> HealthReport \<Rightarrow> HealthReport" where
  "set_critical fault message report =
     report\<lparr>hr_status := HEALTH_CRITICAL, hr_fault := fault, hr_message := message\<rparr>"

definition health_evaluate :: "HealthThresholds \<Rightarrow> HealthSnapshot \<Rightarrow> HealthReport" where
  "health_evaluate t s =
     (let r0 = \<lparr>hr_status = HEALTH_OK, hr_fault = NONE, hr_message = ''All monitored systems nominal'',
            hr_cpu_ok = True, hr_memory_ok = True, hr_sensor_ok = True, hr_payload_ok = True,
            hr_loop_timing_ok = True\<rparr>;
          r1 = (if float_ge (hs_cpu_load_percent s) (ht_cpu_warning_percent t)
            then set_warning_if_ok CPU_OVERLOAD ''CPU load warning threshold exceeded'' (r0\<lparr>hr_cpu_ok := False\<rparr>)
            else r0);
          r2 = (if float_ge (hs_cpu_load_percent s) (ht_cpu_critical_percent t)
            then set_critical CPU_OVERLOAD ''CPU load critical threshold exceeded'' (r1\<lparr>hr_cpu_ok := False\<rparr>)
            else r1);
          r3 = (if float_ge (hs_memory_load_percent s) (ht_memory_warning_percent t)
            then set_warning_if_ok MEMORY_OVERLOAD ''Memory load warning threshold exceeded'' (r2\<lparr>hr_memory_ok := False\<rparr>)
            else r2);
          r4 = (if float_ge (hs_memory_load_percent s) (ht_memory_critical_percent t)
            then set_critical MEMORY_OVERLOAD ''Memory load critical threshold exceeded'' (r3\<lparr>hr_memory_ok := False\<rparr>)
            else r3);
          r5 = (if hs_payload_age_ms s \<ge> ht_payload_timeout_ms t
            then set_warning_if_ok PAYLOAD_HEARTBEAT_TIMEOUT ''Payload heartbeat timeout threshold exceeded''
              (r4\<lparr>hr_payload_ok := False\<rparr>)
            else r4);
          r6 = (if hs_sensor_age_ms s \<ge> ht_sensor_timeout_ms t
            then set_critical SENSOR_TIMEOUT ''Sensor timeout threshold exceeded'' (r5\<lparr>hr_sensor_ok := False\<rparr>)
            else r5)
      in if hs_loop_duration_ms s \<ge> ht_loop_deadline_ms t
         then set_critical WATCHDOG_DEADLINE_MISS ''Flight software loop deadline missed'' (r6\<lparr>hr_loop_timing_ok := False\<rparr>)
         else r6)"

section \<open>Watchdog\<close>

datatype WatchdogStatus = WATCHDOG_OK | WATCHDOG_WARNING | WATCHDOG_EXPIRED

record WatchdogReport =
  wr_status :: WatchdogStatus
  wr_fault :: FaultCode
  wr_message :: string
  wr_last_kick_ms :: u64
  wr_elapsed_since_kick_ms :: u64
  wr_missed_deadline_count :: u32
  wr_alive :: bool
  wr_loop_timing_ok :: bool

record Watchdog =
  wd_warning_ms :: u32
  wd_timeout_ms :: u32
  wd_loop_deadline_ms :: u32
  wd_max_missed_deadlines :: u32
  wd_last_kick_ms :: u64
  wd_missed_deadline_count :: u32

definition watchdog_default :: Watchdog where
  "watchdog_default = \<lparr>wd_warning_ms = 400, wd_timeout_ms = 500, wd_loop_deadline_ms = 250,
     wd_max_missed_deadlines = 3, wd_last_kick_ms = 0, wd_missed_deadline_count = 0\<rparr>"

definition watchdog_kick :: "u64 \<Rightarrow> Watchdog \<Rightarrow> Watchdog" where
  "watchdog_kick now_ms wd = wd\<lparr>wd_last_kick_ms := now_ms\<rparr>"

definition watchdog_reset :: "u64 \<Rightarrow> Watchdog \<Rightarrow> Watchdog" where
  "watchdog_reset now_ms wd = wd\<lparr>wd_last_kick_ms := now_ms, wd_missed_deadline_count := 0\<rparr>"

definition watchdog_evaluate :: "u64 \<Rightarrow> u32 \<Rightarrow> Watchdog \<Rightarrow> WatchdogReport \<times> Watchdog" where
  "watchdog_evaluate now_ms loop_duration_ms wd =
     (let wd1 = (if loop_duration_ms \<ge> wd_loop_deadline_ms wd
            then wd\<lparr>wd_missed_deadline_count := wd_missed_deadline_count wd + 1\<rparr> else wd);
          elapsed = (if now_ms \<ge> wd_last_kick_ms wd1 then now_ms - wd_last_kick_ms wd1 else 0);
          r0 = \<lparr>wr_status = WATCHDOG_OK, wr_fault = NONE, wr_message = ''Watchdog nominal'',
            wr_last_kick_ms = wd_last_kick_ms wd1, wr_elapsed_since_kick_ms = elapsed,
            wr_missed_deadline_count = wd_missed_deadline_count wd1, wr_alive = True,
            wr_loop_timing_ok = True\<rparr>;
          r1 = (if loop_duration_ms \<ge> wd_loop_deadline_ms wd1
            then r0\<lparr>wr_loop_timing_ok := False, wr_status := WATCHDOG_WARNING,
              wr_message := ''Loop deadline missed''\<rparr>
            else r0);
          r2 = (if elapsed \<ge> ucast (wd_warning_ms wd1) \<and> elapsed < ucast (wd_timeout_ms wd1)
            then r1\<lparr>wr_status := WATCHDOG_WARNING, wr_message := ''Watchdog kick warning threshold exceeded''\<rparr>
            else r1);
          r3 = (if wd_missed_deadline_count wd1 \<ge> wd_max_missed_deadlines wd1
            then r2\<lparr>wr_status := WATCHDOG_EXPIRED, wr_fault := WATCHDOG_DEADLINE_MISS,
              wr_message := ''Maximum missed loop deadlines exceeded'', wr_loop_timing_ok := False\<rparr>
            else r2);
          r4 = (if elapsed \<ge> ucast (wd_timeout_ms wd1)
            then r3\<lparr>wr_status := WATCHDOG_EXPIRED, wr_fault := WATCHDOG_DEADLINE_MISS,
              wr_message := ''Watchdog timeout expired'', wr_alive := False\<rparr>
            else r3)
      in (r4, wd1))"

section \<open>FlightSoftwareApp\<close>

record AppConfig =
  cfg_maximum_age_ms :: u64
  cfg_maximum_future_skew_ms :: u64
  cfg_authorization :: AuthorizationConfig
  cfg_maximum_failed_attempts :: u32
  cfg_event_log_capacity :: nat

definition default_config :: AppConfig where
  "default_config = \<lparr>cfg_maximum_age_ms = 5000, cfg_maximum_future_skew_ms = 1000,
     cfg_authorization = \<lparr>ac_allow_noop = True, ac_allow_set_mode = True, ac_allow_fault_injection = True,
       ac_allow_telemetry_request = True, ac_allow_fault_clear = True, ac_allow_test_mode = True\<rparr>,
     cfg_maximum_failed_attempts = 3, cfg_event_log_capacity = 256\<rparr>"

text \<open>\<open>si_command\<close> joins \<open>has_command\<close> and \<open>command\<close>.\<close>

record StepInput =
  si_command :: "CommandPacket option"
  si_timestamp_ms :: u64
  si_cpu_load_percent :: u32
  si_memory_load_percent :: u32
  si_heartbeat_count :: u32
  si_sensor_age_ms :: u32
  si_payload_age_ms :: u32
  si_loop_duration_ms :: u32

record App =
  ap_mode :: Mode
  ap_processor :: CommandProcessor
  ap_guard :: GroundCommandGuard
  ap_authorization :: AuthorizationConfig
  ap_watchdog :: Watchdog
  ap_event_logger :: EventLogger
  ap_watchdog_initialized :: bool
  ap_telemetry_sequence :: u32
  ap_last_ground_command_sequence_number :: u32
  ap_last_ground_command_id :: byte
  ap_last_ground_command_status :: byte
  ap_valid :: bool
  ap_validation_error :: string

record StepOutput =
  so_command_processed :: bool
  so_guard_result :: GuardResult
  so_authorization_result :: AuthorizationResult
  so_command_result :: CommandResult
  so_watchdog_report :: WatchdogReport
  so_watchdog_fault_processed :: bool
  so_watchdog_fault_result :: CommandResult
  so_health_report :: HealthReport
  so_health_fault_processed :: bool
  so_health_fault_result :: CommandResult
  so_internal_fault_processed :: bool
  so_primary_internal_fault :: FaultCode
  so_internal_fault_result :: CommandResult
  so_telemetry :: TelemetryPacket

definition flight_software_app :: "AppConfig \<Rightarrow> App" where
  "flight_software_app c =
     (let processor = command_processor (cfg_maximum_failed_attempts c);
          guard = ground_command_guard (cfg_maximum_age_ms c) (cfg_maximum_future_skew_ms c);
          logger = event_logger (cfg_event_log_capacity c);
          error = (if \<not> pr_valid processor then pr_validation_error processor
            else if \<not> gg_valid guard then gg_validation_error guard
            else if \<not> log_valid logger then ''event log capacity must be greater than zero'' else '''')
      in \<lparr>ap_mode = BOOT, ap_processor = processor, ap_guard = guard, ap_authorization = cfg_authorization c,
          ap_watchdog = watchdog_default, ap_event_logger = logger, ap_watchdog_initialized = False,
          ap_telemetry_sequence = 0, ap_last_ground_command_sequence_number = 0,
          ap_last_ground_command_id = 0, ap_last_ground_command_status = 0,
          ap_valid = (pr_valid processor \<and> gg_valid guard \<and> log_valid logger),
          ap_validation_error = error\<rparr>)"

definition no_result :: CommandResult where
  "no_result = \<lparr>cr_status = ACCEPTED, cr_command_id = NOOP, cr_sequence_number = 0,
     cr_resulting_mode = BOOT, cr_resulting_fault = NONE, cr_message = ''''\<rparr>"

definition no_guard_result :: GuardResult where
  "no_guard_result = \<lparr>gr_status = GUARD_ACCEPTED, gr_sequence_consumed = False,
     gr_sequence_initialized = False, gr_highest_sequence = 0, gr_age_ms = 0, gr_future_skew_ms = 0\<rparr>"

definition reject_ground_command :: "CommandPacket \<Rightarrow> CommandStatus \<Rightarrow> string \<Rightarrow> App \<Rightarrow> CommandResult" where
  "reject_ground_command packet status message app =
     \<lparr>cr_status = status, cr_command_id = cp_command_id packet,
      cr_sequence_number = cp_sequence_number packet, cr_resulting_mode = ap_mode app,
      cr_resulting_fault = pr_last_fault (ap_processor app), cr_message = message\<rparr>"

definition process_packet :: "CommandPacket \<Rightarrow> App \<Rightarrow> CommandResult \<times> App" where
  "process_packet packet app =
     (let (result, mode, processor) = process packet (ap_mode app, ap_processor app)
      in (result, app\<lparr>ap_mode := mode, ap_processor := processor\<rparr>))"

text \<open>The \<open>switch\<close> on the guard's verdict.\<close>

definition dispose_command ::
  "CommandPacket \<Rightarrow> GuardResult \<Rightarrow> App \<Rightarrow> (AuthorizationResult \<times> CommandResult) \<times> App" where
  "dispose_command packet guard_result app =
     (case gr_status guard_result of
        GUARD_ACCEPTED \<Rightarrow>
          let auth = authorize (ap_authorization app) packet in
          if ar_authorized auth
          then let (result, app1) = process_packet packet app in ((auth, result), app1)
          else ((auth, reject_ground_command packet REJECTED_UNAUTHORIZED
                   (''Command rejected: '' @ ar_message auth) app), app)
      | GUARD_DUPLICATE_SEQUENCE \<Rightarrow>
          ((auth_ok, reject_ground_command packet REJECTED_DUPLICATE_SEQUENCE
             ''Command rejected: duplicate ground sequence'' app), app)
      | GUARD_REPLAYED_SEQUENCE \<Rightarrow>
          ((auth_ok, reject_ground_command packet REJECTED_REPLAYED_SEQUENCE
             ''Command rejected: replayed or ambiguous ground sequence'' app), app)
      | GUARD_STALE_TIMESTAMP \<Rightarrow>
          ((auth_ok, reject_ground_command packet REJECTED_STALE_TIMESTAMP
             (''Command rejected: stale timestamp age_ms='' @ str_nat (unat (gr_age_ms guard_result))) app), app)
      | GUARD_FUTURE_TIMESTAMP \<Rightarrow>
          ((auth_ok, reject_ground_command packet REJECTED_FUTURE_TIMESTAMP
             (''Command rejected: future timestamp skew_ms='' @
                str_nat (unat (gr_future_skew_ms guard_result))) app), app)
      | GUARD_INVALID_CONFIGURATION \<Rightarrow>
          ((auth_ok, reject_ground_command packet REJECTED_GUARD_CONFIGURATION
             ''Command rejected: invalid ground command guard configuration'' app), app))"

text \<open>The block guarded by \<open>has_command\<close>.\<close>

definition ground_command ::
  "StepInput \<Rightarrow> App \<Rightarrow> (GuardResult \<times> AuthorizationResult \<times> CommandResult) \<times> App" where
  "ground_command input app =
     (case si_command input of
        None \<Rightarrow> ((no_guard_result, auth_ok, no_result), app)
      | Some packet \<Rightarrow>
          let (guard_result, guard) = guard_evaluate
                (cp_sequence_number packet, cp_timestamp_ms packet, si_timestamp_ms input) (ap_guard app);
              ((auth, result), app1) = dispose_command packet guard_result (app\<lparr>ap_guard := guard\<rparr>)
          in ((guard_result, auth, result),
              app1\<lparr>ap_last_ground_command_sequence_number := cr_sequence_number result,
                ap_last_ground_command_id := of_nat (command_value (cr_command_id result)),
                ap_last_ground_command_status := of_nat (status_value (cr_status result))\<rparr>))"

definition make_internal_fault_command :: "FaultCode \<Rightarrow> u64 \<Rightarrow> CommandPacket" where
  "make_internal_fault_command fault timestamp_ms = \<lparr>cp_sequence_number = 0, cp_timestamp_ms = timestamp_ms,
     cp_command_id = INJECT_FAULT, cp_argument = of_nat (fault_value fault)\<rparr>"

definition internal_fault_candidates :: "WatchdogReport \<Rightarrow> HealthReport \<Rightarrow> FaultCode list" where
  "internal_fault_candidates w h =
     (if wr_status w = WATCHDOG_EXPIRED \<and> wr_fault w \<noteq> NONE then [wr_fault w] else []) @
     (if hr_status h = HEALTH_CRITICAL \<and> hr_fault h \<noteq> NONE then [hr_fault h] else [])"

definition internal_fault :: "FaultCode \<Rightarrow> u64 \<Rightarrow> App \<Rightarrow> CommandResult \<times> App" where
  "internal_fault primary timestamp_ms app =
     (if primary \<noteq> NONE then process_packet (make_internal_fault_command primary timestamp_ms) app
      else (no_result, app))"

fun event_severity_for_fault :: "FaultSeverity \<Rightarrow> EventSeverity" where
  "event_severity_for_fault SEVERITY_NONE = EVENT_INFO"
| "event_severity_for_fault ADVISORY = EVENT_WARNING"
| "event_severity_for_fault DEGRADED = EVENT_ERROR"
| "event_severity_for_fault SEVERITY_CRITICAL = EVENT_CRITICAL"

definition command_events :: "u64 \<Rightarrow> CommandResult \<Rightarrow> log_entry" where
  "command_events t result = \<lparr>le_timestamp_ms = t,
     le_severity = (if cr_status result = ACCEPTED then EVENT_INFO else EVENT_WARNING),
     le_source = SOURCE_COMMAND, le_code = of_nat (command_value (cr_command_id result)),
     le_message = ''sequence='' @ str_nat (unat (cr_sequence_number result)) @ '' status='' @
       command_status_to_string (cr_status result) @ '' message='' @ cr_message result\<rparr>"

definition mode_event :: "u64 \<Rightarrow> Mode \<Rightarrow> Mode \<Rightarrow> log_entry" where
  "mode_event t mode_before mode_after = \<lparr>le_timestamp_ms = t, le_severity = EVENT_INFO,
     le_source = SOURCE_MODE, le_code = of_nat (mode_value mode_after),
     le_message = ''mode='' @ mode_to_string mode_before @ ''->'' @ mode_to_string mode_after\<rparr>"

definition fault_event :: "u64 \<Rightarrow> FaultCode \<Rightarrow> FaultCode \<Rightarrow> log_entry" where
  "fault_event t fault_before fault_after = \<lparr>le_timestamp_ms = t,
     le_severity = (if fault_after \<noteq> NONE
       then event_severity_for_fault (fd_severity (disposition_for fault_after)) else EVENT_INFO),
     le_source = SOURCE_FDIR, le_code = of_nat (fault_value fault_after),
     le_message = ''fault='' @ fault_to_string fault_before @ ''->'' @ fault_to_string fault_after @
       '' response='' @ (if fault_after \<noteq> NONE
         then fault_response_to_string (fd_response (disposition_for fault_after)) else ''CLEARED'')\<rparr>"

definition step_events :: "u64 \<Rightarrow> Mode \<Rightarrow> FaultCode \<Rightarrow> CommandResult option \<Rightarrow> App \<Rightarrow> log_entry list" where
  "step_events t mode_before fault_before command app =
     (case command of None \<Rightarrow> [] | Some result \<Rightarrow> [command_events t result]) @
     (if ap_mode app \<noteq> mode_before then [mode_event t mode_before (ap_mode app)] else []) @
     (if pr_last_fault (ap_processor app) \<noteq> fault_before
      then [fault_event t fault_before (pr_last_fault (ap_processor app))] else [])"

definition record_step_events :: "u64 \<Rightarrow> Mode \<Rightarrow> FaultCode \<Rightarrow> CommandResult option \<Rightarrow> App \<Rightarrow> App" where
  "record_step_events t mode_before fault_before command app =
     app\<lparr>ap_event_logger := run log_event (step_events t mode_before fault_before command app)
            (ap_event_logger app)\<rparr>"

definition app_telemetry :: "StepInput \<Rightarrow> App \<Rightarrow> TelemetryPacket" where
  "app_telemetry input app = \<lparr>tp_sequence_number = ap_telemetry_sequence app,
     tp_timestamp_ms = si_timestamp_ms input, tp_mode = ap_mode app,
     tp_last_fault = pr_last_fault (ap_processor app), tp_cpu_load_percent = si_cpu_load_percent input,
     tp_memory_load_percent = si_memory_load_percent input, tp_heartbeat_count = si_heartbeat_count input,
     tp_last_command_sequence_number = ap_last_ground_command_sequence_number app,
     tp_last_command_id = ap_last_ground_command_id app,
     tp_last_command_status = ap_last_ground_command_status app\<rparr>"

definition health_snapshot :: "StepInput \<Rightarrow> HealthSnapshot" where
  "health_snapshot input = \<lparr>hs_cpu_load_percent = si_cpu_load_percent input,
     hs_memory_load_percent = si_memory_load_percent input, hs_sensor_age_ms = si_sensor_age_ms input,
     hs_payload_age_ms = si_payload_age_ms input, hs_loop_duration_ms = si_loop_duration_ms input\<rparr>"

definition check_watchdog :: "StepInput \<Rightarrow> App \<Rightarrow> WatchdogReport \<times> App" where
  "check_watchdog input app =
     (let wd = (if \<not> ap_watchdog_initialized app then watchdog_reset (si_timestamp_ms input) (ap_watchdog app)
                else ap_watchdog app);
          (report, wd1) = watchdog_evaluate (si_timestamp_ms input) (si_loop_duration_ms input) wd
      in (report, app\<lparr>ap_watchdog := wd1, ap_watchdog_initialized := True\<rparr>))"

definition app_step :: "StepInput \<Rightarrow> App \<Rightarrow> StepOutput \<times> App" where
  "app_step input app =
     (let mode_before = ap_mode app;
          fault_before = pr_last_fault (ap_processor app);
          (watchdog_report, app1) = check_watchdog input app;
          health_report = health_evaluate default_thresholds (health_snapshot input);
          ((guard_result, auth_result, command_result), app2) = ground_command input app1;
          primary = select_primary_fault (internal_fault_candidates watchdog_report health_report);
          (internal_result, app3) = internal_fault primary (si_timestamp_ms input) app2;
          watchdog_processed = (primary \<noteq> NONE \<and> wr_status watchdog_report = WATCHDOG_EXPIRED \<and>
            wr_fault watchdog_report \<noteq> NONE \<and> wr_fault watchdog_report = primary);
          health_processed = (primary \<noteq> NONE \<and> \<not> watchdog_processed \<and>
            hr_status health_report = HEALTH_CRITICAL \<and> hr_fault health_report \<noteq> NONE \<and>
            hr_fault health_report = primary);
          app4 = app3\<lparr>ap_watchdog := watchdog_kick (si_timestamp_ms input) (ap_watchdog app3)\<rparr>;
          app5 = record_step_events (si_timestamp_ms input) mode_before fault_before
            (map_option (\<lambda>_. command_result) (si_command input)) app4;
          app6 = app5\<lparr>ap_telemetry_sequence := ap_telemetry_sequence app5 + 1\<rparr>
      in (\<lparr>so_command_processed = (si_command input \<noteq> None), so_guard_result = guard_result,
            so_authorization_result = auth_result, so_command_result = command_result,
            so_watchdog_report = watchdog_report, so_watchdog_fault_processed = watchdog_processed,
            so_watchdog_fault_result = (if watchdog_processed then internal_result else no_result),
            so_health_report = health_report, so_health_fault_processed = health_processed,
            so_health_fault_result = (if health_processed then internal_result else no_result),
            so_internal_fault_processed = (primary \<noteq> NONE), so_primary_internal_fault = primary,
            so_internal_fault_result = internal_result, so_telemetry = app_telemetry input app6\<rparr>, app6))"

section \<open>The command processor\<close>

lemma internal_fault_argument: "command_argument_to_fault (of_nat (fault_value f)) = Some f"
proof -
  have "unat (ucast (of_nat (fault_value f) :: u32) :: u16) = fault_value f"
    using enum_values_bounded(2) [of f] by (simp add: unsigned_of_nat unsigned_ucast_eq take_bit_nat_eq_self)
  then show ?thesis by (simp add: command_argument_to_fault_def fault_cast_Some_iff)
qed

lemma process_internal_fault:
  "snd (process (make_internal_fault_command f t) (mode, pr)) = (fault_target f mode, pr\<lparr>pr_last_fault := f\<rparr>)"
  using apply_fault_mode [of mode f]
  by (auto simp: process_def make_internal_fault_command_def process_inject_fault_def internal_fault_argument
      Let_def split: prod.splits)

text \<open>The failed recovery attempts: at most the configured maximum, fewer while in RECOVERY, and
  none outside RECOVERY and SAFE.\<close>

definition recovery_inv :: "processor_state \<Rightarrow> bool" where
  "recovery_inv = (\<lambda>(mode, pr).
     let rs = pr_recovery pr in
     rs_valid rs \<and> rs_failed_attempts rs \<le> rs_maximum_failed_attempts rs \<and>
     0 < rs_maximum_failed_attempts rs \<and>
     (mode = RECOVERY \<longrightarrow> rs_failed_attempts rs < rs_maximum_failed_attempts rs) \<and>
     (mode \<noteq> RECOVERY \<and> mode \<noteq> SAFE \<longrightarrow> rs_failed_attempts rs = 0))"

lemma Suc_le_word: "(a :: u32) < b \<Longrightarrow> a + 1 \<le> b"
  by (simp add: inc_le)

lemma record_failure_eq:
  "rs_valid rs \<Longrightarrow> record_failure mode rs =
     (let rs' = rs\<lparr>rs_failed_attempts := rs_failed_attempts rs + 1\<rparr>;
          limit = rs_failed_attempts rs' \<ge> rs_maximum_failed_attempts rs
      in (\<lparr>ra_status = (if limit then FAIL_SAFE_FORCED else RECOVERY_FAILED),
           ra_failed_attempts = rs_failed_attempts rs',
           ra_maximum_failed_attempts = rs_maximum_failed_attempts rs, ra_fail_safe_forced = limit\<rparr>,
          (if limit then SAFE else mode), rs'))"
  by (simp add: record_failure_def Let_def)

lemma fault_target_not_RECOVERY: "fault_target f mode = RECOVERY \<Longrightarrow> mode = RECOVERY"
  by (auto simp: fault_target_def split: FaultSeverity.splits if_splits)

lemma fault_target_keeps:
  "fault_target f mode = mode \<or> fault_target f mode = SAFE \<or>
   (mode \<noteq> RECOVERY \<and> mode \<noteq> SAFE \<and> fault_target f mode = DEGRADED_PAYLOAD)"
  by (auto simp: fault_target_def split: FaultSeverity.splits)

lemma recovery_inv_fault:
  "recovery_inv (mode, pr) \<Longrightarrow> recovery_inv (fault_target f mode, pr\<lparr>pr_last_fault := g\<rparr>)"
  using fault_target_keeps [of f mode] by (auto simp: recovery_inv_def Let_def)

lemma process_set_mode_inv:
  assumes "recovery_inv (mode, pr)"
  shows "recovery_inv (snd (process_set_mode a (mode, pr)))"
proof (cases "command_argument_to_mode a")
  case (Some m)
  show ?thesis
  proof (cases "is_valid_transition mode m")
    case True
    then have "transition_to m mode = (True, m)" by (simp add: transition_to_True_iff del: is_valid_transition.simps)
    moreover have "rs_failed_attempts (pr_recovery pr) = 0" if "mode \<noteq> RECOVERY" "mode \<noteq> SAFE"
      using assms that by (simp add: recovery_inv_def Let_def)
    moreover have "m = RECOVERY \<or> m = SAFE" if "mode = SAFE" using True that by (auto split: if_splits)
    ultimately show ?thesis
      using assms Some
      by (auto simp: process_set_mode_def recovery_inv_def Let_def begin_session_def record_success_def)
  next
    case False
    then have tr: "transition_to m mode = (False, mode)"
      by (simp add: transition_to_False_iff del: is_valid_transition.simps)
    have valid: "rs_valid (pr_recovery pr)" using assms by (simp add: recovery_inv_def Let_def)
    show ?thesis
      using assms Some tr Suc_le_word
      by (auto simp: process_set_mode_def recovery_inv_def record_failure_eq [OF valid] Let_def not_le)
  qed
qed (use assms in \<open>simp add: process_set_mode_def\<close>)

lemma process_inject_fault_state:
  "snd (process_inject_fault a (mode, pr)) =
     (case command_argument_to_fault a of None \<Rightarrow> (mode, pr)
      | Some f \<Rightarrow> (fault_target f mode, pr\<lparr>pr_last_fault := f\<rparr>))"
proof (cases "command_argument_to_fault a")
  case (Some f)
  then show ?thesis
    using apply_fault_mode [of mode f]
    by (auto simp: process_inject_fault_def Let_def split: prod.splits)
qed (simp add: process_inject_fault_def)

lemma process_snd:
  "snd (process packet (mode, pr)) =
     (case cp_command_id packet of
        NOOP \<Rightarrow> (mode, pr) | REQUEST_TELEMETRY \<Rightarrow> (mode, pr)
      | CLEAR_FAULT \<Rightarrow> (mode, pr\<lparr>pr_last_fault := NONE\<rparr>)
      | SET_MODE \<Rightarrow> snd (process_set_mode (cp_argument packet) (mode, pr))
      | INJECT_FAULT \<Rightarrow> snd (process_inject_fault (cp_argument packet) (mode, pr)))"
  by (simp add: process_def Let_def split: CommandId.splits prod.splits)

interpretation processor_system: invariant_system process recovery_inv
proof
  fix s :: processor_state and packet :: CommandPacket
  assume inv: "recovery_inv s"
  obtain mode pr where s: "s = (mode, pr)" by (cases s)
  have "recovery_inv (snd (process_inject_fault (cp_argument packet) (mode, pr)))"
    using inv s by (auto simp: process_inject_fault_state recovery_inv_fault split: option.splits)
  moreover have "recovery_inv (mode, pr\<lparr>pr_last_fault := NONE\<rparr>)"
    using inv s by (simp add: recovery_inv_def Let_def)
  ultimately show "recovery_inv (snd (process packet s))"
    using inv process_set_mode_inv [of mode pr] unfolding s process_snd by (simp split: CommandId.splits)
qed

definition failed_exit :: "CommandPacket \<Rightarrow> bool" where
  "failed_exit p \<longleftrightarrow> cp_command_id p = SET_MODE \<and>
     (case command_argument_to_mode (cp_argument p) of None \<Rightarrow> False
      | Some m \<Rightarrow> \<not> is_valid_transition RECOVERY m)"

definition attempts_left :: "CommandProcessor \<Rightarrow> nat" where
  "attempts_left pr = unat (rs_maximum_failed_attempts (pr_recovery pr)) - unat (rs_failed_attempts (pr_recovery pr))"

definition count_failure :: "CommandProcessor \<Rightarrow> CommandProcessor" where
  "count_failure pr = pr\<lparr>pr_recovery := (pr_recovery pr)\<lparr>rs_failed_attempts := rs_failed_attempts (pr_recovery pr) + 1\<rparr>\<rparr>"

lemma attempts_left_step:
  assumes "recovery_inv (RECOVERY, pr)"
  shows "rs_failed_attempts (pr_recovery pr) + 1 \<ge> rs_maximum_failed_attempts (pr_recovery pr)
           \<longleftrightarrow> attempts_left pr = 1"
    and "attempts_left (count_failure pr) = attempts_left pr - 1"
    and "0 < attempts_left pr"
proof -
  let ?f = "rs_failed_attempts (pr_recovery pr)" and ?m = "rs_maximum_failed_attempts (pr_recovery pr)"
  have lt: "?f < ?m" using assms by (simp add: recovery_inv_def Let_def)
  then have "unat ?f + 1 < 2 ^ 32" using unsigned_less [of ?m, where 'a = nat] by (simp add: word_less_nat_alt)
  then have suc: "unat (?f + 1) = Suc (unat ?f)" by (simp add: unat_word_ariths)
  from lt show "?f + 1 \<ge> ?m \<longleftrightarrow> attempts_left pr = 1" "0 < attempts_left pr"
    by (auto simp: attempts_left_def word_le_nat_alt word_less_nat_alt suc)
  show "attempts_left (count_failure pr) = attempts_left pr - 1"
    by (simp add: attempts_left_def count_failure_def suc)
qed

lemma failed_exit_step:
  assumes inv: "recovery_inv (RECOVERY, pr)" and "failed_exit p"
  shows "cr_status (fst (process p (RECOVERY, pr))) =
      (if attempts_left pr = 1 then REJECTED_RECOVERY_LIMIT else REJECTED_INVALID_TRANSITION)"
    and "snd (process p (RECOVERY, pr)) = (if attempts_left pr = 1 then SAFE else RECOVERY, count_failure pr)"
proof -
  from assms(2) obtain m where cmd: "cp_command_id p = SET_MODE"
    and m: "command_argument_to_mode (cp_argument p) = Some m" "\<not> is_valid_transition RECOVERY m"
    by (auto simp: failed_exit_def simp del: is_valid_transition.simps split: option.splits)
  have valid: "rs_valid (pr_recovery pr)" using inv by (simp add: recovery_inv_def Let_def)
  have tr: "transition_to m RECOVERY = (False, RECOVERY)" "m \<noteq> RECOVERY"
    using m(2) by (auto simp: transition_to_def)
  note simps = process_def cmd process_set_mode_def m(1) tr record_failure_eq [OF valid]
    attempts_left_step(1) [OF inv] count_failure_def
  show "cr_status (fst (process p (RECOVERY, pr))) =
      (if attempts_left pr = 1 then REJECTED_RECOVERY_LIMIT else REJECTED_INVALID_TRANSITION)"
    "snd (process p (RECOVERY, pr)) = (if attempts_left pr = 1 then SAFE else RECOVERY, count_failure pr)"
    by (simp_all add: simps Let_def)
qed

definition processor_maximum :: "CommandProcessor \<Rightarrow> u32" where
  "processor_maximum pr = rs_maximum_failed_attempts (pr_recovery pr)"

lemma processor_maximum_step: "processor_maximum (snd (snd (process p (mode, pr)))) = processor_maximum pr"
  by (auto simp: process_snd process_inject_fault_state process_set_mode_def processor_maximum_def Let_def
      record_failure_def record_success_def begin_session_def split: CommandId.splits option.splits prod.splits)

lemma processor_maximum_run: "processor_maximum (snd (run process ps (mode, pr))) = processor_maximum pr"
proof (induction ps arbitrary: mode pr)
  case (Cons p ps)
  then show ?case
    using processor_maximum_step [of p mode pr] by (cases "snd (process p (mode, pr))") simp
qed simp

lemma failed_exits_run:
  assumes "recovery_inv (RECOVERY, pr)" and "\<forall>p\<in>set ps. failed_exit p" and "length ps \<le> attempts_left pr"
  shows "fst (run process ps (RECOVERY, pr)) = (if length ps = attempts_left pr then SAFE else RECOVERY) \<and>
    map cr_status (outputs process ps (RECOVERY, pr)) =
      (if length ps = attempts_left pr
       then replicate (length ps - 1) REJECTED_INVALID_TRANSITION @ [REJECTED_RECOVERY_LIMIT]
       else replicate (length ps) REJECTED_INVALID_TRANSITION)"
  using assms
proof (induction ps arbitrary: pr)
  case Nil
  then show ?case using attempts_left_step(3) by auto
next
  case (Cons p ps)
  note st = attempts_left_step [OF Cons.prems(1)]
  have exit: "failed_exit p" using Cons.prems(2) by simp
  note step = failed_exit_step [OF Cons.prems(1) exit]
  show ?case
  proof (cases "attempts_left pr = 1")
    case True
    with Cons.prems(3) have "ps = []" by simp
    with True step show ?thesis by simp
  next
    case False
    have inv: "recovery_inv (RECOVERY, count_failure pr)"
      using processor_system.inv_step [OF Cons.prems(1), of p] step(2) False by simp
    have "length ps \<le> attempts_left (count_failure pr)" using Cons.prems(3) st(2) by simp
    then have IH: "fst (run process ps (RECOVERY, count_failure pr)) =
        (if length ps = attempts_left (count_failure pr) then SAFE else RECOVERY) \<and>
      map cr_status (outputs process ps (RECOVERY, count_failure pr)) =
        (if length ps = attempts_left (count_failure pr)
         then replicate (length ps - 1) REJECTED_INVALID_TRANSITION @ [REJECTED_RECOVERY_LIMIT]
         else replicate (length ps) REJECTED_INVALID_TRANSITION)"
      using Cons.prems(2) by (intro Cons.IH [OF inv]) auto
    have "0 < attempts_left (count_failure pr)" by (rule attempts_left_step(3) [OF inv])
    moreover have "length ps = attempts_left (count_failure pr) \<longleftrightarrow> length (p # ps) = attempts_left pr"
      using st(2,3) by auto
    ultimately have eq: "length (p # ps) = attempts_left pr \<longleftrightarrow> length ps = attempts_left (count_failure pr)"
      and pos: "0 < attempts_left (count_failure pr)" by blast+
    have "replicate (length (p # ps) - 1) REJECTED_INVALID_TRANSITION =
        REJECTED_INVALID_TRANSITION # replicate (length ps - 1) REJECTED_INVALID_TRANSITION"
      if "length ps = attempts_left (count_failure pr)"
    proof -
      from pos that obtain q qs where "ps = q # qs" by (cases ps) auto
      then show ?thesis by simp
    qed
    with IH step False show ?thesis
      unfolding eq by (cases "length ps = attempts_left (count_failure pr)") simp_all
  qed
qed

text \<open>C6: repeated failed exits from RECOVERY force SAFE after a bounded number of attempts
  (FSW-REQ-210). Whatever commands have been processed since start-up, mode RECOVERY leaves at
  least one attempt and at most the configured maximum; a run of that many SET_MODE commands to
  modes that cannot be entered from RECOVERY ends in SAFE, the last one acknowledged
  REJECTED_RECOVERY_LIMIT, and before the last one the mode is still RECOVERY and every command
  is acknowledged REJECTED_INVALID_TRANSITION.\<close>

theorem recovery_failures_force_safe:
  assumes "maximum \<noteq> 0" and "run process history (BOOT, command_processor maximum) = (RECOVERY, pr)"
    and "\<forall>p\<in>set ps. failed_exit p" and "length ps \<le> attempts_left pr"
  shows "0 < attempts_left pr \<and> attempts_left pr \<le> unat maximum \<and>
    fst (run process ps (RECOVERY, pr)) = (if length ps = attempts_left pr then SAFE else RECOVERY) \<and>
    map cr_status (outputs process ps (RECOVERY, pr)) =
      (if length ps = attempts_left pr
       then replicate (length ps - 1) REJECTED_INVALID_TRANSITION @ [REJECTED_RECOVERY_LIMIT]
       else replicate (length ps) REJECTED_INVALID_TRANSITION)"
proof -
  have "recovery_inv (BOOT, command_processor maximum)"
    using assms(1) by (simp add: recovery_inv_def command_processor_def recovery_supervisor_def Let_def
        word_gt_0)
  then have inv: "recovery_inv (RECOVERY, pr)"
    using processor_system.inv_run [of _ history] assms(2) by metis
  have "processor_maximum pr = processor_maximum (command_processor maximum)"
    using processor_maximum_run [of history BOOT "command_processor maximum"] assms(2) by simp
  then have "attempts_left pr \<le> unat maximum"
    by (simp add: attempts_left_def processor_maximum_def command_processor_def recovery_supervisor_def Let_def)
  with failed_exits_run [OF inv assms(3,4)] attempts_left_step(3) [OF inv] show ?thesis by blast
qed

definition set_mode_packet :: "u32 \<Rightarrow> CommandPacket" where
  "set_mode_packet a = \<lparr>cp_sequence_number = 1, cp_timestamp_ms = 0, cp_command_id = SET_MODE, cp_argument = a\<rparr>"

theorem recovery_failures_force_safe_witness:
  "fst (run process (replicate 3 (set_mode_packet 7))
     (run process [set_mode_packet 4, set_mode_packet 5] (BOOT, command_processor 3))) = SAFE"
proof -
  have hist: "run process [set_mode_packet 4, set_mode_packet 5] (BOOT, command_processor 3) =
      (RECOVERY, command_processor 3)"
    by code_simp
  have "failed_exit (set_mode_packet 7)" by code_simp
  moreover have "attempts_left (command_processor 3) = 3" by code_simp
  ultimately show ?thesis
    using recovery_failures_force_safe [OF _ hist, of "replicate 3 (set_mode_packet 7)"] unfolding hist by simp
qed

section \<open>One step of the application\<close>

abbreviation core :: "App \<Rightarrow> processor_state" where
  "core app \<equiv> (ap_mode app, ap_processor app)"

definition primary_fault :: "StepInput \<Rightarrow> App \<Rightarrow> FaultCode" where
  "primary_fault input app = select_primary_fault (internal_fault_candidates (fst (check_watchdog input app))
     (health_evaluate default_thresholds (health_snapshot input)))"

definition commanded :: "StepInput \<Rightarrow> App \<Rightarrow> App" where
  "commanded input app = snd (ground_command input (snd (check_watchdog input app)))"

lemma check_watchdog_fields [simp]:
  "ap_mode (snd (check_watchdog i a)) = ap_mode a" "ap_processor (snd (check_watchdog i a)) = ap_processor a"
  "ap_guard (snd (check_watchdog i a)) = ap_guard a"
  "ap_authorization (snd (check_watchdog i a)) = ap_authorization a"
  "ap_telemetry_sequence (snd (check_watchdog i a)) = ap_telemetry_sequence a"
  "ap_event_logger (snd (check_watchdog i a)) = ap_event_logger a"
  "ap_watchdog_initialized (snd (check_watchdog i a))"
  by (simp_all add: check_watchdog_def Let_def split: prod.splits)

lemma process_packet_fields [simp]:
  "core (snd (process_packet p a)) = snd (process p (core a))"
  "fst (process_packet p a) = fst (process p (core a))"
  "ap_guard (snd (process_packet p a)) = ap_guard a"
  "ap_authorization (snd (process_packet p a)) = ap_authorization a"
  "ap_watchdog (snd (process_packet p a)) = ap_watchdog a"
  "ap_watchdog_initialized (snd (process_packet p a)) = ap_watchdog_initialized a"
  "ap_telemetry_sequence (snd (process_packet p a)) = ap_telemetry_sequence a"
  "ap_event_logger (snd (process_packet p a)) = ap_event_logger a"
  "ap_last_ground_command_sequence_number (snd (process_packet p a)) = ap_last_ground_command_sequence_number a"
  "ap_last_ground_command_id (snd (process_packet p a)) = ap_last_ground_command_id a"
  "ap_last_ground_command_status (snd (process_packet p a)) = ap_last_ground_command_status a"
  by (simp_all add: process_packet_def Let_def split: prod.splits)

lemma dispose_command_eq:
  "dispose_command p g a =
     (if gr_status g = GUARD_ACCEPTED \<and> ar_authorized (authorize (ap_authorization a) p)
      then ((authorize (ap_authorization a) p, fst (process p (core a))), snd (process_packet p a))
      else (fst (dispose_command p g a), a))"
  by (cases "gr_status g") (auto simp: dispose_command_def Let_def split: prod.splits
      dest: arg_cong [of _ _ fst] arg_cong [of _ _ snd])

text \<open>The commands a step really executes: the ground command if guard and authorizer admit it,
  then the internal fault command if a fault is selected.\<close>

definition guard_input :: "StepInput \<Rightarrow> CommandPacket \<Rightarrow> u32 \<times> u64 \<times> u64" where
  "guard_input i p = (cp_sequence_number p, cp_timestamp_ms p, si_timestamp_ms i)"

definition admitted :: "StepInput \<Rightarrow> App \<Rightarrow> CommandPacket list" where
  "admitted i a = (case si_command i of None \<Rightarrow> [] | Some p \<Rightarrow>
     if gr_status (fst (guard_evaluate (guard_input i p) (ap_guard a))) = GUARD_ACCEPTED \<and>
        ar_authorized (authorize (ap_authorization a) p) then [p] else [])"

definition executed :: "StepInput \<Rightarrow> App \<Rightarrow> CommandPacket list" where
  "executed i a = admitted i a @
     (if primary_fault i a \<noteq> NONE then [make_internal_fault_command (primary_fault i a) (si_timestamp_ms i)] else [])"

lemma commanded_fields:
  "core (commanded i a) = run process (admitted i a) (core a)"
  "ap_guard (commanded i a) = (case si_command i of None \<Rightarrow> ap_guard a
     | Some p \<Rightarrow> snd (guard_evaluate (guard_input i p) (ap_guard a)))"
  "ap_authorization (commanded i a) = ap_authorization a"
  "ap_watchdog (commanded i a) = ap_watchdog (snd (check_watchdog i a))"
  "ap_watchdog_initialized (commanded i a)"
  "ap_telemetry_sequence (commanded i a) = ap_telemetry_sequence a"
  "ap_event_logger (commanded i a) = ap_event_logger a"
proof -
  have "core (commanded i a) = run process (admitted i a) (core a) \<and>
    ap_guard (commanded i a) = (case si_command i of None \<Rightarrow> ap_guard a
      | Some p \<Rightarrow> snd (guard_evaluate (guard_input i p) (ap_guard a))) \<and>
    ap_authorization (commanded i a) = ap_authorization a \<and>
    ap_watchdog (commanded i a) = ap_watchdog (snd (check_watchdog i a)) \<and>
    ap_watchdog_initialized (commanded i a) \<and>
    ap_telemetry_sequence (commanded i a) = ap_telemetry_sequence a \<and>
    ap_event_logger (commanded i a) = ap_event_logger a"
  proof (cases "si_command i")
    case None
    then show ?thesis by (simp add: commanded_def ground_command_def admitted_def)
  next
    case (Some p)
    obtain g gg where ev: "guard_evaluate (guard_input i p) (ap_guard a) = (g, gg)" by fastforce
    let ?a = "snd (check_watchdog i a)\<lparr>ap_guard := gg\<rparr>"
    have "commanded i a = (let ((auth, result), app1) = dispose_command p g ?a in
        app1\<lparr>ap_last_ground_command_sequence_number := cr_sequence_number result,
          ap_last_ground_command_id := of_nat (command_value (cr_command_id result)),
          ap_last_ground_command_status := of_nat (status_value (cr_status result))\<rparr>)"
      using ev by (simp add: commanded_def ground_command_def Some guard_input_def Let_def split: prod.splits)
    then show ?thesis
      using Some ev by (subst (asm) dispose_command_eq)
        (auto simp: admitted_def Let_def split: prod.splits if_splits)
  qed
  then show "core (commanded i a) = run process (admitted i a) (core a)"
    "ap_guard (commanded i a) = (case si_command i of None \<Rightarrow> ap_guard a
      | Some p \<Rightarrow> snd (guard_evaluate (guard_input i p) (ap_guard a)))"
    "ap_authorization (commanded i a) = ap_authorization a"
    "ap_watchdog (commanded i a) = ap_watchdog (snd (check_watchdog i a))"
    "ap_watchdog_initialized (commanded i a)"
    "ap_telemetry_sequence (commanded i a) = ap_telemetry_sequence a"
    "ap_event_logger (commanded i a) = ap_event_logger a" by blast+
qed

lemma app_step_eq:
  fixes i :: StepInput and a :: App
  defines "t \<equiv> si_timestamp_ms i"
  defines "a3 \<equiv> snd (internal_fault (primary_fault i a) t (commanded i a))"
  shows "snd (app_step i a) =
     (let a5 = record_step_events t (ap_mode a) (pr_last_fault (ap_processor a))
            (map_option (\<lambda>_. snd (snd (fst (ground_command i (snd (check_watchdog i a)))))) (si_command i))
            (a3\<lparr>ap_watchdog := watchdog_kick t (ap_watchdog a3)\<rparr>)
      in a5\<lparr>ap_telemetry_sequence := ap_telemetry_sequence a5 + 1\<rparr>)"
    and "so_telemetry (fst (app_step i a)) = app_telemetry i (snd (app_step i a))"
    and "so_primary_internal_fault (fst (app_step i a)) = primary_fault i a"
    and "so_command_result (fst (app_step i a)) = snd (snd (fst (ground_command i (snd (check_watchdog i a)))))"
    and "so_guard_result (fst (app_step i a)) = fst (fst (ground_command i (snd (check_watchdog i a))))"
    and "so_watchdog_report (fst (app_step i a)) = fst (check_watchdog i a)"
  by (simp_all add: app_step_def a3_def t_def primary_fault_def commanded_def Let_def split_beta)

lemma internal_fault_fields:
  "core (snd (internal_fault f t a)) =
     run process (if f \<noteq> NONE then [make_internal_fault_command f t] else []) (core a)"
  "ap_guard (snd (internal_fault f t a)) = ap_guard a"
  "ap_authorization (snd (internal_fault f t a)) = ap_authorization a"
  "ap_watchdog (snd (internal_fault f t a)) = ap_watchdog a"
  "ap_watchdog_initialized (snd (internal_fault f t a)) = ap_watchdog_initialized a"
  "ap_telemetry_sequence (snd (internal_fault f t a)) = ap_telemetry_sequence a"
  "ap_event_logger (snd (internal_fault f t a)) = ap_event_logger a"
  "ap_last_ground_command_sequence_number (snd (internal_fault f t a)) = ap_last_ground_command_sequence_number a"
  "ap_last_ground_command_id (snd (internal_fault f t a)) = ap_last_ground_command_id a"
  "ap_last_ground_command_status (snd (internal_fault f t a)) = ap_last_ground_command_status a"
  using process_packet_fields(1) [of "make_internal_fault_command f t" a]
  by (auto simp: internal_fault_def)

lemma app_step_core: "core (snd (app_step i a)) = run process (executed i a) (core a)"
proof -
  have "core (snd (app_step i a)) = core (snd (internal_fault (primary_fault i a) (si_timestamp_ms i) (commanded i a)))"
    by (simp add: app_step_eq(1) Let_def record_step_events_def)
  also have "\<dots> = run process (executed i a) (core a)"
    unfolding internal_fault_fields(1) commanded_fields(1) executed_def by simp
  finally show ?thesis .
qed

lemma app_step_fields:
  "ap_guard (snd (app_step i a)) = ap_guard (commanded i a)"
  "ap_authorization (snd (app_step i a)) = ap_authorization a"
  "ap_watchdog (snd (app_step i a)) = watchdog_kick (si_timestamp_ms i) (ap_watchdog (snd (check_watchdog i a)))"
  "ap_watchdog_initialized (snd (app_step i a))"
  "ap_telemetry_sequence (snd (app_step i a)) = ap_telemetry_sequence a + 1"
  "ap_last_ground_command_sequence_number (snd (app_step i a)) = ap_last_ground_command_sequence_number (commanded i a)"
  "ap_last_ground_command_id (snd (app_step i a)) = ap_last_ground_command_id (commanded i a)"
  "ap_last_ground_command_status (snd (app_step i a)) = ap_last_ground_command_status (commanded i a)"
  by (simp_all add: app_step_eq(1) Let_def record_step_events_def internal_fault_fields commanded_fields)

lemma app_step_mode:
  "ap_mode (snd (app_step i a)) = fault_target (primary_fault i a) (fst (run process (admitted i a) (core a)))"
proof -
  have "ap_mode (snd (app_step i a)) = fst (run process (executed i a) (core a))"
    using app_step_core [of i a] by (metis fst_conv)
  also have "\<dots> = fault_target (primary_fault i a) (fst (run process (admitted i a) (core a)))"
    by (cases "run process (admitted i a) (core a)")
      (simp add: executed_def process_internal_fault, simp add: fault_target_def)
  finally show ?thesis .
qed

lemma app_step_last_fault:
  "primary_fault i a \<noteq> NONE \<Longrightarrow> pr_last_fault (ap_processor (snd (app_step i a))) = primary_fault i a"
proof -
  assume "primary_fault i a \<noteq> NONE"
  moreover have "ap_processor (snd (app_step i a)) = snd (run process (executed i a) (core a))"
    using app_step_core [of i a] by (metis snd_conv)
  ultimately show ?thesis
    by (cases "run process (admitted i a) (core a)") (simp add: executed_def process_internal_fault)
qed

section \<open>Detected faults\<close>

definition watchdog_expired :: "StepInput \<Rightarrow> App \<Rightarrow> bool" where
  "watchdog_expired i a \<longleftrightarrow> wr_status (fst (check_watchdog i a)) = WATCHDOG_EXPIRED"

definition detected_fault :: "StepInput \<Rightarrow> App \<Rightarrow> FaultCode" where
  "detected_fault i a =
     (if watchdog_expired i a \<or> si_loop_duration_ms i \<ge> 250 then WATCHDOG_DEADLINE_MISS
      else if si_sensor_age_ms i \<ge> 1000 then SENSOR_TIMEOUT
      else if float_ge (si_memory_load_percent i) 0x42BE0000 then MEMORY_OVERLOAD
      else if float_ge (si_cpu_load_percent i) 0x42BE0000 then CPU_OVERLOAD else NONE)"

lemma watchdog_expired_fault:
  "wr_status (fst (watchdog_evaluate t l wd)) = WATCHDOG_EXPIRED \<Longrightarrow>
     wr_fault (fst (watchdog_evaluate t l wd)) = WATCHDOG_DEADLINE_MISS"
  by (auto simp: watchdog_evaluate_def Let_def split: if_splits)

lemma health_report_cases:
  fixes s :: HealthSnapshot
  defines "r \<equiv> health_evaluate default_thresholds s"
  shows "(if hr_status r = HEALTH_CRITICAL then hr_fault r else NONE) =
     (if hs_loop_duration_ms s \<ge> 250 then WATCHDOG_DEADLINE_MISS
      else if hs_sensor_age_ms s \<ge> 1000 then SENSOR_TIMEOUT
      else if float_ge (hs_memory_load_percent s) 0x42BE0000 then MEMORY_OVERLOAD
      else if float_ge (hs_cpu_load_percent s) 0x42BE0000 then CPU_OVERLOAD else NONE)"
  by (simp add: r_def health_evaluate_def default_thresholds_def Let_def set_critical_def set_warning_if_ok_def)

lemma primary_fault_detected: "primary_fault i a = detected_fault i a"
proof -
  let ?h = "health_evaluate default_thresholds (health_snapshot i)"
  let ?hf = "if hr_status ?h = HEALTH_CRITICAL then hr_fault ?h else NONE"
  have wf: "wr_fault (fst (check_watchdog i a)) = WATCHDOG_DEADLINE_MISS" if "watchdog_expired i a"
    using that by (simp add: watchdog_expired_def check_watchdog_def Let_def split_beta watchdog_expired_fault)
  have "primary_fault i a = higher (if watchdog_expired i a then WATCHDOG_DEADLINE_MISS else NONE) ?hf"
    unfolding primary_fault_def select_primary_fault_foldl internal_fault_candidates_def
    using wf by (auto simp: watchdog_expired_def higher_def)
  also have "\<dots> = detected_fault i a"
    unfolding health_report_cases detected_fault_def by (simp add: higher_def health_snapshot_def)
  finally show ?thesis .
qed

text \<open>C4: internal faults are handled in the step that detects them, whatever state the
  application is in and whatever command arrives in the same step (FSW-REQ-006, 007, 206). The
  fault is chosen by priority: an expired watchdog or a loop of 250 ms or more, else a sensor
  age of 1000 ms or more, else memory load of 95 percent or more, else CPU load of 95 percent
  or more. The telemetry of the step reports this fault, and mode SAFE; only CPU overload leads
  to DEGRADED_PAYLOAD instead, when the mode after the command is NOMINAL or DEGRADED_PAYLOAD.\<close>

theorem detected_fault_is_handled:
  assumes "f = (if watchdog_expired i a \<or> si_loop_duration_ms i \<ge> 250 then WATCHDOG_DEADLINE_MISS
      else if si_sensor_age_ms i \<ge> 1000 then SENSOR_TIMEOUT
      else if float_ge (si_memory_load_percent i) 0x42BE0000 then MEMORY_OVERLOAD
      else if float_ge (si_cpu_load_percent i) 0x42BE0000 then CPU_OVERLOAD else NONE)"
    and "f \<noteq> NONE"
  shows "tp_last_fault (so_telemetry (fst (app_step i a))) = f \<and>
    (tp_mode (so_telemetry (fst (app_step i a))) = SAFE \<or>
     f = CPU_OVERLOAD \<and> tp_mode (so_telemetry (fst (app_step i a))) = DEGRADED_PAYLOAD \<and>
     fst (run process (admitted i a) (core a)) \<in> {NOMINAL, DEGRADED_PAYLOAD})"
proof -
  have f: "f = primary_fault i a"
    using assms(1) unfolding primary_fault_detected detected_fault_def .
  have "f \<in> {WATCHDOG_DEADLINE_MISS, SENSOR_TIMEOUT, MEMORY_OVERLOAD, CPU_OVERLOAD}"
    using assms by (auto split: if_splits)
  moreover have "tp_mode (so_telemetry (fst (app_step i a))) = fault_target f (fst (run process (admitted i a) (core a)))"
    by (simp add: app_step_eq(2) app_telemetry_def app_step_mode f)
  moreover have "tp_last_fault (so_telemetry (fst (app_step i a))) = f"
    using app_step_last_fault [of i a] assms(2) by (simp add: app_step_eq(2) app_telemetry_def f)
  ultimately show ?thesis by (auto simp: fault_target_def split: if_splits)
qed

definition quiet_input :: StepInput where
  "quiet_input = \<lparr>si_command = None, si_timestamp_ms = 1000, si_cpu_load_percent = 0x41900000,
     si_memory_load_percent = 0x42280000, si_heartbeat_count = 1, si_sensor_age_ms = 0,
     si_payload_age_ms = 0, si_loop_duration_ms = 0\<rparr>"

theorem detected_fault_is_handled_witness:
  "tp_mode (so_telemetry (fst (app_step (quiet_input\<lparr>si_sensor_age_ms := 1500\<rparr>)
     (flight_software_app default_config)))) = SAFE"
proof -
  let ?i = "quiet_input\<lparr>si_sensor_age_ms := 1500\<rparr>" and ?a = "flight_software_app default_config"
  have "watchdog_expired ?i ?a = False" by code_simp
  then show ?thesis
    using detected_fault_is_handled [of SENSOR_TIMEOUT ?i ?a] by (simp add: quiet_input_def)
qed

text \<open>C14: a stale payload heartbeat changes nothing. Whatever the payload age, the step leaves
  the application in the same state, event log included, and sends the same telemetry: the
  health monitor raises PAYLOAD_HEARTBEAT_TIMEOUT as a warning only, and only critical reports
  reach the fault response.\<close>

theorem payload_age_has_no_effect:
  "snd (app_step (i\<lparr>si_payload_age_ms := age\<rparr>) a) = snd (app_step i a) \<and>
   so_telemetry (fst (app_step (i\<lparr>si_payload_age_ms := age\<rparr>) a)) = so_telemetry (fst (app_step i a))"
proof -
  let ?i = "i\<lparr>si_payload_age_ms := age\<rparr>"
  have wd: "check_watchdog ?i a = check_watchdog i a" by (simp add: check_watchdog_def)
  have gc: "ground_command ?i b = ground_command i b" for b
    by (simp add: ground_command_def cong: option.case_cong)
  have "primary_fault ?i a = primary_fault i a"
    by (simp add: primary_fault_detected detected_fault_def watchdog_expired_def wd)
  then have "snd (app_step ?i a) = snd (app_step i a)"
    by (simp add: app_step_eq(1) commanded_def wd gc)
  then show ?thesis by (simp add: app_step_eq(2) app_telemetry_def)
qed

section \<open>Ground commands\<close>

lemma ground_command_fst:
  fixes i :: StepInput and p :: CommandPacket and a :: App
  assumes "si_command i = Some p"
  defines "g \<equiv> fst (guard_evaluate (guard_input i p) (ap_guard a))"
  shows "fst (ground_command i (snd (check_watchdog i a))) =
     (g, fst (dispose_command p g ((snd (check_watchdog i a))\<lparr>ap_guard := snd (guard_evaluate (guard_input i p) (ap_guard a))\<rparr>)))"
  using assms(1) by (simp add: g_def ground_command_def guard_input_def Let_def split_beta)

definition disposition_status :: "StepInput \<Rightarrow> CommandPacket \<Rightarrow> App \<Rightarrow> CommandStatus" where
  "disposition_status i p a =
     (case gr_status (fst (guard_evaluate (guard_input i p) (ap_guard a))) of
        GUARD_ACCEPTED \<Rightarrow> if ar_authorized (authorize (ap_authorization a) p)
          then cr_status (fst (process p (core a))) else REJECTED_UNAUTHORIZED
      | GUARD_DUPLICATE_SEQUENCE \<Rightarrow> REJECTED_DUPLICATE_SEQUENCE
      | GUARD_REPLAYED_SEQUENCE \<Rightarrow> REJECTED_REPLAYED_SEQUENCE
      | GUARD_STALE_TIMESTAMP \<Rightarrow> REJECTED_STALE_TIMESTAMP
      | GUARD_FUTURE_TIMESTAMP \<Rightarrow> REJECTED_FUTURE_TIMESTAMP
      | GUARD_INVALID_CONFIGURATION \<Rightarrow> REJECTED_GUARD_CONFIGURATION)"

lemma process_result_fields:
  "cr_command_id (fst (process p s)) = cp_command_id p"
  "cr_sequence_number (fst (process p s)) = cp_sequence_number p"
  by (simp_all add: process_def Let_def split_beta)

lemma process_status:
  "cr_status (fst (process p s)) \<in> {ACCEPTED, REJECTED_BAD_ARGUMENT, REJECTED_INVALID_TRANSITION, REJECTED_RECOVERY_LIMIT}"
proof -
  have "fst (fst (process_set_mode x s)) \<in>
      {ACCEPTED, REJECTED_BAD_ARGUMENT, REJECTED_INVALID_TRANSITION, REJECTED_RECOVERY_LIMIT}" for x
    by (simp add: process_set_mode_def Let_def split_beta split: option.split)
  moreover have "fst (fst (process_inject_fault x s)) \<in> {ACCEPTED, REJECTED_BAD_ARGUMENT}" for x
    by (simp add: process_inject_fault_def Let_def split_beta split: option.split)
  moreover have "cr_status (fst (process p s)) =
      (case cp_command_id p of SET_MODE \<Rightarrow> fst (fst (process_set_mode (cp_argument p) s))
       | INJECT_FAULT \<Rightarrow> fst (fst (process_inject_fault (cp_argument p) s)) | _ \<Rightarrow> ACCEPTED)"
    by (simp add: process_def Let_def split_beta split: CommandId.split)
  ultimately show ?thesis by (auto split: CommandId.split)
qed

lemma dispose_command_result:
  assumes "g = fst (guard_evaluate (guard_input i p) (ap_guard a))" and "core b = core a"
    and "ap_authorization b = ap_authorization a"
  shows "cr_status (snd (fst (dispose_command p g b))) = disposition_status i p a"
    "cr_command_id (snd (fst (dispose_command p g b))) = cp_command_id p"
    "cr_sequence_number (snd (fst (dispose_command p g b))) = cp_sequence_number p"
  using assms(2,3) by (auto simp: dispose_command_def disposition_status_def assms(1) reject_ground_command_def
      Let_def split_beta process_result_fields split: GuardStatus.splits)

lemma command_result_fields:
  assumes "si_command i = Some p"
  shows "cr_status (so_command_result (fst (app_step i a))) = disposition_status i p a"
    "cr_command_id (so_command_result (fst (app_step i a))) = cp_command_id p"
    "cr_sequence_number (so_command_result (fst (app_step i a))) = cp_sequence_number p"
  unfolding app_step_eq(4) ground_command_fst [OF assms] snd_conv
  by (rule dispose_command_result, simp_all)+

lemma commanded_ack:
  assumes "si_command i = Some p"
  shows "ap_last_ground_command_sequence_number (commanded i a) = cp_sequence_number p"
    "ap_last_ground_command_id (commanded i a) = of_nat (command_value (cp_command_id p))"
    "ap_last_ground_command_status (commanded i a) = of_nat (status_value (disposition_status i p a))"
  using assms dispose_command_result [of _ i p a]
  by (simp_all add: commanded_def ground_command_def guard_input_def Let_def split_beta)

lemma guard_state_status:
  "snd (guard_evaluate x g) = (if gr_status (fst (guard_evaluate x g)) = GUARD_ACCEPTED
     then g\<lparr>gg_sequence_initialized := True, gg_highest_sequence := fst x\<rparr> else g)"
  by (cases x) (simp add: guard_state guard_accepted_iff)

lemma process_from_SAFE:
  "fst (snd (process p (SAFE, pr))) = SAFE \<or> fst (snd (process p (SAFE, pr))) = RECOVERY \<and>
     cp_command_id p = SET_MODE \<and> command_argument_to_mode (cp_argument p) = Some RECOVERY"
proof -
  have "fault_target f SAFE = SAFE" for f by (simp add: fault_target_def split: FaultSeverity.splits)
  moreover have "fst (snd (process_set_mode x (SAFE, pr))) =
      (if command_argument_to_mode x = Some RECOVERY then RECOVERY else SAFE)" for x
    by (auto simp: process_set_mode_def transition_to_def Let_def split: option.splits)
  ultimately show ?thesis
    by (auto simp: process_snd process_inject_fault_state split: CommandId.splits option.splits)
qed

definition boundary_rejections :: "CommandStatus set" where
  "boundary_rejections = {REJECTED_DUPLICATE_SEQUENCE, REJECTED_REPLAYED_SEQUENCE, REJECTED_STALE_TIMESTAMP,
     REJECTED_FUTURE_TIMESTAMP, REJECTED_GUARD_CONFIGURATION, REJECTED_UNAUTHORIZED}"

lemma boundary_rejection_iff:
  "si_command i = Some p \<Longrightarrow> disposition_status i p a \<in> boundary_rejections \<longleftrightarrow> admitted i a = []"
  using process_status [of p "core a"]
  by (auto simp: disposition_status_def admitted_def boundary_rejections_def split: GuardStatus.splits)

lemma executed_no_command:
  assumes "admitted i a = []"
  shows "executed i a = executed (i\<lparr>si_command := None\<rparr>) a"
proof -
  have "detected_fault (i\<lparr>si_command := None\<rparr>) a = detected_fault i a"
    by (simp add: detected_fault_def watchdog_expired_def check_watchdog_def)
  with assms show ?thesis
    by (simp add: executed_def primary_fault_detected) (simp add: admitted_def)
qed

text \<open>C5: a command rejected at the boundary has no effect (FSW-REQ-109, 110, 112, 116). If the
  step acknowledges a command as duplicate, replayed, stale, future-dated, refused by an invalid
  guard configuration or unauthorized, then mode, active fault, recovery supervision and
  watchdog are after the step exactly what they would be had no command arrived. The guard is
  unchanged too, unless the command was unauthorized: then its sequence number is consumed.\<close>

theorem rejected_command_has_no_effect:
  assumes "si_command i = Some p"
    and "cr_status (so_command_result (fst (app_step i a))) \<in> {REJECTED_DUPLICATE_SEQUENCE,
      REJECTED_REPLAYED_SEQUENCE, REJECTED_STALE_TIMESTAMP, REJECTED_FUTURE_TIMESTAMP,
      REJECTED_GUARD_CONFIGURATION, REJECTED_UNAUTHORIZED}"
  shows "ap_mode (snd (app_step i a)) = ap_mode (snd (app_step (i\<lparr>si_command := None\<rparr>) a)) \<and>
    ap_processor (snd (app_step i a)) = ap_processor (snd (app_step (i\<lparr>si_command := None\<rparr>) a)) \<and>
    ap_watchdog (snd (app_step i a)) = ap_watchdog (snd (app_step (i\<lparr>si_command := None\<rparr>) a)) \<and>
    ap_guard (snd (app_step i a)) =
      (if cr_status (so_command_result (fst (app_step i a))) = REJECTED_UNAUTHORIZED
       then (ap_guard a)\<lparr>gg_sequence_initialized := True, gg_highest_sequence := cp_sequence_number p\<rparr>
       else ap_guard a)"
proof -
  let ?i = "i\<lparr>si_command := None\<rparr>"
  have adm: "admitted i a = []"
    using assms(2) boundary_rejection_iff [OF assms(1)] command_result_fields(1) [OF assms(1)]
    by (simp add: boundary_rejections_def)
  have "core (snd (app_step i a)) = core (snd (app_step ?i a))"
    unfolding app_step_core executed_no_command [OF adm] ..
  moreover have "ap_watchdog (snd (app_step i a)) = ap_watchdog (snd (app_step ?i a))"
    by (simp add: app_step_fields(3) check_watchdog_def Let_def split_beta)
  moreover have "ap_guard (snd (app_step i a)) =
      (if disposition_status i p a = REJECTED_UNAUTHORIZED
       then (ap_guard a)\<lparr>gg_sequence_initialized := True, gg_highest_sequence := cp_sequence_number p\<rparr>
       else ap_guard a)"
  proof -
    let ?g = "guard_evaluate (guard_input i p) (ap_guard a)"
    have "disposition_status i p a = REJECTED_UNAUTHORIZED \<longleftrightarrow> gr_status (fst ?g) = GUARD_ACCEPTED"
      using adm assms(1) by (simp add: admitted_def disposition_status_def split: GuardStatus.splits if_splits)
    then show ?thesis
      using assms(1) guard_state_status [of "guard_input i p" "ap_guard a"]
      by (simp add: app_step_fields(1) commanded_fields(2) guard_input_def)
  qed
  ultimately show ?thesis by (simp add: command_result_fields(1) [OF assms(1)])
qed

theorem rejected_command_has_no_effect_witness:
  "ap_guard (snd (app_step (quiet_input\<lparr>si_timestamp_ms := 10000, si_command := Some (set_mode_packet 4)\<rparr>)
     (flight_software_app default_config))) = ap_guard (flight_software_app default_config)"
proof -
  let ?i = "quiet_input\<lparr>si_timestamp_ms := 10000, si_command := Some (set_mode_packet 4)\<rparr>"
  let ?a = "flight_software_app default_config"
  have cmd: "si_command ?i = Some (set_mode_packet 4)" by simp
  have "disposition_status ?i (set_mode_packet 4) ?a = REJECTED_STALE_TIMESTAMP" by code_simp
  then have "cr_status (so_command_result (fst (app_step ?i ?a))) = REJECTED_STALE_TIMESTAMP"
    by (simp only: command_result_fields(1) [OF cmd])
  with rejected_command_has_no_effect [OF cmd, of ?a] show ?thesis by simp
qed

text \<open>Telemetry acknowledges every ground command (FSW-REQ-113). After a step with a command
  the telemetry carries that command's sequence number and identifier and the status of its
  disposition, which is the guard's verdict if the guard rejects it, unauthorized if the policy
  refuses it, and else what the command processor returned from the state before the step.\<close>

theorem telemetry_acknowledges_command:
  assumes "si_command i = Some p"
  shows "tp_last_command_sequence_number (so_telemetry (fst (app_step i a))) = cp_sequence_number p \<and>
    tp_last_command_id (so_telemetry (fst (app_step i a))) = of_nat (command_value (cp_command_id p)) \<and>
    tp_last_command_status (so_telemetry (fst (app_step i a))) = of_nat (status_value (
      case gr_status (fst (guard_evaluate (cp_sequence_number p, cp_timestamp_ms p, si_timestamp_ms i) (ap_guard a))) of
        GUARD_ACCEPTED \<Rightarrow> if ar_authorized (authorize (ap_authorization a) p)
          then cr_status (fst (process p (ap_mode a, ap_processor a))) else REJECTED_UNAUTHORIZED
      | GUARD_DUPLICATE_SEQUENCE \<Rightarrow> REJECTED_DUPLICATE_SEQUENCE
      | GUARD_REPLAYED_SEQUENCE \<Rightarrow> REJECTED_REPLAYED_SEQUENCE
      | GUARD_STALE_TIMESTAMP \<Rightarrow> REJECTED_STALE_TIMESTAMP
      | GUARD_FUTURE_TIMESTAMP \<Rightarrow> REJECTED_FUTURE_TIMESTAMP
      | GUARD_INVALID_CONFIGURATION \<Rightarrow> REJECTED_GUARD_CONFIGURATION))"
  using commanded_ack [OF assms, of a]
  by (simp add: app_step_eq(2) app_telemetry_def app_step_fields disposition_status_def guard_input_def)

theorem telemetry_acknowledges_command_witness:
  "tp_last_command_sequence_number (so_telemetry (fst (app_step
     (quiet_input\<lparr>si_command := Some (set_mode_packet 1)\<rparr>) (flight_software_app default_config)))) = 1"
  using telemetry_acknowledges_command [of "quiet_input\<lparr>si_command := Some (set_mode_packet 1)\<rparr>"
      "set_mode_packet 1" "flight_software_app default_config"]
  by (simp add: set_mode_packet_def)

text \<open>C8: SAFE is left only on command. If a step takes the application out of SAFE, then the new
  mode is RECOVERY, no internal fault was detected in the step, and the step carried a SET_MODE
  command with an argument whose low byte is that of RECOVERY, accepted by the guard and
  authorized by the policy.\<close>

theorem safe_left_only_on_command:
  assumes "ap_mode a = SAFE" and "ap_mode (snd (app_step i a)) \<noteq> SAFE"
  shows "ap_mode (snd (app_step i a)) = RECOVERY \<and> so_primary_internal_fault (fst (app_step i a)) = NONE \<and>
    (\<exists>p. si_command i = Some p \<and> cp_command_id p = SET_MODE \<and> unat (cp_argument p) mod 256 = 5 \<and>
       gr_status (fst (guard_evaluate (cp_sequence_number p, cp_timestamp_ms p, si_timestamp_ms i) (ap_guard a))) =
         GUARD_ACCEPTED \<and>
       ar_authorized (authorize (ap_authorization a) p))"
proof -
  let ?m = "fst (run process (admitted i a) (core a))" and ?f = "primary_fault i a"
  have after: "ap_mode (snd (app_step i a)) = fault_target ?f ?m" by (rule app_step_mode)
  have m: "?m = SAFE \<or> ?m = RECOVERY \<and> (\<exists>p. admitted i a = [p] \<and> cp_command_id p = SET_MODE \<and>
      command_argument_to_mode (cp_argument p) = Some RECOVERY)"
    using process_from_SAFE [of _ "ap_processor a"] assms(1)
    by (auto simp: admitted_def split: option.splits)
  have f: "?f \<in> {NONE, WATCHDOG_DEADLINE_MISS, SENSOR_TIMEOUT, MEMORY_OVERLOAD, CPU_OVERLOAD}"
    by (simp add: primary_fault_detected detected_fault_def)
  with m after assms(2) have none: "?f = NONE" and rec: "?m = RECOVERY"
    by (auto simp: fault_target_def)
  with m obtain p where "admitted i a = [p]" "cp_command_id p = SET_MODE"
    "command_argument_to_mode (cp_argument p) = Some RECOVERY" by auto
  then have "\<exists>p. si_command i = Some p \<and> cp_command_id p = SET_MODE \<and> unat (cp_argument p) mod 256 = 5 \<and>
      gr_status (fst (guard_evaluate (guard_input i p) (ap_guard a))) = GUARD_ACCEPTED \<and>
      ar_authorized (authorize (ap_authorization a) p)"
    by (auto simp: admitted_def command_argument_to_mode_def mode_cast_Some_iff unsigned_ucast_eq
        take_bit_eq_mod split: option.splits if_splits)
  with after none rec show ?thesis
    by (simp add: app_step_eq(3) fault_target_def guard_input_def)
qed

theorem safe_left_only_on_command_witness:
  "ap_mode (snd (app_step (quiet_input\<lparr>si_command := Some (set_mode_packet 5)\<rparr>)
     ((flight_software_app default_config)\<lparr>ap_mode := SAFE\<rparr>))) = RECOVERY"
proof -
  let ?i = "quiet_input\<lparr>si_command := Some (set_mode_packet 5)\<rparr>"
  let ?a = "(flight_software_app default_config)\<lparr>ap_mode := SAFE\<rparr>"
  have "fault_target (primary_fault ?i ?a) (fst (run process (admitted ?i ?a) (core ?a))) \<noteq> SAFE" by code_simp
  then have "ap_mode (snd (app_step ?i ?a)) \<noteq> SAFE" by (simp only: app_step_mode not_False_eq_True)
  with safe_left_only_on_command [of ?a ?i] show ?thesis by simp
qed

end
