(* ===== verification/Flight_Runs.thy ===== *)
theory Flight_Runs
  imports Flight_App
begin

text \<open>
  Sequences of steps of the flight software application: the invariant of every reachable
  state, the numbering of telemetry, the latched watchdog, and the loop of
  \<open>fsw/src/command_telemetry_demo.cpp\<close> that connects a step to the wire.
\<close>

section \<open>The invariant\<close>

definition app_inv :: "App \<Rightarrow> bool" where
  "app_inv a \<longleftrightarrow> recovery_inv (core a) \<and> log_wf (ap_event_logger a) \<and>
     wd_timeout_ms (ap_watchdog a) = 500 \<and> wd_loop_deadline_ms (ap_watchdog a) = 250 \<and>
     wd_max_missed_deadlines (ap_watchdog a) = 3 \<and>
     (ap_watchdog_initialized a \<or> wd_missed_deadline_count (ap_watchdog a) = 0)"

lemma watchdog_evaluate_snd:
  "snd (watchdog_evaluate t l wd) =
     (if l \<ge> wd_loop_deadline_ms wd then wd\<lparr>wd_missed_deadline_count := wd_missed_deadline_count wd + 1\<rparr> else wd)"
  by (simp add: watchdog_evaluate_def Let_def)

lemma check_watchdog_snd:
  "ap_watchdog (snd (check_watchdog i a)) = snd (watchdog_evaluate (si_timestamp_ms i) (si_loop_duration_ms i)
     (if ap_watchdog_initialized a then ap_watchdog a else watchdog_reset (si_timestamp_ms i) (ap_watchdog a)))"
  "fst (check_watchdog i a) = fst (watchdog_evaluate (si_timestamp_ms i) (si_loop_duration_ms i)
     (if ap_watchdog_initialized a then ap_watchdog a else watchdog_reset (si_timestamp_ms i) (ap_watchdog a)))"
  by (simp_all add: check_watchdog_def Let_def split_beta)

lemma app_step_log:
  "\<exists>es. ap_event_logger (snd (app_step i a)) = run log_event es (ap_event_logger a)"
proof -
  have "\<exists>es. ap_event_logger (snd (app_step i a)) = run log_event es
      (ap_event_logger (snd (internal_fault (primary_fault i a) (si_timestamp_ms i) (commanded i a))))"
    unfolding app_step_eq(1) record_step_events_def Let_def by (simp, blast)
  then show ?thesis by (simp add: internal_fault_fields commanded_fields)
qed

interpretation app_system: invariant_system app_step app_inv
proof
  fix a :: App and i :: StepInput
  assume inv: "app_inv a"
  have "recovery_inv (core (snd (app_step i a)))"
    unfolding app_step_core using inv by (intro processor_system.inv_run) (simp add: app_inv_def)
  moreover obtain es where "ap_event_logger (snd (app_step i a)) = run log_event es (ap_event_logger a)"
    using app_step_log by blast
  moreover have "log_wf (run log_event es (ap_event_logger a))"
    using inv by (intro log_system.inv_run) (simp add: app_inv_def)
  ultimately show "app_inv (snd (app_step i a))"
    using inv by (simp add: app_inv_def app_step_fields watchdog_kick_def check_watchdog_snd
        watchdog_evaluate_snd watchdog_reset_def)
qed

lemma initial_app_inv: "ap_valid (flight_software_app c) \<Longrightarrow> app_inv (flight_software_app c)"
  by (auto simp: app_inv_def flight_software_app_def Let_def command_processor_def recovery_supervisor_def
      recovery_inv_def event_logger_def log_valid_def log_wf_def watchdog_default_def word_gt_0 split: if_splits)

lemma app_step_capacity: "el_capacity (ap_event_logger (snd (app_step i a))) = el_capacity (ap_event_logger a)"
proof -
  have "el_capacity (run log_event es el) = el_capacity el" for es el
    by (induction es arbitrary: el) (simp_all add: log_event_def Let_def)
  then show ?thesis using app_step_log [of i a] by auto
qed

lemma app_run_capacity: "el_capacity (ap_event_logger (run app_step is a)) = el_capacity (ap_event_logger a)"
  by (induction "is" arbitrary: a) (simp_all add: app_step_capacity)

text \<open>C9: every state the application can reach from a valid configuration is well formed: the
  event log holds at most its capacity, fewer recovery attempts than the maximum have failed while
  in RECOVERY and none outside RECOVERY and SAFE, and the watchdog keeps its thresholds and counts
  no missed deadline before it is initialized.\<close>

theorem reachable_app_well_formed:
  fixes c :: AppConfig and inputs :: "StepInput list"
  assumes "ap_valid (flight_software_app c)"
  defines "a \<equiv> run app_step inputs (flight_software_app c)"
  shows "length (snapshot (ap_event_logger a)) \<le> cfg_event_log_capacity c \<and>
    (let rs = pr_recovery (ap_processor a) in
      rs_failed_attempts rs \<le> rs_maximum_failed_attempts rs \<and>
      (ap_mode a = RECOVERY \<longrightarrow> rs_failed_attempts rs < rs_maximum_failed_attempts rs) \<and>
      (ap_mode a \<notin> {RECOVERY, SAFE} \<longrightarrow> rs_failed_attempts rs = 0)) \<and>
    wd_timeout_ms (ap_watchdog a) = 500 \<and> wd_max_missed_deadlines (ap_watchdog a) = 3 \<and>
    (ap_watchdog_initialized a \<or> wd_missed_deadline_count (ap_watchdog a) = 0)"
proof -
  have inv: "app_inv a" unfolding a_def by (rule app_system.inv_run [OF initial_app_inv [OF assms(1)]])
  have "el_capacity (ap_event_logger a) = cfg_event_log_capacity c"
    by (simp add: a_def app_run_capacity flight_software_app_def event_logger_def Let_def)
  with inv show ?thesis by (simp add: app_inv_def recovery_inv_def log_wf_def Let_def)
qed

theorem reachable_app_well_formed_witness:
  "length (snapshot (ap_event_logger (run app_step [quiet_input] (flight_software_app default_config)))) \<le> 256"
proof -
  have "ap_valid (flight_software_app default_config)" by code_simp
  from reachable_app_well_formed [OF this, of "[quiet_input]"] show ?thesis
    by (simp add: default_config_def)
qed

section \<open>The latched watchdog\<close>

definition deadlines_missed :: "App \<Rightarrow> bool" where
  "deadlines_missed a \<longleftrightarrow> ap_watchdog_initialized a \<and> wd_missed_deadline_count (ap_watchdog a) \<ge> 3"

interpretation watchdog_latch: latching_system app_step app_inv "\<lambda>i. si_loop_duration_ms i < 250"
  deadlines_missed "\<lambda>out. tp_mode (so_telemetry out) = SAFE"
proof
  fix a :: App and i :: StepInput
  assume inv: "app_inv a" and missed: "deadlines_missed a" and timely: "si_loop_duration_ms i < 250"
  have late: "\<not> si_loop_duration_ms i \<ge> 250" using timely by (simp add: not_le)
  then show "deadlines_missed (snd (app_step i a))"
    using inv missed by (simp add: deadlines_missed_def app_inv_def app_step_fields watchdog_kick_def
        check_watchdog_snd watchdog_evaluate_snd)
  have "watchdog_expired i a"
    using inv missed late by (simp add: watchdog_expired_def deadlines_missed_def app_inv_def check_watchdog_snd
        watchdog_evaluate_def Let_def)
  then have "primary_fault i a = WATCHDOG_DEADLINE_MISS" by (simp add: primary_fault_detected detected_fault_def)
  then show "tp_mode (so_telemetry (fst (app_step i a))) = SAFE"
    by (simp add: app_step_eq(2) app_telemetry_def app_step_mode fault_target_def)
qed

text \<open>C13: the missed-deadline count latches SAFE for good. Once three loop deadlines have been
  missed in total since start-up, not necessarily in a row, every later step reports SAFE, even if
  every later loop is on time and whatever commands the operator sends: the step kicks the
  watchdog but nothing ever resets its count. The documented recovery, an operator clear after a
  timing investigation, does not exist in the code.\<close>

theorem missed_deadlines_latch_safe:
  assumes "ap_valid (flight_software_app c)"
    and "wd_missed_deadline_count (ap_watchdog (run app_step history (flight_software_app c))) \<ge> 3"
    and "\<forall>i\<in>set later. si_loop_duration_ms i < 250"
  shows "\<forall>out\<in>set (outputs app_step later (run app_step history (flight_software_app c))).
    tp_mode (so_telemetry out) = SAFE"
proof -
  let ?a = "run app_step history (flight_software_app c)"
  have inv: "app_inv ?a" by (rule app_system.inv_run [OF initial_app_inv [OF assms(1)]])
  have "deadlines_missed ?a" using inv assms(2) by (auto simp: deadlines_missed_def app_inv_def)
  with inv assms(3) show ?thesis by (intro watchdog_latch.latched_outputs)
qed

theorem missed_deadlines_latch_safe_witness:
  "list_all (\<lambda>out. tp_mode (so_telemetry out) = SAFE)
     (outputs app_step [quiet_input\<lparr>si_command := Some (set_mode_packet 5)\<rparr>]
       (run app_step (replicate 3 (quiet_input\<lparr>si_loop_duration_ms := 300\<rparr>)) (flight_software_app default_config)))"
proof -
  have "ap_valid (flight_software_app default_config)" by code_simp
  moreover have "wd_missed_deadline_count (ap_watchdog (run app_step
      (replicate 3 (quiet_input\<lparr>si_loop_duration_ms := 300\<rparr>)) (flight_software_app default_config))) \<ge> 3"
    by (simp add: numeral_3_eq_3 app_step_fields watchdog_kick_def check_watchdog_snd watchdog_evaluate_snd
        watchdog_reset_def flight_software_app_def Let_def watchdog_default_def)
  ultimately show ?thesis unfolding list_all_iff by (intro missed_deadlines_latch_safe) (simp_all add: quiet_input_def)
qed

section \<open>Telemetry numbering\<close>

lemma numbered_from: "map (\<lambda>k. (n :: u32) + 1 + of_nat k) [1..<Suc m] = map (\<lambda>k. n + of_nat k) [Suc 1..<Suc (Suc m)]"
  unfolding map_Suc_upt [symmetric] by (simp add: comp_def add.assoc del: upt_Suc)

lemma telemetry_numbers:
  "map (\<lambda>out. tp_sequence_number (so_telemetry out)) (outputs app_step is a) =
     map (\<lambda>k. ap_telemetry_sequence a + of_nat k) [1..<Suc (length is)]"
proof (induction "is" arbitrary: a)
  case (Cons i "is")
  from Cons.IH [of "snd (app_step i a)"] show ?case
    by (simp add: app_step_eq(2) app_telemetry_def app_step_fields numbered_from [unfolded One_nat_def] upt_conv_Cons del: upt_Suc)
qed simp

section \<open>The command/telemetry loop\<close>

text \<open>\<open>UdpCommandReceiver::receive_packet\<close>: what \<open>recvfrom\<close> returned, cut to the 256 bytes of the
  buffer, or nothing within the receive timeout.\<close>

definition receive_packet :: "byte list option \<Rightarrow> CommandPacket option" where
  "receive_packet datagram =
     (case datagram of None \<Rightarrow> None
      | Some d \<Rightarrow> let bytes = take 256 d in if length bytes \<le> 0 then None else decode_command bytes)"

definition cpu_load_for_state :: "FaultCode \<Rightarrow> u32" where
  "cpu_load_for_state fault = (if fault = CPU_OVERLOAD then 0x42B80000 else 0x41900000)"

text \<open>Single-precision rounding of a natural number to 24 significant bits, and the bits of
  \<open>m * 2 ^ (e - 2)\<close>, for the expression \<open>42.0F + static_cast<float>(loop) * 0.25F\<close>.\<close>

fun bit_length :: "nat \<Rightarrow> nat" where
  "bit_length n = (if n = 0 then 0 else Suc (bit_length (n div 2)))"

declare bit_length.simps [simp del]

lemma bit_length_numerals [simp]:
  "bit_length 0 = 0" "bit_length (Suc 0) = 1" "bit_length 1 = 1"
  "bit_length (numeral k) = Suc (bit_length (numeral k div 2))"
  by (simp_all add: bit_length.simps)

definition round24 :: "nat \<Rightarrow> nat \<times> nat" where
  "round24 n = (let s = bit_length n - 24 in (round_half_even n (2 ^ s), s))"

definition memory_load :: "u32 \<Rightarrow> u32" where
  "memory_load loop =
     (let (m1, s1) = round24 (unat loop);
          (m2, s2) = round24 (m1 * 2 ^ s1 + 168);
          b = bit_length m2 - 1;
          e = b + s2 - 2 + 127
      in of_nat (e * 2 ^ 23 + (m2 * 2 ^ 23 div 2 ^ b - 2 ^ 23)))"

record DemoConfig =
  dc_sensor_timeout_loop :: u32
  dc_watchdog_timeout_loop :: u32

text \<open>One turn of the loop of \<open>main\<close>: \<open>now_ms\<close> is the clock after the injected delay of
  \<open>watchdog_timeout_loop\<close>, if any; the result is the telemetry datagram handed to \<open>sendto\<close>.\<close>

definition demo_input :: "DemoConfig \<Rightarrow> u32 \<Rightarrow> u64 \<Rightarrow> byte list option \<Rightarrow> App \<Rightarrow> StepInput" where
  "demo_input cfg loop now_ms datagram app =
     \<lparr>si_command = receive_packet datagram, si_timestamp_ms = now_ms,
      si_cpu_load_percent = cpu_load_for_state (pr_last_fault (ap_processor app)),
      si_memory_load_percent = memory_load loop, si_heartbeat_count = loop,
      si_sensor_age_ms = (if dc_sensor_timeout_loop cfg \<noteq> 0 \<and> loop \<ge> dc_sensor_timeout_loop cfg then 1500 else 0),
      si_payload_age_ms = 0, si_loop_duration_ms = 0\<rparr>"

definition demo_step :: "DemoConfig \<Rightarrow> u64 \<times> byte list option \<Rightarrow> u32 \<times> App \<Rightarrow> byte list \<times> (u32 \<times> App)" where
  "demo_step cfg = (\<lambda>(now_ms, datagram) (loop, app).
     let (output, app') = app_step (demo_input cfg loop now_ms datagram app) app
     in (serialize_telemetry_packet (so_telemetry output), (loop + 1, app')))"

section \<open>From ground to flight and back\<close>

lemma receive_packet_decode: "decode_command d = Some p \<Longrightarrow> receive_packet (Some d) = Some p"
  by (auto simp: receive_packet_def decode_command_Some_iff Let_def)

lemma decode_app_telemetry:
  assumes "tp_last_command_id t = of_nat (command_value c)" and "tp_last_command_status t = of_nat (status_value st)"
  shows "decode_packet (serialize_telemetry_packet t) = Inr \<lparr>
     td_sequence_number = uint (tp_sequence_number t), td_timestamp_ms = uint (tp_timestamp_ms t),
     td_mode = mode_to_string (tp_mode t), td_last_fault = fault_to_string (tp_last_fault t),
     td_cpu_load_percent = uint (tp_cpu_load_percent t),
     td_memory_load_percent = uint (tp_memory_load_percent t),
     td_heartbeat_count = uint (tp_heartbeat_count t),
     td_last_command_sequence_number = uint (tp_last_command_sequence_number t),
     td_last_command_id = (if c = NOOP then ''NONE'' else command_id_to_string c),
     td_last_command_status = command_status_to_string st\<rparr>"
proof -
  have "t = t\<lparr>tp_last_command_id := of_nat (command_value c), tp_last_command_status := of_nat (status_value st)\<rparr>"
    using assms by simp
  then show ?thesis using decode_serialized [where p = t and c = c and st = st] by simp
qed

text \<open>C3: a command makes the round trip. Whenever \<open>send_command.py\<close> sends a datagram for some
  arguments, one turn of the flight software's loop that receives this datagram, at any time and
  in any state, answers with a telemetry datagram that \<open>telemetry_receiver.py\<close> accepts; it shows
  the sequence number given on the command line, the command by name (NOOP as NONE), the status the
  flight software settled on by name, and the mode and active fault of the flight software after
  the step.\<close>

theorem command_round_trip:
  assumes "send_main ground_ms args = Inr (datagram, destination, line)"
    and "demo_step cfg (now_ms, Some datagram) (loop, app) = (telemetry, (loop', app'))"
  shows "\<exists>p v. receive_packet (Some datagram) = Some p \<and> decode_packet telemetry = Inr v \<and>
    uint (cp_sequence_number p) = arg_sequence args \<and> command_id_to_string (cp_command_id p) = arg_command args \<and>
    td_last_command_sequence_number v = arg_sequence args \<and>
    td_last_command_id v = (if arg_command args = ''NOOP'' then ''NONE'' else arg_command args) \<and>
    td_last_command_status v = command_status_to_string
      (cr_status (so_command_result (fst (app_step (demo_input cfg loop now_ms (Some datagram) app) app)))) \<and>
    td_mode v = mode_to_string (ap_mode app') \<and>
    td_last_fault v = fault_to_string (pr_last_fault (ap_processor app'))"
proof -
  let ?i = "demo_input cfg loop now_ms (Some datagram) app"
  let ?t = "so_telemetry (fst (app_step ?i app))"
  obtain a where "build_packet ground_ms (arg_sequence args) (arg_command args) a (arg_timestamp_ms args) = Inr datagram"
    using assms(1) by (auto simp: send_main_def rbind_Inr_iff)
  from build_packet_decodes [OF this] obtain p where dec: "decode_command datagram = Some p"
    and p: "uint (cp_sequence_number p) = arg_sequence args" "command_id_to_string (cp_command_id p) = arg_command args"
    by blast
  have rcv: "receive_packet (Some datagram) = Some p" by (rule receive_packet_decode [OF dec])
  then have cmd: "si_command ?i = Some p" by (simp add: demo_input_def)
  have out: "telemetry = serialize_telemetry_packet ?t" "app' = snd (app_step ?i app)"
    using assms(2) by (auto simp: demo_step_def Let_def split_beta)
  have t: "?t = app_telemetry ?i (snd (app_step ?i app))" by (rule app_step_eq(2))
  have noop: "cp_command_id p = NOOP \<longleftrightarrow> arg_command args = ''NOOP''"
    using p(2) by (cases "cp_command_id p") auto
  have ack: "tp_last_command_id ?t = of_nat (command_value (cp_command_id p))"
    "tp_last_command_status ?t = of_nat (status_value (disposition_status ?i p app))"
    "tp_last_command_sequence_number ?t = cp_sequence_number p"
    by (simp_all add: t app_telemetry_def app_step_fields commanded_ack [OF cmd])
  show ?thesis
    using decode_app_telemetry [OF ack(1,2)] rcv p noop ack(3)
    by (auto simp: out command_result_fields(1) [OF cmd] t app_telemetry_def)
qed

lemma sample_sent:
  "send_main 0 \<lparr>arg_host = ''127.0.0.1'', arg_port = 6000, arg_sequence = 1, arg_timestamp_ms = Some 1000,
     arg_command = ''SET_MODE'', arg_argument = Some ''NOMINAL''\<rparr> =
   Inr ([0x53, 0x44, 0x4D, 0x43, 1, 0, 1, 0, 0, 0, 0xE8, 3, 0, 0, 0, 0, 0, 0, 1, 0, 1, 0, 0, 0, 0x1F, 0xA5], (''127.0.0.1'', 6000),
     sent_line \<lparr>arg_host = ''127.0.0.1'', arg_port = 6000, arg_sequence = 1, arg_timestamp_ms = Some 1000,
       arg_command = ''SET_MODE'', arg_argument = Some ''NOMINAL''\<rparr> 1)"
proof -
  have "parse_argument ''SET_MODE'' (Some ''NOMINAL'') = Inr 1" by code_simp
  moreover have "build_packet 0 1 ''SET_MODE'' 1 (Some 1000) = Inr [0x53, 0x44, 0x4D, 0x43, 1, 0, 1, 0, 0, 0, 0xE8, 3, 0, 0, 0, 0, 0, 0, 1, 0, 1, 0, 0, 0, 0x1F, 0xA5]" by code_simp
  ultimately show ?thesis by (simp add: send_main_def)
qed

theorem command_round_trip_witness:
  "\<exists>v. decode_packet (fst (demo_step \<lparr>dc_sensor_timeout_loop = 0, dc_watchdog_timeout_loop = 0\<rparr>
     (1500, Some [0x53, 0x44, 0x4D, 0x43, 1, 0, 1, 0, 0, 0, 0xE8, 3, 0, 0, 0, 0, 0, 0, 1, 0, 1, 0, 0, 0, 0x1F, 0xA5]) (1, flight_software_app default_config))) = Inr v \<and>
   td_last_command_sequence_number v = 1 \<and> td_last_command_id v = ''SET_MODE''"
  using command_round_trip [OF sample_sent, of "\<lparr>dc_sensor_timeout_loop = 0, dc_watchdog_timeout_loop = 0\<rparr>" 1500 1
      "flight_software_app default_config"]
  by (cases "demo_step \<lparr>dc_sensor_timeout_loop = 0, dc_watchdog_timeout_loop = 0\<rparr>
     (1500, Some [0x53, 0x44, 0x4D, 0x43, 1, 0, 1, 0, 0, 0, 0xE8, 3, 0, 0, 0, 0, 0, 0, 1, 0, 1, 0, 0, 0, 0x1F, 0xA5]) (1, flight_software_app default_config)") auto

end
