(* ===== verification/Nominal_Flight.thy ===== *)
theory Nominal_Flight
  imports Flight_Runs
begin

text \<open>
  Undisturbed steps of the flight software application in its default configuration: no health limit
  is exceeded and the steps follow one another within the watchdog's timeout. A step without a
  command then changes nothing but the watchdog's clock, and a timely new command is processed.
  The campaigns that drive the application (\<open>Campaign_Flight\<close>, \<open>Timing_Campaign\<close>) rest on these lemmas.
\<close>

text \<open>Mode, active fault, last accepted sequence number and time of the last step of an
  application in its default configuration that has missed no deadline.\<close>

definition flight_state :: "Mode \<Rightarrow> FaultCode \<Rightarrow> u32 option \<Rightarrow> u64 option \<Rightarrow> App \<Rightarrow> bool" where
  "flight_state m f s prev a \<longleftrightarrow>
     ap_mode a = m \<and> pr_last_fault (ap_processor a) = f \<and>
     ap_authorization a = cfg_authorization default_config \<and>
     gg_valid (ap_guard a) \<and> gg_maximum_age_ms (ap_guard a) = 5000 \<and> gg_maximum_future_skew_ms (ap_guard a) = 1000 \<and>
     (case s of None \<Rightarrow> \<not> gg_sequence_initialized (ap_guard a)
      | Some n \<Rightarrow> gg_sequence_initialized (ap_guard a) \<and> gg_highest_sequence (ap_guard a) = n) \<and>
     wd_timeout_ms (ap_watchdog a) = 500 \<and> wd_loop_deadline_ms (ap_watchdog a) = 250 \<and>
     wd_max_missed_deadlines (ap_watchdog a) = 3 \<and> wd_missed_deadline_count (ap_watchdog a) = 0 \<and>
     (case prev of None \<Rightarrow> \<not> ap_watchdog_initialized a
      | Some t \<Rightarrow> ap_watchdog_initialized a \<and> wd_last_kick_ms (ap_watchdog a) = t)"

lemma initial_flight_state: "flight_state BOOT NONE None None (flight_software_app default_config)"
  by (simp add: flight_state_def flight_software_app_def default_config_def Let_def command_processor_def
      recovery_supervisor_def ground_command_guard_def watchdog_default_def)

text \<open>A step follows the previous one within the watchdog's timeout.\<close>

definition paced :: "u64 option \<Rightarrow> u64 \<Rightarrow> bool" where
  "paced prev t \<longleftrightarrow> (case prev of None \<Rightarrow> True | Some t0 \<Rightarrow> t0 \<le> t \<and> t - t0 < 500)"

text \<open>The measurements of a step are below every limit of the health monitor: the loop deadline,
  the sensor timeout and 95 percent (\<open>0x42BE0000\<close>) of memory and CPU.\<close>

definition within_limits :: "StepInput \<Rightarrow> bool" where
  "within_limits i \<longleftrightarrow> si_loop_duration_ms i < 250 \<and> si_sensor_age_ms i < 1000 \<and>
     \<not> float_ge (si_memory_load_percent i) 0x42BE0000 \<and> \<not> float_ge (si_cpu_load_percent i) 0x42BE0000"

lemma no_fault_detected:
  assumes "flight_state m f s prev a" "paced prev (si_timestamp_ms i)" "within_limits i"
  shows "primary_fault i a = NONE"
proof -
  have "\<not> watchdog_expired i a"
    using assms by (cases prev) (auto simp: watchdog_expired_def check_watchdog_snd flight_state_def paced_def
        within_limits_def watchdog_evaluate_def watchdog_reset_def Let_def not_le)
  with assms(3) show ?thesis by (simp add: primary_fault_detected detected_fault_def within_limits_def not_le)
qed

lemma nominal_core:
  assumes "flight_state m f s prev a" "paced prev (si_timestamp_ms i)" "within_limits i"
  shows "core (snd (app_step i a)) = run process (admitted i a) (core a)"
  using no_fault_detected [OF assms] by (simp add: app_step_core executed_def)

lemma nominal_watchdog:
  assumes "flight_state m f s prev a" "within_limits i"
  shows "let wd = ap_watchdog (snd (app_step i a)) in
    wd_timeout_ms wd = 500 \<and> wd_loop_deadline_ms wd = 250 \<and> wd_max_missed_deadlines wd = 3 \<and>
    wd_missed_deadline_count wd = 0 \<and> wd_last_kick_ms wd = si_timestamp_ms i"
  using assms by (auto simp: Let_def app_step_fields watchdog_kick_def check_watchdog_snd watchdog_evaluate_snd
      flight_state_def within_limits_def watchdog_reset_def)

lemma quiet_step:
  assumes "flight_state m f s prev a" "paced prev (si_timestamp_ms i)" "within_limits i" and cmd: "si_command i = None"
  shows "flight_state m f s (Some (si_timestamp_ms i)) (snd (app_step i a))"
proof -
  have "core (snd (app_step i a)) = core a" "ap_guard (snd (app_step i a)) = ap_guard a"
    using nominal_core [OF assms(1-3)] cmd by (simp_all add: admitted_def app_step_fields commanded_fields)
  then show ?thesis
    using assms(1) nominal_watchdog [OF assms(1,3)]
    by (simp add: flight_state_def Let_def app_step_fields(2,4) cong: option.case_cong)
qed

text \<open>A command of a new sequence number that is neither stale nor from the future.\<close>

definition accepted_next :: "u32 option \<Rightarrow> u32 \<Rightarrow> bool" where
  "accepted_next s n \<longleftrightarrow> (case s of None \<Rightarrow> True | Some n0 \<Rightarrow> sequence_is_newer n n0)"

definition in_window :: "u64 \<Rightarrow> u64 \<Rightarrow> bool" where
  "in_window sent received \<longleftrightarrow> unat sent \<le> unat received + 1000 \<and> unat received \<le> unat sent + 5000"

lemma commanded_step:
  assumes "flight_state m f s prev a" "paced prev (si_timestamp_ms i)" "within_limits i"
    and cmd: "si_command i = Some p"
    and "in_window (cp_timestamp_ms p) (si_timestamp_ms i)" and "accepted_next s (cp_sequence_number p)"
  shows "flight_state (fst (snd (process p (core a)))) (pr_last_fault (snd (snd (process p (core a)))))
      (Some (cp_sequence_number p)) (Some (si_timestamp_ms i)) (snd (app_step i a))"
    and "disposition_status i p a = cr_status (fst (process p (core a)))"
proof -
  let ?g = "guard_evaluate (guard_input i p) (ap_guard a)"
  have "gg_valid (ap_guard a)" "timely (cp_timestamp_ms p) (si_timestamp_ms i) (ap_guard a)"
    "fresh (cp_sequence_number p) (ap_guard a)"
    using assms(1,5,6) by (auto simp: flight_state_def timely_def in_window_def fresh_def accepted_next_def split: option.splits)
  from guard_evaluate_cases(1) [OF this] have g: "gr_status (fst ?g) = GUARD_ACCEPTED"
    "snd ?g = (ap_guard a)\<lparr>gg_sequence_initialized := True, gg_highest_sequence := cp_sequence_number p\<rparr>"
    by (simp_all add: guard_input_def)
  have auth: "ar_authorized (authorize (ap_authorization a) p)"
    using assms(1) by (simp add: flight_state_def default_config_def authorize_def auth_ok_def split: CommandId.splits)
  have "admitted i a = [p]" using cmd g(1) auth by (simp add: admitted_def)
  then have core': "core (snd (app_step i a)) = snd (process p (core a))"
    using nominal_core [OF assms(1-3)] by simp
  have "ap_guard (snd (app_step i a)) = snd ?g" using cmd by (simp add: app_step_fields commanded_fields)
  with core' g(2) show "flight_state (fst (snd (process p (core a)))) (pr_last_fault (snd (snd (process p (core a)))))
      (Some (cp_sequence_number p)) (Some (si_timestamp_ms i)) (snd (app_step i a))"
    using assms(1) nominal_watchdog [OF assms(1,3)]
    by (auto simp: flight_state_def Let_def app_step_fields(2,4) dest: arg_cong [of _ _ fst] arg_cong [of _ _ snd])
  show "disposition_status i p a = cr_status (fst (process p (core a)))"
    using g(1) auth by (simp add: disposition_status_def)
qed

lemma set_mode_nominal:
  assumes "cp_command_id p = SET_MODE" and "uint (cp_argument p) = 1"
  shows "cr_status (fst (process p (BOOT, pr))) = ACCEPTED" and "snd (process p (BOOT, pr)) = (NOMINAL, pr)"
proof -
  have "cp_argument p = 1" using assms(2) by (metis uint_1 word_uint_eq_iff)
  moreover have "command_argument_to_mode 1 = Some NOMINAL"
    by (simp add: command_argument_to_mode_def mode_cast_Some_iff)
  ultimately show "cr_status (fst (process p (BOOT, pr))) = ACCEPTED" "snd (process p (BOOT, pr)) = (NOMINAL, pr)"
    using assms(1) by (simp_all add: process_def process_set_mode_def transition_to_def)
qed

section \<open>Bit lengths\<close>

lemma bit_length_le: "n < 2 ^ k \<Longrightarrow> bit_length n \<le> k"
proof (induction k arbitrary: n)
  case (Suc k)
  then have "bit_length (n div 2) \<le> k" by simp
  then show ?case by (subst bit_length.simps) simp
qed (simp add: bit_length.simps)

lemma bit_length_eq: "2 ^ k \<le> n \<Longrightarrow> n < 2 ^ Suc k \<Longrightarrow> bit_length n = Suc k"
proof (induction k arbitrary: n)
  case (Suc k)
  then have "bit_length (n div 2) = Suc k" by simp
  with Suc.prems show ?case by (subst bit_length.simps) simp
next
  case 0
  then have "n = 1" by simp
  then show ?case by simp
qed

lemma bit_length_bounds: "n < 2 ^ bit_length n" "n \<noteq> 0 \<Longrightarrow> 2 ^ (bit_length n - 1) \<le> n"
proof (induction n rule: bit_length.induct)
  case (1 n)
  {
    case 1
    show ?case
    proof (cases "n = 0")
      case False
      then have "n div 2 < 2 ^ bit_length (n div 2)" using "1.IH"(1) by blast
      then show ?thesis using False by (subst bit_length.simps) simp
    qed simp
  next
    case 2
    show ?case
    proof (cases "n = 1")
      case False
      with 2 have pos: "n div 2 \<noteq> 0" by auto
      then have "2 ^ (bit_length (n div 2) - 1) \<le> n div 2" using "1.IH"(2) 2 by blast
      moreover have "bit_length (n div 2) \<noteq> 0" using pos by (subst bit_length.simps) simp
      then have "(2 :: nat) ^ bit_length (n div 2) = 2 * 2 ^ (bit_length (n div 2) - 1)"
        by (metis One_nat_def Suc_pred bot_nat_0.not_eq_extremum power_Suc)
      ultimately show ?thesis using 2 by (subst bit_length.simps) simp
    qed simp
  }
qed

end
