(* ===== verification/Campaign_Flight.thy ===== *)
theory Campaign_Flight
  imports Campaigns Nominal_Flight
begin

text \<open>
  The campaigns against the flight software they test: scenarios of \<open>run_fdir_campaign.py\<close>, sent by
  \<open>run_scenario.py\<close> through \<open>send_command.py\<close>, received by the loop of
  \<open>command_telemetry_demo.cpp\<close> and judged by what \<open>telemetry_receiver.py\<close> decodes.
\<close>

section \<open>Undisturbed turns of the flight loop\<close>

definition no_injection :: DemoConfig where
  "no_injection = \<lparr>dc_sensor_timeout_loop = 0, dc_watchdog_timeout_loop = 0\<rparr>"

definition memory_ok :: "u32 \<Rightarrow> bool" where
  "memory_ok l \<longleftrightarrow> \<not> float_ge (memory_load l) 0x42BE0000"

lemma round24_small: "n < 2 ^ 24 \<Longrightarrow> round24 n = (n, 0)"
  using bit_length_le [of n 24] by (simp add: round24_def round_half_even_def)

lemma memory_ok_campaign:
  assumes "k \<le> 22"
  shows "memory_ok (of_nat k)"
proof -
  let ?v = "132 * 2 ^ 23 + ((k + 168) * 2 ^ 16 - 2 ^ 23) :: nat"
  have "round24 k = (k, 0)" "round24 (k + 168) = (k + 168, 0)" using assms by (simp_all add: round24_small)
  moreover have "bit_length (k + 168) = 8" using assms bit_length_eq [of 7 "k + 168"] by simp
  moreover have "unat (of_nat k :: u32) = k" using assms by (simp add: unsigned_of_nat take_bit_nat_eq_self)
  moreover have "(k + 168) * 2 ^ 23 div 2 ^ 7 = (k + 168) * 2 ^ 16" by simp
  ultimately have load: "memory_load (of_nat k) = of_nat ?v" by (simp add: memory_load_def)
  have v: "?v < 1115684864" using assms by simp
  then have "uint (of_nat ?v :: u32) = int ?v" by (simp add: unsigned_of_nat take_bit_nat_eq_self del: of_nat_add of_nat_diff)
  moreover have "float_key 0x42BE0000 = 0x42BE0000" by (simp add: float_key_def)
  moreover have "int ?v < 0x42BE0000" using v by linarith
  ultimately have "float_key (of_nat ?v) < float_key 0x42BE0000" by (simp add: float_key_def)
  then show ?thesis by (simp add: memory_ok_def load float_ge_def)
qed

lemma demo_within_limits: "memory_ok l \<Longrightarrow> within_limits (demo_input no_injection l t d a)"
  by (simp add: within_limits_def demo_input_def no_injection_def memory_ok_def cpu_load_for_state_def float_ge_def
      float_nan_def float_key_def)

lemma demo_input_sel [simp]:
  "si_timestamp_ms (demo_input cfg l t d a) = t" "si_command (demo_input cfg l t d a) = receive_packet d"
  by (simp_all add: demo_input_def)

text \<open>A turn without a command changes nothing but the clock of the watchdog; one with a timely
  command of a new sequence number processes it.\<close>

lemma quiet_turn:
  assumes "flight_state m f s prev a" and "paced prev t" and "memory_ok l"
  shows "flight_state m f s (Some t) (snd (app_step (demo_input no_injection l t None a) a))"
  using quiet_step [OF assms(1) _ demo_within_limits [OF assms(3)], of t None a] assms(2) by (simp add: receive_packet_def)

lemma command_turn:
  assumes "flight_state m f s prev a" and "paced prev t" and "memory_ok l"
    and "receive_packet (Some d) = Some p" and "in_window (cp_timestamp_ms p) t" and "accepted_next s (cp_sequence_number p)"
  defines "i \<equiv> demo_input no_injection l t (Some d) a"
  shows "flight_state (fst (snd (process p (core a)))) (pr_last_fault (snd (snd (process p (core a)))))
      (Some (cp_sequence_number p)) (Some t) (snd (app_step i a))"
    and "disposition_status i p a = cr_status (fst (process p (core a)))"
  using commanded_step [OF assms(1) _ demo_within_limits [OF assms(3)], of t "Some d" a p] assms(2,4-6)
  by (simp_all add: i_def)

section \<open>Sequences of turns\<close>

fun paced_run :: "u64 option \<Rightarrow> u64 list \<Rightarrow> bool" where
  "paced_run prev [] = True"
| "paced_run prev (t # ts) \<longleftrightarrow> paced prev t \<and> paced_run (Some t) ts"

fun end_time :: "u64 option \<Rightarrow> u64 list \<Rightarrow> u64 option" where
  "end_time prev [] = prev"
| "end_time prev (t # ts) = end_time (Some t) ts"

lemma paced_run_append: "paced_run prev (xs @ ys) \<longleftrightarrow> paced_run prev xs \<and> paced_run (end_time prev xs) ys"
  by (induction xs arbitrary: prev) simp_all

abbreviation quiet :: "u64 list \<Rightarrow> (u64 \<times> byte list option) list" where
  "quiet ts \<equiv> map (\<lambda>t. (t, None)) ts"

lemma quiet_turns:
  "flight_state m f s prev a \<Longrightarrow> paced_run prev ts \<Longrightarrow> n + length ts \<le> 23 \<Longrightarrow>
     \<exists>a'. run (demo_step no_injection) (quiet ts) (of_nat n, a) = (of_nat (n + length ts), a') \<and>
       flight_state m f s (end_time prev ts) a'"
proof (induction ts arbitrary: prev a n)
  case (Cons t ts)
  let ?a = "snd (app_step (demo_input no_injection (of_nat n) t None a) a)"
  have "memory_ok (of_nat n)" using Cons.prems(3) by (intro memory_ok_campaign) simp
  then have "flight_state m f s (Some t) ?a" using quiet_turn Cons.prems by simp
  with Cons.IH [of "Some t" ?a "Suc n"] Cons.prems show ?case
    by (simp add: demo_step_def Let_def split_beta add.commute)
qed simp

lemma command_turn_shown:
  assumes "flight_state m f s prev a" and "paced prev t" and "n \<le> 22"
    and "receive_packet (Some d) = Some p" and "in_window (cp_timestamp_ms p) t" and "accepted_next s (cp_sequence_number p)"
    and "cp_command_id p \<noteq> NOOP"
  obtains v a' where "snd (demo_step no_injection (t, Some d) (of_nat n, a)) = (of_nat (Suc n), a')"
    and "flight_state (fst (snd (process p (core a)))) (pr_last_fault (snd (snd (process p (core a)))))
      (Some (cp_sequence_number p)) (Some t) a'"
    and "decode_packet (fst (demo_step no_injection (t, Some d) (of_nat n, a))) = Inr v"
    and "td_last_command_sequence_number v = uint (cp_sequence_number p)"
    and "td_last_command_id v = command_id_to_string (cp_command_id p)"
    and "td_last_command_status v = command_status_to_string (cr_status (fst (process p (core a))))"
    and "td_mode v = mode_to_string (fst (snd (process p (core a))))"
    and "td_last_fault v = fault_to_string (pr_last_fault (snd (snd (process p (core a)))))"
proof -
  let ?i = "demo_input no_injection (of_nat n) t (Some d) a"
  let ?a = "snd (app_step ?i a)" and ?t = "so_telemetry (fst (app_step ?i a))"
  have cmd: "si_command ?i = Some p" using assms(4) by (simp add: demo_input_def)
  note turn = command_turn [OF assms(1,2) memory_ok_campaign [OF assms(3)] assms(4-6)]
  have t: "?t = app_telemetry ?i ?a" by (rule app_step_eq(2))
  have ack: "tp_last_command_id ?t = of_nat (command_value (cp_command_id p))"
    "tp_last_command_status ?t = of_nat (status_value (cr_status (fst (process p (core a)))))"
    "tp_last_command_sequence_number ?t = cp_sequence_number p"
    by (simp_all add: t app_telemetry_def app_step_fields commanded_ack [OF cmd] turn(2))
  have shown: "tp_mode ?t = ap_mode ?a" "tp_last_fault ?t = pr_last_fault (ap_processor ?a)"
    by (simp_all add: t app_telemetry_def)
  have step: "demo_step no_injection (t, Some d) (of_nat n, a) = (serialize_telemetry_packet ?t, (of_nat (Suc n), ?a))"
    by (simp add: demo_step_def Let_def split_beta)
  have st: "ap_mode ?a = fst (snd (process p (core a)))"
    "pr_last_fault (ap_processor ?a) = pr_last_fault (snd (snd (process p (core a))))"
    using turn(1) by (simp_all add: flight_state_def)
  note dec = decode_app_telemetry [OF ack(1,2)]
  show thesis
    by (rule that, unfold step, unfold fst_conv snd_conv, rule refl, rule turn(1), rule dec)
      (use ack(3) shown st assms(7) in simp_all)
qed

section \<open>The FDIR campaign\<close>

lemma send_command_packet:
  assumes "send_command g host port n name arg None = Inr d"
  obtains p where "receive_packet (Some d) = Some p" and "uint (cp_sequence_number p) = n"
    and "uint (cp_timestamp_ms p) = g" and "command_id_to_string (cp_command_id p) = name"
    and "parse_argument name arg = Inr (uint (cp_argument p))"
proof -
  have "child_args host port n name arg None = (if name \<notin> set (dict_keys COMMANDS)
      then Inl (RuntimeError ''argparse: invalid choice'')
      else Inr \<lparr>arg_host = host, arg_port = port, arg_sequence = n, arg_timestamp_ms = None,
        arg_command = name, arg_argument = arg\<rparr>)"
    by (simp add: child_args_def py_int_str_int)
  with assms obtain v where v: "build_packet g n name v None = Inr d" "parse_argument name arg = Inr v"
    by (auto simp: send_command_def send_main_def rbind_Inr_iff split: sum.splits if_splits)
  from build_packet_decodes [OF v(1)] v(2) show thesis
    by (auto intro: that receive_packet_decode)
qed

lemma inject_fault_command:
  assumes "cp_command_id p = INJECT_FAULT" and "uint (cp_argument p) = int (fault_value f)"
  shows "cr_status (fst (process p (mode, pr))) = ACCEPTED"
    and "snd (process p (mode, pr)) = (fault_target f mode, pr\<lparr>pr_last_fault := f\<rparr>)"
proof -
  have "cp_argument p = of_nat (fault_value f)" using assms(2) by (metis of_int_of_nat_eq word_of_int_uint)
  then have "command_argument_to_fault (cp_argument p) = Some f" by (simp add: internal_fault_argument)
  then show "cr_status (fst (process p (mode, pr))) = ACCEPTED"
    "snd (process p (mode, pr)) = (fault_target f mode, pr\<lparr>pr_last_fault := f\<rparr>)"
    using assms(1) apply_fault_mode [of mode f]
    by (auto simp: process_def process_inject_fault_def Let_def split: prod.splits)
qed

text \<open>Every fault of the flight software but NONE has its case, with the mode that its response
  reaches from NOMINAL.\<close>

lemma fault_cases_flight:
  "fc \<in> set FAULT_CASES \<Longrightarrow> \<exists>f. fc_fault fc = fault_to_string f \<and> fc_expected_mode fc = mode_to_string (fault_target f NOMINAL)"
  by (auto simp: FAULT_CASES_def fault_target_def intro: exI [of _ SENSOR_TIMEOUT] exI [of _ SENSOR_INVALID_DATA]
      exI [of _ PAYLOAD_HEARTBEAT_TIMEOUT] exI [of _ CPU_OVERLOAD] exI [of _ MEMORY_OVERLOAD]
      exI [of _ TELEMETRY_SOCKET_FAILURE] exI [of _ COMMAND_BAD_CRC] exI [of _ COMMAND_UNKNOWN_ID]
      exI [of _ COMMAND_TIMEOUT] exI [of _ WATCHDOG_DEADLINE_MISS])

lemma fault_cases_complete: "f \<noteq> NONE \<Longrightarrow> fault_to_string f \<in> fc_fault ` set FAULT_CASES"
  by (cases f) (simp_all add: FAULT_CASES_def)

definition heard :: "byte list \<Rightarrow> (received list \<times> received list) list \<Rightarrow> bool" where
  "heard datagram rounds \<longleftrightarrow>
     (\<exists>r. telemetry_listener datagram [] = Inr [r] \<and> r \<in> set (concat (map fst rounds)))"

lemma heard_packet: "heard datagram rounds \<Longrightarrow> decode_packet datagram = Inr v \<Longrightarrow> Packet v \<in> set (concat (map fst rounds))"
  by (auto simp: heard_def telemetry_listener_def)

lemma wait_succeeds:
  assumes "Packet v \<in> set (concat (map fst rounds))" and "meets_expectation v e"
  shows "\<exists>r ps. wait_for_expectation packets (JObj e) rounds = Inr (Some r, ps)"
proof -
  obtain x rest where r: "rounds = x # rest" using assms(1) by (cases rounds) auto
  have "\<exists>r. r \<in> set (packets @ fst x @ concat (map fst rest)) \<and> answers e r"
    using assms by (auto simp: r answers_def)
  then have "find (answers e) (packets @ fst x @ concat (map fst rest)) \<noteq> None" by (auto simp: find_None_iff)
  then show ?thesis using wait_mapping [of packets e rounds] wait_mapping_returns [of packets e rounds]
    by (auto simp: r)
qed

definition clocks_agree :: "int \<Rightarrow> u64 \<Rightarrow> bool" where
  "clocks_agree sent received \<longleftrightarrow> sent \<le> uint received + 1000 \<and> uint received \<le> sent + 5000"

lemma clocks_in_window: "uint s = g \<Longrightarrow> clocks_agree g t \<Longrightarrow> in_window s t"
  by (simp add: clocks_agree_def in_window_def flip: of_nat_le_iff [where 'a = int]) 

text \<open>The two commands of a case, received one after the other among quiet turns, are both answered
  as the case expects.\<close>

lemma fdir_case_telemetry:
  fixes rest :: "(u64 \<times> byte list option) list"
  assumes "fc_fault fc = fault_to_string f" and "fc_expected_mode fc = mode_to_string (fault_target f NOMINAL)"
    and "send_command g1 host port 1 ''SET_MODE'' (Some ''NOMINAL'') None = Inr d1"
    and "send_command g2 host port 2 ''INJECT_FAULT'' (Some (fc_fault fc)) None = Inr d2"
    and "paced_run None (q1 @ t1 # q2 @ [t2])" and "length q1 + length q2 \<le> 18"
    and "clocks_agree g1 t1" and "clocks_agree g2 t2"
  defines "tlm \<equiv> outputs (demo_step no_injection) (quiet q1 @ (t1, Some d1) # quiet q2 @ (t2, Some d2) # rest)
      (1, flight_software_app default_config)"
  shows "\<exists>v. decode_packet (tlm ! length q1) = Inr v \<and>
      td_last_command_sequence_number v = 1 \<and> td_last_command_id v = ''SET_MODE'' \<and>
      td_last_command_status v = ''ACCEPTED'' \<and> td_mode v = ''NOMINAL'' \<and> td_last_fault v = ''NONE''"
    and "\<exists>v. decode_packet (tlm ! (length q1 + 1 + length q2)) = Inr v \<and>
      td_last_command_sequence_number v = 2 \<and> td_last_command_id v = ''INJECT_FAULT'' \<and>
      td_last_command_status v = ''ACCEPTED'' \<and> td_mode v = fc_expected_mode fc \<and> td_last_fault v = fc_fault fc"
proof -
  let ?step = "demo_step no_injection" and ?app = "flight_software_app default_config"
  obtain p1 where p1: "receive_packet (Some d1) = Some p1" "uint (cp_sequence_number p1) = 1"
    "uint (cp_timestamp_ms p1) = g1" "command_id_to_string (cp_command_id p1) = ''SET_MODE''"
    "parse_argument ''SET_MODE'' (Some ''NOMINAL'') = Inr (uint (cp_argument p1))"
    using send_command_packet [OF assms(3)] by metis
  obtain p2 where p2: "receive_packet (Some d2) = Some p2" "uint (cp_sequence_number p2) = 2"
    "uint (cp_timestamp_ms p2) = g2" "command_id_to_string (cp_command_id p2) = ''INJECT_FAULT''"
    "parse_argument ''INJECT_FAULT'' (Some (fc_fault fc)) = Inr (uint (cp_argument p2))"
    using send_command_packet [OF assms(4)] by metis
  have c1: "cp_command_id p1 = SET_MODE" "uint (cp_argument p1) = 1" and s1: "cp_sequence_number p1 = 1"
    using p1(2,4,5) MODES_lookup [of NOMINAL] by (cases "cp_command_id p1"; simp add: parse_argument_def word_uint_eq_iff)+
  have c2: "cp_command_id p2 = INJECT_FAULT" "uint (cp_argument p2) = int (fault_value f)"
    and s2: "cp_sequence_number p2 = 2"
    using p2(2,4,5) FAULTS_lookup [of f]
    by (cases "cp_command_id p2"; simp add: parse_argument_def assms(1) word_uint_eq_iff)+
  note pace = assms(5) [simplified paced_run_append paced_run.simps]
  obtain a1 where a1: "run ?step (quiet q1) (1, ?app) = (of_nat (1 + length q1), a1)"
    "flight_state BOOT NONE None (end_time None q1) a1"
    using quiet_turns [OF initial_flight_state, of q1 1] pace assms(6) by auto
  have core1: "core a1 = (BOOT, ap_processor a1)" "pr_last_fault (ap_processor a1) = NONE"
    using a1(2) by (simp_all add: flight_state_def)
  obtain v1 a2 where t1: "snd (?step (t1, Some d1) (of_nat (1 + length q1), a1)) = (of_nat (2 + length q1), a2)"
    "flight_state NOMINAL NONE (Some 1) (Some t1) a2"
    "decode_packet (fst (?step (t1, Some d1) (of_nat (1 + length q1), a1))) = Inr v1"
    "td_last_command_sequence_number v1 = 1" "td_last_command_id v1 = ''SET_MODE''"
    "td_last_command_status v1 = ''ACCEPTED''" "td_mode v1 = ''NOMINAL''" "td_last_fault v1 = ''NONE''"
    by (rule command_turn_shown [OF a1(2), of t1 "1 + length q1" d1 p1])
      (use pace assms(6,7) p1 c1 s1 core1 set_mode_nominal [OF c1] clocks_in_window in
        \<open>auto simp: accepted_next_def simp del: of_nat_Suc\<close>)
  obtain a3 where a3: "run ?step (quiet q2) (of_nat (2 + length q1), a2) = (of_nat (2 + length q1 + length q2), a3)"
    "flight_state NOMINAL NONE (Some 1) (end_time (Some t1) q2) a3"
    using quiet_turns [OF t1(2), of q2 "2 + length q1"] pace assms(6) by auto
  have core3: "core a3 = (NOMINAL, ap_processor a3)" using a3(2) by (simp add: flight_state_def)
  obtain v2 where t2: "decode_packet (fst (?step (t2, Some d2) (of_nat (2 + length q1 + length q2), a3))) = Inr v2"
    "td_last_command_sequence_number v2 = 2" "td_last_command_id v2 = ''INJECT_FAULT''"
    "td_last_command_status v2 = ''ACCEPTED''" "td_mode v2 = fc_expected_mode fc" "td_last_fault v2 = fc_fault fc"
    by (rule command_turn_shown [OF a3(2), of t2 "2 + length q1 + length q2" d2 p2])
      (use pace assms(1,2,6,8) p2 c2 s2 core3 inject_fault_command [OF c2] clocks_in_window in
        \<open>auto simp: accepted_next_def sequence_is_newer_def simp del: of_nat_Suc\<close>)
  have tlm: "tlm = outputs ?step (quiet q1) (1, ?app) @ fst (?step (t1, Some d1) (of_nat (1 + length q1), a1)) #
      outputs ?step (quiet q2) (of_nat (2 + length q1), a2) @
      fst (?step (t2, Some d2) (of_nat (2 + length q1 + length q2), a3)) #
      outputs ?step rest (snd (?step (t2, Some d2) (of_nat (2 + length q1 + length q2), a3)))"
    unfolding tlm_def by (simp only: outputs_append outputs.simps a1(1) t1(1) a3(1))
  show "\<exists>v. decode_packet (tlm ! length q1) = Inr v \<and>
      td_last_command_sequence_number v = 1 \<and> td_last_command_id v = ''SET_MODE'' \<and>
      td_last_command_status v = ''ACCEPTED'' \<and> td_mode v = ''NOMINAL'' \<and> td_last_fault v = ''NONE''"
    using t1(3-) unfolding tlm by (simp add: nth_append)
  show "\<exists>v. decode_packet (tlm ! (length q1 + 1 + length q2)) = Inr v \<and>
      td_last_command_sequence_number v = 2 \<and> td_last_command_id v = ''INJECT_FAULT'' \<and>
      td_last_command_status v = ''ACCEPTED'' \<and> td_mode v = fc_expected_mode fc \<and> td_last_fault v = fc_fault fc"
    using t2 unfolding tlm by (simp add: nth_append)
qed

abbreviation enter_nominal :: json_object where
  "enter_nominal \<equiv> [(''name'', JStr ''enter nominal''), (''command'', JStr ''SET_MODE''), (''argument'', JStr ''NOMINAL''),
     (''expect'', JObj [(''ack_seq'', JInt 1), (''ack_cmd'', JStr ''SET_MODE''), (''ack_status'', JStr ''ACCEPTED''),
        (''mode'', JStr ''NOMINAL''), (''fault'', JStr ''NONE'')])]"

abbreviation inject_case :: "FaultCase \<Rightarrow> json_object" where
  "inject_case fc \<equiv> [(''name'', JStr (''inject '' @ fc_fault fc)), (''command'', JStr ''INJECT_FAULT''),
     (''argument'', JStr (fc_fault fc)),
     (''expect'', JObj [(''ack_seq'', JInt 2), (''ack_cmd'', JStr ''INJECT_FAULT''), (''ack_status'', JStr ''ACCEPTED''),
        (''mode'', JStr (fc_expected_mode fc)), (''fault'', JStr (fc_fault fc))])]"

lemma expectation_met:
  assumes "td_last_command_sequence_number v = n" "td_last_command_id v = c" "td_last_command_status v = st"
    "td_mode v = m" "td_last_fault v = f"
  shows "meets_expectation v [(''ack_seq'', JInt n), (''ack_cmd'', JStr c), (''ack_status'', JStr st), (''mode'', JStr m), (''fault'', JStr f)]"
  using assms by (simp add: meets_expectation_def eq_int_def eq_str_def expected_status_def isinstance_int_def)

lemma scenario_main_fdir:
  "scenario_main host True (scenario_for fc index) envs =
     rbind (run_steps host (6100 + int index) (zip [enter_nominal, inject_case fc] envs) initial_run)
       (\<lambda>st. Inr (if rs_passed st then 0 else 1, st))"
  by (simp add: scenario_main_def scenario_for_def int_key_def check_steps_def server_args_def present_def)

lemma send_step_simple:
  assumes "dict_get step ''command'' = Some (JStr command)" and "dict_get step ''argument'' = Some (JStr argument)"
    and "dict_get step ''timestamp_ms'' = None" and "dict_get step ''timestamp_offset_ms'' = None"
    and "send_command (se_sender_ms env) host port (rs_sequence st) command (Some argument) None = Inr d"
  shows "send_step host port env step st = Inr (st\<lparr>rs_sequence := rs_sequence st + 1, rs_sent := rs_sent st @ [d]\<rparr>)"
  using assms by (simp add: send_step_def optional_str_def resolve_step_timestamp_def)

text \<open>C15: the FDIR campaign passes on the flight software. Take any case of the campaign and let
  \<open>run_scenario.py\<close> run its scenario. If the two datagrams that \<open>send_command.py\<close> sends are received
  by the flight loop, in its default configuration, one after the other among at most 20 turns that
  follow each other within the watchdog timeout, if the clocks of sender and flight software agree
  to 1 s ahead and 5 s behind, and if during each wait the listener receives the telemetry
  datagram with which the flight software answers the command, then the scenario exits with 0:
  the mode and fault that the campaign expects of each of the ten faults are the ones the flight
  software reaches and the receiver shows.\<close>

theorem fdir_campaign_passes_on_flight:
  fixes rest :: "(u64 \<times> byte list option) list" and host :: string and fc :: FaultCase
  assumes "fc \<in> set FAULT_CASES"
    and "send_command (se_sender_ms env1) host (6100 + int index) 1 ''SET_MODE'' (Some ''NOMINAL'') None = Inr d1"
    and "send_command (se_sender_ms env2) host (6100 + int index) 2 ''INJECT_FAULT'' (Some (fc_fault fc)) None = Inr d2"
    and "paced_run None (q1 @ t1 # q2 @ [t2])" and "length q1 + length q2 \<le> 18"
    and "clocks_agree (se_sender_ms env1) t1" and "clocks_agree (se_sender_ms env2) t2"
  defines "tlm \<equiv> outputs (demo_step no_injection) (quiet q1 @ (t1, Some d1) # quiet q2 @ (t2, Some d2) # rest)
      (1, flight_software_app default_config)"
  assumes "heard (tlm ! length q1) (se_rounds env1)"
    and "heard (tlm ! (length q1 + 1 + length q2)) (se_rounds env2)"
  shows "\<exists>st. scenario_main host True (scenario_for fc index) [env1, env2] = Inr (0, st)"
proof -
  obtain f where f: "fc_fault fc = fault_to_string f" "fc_expected_mode fc = mode_to_string (fault_target f NOMINAL)"
    using fault_cases_flight [OF assms(1)] by blast
  note shown = fdir_case_telemetry [OF f assms(2-7), of rest, folded tlm_def]
  obtain r1 ps1 where w1: "wait_for_expectation [] (JObj [(''ack_seq'', JInt 1), (''ack_cmd'', JStr ''SET_MODE''),
      (''ack_status'', JStr ''ACCEPTED''), (''mode'', JStr ''NOMINAL''), (''fault'', JStr ''NONE'')]) (se_rounds env1) = Inr (Some r1, ps1)"
    using shown(1) wait_succeeds [OF heard_packet [OF assms(9)] expectation_met] by blast
  obtain r2 ps2 where w2: "wait_for_expectation ps1 (JObj [(''ack_seq'', JInt 2), (''ack_cmd'', JStr ''INJECT_FAULT''),
      (''ack_status'', JStr ''ACCEPTED''), (''mode'', JStr (fc_expected_mode fc)), (''fault'', JStr (fc_fault fc))])
      (se_rounds env2) = Inr (Some r2, ps2)"
    using shown(2) wait_succeeds [OF heard_packet [OF assms(10)] expectation_met] by blast
  have s1: "send_step host (6100 + int index) env1 enter_nominal initial_run =
      Inr \<lparr>rs_passed = True, rs_sequence = 2, rs_sent = [d1], rs_packets = []\<rparr>"
    using send_step_simple [where st = initial_run and step = enter_nominal] assms(2) by (simp add: initial_run_def)
  have s2: "send_step host (6100 + int index) env2 (inject_case fc)
        \<lparr>rs_passed = True, rs_sequence = 2, rs_sent = [d1], rs_packets = ps1\<rparr> =
      Inr \<lparr>rs_passed = True, rs_sequence = 3, rs_sent = [d1, d2], rs_packets = ps1\<rparr>"
    using send_step_simple [where st = "\<lparr>rs_passed = True, rs_sequence = 2, rs_sent = [d1], rs_packets = ps1\<rparr>"
        and step = "inject_case fc"] assms(3) by simp
  show ?thesis
    using w1 w2 unfolding scenario_main_fdir by (simp add: s1 s2 [simplified] expectation_def)
qed

lemma sample_inject:
  "build_packet 1000 2 ''INJECT_FAULT'' 300 None =
     Inr [0x53, 0x44, 0x4D, 0x43, 1, 0, 2, 0, 0, 0, 0xE8, 3, 0, 0, 0, 0, 0, 0, 2, 0, 0x2C, 1, 0, 0, 0x75, 0x52]"
  by code_simp

lemma sample_nominal:
  "build_packet 1000 1 ''SET_MODE'' 1 None =
     Inr [0x53, 0x44, 0x4D, 0x43, 1, 0, 1, 0, 0, 0, 0xE8, 3, 0, 0, 0, 0, 0, 0, 1, 0, 1, 0, 0, 0, 0x1F, 0xA5]"
  by code_simp

lemma sample_datagrams:
  "send_command 1000 ''127.0.0.1'' 6103 1 ''SET_MODE'' (Some ''NOMINAL'') None =
     Inr [0x53, 0x44, 0x4D, 0x43, 1, 0, 1, 0, 0, 0, 0xE8, 3, 0, 0, 0, 0, 0, 0, 1, 0, 1, 0, 0, 0, 0x1F, 0xA5]"
  "send_command 1000 ''127.0.0.1'' 6103 2 ''INJECT_FAULT'' (Some ''CPU_OVERLOAD'') None =
     Inr [0x53, 0x44, 0x4D, 0x43, 1, 0, 2, 0, 0, 0, 0xE8, 3, 0, 0, 0, 0, 0, 0, 2, 0, 0x2C, 1, 0, 0, 0x75, 0x52]"
  by (simp_all add: send_command_def child_args_def py_int_str_int COMMANDS_def send_main_def parse_argument_def
      dict_index_def MODES_def FAULTS_def sample_inject sample_nominal)

theorem fdir_campaign_passes_on_flight_witness:
  "\<exists>env1 env2 st. scenario_main ''127.0.0.1'' True
     (scenario_for \<lparr>fc_fault = ''CPU_OVERLOAD'', fc_expected_mode = ''DEGRADED_PAYLOAD''\<rparr> 3) [env1, env2] = Inr (0, st)"
proof -
  let ?fc = "\<lparr>fc_fault = ''CPU_OVERLOAD'', fc_expected_mode = ''DEGRADED_PAYLOAD''\<rparr>"
  let ?d1 = "[0x53, 0x44, 0x4D, 0x43, 1, 0, 1, 0, 0, 0, 0xE8, 3, 0, 0, 0, 0, 0, 0, 1, 0, 1, 0, 0, 0, 0x1F, 0xA5] :: byte list"
  let ?d2 = "[0x53, 0x44, 0x4D, 0x43, 1, 0, 2, 0, 0, 0, 0xE8, 3, 0, 0, 0, 0, 0, 0, 2, 0, 0x2C, 1, 0, 0, 0x75, 0x52] :: byte list"
  let ?tlm = "outputs (demo_step no_injection) (quiet [] @ (1500, Some ?d1) # quiet [] @ (1600, Some ?d2) # [])
      (1, flight_software_app default_config)"
  have pace: "paced_run None ([] @ 1500 # [] @ [1600 :: u64])" "length ([] :: u64 list) + length ([] :: u64 list) \<le> 18"
    and clocks: "clocks_agree 1000 1500" "clocks_agree 1000 1600"
    by (simp_all add: paced_def clocks_agree_def)
  have fc: "fc_fault ?fc = fault_to_string CPU_OVERLOAD" "fc_expected_mode ?fc = mode_to_string (fault_target CPU_OVERLOAD NOMINAL)"
    "?fc \<in> set FAULT_CASES"
    by (simp_all add: fault_target_def FAULT_CASES_def)
  have sent2: "send_command 1000 ''127.0.0.1'' 6103 2 ''INJECT_FAULT'' (Some (fc_fault ?fc)) None = Inr ?d2"
    using sample_datagrams(2) by simp
  from fdir_case_telemetry [OF fc(1,2) sample_datagrams(1) sent2 pace clocks, of "[]"]
  obtain v1 v2 where v: "decode_packet (?tlm ! length ([] :: u64 list)) = Inr v1"
    "decode_packet (?tlm ! (length ([] :: u64 list) + 1 + length ([] :: u64 list))) = Inr v2" by blast
  let ?env = "\<lambda>v. \<lparr>se_runner_ms = 0, se_sender_ms = 1000, se_rounds = [([Packet v], [])]\<rparr>"
  have "heard (?tlm ! length ([] :: u64 list)) (se_rounds (?env v1))"
    "heard (?tlm ! (length ([] :: u64 list) + 1 + length ([] :: u64 list))) (se_rounds (?env v2))"
    unfolding heard_def telemetry_listener_def v by simp_all
  from fdir_campaign_passes_on_flight [where ?env1.0 = "?env v1" and ?env2.0 = "?env v2" and index = 3
      and host = "''127.0.0.1''", OF fc(3) _ _ pace _ _ this] sample_datagrams(1) sent2 clocks
  show ?thesis by fastforce
qed

end
