(* ===== verification/Verification_Runner.thy ===== *)
theory Verification_Runner
  imports Campaigns Step_System
begin

text \<open>
  \<open>tools/run_all_scenarios.py\<close>: the verification campaign as a sequence of child processes. A
  child process is a parameter, a function from its command line and the state of the world to
  its return code and the new state of the world.
\<close>

section \<open>Sequences that stop at the first failure\<close>

text \<open>The interface of a runner: it attempts the elements of a list in order and returns with the
  first non-zero code.\<close>

locale fail_fast =
  fixes attempt :: "'a \<Rightarrow> 's \<Rightarrow> int \<times> 's" and loop :: "'a list \<Rightarrow> 's \<Rightarrow> int \<times> 's"
  assumes loop_Nil: "loop [] s = (0, s)"
    and loop_Cons: "loop (x # xs) s =
      (if fst (attempt x s) \<noteq> 0 then attempt x s else loop xs (snd (attempt x s)))"
begin

lemma loop_zero_iff: "fst (loop xs s) = 0 \<longleftrightarrow> (\<forall>c\<in>set (outputs attempt xs s). c = 0)"
  by (induction xs arbitrary: s) (simp_all add: loop_Nil loop_Cons)

lemma loop_zero_state: "fst (loop xs s) = 0 \<Longrightarrow> snd (loop xs s) = run attempt xs s"
  by (induction xs arbitrary: s) (simp_all add: loop_Nil loop_Cons split: if_splits)

text \<open>Whatever the outcome, the elements attempted are a prefix of the list, and all but the last
  succeeded.\<close>

lemma loop_prefix:
  "\<exists>k\<le>length xs. snd (loop xs s) = run attempt (take k xs) s \<and>
     (\<forall>c\<in>set (butlast (outputs attempt (take k xs) s)). c = 0) \<and>
     (fst (loop xs s) = 0 \<longrightarrow> k = length xs) \<and>
     (fst (loop xs s) \<noteq> 0 \<longrightarrow> 0 < k \<and> last (outputs attempt (take k xs) s) = fst (loop xs s))"
proof (induction xs arbitrary: s)
  case (Cons x xs)
  show ?case
  proof (cases "fst (attempt x s) = 0")
    case False
    then have "loop (x # xs) s = attempt x s" by (simp add: loop_Cons)
    with False show ?thesis by (intro exI [of _ "Suc 0"]) simp
  next
    case True
    obtain k where k: "k \<le> length xs" "snd (loop xs (snd (attempt x s))) = run attempt (take k xs) (snd (attempt x s))"
      "\<forall>c\<in>set (butlast (outputs attempt (take k xs) (snd (attempt x s)))). c = 0"
      "fst (loop xs (snd (attempt x s))) = 0 \<longrightarrow> k = length xs"
      "fst (loop xs (snd (attempt x s))) \<noteq> 0 \<longrightarrow>
         0 < k \<and> last (outputs attempt (take k xs) (snd (attempt x s))) = fst (loop xs (snd (attempt x s)))"
      using Cons.IH [of "snd (attempt x s)"] by (elim exE conjE)
    let ?o = "outputs attempt (take k xs) (snd (attempt x s))"
    have o: "?o = [] \<longleftrightarrow> take k xs = []" by (metis length_0_conv length_outputs)
    have l: "loop (x # xs) s = loop xs (snd (attempt x s))" using True by (simp add: loop_Cons)
    have os: "outputs attempt (take (Suc k) (x # xs)) s = 0 # ?o" using True by simp
    show ?thesis
    proof (intro exI [of _ "Suc k"] conjI impI)
      show "Suc k \<le> length (x # xs)" using k(1) by simp
      show "snd (loop (x # xs) s) = run attempt (take (Suc k) (x # xs)) s" using k(2) by (simp add: l)
      show "\<forall>c\<in>set (butlast (outputs attempt (take (Suc k) (x # xs)) s)). c = 0" unfolding os using k(3) by simp
      show "Suc k = length (x # xs)" if "fst (loop (x # xs) s) = 0" using that k(4) by (simp add: l)
      show "last (outputs attempt (take (Suc k) (x # xs)) s) = fst (loop (x # xs) s)"
        if "fst (loop (x # xs) s) \<noteq> 0" unfolding os using that k(5) o by (auto simp: l loop_Nil)
    qed simp
  qed
qed (simp add: loop_Nil)

end

section \<open>Child processes\<close>

type_synonym 'w exec = "string list \<Rightarrow> 'w \<Rightarrow> int \<times> 'w"

text \<open>The world, the child processes that ran with their return codes, and the console.\<close>

record 'w shell =
  sh_world :: 'w
  sh_history :: "(string list \<times> int) list"
  sh_console :: "string list"

definition say :: "string list \<Rightarrow> 'w shell \<Rightarrow> 'w shell" where
  "say ls s = s\<lparr>sh_console := sh_console s @ ls\<rparr>"

definition run_process :: "'w exec \<Rightarrow> string list \<Rightarrow> 'w shell \<Rightarrow> int \<times> 'w shell" where
  "run_process exec command s =
     (let (code, w) = exec command (sh_world s)
      in (code, s\<lparr>sh_world := w, sh_history := sh_history s @ [(command, code)]\<rparr>))"

definition strip_title :: "string \<Rightarrow> string" where
  "strip_title s = rev (dropWhile (\<lambda>c. c \<in> set ''= '') (rev (dropWhile (\<lambda>c. c \<in> set ''= '') s)))"

definition run_command :: "'w exec \<Rightarrow> string list \<Rightarrow> string \<Rightarrow> 'w shell \<Rightarrow> int \<times> 'w shell" where
  "run_command exec command title s =
     (let (code, s1) = run_process exec command (say ['''', title] s)
      in if code \<noteq> 0 then (code, say [''ERROR: '' @ strip_title title @ '' failed.''] s1) else (0, s1))"

definition run_build_and_unit_tests :: "'w exec \<Rightarrow> string \<Rightarrow> 'w shell \<Rightarrow> int \<times> 'w shell" where
  "run_build_and_unit_tests exec repo s =
     (let (code, s1) = run_process exec [''bash'', repo @ ''/ci/run_local_tests.sh'']
            (say [''== Building and running unit tests ==''] s)
      in if code \<noteq> 0 then (code, say [''ERROR: build/unit tests failed.''] s1) else (0, s1))"

section \<open>Scenarios\<close>

text \<open>\<open>glob\<close> lists the files of \<open>scenarios\<close> that match a pattern; paths sort by their parts.\<close>

definition scenario_files :: "(string \<Rightarrow> string list) \<Rightarrow> string option \<Rightarrow> string list" where
  "scenario_files glob pattern =
     (let p = (case pattern of None \<Rightarrow> ''*.yaml'' | Some p \<Rightarrow> if p = [] then ''*.yaml'' else p)
      in sort_key (split_char (CHR ''/'')) (glob p))"

definition scenario_command :: "string \<Rightarrow> string \<Rightarrow> string \<Rightarrow> string \<Rightarrow> string list" where
  "scenario_command python repo build_dir scenario =
     [python, repo @ ''/tools/run_scenario.py'', scenario, ''--build-dir'', build_dir]"

definition relative_name :: "string \<Rightarrow> string \<Rightarrow> string" where
  "relative_name repo path = drop (length repo + 1) path"

fun run_scenario_files ::
  "'w exec \<Rightarrow> string \<Rightarrow> string \<Rightarrow> string \<Rightarrow> string list \<Rightarrow> 'w shell \<Rightarrow> (string \<times> int) list \<times> 'w shell" where
  "run_scenario_files exec python repo build_dir [] s = ([], s)"
| "run_scenario_files exec python repo build_dir (scenario # scenarios) s =
     (let (code, s1) = run_process exec (scenario_command python repo build_dir scenario)
            (say ['''', ''--- '' @ relative_name repo scenario @ '' ---''] s);
          (results, s2) = run_scenario_files exec python repo build_dir scenarios s1
      in ((scenario, code) # results, s2))"

definition run_scenarios ::
  "'w exec \<Rightarrow> string \<Rightarrow> string \<Rightarrow> (string \<Rightarrow> string list) \<Rightarrow> string option \<Rightarrow> string \<Rightarrow> 'w shell \<Rightarrow> int \<times> 'w shell" where
  "run_scenarios exec python repo glob pattern build_dir s =
     (let s1 = say ['''', ''== Running YAML scenarios ==''] s;
          scenarios = scenario_files glob pattern
      in if scenarios = [] then (1, say [''ERROR: no scenarios matched.''] s1)
         else
           let (results, s2) = run_scenario_files exec python repo build_dir scenarios s1;
               passed = length (filter (\<lambda>(_, code). code = 0) results);
               failed = length results - passed;
               s3 = say (['''', ''== Scenario Summary ==''] @
                 map (\<lambda>(scenario, code). pass_fail (code = 0) @ '': '' @ relative_name repo scenario) results @
                 ['''', ''Passed: '' @ str_nat passed, ''Failed: '' @ str_nat failed,
                  ''Total:  '' @ str_nat (length results)]) s2
           in (if failed = 0 then 0 else 1, s3))"

section \<open>The campaign\<close>

record all_args =
  aa_build_dir :: string
  aa_skip_build :: bool
  aa_skip_requirements :: bool
  aa_skip_protocol_check :: bool
  aa_skip_fdir_campaign :: bool
  aa_skip_assistant_eval :: bool
  aa_skip_monte_carlo :: bool
  aa_skip_pi_package :: bool
  aa_monte_carlo_trials :: int
  aa_monte_carlo_seed :: int
  aa_pattern :: "string option"

definition unless :: "bool \<Rightarrow> 'a \<Rightarrow> 'a list" where
  "unless skip x = (if skip then [] else [x])"

text \<open>The stages after the scenarios: flag, command and title.\<close>

definition later_stages :: "string \<Rightarrow> string \<Rightarrow> all_args \<Rightarrow> (string list \<times> string) list" where
  "later_stages python repo args =
     unless (aa_skip_fdir_campaign args)
       ([python, repo @ ''/tools/run_fdir_campaign.py'', ''--build-dir'', aa_build_dir args],
        ''== Running ten-case FDIR campaign =='') @
     unless (aa_skip_monte_carlo args)
       ([python, repo @ ''/tools/run_monte_carlo.py'', ''--trials'', str_int (aa_monte_carlo_trials args), ''--seed'',
         str_int (aa_monte_carlo_seed args), ''--build-dir'', aa_build_dir args],
        ''== Running Monte Carlo regression =='') @
     unless (aa_skip_pi_package args)
       ([''bash'', repo @ ''/tools/package_pi_deployment.sh'', ''--build-dir'', aa_build_dir args],
        ''== Building Raspberry Pi deployment package =='') @
     unless (aa_skip_protocol_check args)
       ([python, repo @ ''/tools/check_protocol_conformance.py''], ''== Checking protocol conformance =='') @
     unless (aa_skip_requirements args)
       ([python, repo @ ''/tools/check_requirements.py''], ''== Checking requirement traceability =='') @
     unless (aa_skip_assistant_eval args)
       ([python, repo @ ''/tools/run_assurance_assistant_eval.py''],
        ''== Running frozen assurance-assistant evaluation =='')"

text \<open>\<open>code = stage(); if code != 0: return code\<close>, repeated.\<close>

fun run_stages :: "('s \<Rightarrow> int \<times> 's) list \<Rightarrow> 's \<Rightarrow> int \<times> 's" where
  "run_stages [] s = (0, s)"
| "run_stages (stage # stages) s =
     (let (code, s1) = stage s in if code \<noteq> 0 then (code, s1) else run_stages stages s1)"

definition all_main ::
  "'w exec \<Rightarrow> string \<Rightarrow> string \<Rightarrow> (string \<Rightarrow> string list) \<Rightarrow> all_args \<Rightarrow> 'w shell \<Rightarrow> int \<times> 'w shell" where
  "all_main exec python repo glob args =
     run_stages
       (unless (aa_skip_build args) (run_build_and_unit_tests exec repo) @
        [run_scenarios exec python repo glob (aa_pattern args) (aa_build_dir args)] @
        map (\<lambda>(command, title). run_command exec command title) (later_stages python repo args))"

interpretation stage_loop: fail_fast "\<lambda>stage s. stage s" run_stages
  by unfold_locales (auto simp: Let_def split: prod.splits)

section \<open>The verdict of the campaign\<close>

text \<open>What a stage promises about the child processes it runs: they are among the planned ones, in
  order; its code is 0 exactly if all of them ran and returned 0, provided success is possible.\<close>

definition all_zero :: "(string list \<times> int) list \<Rightarrow> bool" where
  "all_zero h \<longleftrightarrow> list_all (\<lambda>(_, code). code = 0) h"

definition honest :: "('w shell \<Rightarrow> int \<times> 'w shell) \<Rightarrow> bool \<Rightarrow> string list list \<Rightarrow> bool" where
  "honest stage possible commands \<longleftrightarrow>
     (\<forall>s. \<exists>h rest. sh_history (snd (stage s)) = sh_history s @ h \<and> commands = map fst h @ rest \<and>
        (fst (stage s) = 0 \<longleftrightarrow> possible \<and> rest = [] \<and> all_zero h))"

lemma all_zero_simps [simp]: "all_zero []" "all_zero (x # h) \<longleftrightarrow> snd x = 0 \<and> all_zero h"
  "all_zero (h @ h') \<longleftrightarrow> all_zero h \<and> all_zero h'"
  by (auto simp: all_zero_def split: prod.splits)

lemma honest_run_stages:
  "list_all (\<lambda>(stage, possible, commands). honest stage possible commands) ts \<Longrightarrow>
     honest (run_stages (map fst ts)) (list_all (\<lambda>t. fst (snd t)) ts) (concat (map (\<lambda>t. snd (snd t)) ts))"
proof (induction ts)
  case (Cons t ts)
  obtain stage possible commands where t: "t = (stage, possible, commands)" by (cases t)
  show ?case unfolding honest_def
  proof
    fix s :: "'a shell"
    from Cons.prems t obtain h rest where 1: "sh_history (snd (stage s)) = sh_history s @ h"
      "commands = map fst h @ rest" "fst (stage s) = 0 \<longleftrightarrow> possible \<and> rest = [] \<and> all_zero h"
      by (fastforce simp: honest_def)
    from Cons obtain h' rest' where 2: "sh_history (snd (run_stages (map fst ts) (snd (stage s)))) =
        sh_history (snd (stage s)) @ h'"
      "concat (map (\<lambda>t. snd (snd t)) ts) = map fst h' @ rest'"
      "fst (run_stages (map fst ts) (snd (stage s))) = 0 \<longleftrightarrow>
         list_all (\<lambda>t. fst (snd t)) ts \<and> rest' = [] \<and> all_zero h'"
      unfolding honest_def by fastforce
    show "\<exists>h rest. sh_history (snd (run_stages (map fst (t # ts)) s)) = sh_history s @ h \<and>
        concat (map (\<lambda>t. snd (snd t)) (t # ts)) = map fst h @ rest \<and>
        (fst (run_stages (map fst (t # ts)) s) = 0 \<longleftrightarrow>
           list_all (\<lambda>t. fst (snd t)) (t # ts) \<and> rest = [] \<and> all_zero h)"
    proof (cases "fst (stage s) = 0")
      case True
      then show ?thesis using 1 2 by (intro exI [of _ "h @ h'"] exI [of _ rest']) (auto simp: t split_beta)
    next
      case False
      then show ?thesis using 1
        by (intro exI [of _ h] exI [of _ "rest @ concat (map (\<lambda>t. snd (snd t)) ts)"]) (auto simp: t split_beta)
    qed
  qed
qed (simp add: honest_def)

lemma run_process_fields:
  "fst (run_process exec command s) = fst (exec command (sh_world s))"
  "sh_history (snd (run_process exec command s)) = sh_history s @ [(command, fst (run_process exec command s))]"
  by (simp_all add: run_process_def split_beta)

lemma honest_run_command: "honest (run_command exec command title) True [command]"
  unfolding honest_def
proof
  fix s :: "'a shell"
  let ?c = "fst (run_process exec command (say ['''', title] s))"
  show "\<exists>h rest. sh_history (snd (run_command exec command title s)) = sh_history s @ h \<and>
      [command] = map fst h @ rest \<and> (fst (run_command exec command title s) = 0 \<longleftrightarrow> True \<and> rest = [] \<and> all_zero h)"
    by (intro exI [of _ "[(command, ?c)]"] exI [of _ "[]"])
      (auto simp: run_command_def Let_def split_beta run_process_fields say_def)
qed

lemma honest_build: "honest (run_build_and_unit_tests exec repo) True [[''bash'', repo @ ''/ci/run_local_tests.sh'']]"
  unfolding honest_def
proof
  fix s :: "'a shell"
  let ?cmd = "[''bash'', repo @ ''/ci/run_local_tests.sh'']"
  let ?c = "fst (run_process exec ?cmd (say [''== Building and running unit tests ==''] s))"
  show "\<exists>h rest. sh_history (snd (run_build_and_unit_tests exec repo s)) = sh_history s @ h \<and>
      [?cmd] = map fst h @ rest \<and> (fst (run_build_and_unit_tests exec repo s) = 0 \<longleftrightarrow> True \<and> rest = [] \<and> all_zero h)"
    by (intro exI [of _ "[(?cmd, ?c)]"] exI [of _ "[]"])
      (auto simp: run_build_and_unit_tests_def Let_def split_beta run_process_fields say_def)
qed

lemma run_scenario_files_history:
  fixes s :: "'w shell" and python repo build_dir :: string
  defines "c \<equiv> scenario_command python repo build_dir"
  shows "map fst (fst (run_scenario_files exec python repo build_dir scenarios s)) = scenarios \<and>
    sh_history (snd (run_scenario_files exec python repo build_dir scenarios s)) =
      sh_history s @ map (\<lambda>(f, code). (c f, code)) (fst (run_scenario_files exec python repo build_dir scenarios s))"
  by (induction scenarios arbitrary: s) (auto simp: c_def Let_def split_beta run_process_fields say_def)

lemma say_history [simp]: "sh_history (say ls s) = sh_history s"
  by (simp add: say_def)

lemma run_scenarios_result:
  assumes "scenario_files glob pattern \<noteq> []"
    and "run_scenario_files exec python repo build_dir (scenario_files glob pattern)
      (say ['''', ''== Running YAML scenarios ==''] s) = (results, s2)"
  shows "fst (run_scenarios exec python repo glob pattern build_dir s) = 0 \<longleftrightarrow> list_all (\<lambda>(_, code). code = 0) results"
    and "sh_history (snd (run_scenarios exec python repo glob pattern build_dir s)) = sh_history s2"
  using assms filter_all_length [of results "\<lambda>(_, code). code = 0"] by (simp_all add: run_scenarios_def Let_def)

lemma honest_run_scenarios:
  "honest (run_scenarios exec python repo glob pattern build_dir) (scenario_files glob pattern \<noteq> [])
     (map (scenario_command python repo build_dir) (scenario_files glob pattern))"
  unfolding honest_def
proof
  fix s :: "'a shell"
  let ?fs = "scenario_files glob pattern" and ?c = "scenario_command python repo build_dir"
  show "\<exists>h rest. sh_history (snd (run_scenarios exec python repo glob pattern build_dir s)) = sh_history s @ h \<and>
      map ?c ?fs = map fst h @ rest \<and>
      (fst (run_scenarios exec python repo glob pattern build_dir s) = 0 \<longleftrightarrow>
         ?fs \<noteq> [] \<and> rest = [] \<and> all_zero h)"
  proof (cases "?fs = []")
    case True
    then show ?thesis by (intro exI [of _ "[]"]) (simp add: run_scenarios_def)
  next
    case False
    obtain r s2 where e: "run_scenario_files exec python repo build_dir ?fs
        (say ['''', ''== Running YAML scenarios ==''] s) = (r, s2)" by fastforce
    let ?h = "map (\<lambda>(f, code). (?c f, code)) r"
    have r: "map fst r = ?fs" "sh_history s2 = sh_history s @ ?h"
      using run_scenario_files_history [of exec python repo build_dir ?fs] e by (metis fst_conv snd_conv say_history)+
    have "all_zero ?h \<longleftrightarrow> list_all (\<lambda>(_, code). code = 0) r" by (auto simp: all_zero_def list_all_iff)
    moreover have "map fst ?h = map ?c ?fs" unfolding r(1) [symmetric] by (simp add: case_prod_unfold)
    ultimately show ?thesis using False r(2) run_scenarios_result [OF False e]
      by (intro exI [of _ ?h] exI [of _ "[]"]) simp
  qed
qed

text \<open>The child processes a campaign is meant to run.\<close>

definition planned_commands :: "string \<Rightarrow> string \<Rightarrow> (string \<Rightarrow> string list) \<Rightarrow> all_args \<Rightarrow> string list list" where
  "planned_commands python repo glob args =
     unless (aa_skip_build args) [''bash'', repo @ ''/ci/run_local_tests.sh''] @
     map (scenario_command python repo (aa_build_dir args)) (scenario_files glob (aa_pattern args)) @
     map fst (later_stages python repo args)"

lemma honest_all_main:
  "honest (all_main exec python repo glob args) (scenario_files glob (aa_pattern args) \<noteq> [])
     (planned_commands python repo glob args)"
proof -
  let ?ts = "unless (aa_skip_build args) (run_build_and_unit_tests exec repo, True, [[''bash'', repo @ ''/ci/run_local_tests.sh'']]) @
    [(run_scenarios exec python repo glob (aa_pattern args) (aa_build_dir args),
      scenario_files glob (aa_pattern args) \<noteq> [],
      map (scenario_command python repo (aa_build_dir args)) (scenario_files glob (aa_pattern args)))] @
    map (\<lambda>(command, title). (run_command exec command title, True, [command])) (later_stages python repo args)"
  have "list_all (\<lambda>(stage, possible, commands). honest stage possible commands) ?ts"
    by (auto simp: list_all_iff unless_def honest_build honest_run_scenarios honest_run_command)
  from honest_run_stages [OF this] show ?thesis
    by (cases "aa_skip_build args")
      (simp_all add: all_main_def planned_commands_def unless_def list_all_iff comp_def case_prod_unfold)
qed

text \<open>C23: the verdict of the verification campaign. Whatever the child processes do, those that ran
  are an initial part of the planned ones, in the planned order; and the campaign returns 0
  exactly if at least one scenario matched and every planned process ran and returned 0.\<close>

theorem campaign_verdict:
  fixes exec :: "'w exec" and w :: 'w
  defines "start \<equiv> \<lparr>sh_world = w, sh_history = [], sh_console = []\<rparr>"
  shows "\<exists>rest. planned_commands python repo glob args =
        map fst (sh_history (snd (all_main exec python repo glob args start))) @ rest \<and>
      (fst (all_main exec python repo glob args start) = 0 \<longleftrightarrow>
         scenario_files glob (aa_pattern args) \<noteq> [] \<and> rest = [] \<and>
         all_zero (sh_history (snd (all_main exec python repo glob args start))))"
proof -
  obtain h rest where "sh_history (snd (all_main exec python repo glob args start)) = sh_history start @ h"
    "planned_commands python repo glob args = map fst h @ rest"
    "fst (all_main exec python repo glob args start) = 0 \<longleftrightarrow>
       scenario_files glob (aa_pattern args) \<noteq> [] \<and> rest = [] \<and> all_zero h"
    using honest_all_main [of exec python repo glob args] unfolding honest_def by blast
  then show ?thesis by (simp add: start_def)
qed

end
