(* ===== verification/Assurance.thy ===== *)
theory Assurance
  imports Verification_Runner
begin

text \<open>
  \<open>tools/run_astra_os_assurance.py\<close>, the assurance workflow. Child processes, the clock and the
  writing of files are parameters; any of the first and the last may raise. Log files hold what a
  child prints and are left out, as is console output.
\<close>

section \<open>Stages\<close>

text \<open>The host. \<open>h_exec\<close> runs a child process on a command line and an environment, with the copying
  of its output to the console and the log: it ends with the return code or raises any exception, \<open>OSError\<close>
  when the child or the log cannot be opened, \<open>UnicodeDecodeError\<close> (a \<open>ValueError\<close>) when the
  output is not text, \<open>KeyboardInterrupt\<close> at any time. \<open>h_write\<close> writes the summary.\<close>

record 'w host =
  h_exec :: "string list \<Rightarrow> (string, string) dict \<Rightarrow> 'w \<Rightarrow> int result \<times> 'w"
  h_write :: "json_object \<Rightarrow> 'w \<Rightarrow> unit result \<times> 'w"
  h_utc_now :: "'w \<Rightarrow> string"
  h_environ :: "(string, string) dict"
  h_executable :: string
  h_repo :: string

record StageResult =
  sr_name :: string
  sr_command :: "string list"
  sr_return_code :: int
  sr_started_at_utc :: string
  sr_finished_at_utc :: string
  sr_log_path :: string

definition stage_passed :: "StageResult \<Rightarrow> bool" where
  "stage_passed r \<longleftrightarrow> sr_return_code r = 0"

definition isalnum :: "char \<Rightarrow> bool" where
  "isalnum c \<longleftrightarrow> CHR ''0'' \<le> c \<and> c \<le> CHR ''9'' \<or> CHR ''A'' \<le> c \<and> c \<le> CHR ''Z'' \<or> CHR ''a'' \<le> c \<and> c \<le> CHR ''z''"

definition safe_stage_name :: "string \<Rightarrow> string" where
  "safe_stage_name name = strip_char (CHR ''_'') (map (\<lambda>c. if isalnum c then c else CHR ''_'') name)"

type_synonym stage = "string \<times> string list \<times> (string, string) dict option"

definition merged_environment :: "(string, string) dict \<Rightarrow> (string, string) dict option \<Rightarrow> (string, string) dict" where
  "merged_environment environ environment =
     (case environment of None \<Rightarrow> environ | Some e \<Rightarrow> foldl (\<lambda>d (k, v). dict_set k v d) environ e)"

definition run_stage :: "'w host \<Rightarrow> stage \<Rightarrow> 'w \<Rightarrow> StageResult result \<times> 'w" where
  "run_stage h = (\<lambda>(name, command, environment) w.
     case h_exec h command (merged_environment (h_environ h) environment) w of
       (Inl error, w1) \<Rightarrow> (Inl error, w1)
     | (Inr return_code, w1) \<Rightarrow>
         (Inr \<lparr>sr_name = name, sr_command = command, sr_return_code = return_code,
            sr_started_at_utc = h_utc_now h w, sr_finished_at_utc = h_utc_now h w1,
            sr_log_path = ''reports/latest/'' @ safe_stage_name name @ ''.log''\<rparr>, w1))"

section \<open>The plan\<close>

record assurance_args =
  as_quick :: bool
  as_build_dir :: string
  as_skip_monte_carlo :: bool
  as_skip_pi_package :: bool

definition full_verification_command :: "'w host \<Rightarrow> assurance_args \<Rightarrow> string list" where
  "full_verification_command h args =
     [h_executable h, h_repo h @ ''/tools/run_all_scenarios.py'', ''--build-dir'', as_build_dir args] @
     (if as_skip_monte_carlo args then [''--skip-monte-carlo''] else []) @
     (if as_skip_pi_package args then [''--skip-pi-package''] else [])"

definition planned_stages :: "'w host \<Rightarrow> assurance_args \<Rightarrow> stage list" where
  "planned_stages h args =
     (let sanitizer_build = h_repo h @ ''/build-assurance-sanitizers'' in
      [(''source_cleanliness'', [h_executable h, h_repo h @ ''/tools/check_source_cleanliness.py''], None),
       (''python_tool_tests'', [h_executable h, ''-m'', ''unittest'', ''discover'', ''-s'', ''tools/tests'', ''-p'', ''test_*.py''], None),
       (''full_verification'', full_verification_command h args, None)] @
      (if as_quick args then [] else
        [(''configure_sanitizers'', [''cmake'', ''-S'', ''.'', ''-B'', sanitizer_build, ''-DCMAKE_BUILD_TYPE=Debug'',
            ''-DASTRA_WARNINGS_AS_ERRORS=ON'', ''-DASTRA_ENABLE_SANITIZERS=ON''], None),
         (''build_sanitizers'', [''cmake'', ''--build'', sanitizer_build, ''--parallel''], None),
         (''test_sanitizers'', [''ctest'', ''--test-dir'', sanitizer_build, ''--output-on-failure''],
            Some [(''ASAN_OPTIONS'', ''detect_leaks=1:halt_on_error=1:strict_string_checks=1''),
                  (''UBSAN_OPTIONS'', ''halt_on_error=1:print_stacktrace=1'')]),
         (''controlled_mutation'', [h_executable h, h_repo h @ ''/tools/run_controlled_mutation.py''], None)]))"

section \<open>The workflow\<close>

record 'w workflow =
  wf_results :: "StageResult list"
  wf_commands_executed :: "string list list"
  wf_overall_status :: string
  wf_pending :: "py_error option"
  wf_world :: 'w

text \<open>\<open>except (OSError, KeyboardInterrupt)\<close>.\<close>

definition handled :: "py_error \<Rightarrow> bool" where
  "handled e = (case e of OSError _ \<Rightarrow> True | KeyboardInterrupt _ \<Rightarrow> True | _ \<Rightarrow> False)"

text \<open>One turn of the loop over \<open>planned_stages\<close>: the code is 0 if the stage passed, 1 if the loop
  is left, by \<open>break\<close> or by an exception. One that is not handled is pending while the \<open>finally\<close>
  block runs, and leaves \<open>overall_status\<close> as it was.\<close>

definition attempt_stage :: "'w host \<Rightarrow> stage \<Rightarrow> 'w workflow \<Rightarrow> int \<times> 'w workflow" where
  "attempt_stage h stage st =
     (let st1 = st\<lparr>wf_commands_executed := wf_commands_executed st @ [fst (snd stage)]\<rparr> in
      case run_stage h stage (wf_world st) of
        (Inl error, w) \<Rightarrow>
          if handled error then (1, st1\<lparr>wf_overall_status := ''failed'', wf_world := w\<rparr>)
          else (1, st1\<lparr>wf_pending := Some error, wf_world := w\<rparr>)
      | (Inr result, w) \<Rightarrow>
          let st2 = st1\<lparr>wf_results := wf_results st1 @ [result], wf_world := w\<rparr> in
          if stage_passed result then (0, st2) else (1, st2\<lparr>wf_overall_status := ''failed''\<rparr>))"

fun run_planned :: "'w host \<Rightarrow> stage list \<Rightarrow> 'w workflow \<Rightarrow> int \<times> 'w workflow" where
  "run_planned h [] st = (0, st)"
| "run_planned h (stage # stages) st =
     (let (code, st1) = attempt_stage h stage st in if code \<noteq> 0 then (code, st1) else run_planned h stages st1)"

text \<open>The summary: \<open>json.dumps(payload, sort_keys=True)\<close> of this payload.\<close>

definition stage_json :: "StageResult \<Rightarrow> json" where
  "stage_json r = JObj [(''name'', JStr (sr_name r)), (''command'', JArr (map JStr (sr_command r))),
     (''return_code'', JInt (sr_return_code r)), (''started_at_utc'', JStr (sr_started_at_utc r)),
     (''finished_at_utc'', JStr (sr_finished_at_utc r)), (''log_path'', JStr (sr_log_path r)),
     (''passed'', JBool (stage_passed r))]"

definition write_summary :: "string \<Rightarrow> StageResult list \<Rightarrow> string \<Rightarrow> bool \<Rightarrow> json_object" where
  "write_summary now results overall_status requested_quick_mode =
     [(''schema'', JStr ''astra-os.assurance-summary.v1''), (''generated_at_utc'', JStr now),
      (''overall_status'', JStr overall_status), (''quick_mode'', JBool requested_quick_mode),
      (''stages'', JArr (map stage_json results))]"

definition manifest_command :: "'w host \<Rightarrow> string \<Rightarrow> string list list \<Rightarrow> bool \<Rightarrow> string list" where
  "manifest_command h verification_status commands sanitizers_enabled =
     [h_executable h, h_repo h @ ''/tools/generate_baseline_manifest.py'', ''--output'',
      h_repo h @ ''/reports/latest/baseline_manifest.json'', ''--verification-status'', verification_status,
      ''--build-type'', ''Debug'', ''--warnings-as-errors'', ''--note'',
      ''Generated by tools/run_astra_os_assurance.py.''] @
     (if sanitizers_enabled then [''--sanitizers-enabled''] else []) @
     concat (map (\<lambda>c. [''--test-command'', join '' '' c]) commands)"

definition generate_manifest :: "'w host \<Rightarrow> string \<Rightarrow> string list list \<Rightarrow> bool \<Rightarrow> 'w \<Rightarrow> int result \<times> 'w" where
  "generate_manifest h verification_status commands sanitizers_enabled w =
     h_exec h (manifest_command h verification_status commands sanitizers_enabled) (h_environ h) w"

text \<open>What leaves \<open>main\<close> after the \<open>finally\<close> block: the pending exception or the exit status.\<close>

definition main_exit :: "py_error option \<Rightarrow> string \<Rightarrow> int result" where
  "main_exit pending overall_status =
     (case pending of Some e \<Rightarrow> Inl e | None \<Rightarrow> Inr (if overall_status = ''passed'' then 0 else 1))"

definition initial_workflow :: "'w \<Rightarrow> 'w workflow" where
  "initial_workflow w = \<lparr>wf_results = [], wf_commands_executed = [], wf_overall_status = ''passed'',
     wf_pending = None, wf_world = w\<rparr>"

text \<open>\<open>main\<close>: the summaries it has written, one after the other to the same file, and its exit status.
  An exception raised in the \<open>finally\<close> block replaces a pending one and skips the rest of the
  block.\<close>

definition assurance_main :: "'w host \<Rightarrow> assurance_args \<Rightarrow> 'w \<Rightarrow> json_object list \<times> int result" where
  "assurance_main h args w =
     (let st = snd (run_planned h (planned_stages h args) (initial_workflow w));
          summary = write_summary (h_utc_now h (wf_world st)) (wf_results st) (wf_overall_status st) (as_quick args)
      in case h_write h summary (wf_world st) of
           (Inl error, w1) \<Rightarrow> ([], Inl error)
         | (Inr _, w1) \<Rightarrow>
             (case generate_manifest h (wf_overall_status st) (wf_commands_executed st) (\<not> as_quick args) w1 of
                (Inl error, w2) \<Rightarrow> ([summary], Inl error)
              | (Inr manifest_code, w2) \<Rightarrow>
                  if manifest_code \<noteq> 0 then
                    (let summary2 = write_summary (h_utc_now h w2) (wf_results st) ''failed'' (as_quick args) in
                     case h_write h summary2 w2 of
                       (Inl error, w3) \<Rightarrow> ([summary], Inl error)
                     | (Inr _, w3) \<Rightarrow> ([summary, summary2], main_exit (wf_pending st) ''failed''))
                  else ([summary], main_exit (wf_pending st) (wf_overall_status st))))"


section \<open>How the loop over the stages ends\<close>













section \<open>The verdict\<close>


text \<open>A stage whose output is not text raises \<open>UnicodeDecodeError\<close>, which \<open>main\<close> does not catch: the
  summary of the interrupted workflow says \<open>passed\<close> and lists no stage.\<close>

definition undecodable_host :: "unit host" where
  "undecodable_host = \<lparr>h_exec = (\<lambda>command _ w.
       (if command = [''python3'', ''/astra/tools/check_source_cleanliness.py''] then Inl (ValueError ''invalid start byte'') else Inr 0, w)),
     h_write = (\<lambda>_ w. (Inr (), w)), h_utc_now = (\<lambda>_. ''now''), h_environ = [], h_executable = ''python3'', h_repo = ''/astra''\<rparr>"

lemma passed_summary_of_incomplete_run:
  "assurance_main undecodable_host \<lparr>as_quick = True, as_build_dir = ''build'', as_skip_monte_carlo = False, as_skip_pi_package = False\<rparr> () =
     ([write_summary ''now'' [] ''passed'' True], Inl (ValueError ''invalid start byte''))"
  by (simp add: assurance_main_def planned_stages_def initial_workflow_def attempt_stage_def run_stage_def
      undecodable_host_def merged_environment_def handled_def generate_manifest_def manifest_command_def main_exit_def Let_def)

end
