(* ===== verification/Controlled_Mutation.thy ===== *)
theory Controlled_Mutation
  imports Verification_Runner
begin

text \<open>
  \<open>tools/run_controlled_mutation.py\<close>: the tests must detect a planted defect in the CRC check of the
  command decoder. Copying the tree, and keeping the copy with \<open>--keep-workdir\<close>, is I/O; which entries are
  copied, how the source is edited and
  how the verdict is formed are modelled, on child processes as in the verification runner.
\<close>

definition ORIGINAL :: string where
  "ORIGINAL = ''if (actual_crc != expected_crc) {''"

definition MUTATED :: string where
  "MUTATED = ''if (actual_crc != expected_crc && bytes.empty()) {''"

text \<open>\<open>shutil.ignore_patterns\<close> matches the name of an entry in its directory, at every level.\<close>

definition ignored_name :: "string \<Rightarrow> bool" where
  "ignored_name name \<longleftrightarrow> name \<in> set [''.git'', ''build'', ''__pycache__'', ''reports/latest'', ''dist''] \<or>
     startswith name ''build-'' \<or> endswith name ''.pyc''"

definition copied :: "string list \<Rightarrow> bool" where
  "copied path \<longleftrightarrow> list_all (\<lambda>name. \<not> ignored_name name) path"

text \<open>\<open>str.count\<close> of a nonempty text: occurrences that do not overlap, from the left.\<close>

function count_text :: "string \<Rightarrow> string \<Rightarrow> nat" where
  "count_text sub s =
     (if sub = [] then length s + 1
      else case split_once sub s of None \<Rightarrow> 0 | Some (_, rest) \<Rightarrow> 1 + count_text sub rest)"
  by pat_completeness auto
termination
  by (relation "measure (\<lambda>(sub, s). length s)") (auto dest: split_once_SomeD)

declare count_text.simps [simp del]

definition apply_mutation :: "string \<Rightarrow> string result" where
  "apply_mutation content =
     (let count = count_text ORIGINAL content in
      if count \<noteq> 1
      then Inl (RuntimeError (''Expected exactly one CRC guard to mutate, found '' @ str_nat count @ ''; target may have changed.''))
      else Inr (replace_first content ORIGINAL MUTATED))"

text \<open>\<open>main\<close> in a workspace, on the text of the decoder (or the \<open>OSError\<close> that reading it raises):
  the mutated text, if any, the shell after the commands, and the exit status.\<close>

definition configure_command :: "string \<Rightarrow> string list" where
  "configure_command workspace = [''cmake'', ''-S'', workspace @ ''/source'', ''-B'', workspace @ ''/build'',
     ''-DCMAKE_BUILD_TYPE=Debug'', ''-DASTRA_WARNINGS_AS_ERRORS=ON'']"

definition build_command :: "string \<Rightarrow> string list" where
  "build_command workspace = [''cmake'', ''--build'', workspace @ ''/build'', ''--target'', ''astra_command_tests'', ''--parallel'']"

definition test_command :: "string \<Rightarrow> string list" where
  "test_command workspace = [''ctest'', ''--test-dir'', workspace @ ''/build'', ''--tests-regex'', ''^command_packet_tests$'',
     ''--output-on-failure'']"

definition run_child :: "'w exec \<Rightarrow> string list \<Rightarrow> 'w shell \<Rightarrow> int \<times> 'w shell" where
  "run_child exec command s = run_process exec command (say [''+ '' @ join '' '' command] s)"

definition mutation_main :: "'w exec \<Rightarrow> string \<Rightarrow> string result \<Rightarrow> 'w shell \<Rightarrow> string option \<times> 'w shell \<times> int result" where
  "mutation_main exec workspace content s =
     (case rbind content apply_mutation of
        Inl e \<Rightarrow> (None, s, Inl e)
      | Inr mutated \<Rightarrow>
          let (configure, s1) = run_child exec (configure_command workspace) s in
          if configure \<noteq> 0
          then (Some mutated, say [''ERROR: controlled mutation could not be configured.''] s1, Inr configure)
          else let (build, s2) = run_child exec (build_command workspace) s1 in
            if build \<noteq> 0
            then (Some mutated,
              say [''ERROR: controlled mutation did not compile; this is not a valid test-effectiveness result.''] s2, Inr build)
            else let (test, s3) = run_child exec (test_command workspace) s2 in
              if test = 0
              then (Some mutated, say [''MUTATION SURVIVED: command-packet tests accepted a disabled CRC rejection path.''] s3, Inr 1)
              else (Some mutated, say [''MUTATION KILLED: command-packet tests detected the disabled CRC rejection path.''] s3, Inr 0))"

section \<open>What a run shows\<close>

lemma count_text_0_iff: "sub \<noteq> [] \<Longrightarrow> count_text sub s = 0 \<longleftrightarrow> \<not> contains s sub"
  by (subst count_text.simps) (auto simp: contains_def split: option.splits)

lemma count_text_one:
  assumes "sub \<noteq> []"
  shows "count_text sub s = 1 \<longleftrightarrow> (\<exists>a b. split_once sub s = Some (a, b) \<and> \<not> contains b sub)"
  using count_text_0_iff [OF assms] by (subst count_text.simps) (auto simp: assms split: option.splits)

text \<open>The mutated text differs from the original in the one guard.\<close>

lemma apply_mutation_Inr:
  "apply_mutation content = Inr mutated \<longleftrightarrow>
     (\<exists>a b. split_once ORIGINAL content = Some (a, b) \<and> \<not> contains b ORIGINAL \<and> mutated = a @ MUTATED @ b)"
proof -
  have "ORIGINAL \<noteq> []" by (simp add: ORIGINAL_def)
  from count_text_one [OF this, of content] show ?thesis
    by (auto simp: apply_mutation_def Let_def replace_first_def)
qed

lemma mutation_killed_iff:
  "snd (snd (mutation_main exec workspace content s)) = Inr 0 \<longleftrightarrow>
     (\<exists>mutated test. rbind content apply_mutation = Inr mutated \<and> test \<noteq> 0 \<and>
        sh_history (fst (snd (mutation_main exec workspace content s))) =
          sh_history s @ [(configure_command workspace, 0), (build_command workspace, 0), (test_command workspace, test)])"
  by (auto simp: mutation_main_def run_child_def run_process_def say_def Let_def split: sum.splits prod.splits)

text \<open>The evidence of earlier runs is copied although the pattern \<open>reports/latest\<close> names it.\<close>

lemma reports_latest_copied: "copied [''reports'', ''latest'', name] \<longleftrightarrow> \<not> ignored_name name"
  by (simp add: copied_def ignored_name_def startswith_def endswith_def)

end
