(* ===== verification/Py_Text.thy ===== *)
theory Py_Text
  imports Py_Strings
begin

text \<open>
  \<open>str.splitlines\<close>, and the lines of a text written with \<open>"\n".join\<close>.
\<close>

definition line_end :: "char \<Rightarrow> bool" where
  "line_end c \<longleftrightarrow> of_char c \<in> ({10, 11, 12, 13, 28, 29, 30, 133} :: nat set)"

definition skip_newline :: "string \<Rightarrow> string" where
  "skip_newline s = (case s of [] \<Rightarrow> [] | d # ds \<Rightarrow> if d = CHR 10 then ds else s)"

lemma length_skip_newline: "length (skip_newline s) \<le> length s"
  by (simp add: skip_newline_def split: list.splits)

function splitlines_from :: "string \<Rightarrow> string \<Rightarrow> string list" where
  "splitlines_from acc [] = (if acc = [] then [] else [rev acc])"
| "splitlines_from acc (c # cs) =
     (if c = CHR 13 then rev acc # splitlines_from [] (skip_newline cs)
      else if line_end c then rev acc # splitlines_from [] cs
      else splitlines_from (c # acc) cs)"
  by pat_completeness auto
termination
  by (relation "measure (\<lambda>(acc, s). length s)") (auto simp: le_imp_less_Suc length_skip_newline)

definition splitlines :: "string \<Rightarrow> string list" where
  "splitlines s = splitlines_from [] s"

definition one_line :: "string \<Rightarrow> bool" where
  "one_line l \<longleftrightarrow> (\<forall>c\<in>set l. \<not> line_end c)"

lemma line_end_newlines [simp]: "line_end (CHR 10)" "line_end (CHR 13)"
  by (simp_all add: line_end_def)

lemma line_end_is_space: "line_end c \<Longrightarrow> is_space c"
  by (auto simp: line_end_def is_space_def)

lemma one_line_append [simp]: "one_line (a @ b) \<longleftrightarrow> one_line a \<and> one_line b"
  "one_line []" "one_line (c # s) \<longleftrightarrow> \<not> line_end c \<and> one_line s"
  by (auto simp: one_line_def)

lemma one_line_str_nat: "one_line (str_nat n)"
  using str_nat_digit_vals [of n] digit_not_space line_end_is_space unfolding one_line_def by blast

lemma one_line_str_int: "one_line (str_int i)"
  by (simp add: str_int_def line_end_def one_line_str_nat)

lemma splitlines_from_append:
  "one_line l \<Longrightarrow> splitlines_from acc (l @ CHR 10 # rest) = (rev acc @ l) # splitlines_from [] rest"
proof (induction l arbitrary: acc)
  case (Cons c l)
  then have "c \<noteq> CHR 13" "\<not> line_end c" "one_line l" by (auto simp: one_line_def)
  with Cons.IH [of "c # acc"] show ?case by simp
qed simp

text \<open>The text of a list of lines, each ended by a newline.\<close>

definition unlines :: "string list \<Rightarrow> string" where
  "unlines ls = concat (map (\<lambda>l. l @ [CHR 10]) ls)"

lemma splitlines_unlines: "\<forall>l\<in>set ls. one_line l \<Longrightarrow> splitlines (unlines ls) = ls"
  unfolding splitlines_def unlines_def
  by (induction ls) (simp_all add: splitlines_from_append)

section \<open>Searching a text line by line\<close>

lemma contains_separated:
  assumes "c \<notin> set p" "p \<noteq> []"
  shows "contains (a @ c # b) p \<longleftrightarrow> contains a p \<or> contains b p"
proof
  assume "contains (a @ c # b) p"
  then obtain u v where "a @ c # b = u @ p @ v" by (auto simp: contains_iff)
  then consider t where "a = u @ t" "t @ c # b = p @ v" | t where "c # b = t @ p @ v"
    by (auto simp: append_eq_append_conv2)
  then show "contains a p \<or> contains b p"
  proof cases
    case 1
    with assms obtain w where "t = p @ w" by (auto simp: append_eq_append_conv2 Cons_eq_append_conv)
    with 1 show ?thesis by (auto simp: contains_iff)
  next
    case 2
    with assms show ?thesis by (cases t) (auto simp: contains_iff Cons_eq_append_conv)
  qed
next
  assume "contains a p \<or> contains b p"
  then obtain u v where "a = u @ p @ v \<or> b = u @ p @ v" by (auto simp: contains_iff)
  then have "a @ c # b = u @ p @ (v @ c # b) \<or> a @ c # b = (a @ c # u) @ p @ v" by auto
  then show "contains (a @ c # b) p" unfolding contains_iff by blast
qed

lemma contains_join:
  assumes "c \<notin> set p" "p \<noteq> []"
  shows "contains (join [c] ls) p \<longleftrightarrow> (\<exists>l\<in>set ls. contains l p)"
proof -
  have "\<not> contains [] p" using assms(2) by (simp add: contains_def)
  then show ?thesis
    by (induction "[c]" ls rule: join.induct) (auto simp: contains_separated [OF assms])
qed

lemma contains_rstrip: "contains (rstrip s) p \<Longrightarrow> contains s p"
proof -
  assume "contains (rstrip s) p"
  then obtain a b where "rstrip s = a @ p @ b" by (auto simp: contains_iff)
  moreover have "s = rstrip s @ rev (takeWhile is_space (rev s))"
    by (simp add: rstrip_def flip: rev_append)
  ultimately show ?thesis by (metis append.assoc contains_iff)
qed

end
