(* ===== verification/Csv.thy ===== *)
theory Csv
  imports Py_Text
begin

text \<open>
  The part of Python's \<open>csv\<close> module that \<open>tools/check_requirements.py\<close> uses: \<open>csv.DictReader\<close> with
  the default dialect, as the state machine of the library's reader over the characters of the
  file.
\<close>

section \<open>The reader\<close>

datatype csv_mode = StartRecord | EatNewline | StartField | InField | InQuotedField | QuoteInQuotedField

record csv_state =
  cs_mode :: csv_mode
  cs_field :: string
  cs_record :: "string list"
  cs_rows :: "string list list"

definition csv_initial :: csv_state where
  "csv_initial = \<lparr>cs_mode = StartRecord, cs_field = [], cs_record = [], cs_rows = []\<rparr>"

definition save_field :: "csv_state \<Rightarrow> csv_state" where
  "save_field s = s\<lparr>cs_record := cs_record s @ [cs_field s], cs_field := []\<rparr>"

text \<open>A line end: a carriage return may be followed by a newline of the same line end.\<close>

definition end_record :: "char \<Rightarrow> csv_state \<Rightarrow> csv_state" where
  "end_record c s = s\<lparr>cs_rows := cs_rows s @ [cs_record s], cs_record := [],
     cs_mode := (if c = CHR 13 then EatNewline else StartRecord)\<rparr>"

definition add_char :: "char \<Rightarrow> csv_state \<Rightarrow> csv_state" where
  "add_char c s = s\<lparr>cs_field := cs_field s @ [c]\<rparr>"

definition newline_char :: "char \<Rightarrow> bool" where
  "newline_char c \<longleftrightarrow> c = CHR 10 \<or> c = CHR 13"

definition start_field :: "char \<Rightarrow> csv_state \<Rightarrow> csv_state" where
  "start_field c s =
     (if newline_char c then end_record c (save_field s)
      else if c = CHR 34 then s\<lparr>cs_mode := InQuotedField\<rparr>
      else if c = CHR '','' then (save_field s)\<lparr>cs_mode := StartField\<rparr>
      else (add_char c s)\<lparr>cs_mode := InField\<rparr>)"

definition start_record :: "char \<Rightarrow> csv_state \<Rightarrow> csv_state" where
  "start_record c s = (if newline_char c then end_record c s else start_field c s)"

definition csv_step :: "csv_state \<Rightarrow> char \<Rightarrow> csv_state" where
  "csv_step s c =
     (case cs_mode s of
        StartRecord \<Rightarrow> start_record c s
      | EatNewline \<Rightarrow> if c = CHR 10 then s\<lparr>cs_mode := StartRecord\<rparr> else start_record c s
      | StartField \<Rightarrow> start_field c s
      | InField \<Rightarrow>
          if newline_char c then end_record c (save_field s)
          else if c = CHR '','' then (save_field s)\<lparr>cs_mode := StartField\<rparr>
          else add_char c s
      | InQuotedField \<Rightarrow> if c = CHR 34 then s\<lparr>cs_mode := QuoteInQuotedField\<rparr> else add_char c s
      | QuoteInQuotedField \<Rightarrow>
          if c = CHR 34 then (add_char c s)\<lparr>cs_mode := InQuotedField\<rparr>
          else if c = CHR '','' then (save_field s)\<lparr>cs_mode := StartField\<rparr>
          else if newline_char c then end_record c (save_field s)
          else (add_char c s)\<lparr>cs_mode := InField\<rparr>)"

definition csv_rows :: "string \<Rightarrow> string list list" where
  "csv_rows text =
     (let s = foldl csv_step csv_initial text
      in if cs_mode s \<in> {StartRecord, EatNewline} then cs_rows s
         else cs_rows s @ [cs_record s @ [cs_field s]])"

text \<open>\<open>DictReader\<close>: the first row names the fields, blank rows are skipped, missing values are
  \<open>None\<close> and surplus values are dropped from view.\<close>

type_synonym csv_row = "(string \<times> string option) list"

definition dict_reader :: "string \<Rightarrow> string list \<times> csv_row list" where
  "dict_reader text =
     (case csv_rows text of
        [] \<Rightarrow> ([], [])
      | fieldnames # rows \<Rightarrow>
          (fieldnames, map (\<lambda>row. zip fieldnames (map Some row @ replicate (length fieldnames) None))
             (filter (\<lambda>row. row \<noteq> []) rows)))"

text \<open>\<open>row.get(key) or ""\<close>; of two fields with one name the later counts.\<close>

definition row_get :: "csv_row \<Rightarrow> string \<Rightarrow> string" where
  "row_get row key = (case map_of (rev row) key of Some (Some v) \<Rightarrow> v | _ \<Rightarrow> [])"

section \<open>Reading back quoted rows\<close>

definition quote_field :: "string \<Rightarrow> string" where
  "quote_field f = CHR 34 # concat (map (\<lambda>c. if c = CHR 34 then [c, c] else [c]) f) @ [CHR 34]"

definition quote_row :: "string list \<Rightarrow> string" where
  "quote_row r = join '','' (map quote_field r) @ [CHR 10]"

lemma quoted_body:
  "cs_mode s = InQuotedField \<Longrightarrow>
     foldl csv_step s (concat (map (\<lambda>c. if c = CHR 34 then [c, c] else [c]) f)) = s\<lparr>cs_field := cs_field s @ f\<rparr>"
proof (induction f arbitrary: s)
  case (Cons c f)
  then show ?case by (auto simp: csv_step_def add_char_def)
qed simp

lemma quoted_field:
  "cs_mode s \<in> {StartRecord, StartField, EatNewline} \<Longrightarrow> cs_field s = [] \<Longrightarrow>
     foldl csv_step s (quote_field f) = s\<lparr>cs_field := f, cs_mode := QuoteInQuotedField\<rparr>"
  by (auto simp: quote_field_def quoted_body csv_step_def start_record_def start_field_def newline_char_def)

lemma quoted_row:
  "r \<noteq> [] \<Longrightarrow> cs_mode s \<in> {StartRecord, StartField} \<Longrightarrow> cs_field s = [] \<Longrightarrow>
     foldl csv_step s (quote_row r) =
       s\<lparr>cs_mode := StartRecord, cs_record := [], cs_rows := cs_rows s @ [cs_record s @ r]\<rparr>"
proof (induction r arbitrary: s)
  case (Cons f r)
  have q: "foldl csv_step s (quote_field f) = s\<lparr>cs_field := f, cs_mode := QuoteInQuotedField\<rparr>"
    using Cons.prems by (intro quoted_field) auto
  show ?case
  proof (cases "r = []")
    case True
    then show ?thesis using Cons.prems
      by (simp add: quote_row_def q csv_step_def [of _ "CHR 10"] save_field_def end_record_def newline_char_def)
  next
    case False
    then obtain g gs where "r = g # gs" by (cases r) auto
    then have "quote_row (f # r) = quote_field f @ CHR '','' # quote_row r" by (simp add: quote_row_def)
    moreover have "csv_step (s\<lparr>cs_field := f, cs_mode := QuoteInQuotedField\<rparr>) (CHR '','') =
        s\<lparr>cs_mode := StartField, cs_record := cs_record s @ [f], cs_field := []\<rparr>"
      by (simp add: csv_step_def save_field_def)
    ultimately show ?thesis
      using Cons.IH [OF False, of "s\<lparr>cs_mode := StartField, cs_record := cs_record s @ [f], cs_field := []\<rparr>"] Cons.prems(3)
      by (simp add: q)
  qed
qed simp

text \<open>The reader inverts the writing of fully quoted rows, whatever the fields hold.\<close>

lemma csv_rows_quoted:
  assumes "list_all (\<lambda>r. r \<noteq> []) rows"
  shows "csv_rows (concat (map quote_row rows)) = rows"
proof -
  have "foldl csv_step s (concat (map quote_row rows)) =
      s\<lparr>cs_mode := StartRecord, cs_record := [], cs_rows := cs_rows s @ rows\<rparr>"
    if "cs_mode s = StartRecord" "cs_field s = []" "cs_record s = []" for s
    using assms that by (induction rows arbitrary: s) (simp_all add: quoted_row)
  from this [of csv_initial] show ?thesis by (simp add: csv_rows_def csv_initial_def)
qed

end
