(* ===== verification/Requirements.thy ===== *)
theory Requirements
  imports Csv Campaigns
begin

text \<open>
  \<open>tools/check_requirements.py\<close>: requirement traceability. The documents are read as text; the
  file system, the YAML parser and SHA-256 are parameters. Paths are absolute.
\<close>

section \<open>Files\<close>

record files =
  fl_text :: "string \<Rightarrow> string option"
  fl_yaml :: "string \<Rightarrow> (string \<times> json result) list option"
  fl_repo :: string

text \<open>\<open>fl_text\<close> gives the text of an existing file, \<open>fl_yaml\<close> the YAML files of an existing
  directory, each with what \<open>yaml.safe_load\<close> makes of it.\<close>

section \<open>Data\<close>

record Requirement =
  rq_req_id :: string
  rq_text :: string
  rq_method :: string
  rq_evidence :: string
  rq_status :: string

record MatrixEntry =
  me_req_id :: string
  me_component :: string
  me_verification_case :: string
  me_evidence :: string
  me_status :: string
  me_notes :: string

record ScenarioEvidence =
  sv_name :: string
  sv_path :: string
  sv_requirements :: "string list"
  sv_report_path :: string
  sv_passed :: bool

type_synonym requirements = "(string, Requirement) dict"
type_synonym matrix = "(string, MatrixEntry) dict"

text \<open>\<open>^(FSW|VER)-REQ-\d{3}$\<close> on a stripped text.\<close>

definition is_digit :: "char \<Rightarrow> bool" where
  "is_digit c \<longleftrightarrow> CHR ''0'' \<le> c \<and> c \<le> CHR ''9''"

definition is_requirement_id :: "string \<Rightarrow> bool" where
  "is_requirement_id s \<longleftrightarrow>
     take 8 s \<in> {''FSW-REQ-'', ''VER-REQ-''} \<and> length s = 11 \<and> list_all is_digit (drop 8 s)"

section \<open>Parsing the documents\<close>

definition table_columns :: "string \<Rightarrow> string list" where
  "table_columns line = map strip (split_char (CHR ''|'') (strip_char (CHR ''|'') (strip line)))"

fun parse_rows :: "string \<Rightarrow> (nat \<times> string) list \<Rightarrow> requirements \<Rightarrow> requirements result" where
  "parse_rows path [] requirements = Inr requirements"
| "parse_rows path ((line_number, line) # lines) requirements =
     (if \<not> startswith line ''|'' then parse_rows path lines requirements
      else case table_columns line of
        [req_id, text, method, evidence, status] \<Rightarrow>
          if \<not> is_requirement_id req_id then parse_rows path lines requirements
          else if req_id \<in> set (dict_keys requirements)
          then Inl (ValueError (path @ '':'' @ str_nat line_number @ '': duplicate requirement ID '' @ req_id))
          else if text = [] \<or> method = [] \<or> status = []
          then Inl (ValueError (path @ '':'' @ str_nat line_number @ '': incomplete requirement row '' @ req_id))
          else parse_rows path lines (dict_set req_id \<lparr>rq_req_id = req_id, rq_text = text, rq_method = method,
                 rq_evidence = evidence, rq_status = status\<rparr> requirements)
      | _ \<Rightarrow> parse_rows path lines requirements)"

definition parse_requirements_doc :: "files \<Rightarrow> string \<Rightarrow> requirements result" where
  "parse_requirements_doc fl path =
     (case fl_text fl path of
        None \<Rightarrow> Inl (ValueError (''requirements document does not exist: '' @ path))
      | Some text \<Rightarrow>
          rbind (parse_rows path (List.enumerate 1 (splitlines text)) []) (\<lambda>requirements.
            if requirements = [] then Inl (ValueError (''no requirements were parsed from '' @ path))
            else Inr requirements))"

definition required_columns :: "string list" where
  "required_columns = [''requirement_id'', ''component'', ''verification_case'', ''evidence'', ''status'', ''notes'']"

text \<open>\<open>quoted\<close> is \<open>{req_id!r}\<close> in an error message.\<close>

definition quoted :: "string \<Rightarrow> string" where
  "quoted s = [CHR 39] @ s @ [CHR 39]"

fun matrix_rows :: "string \<Rightarrow> (nat \<times> csv_row) list \<Rightarrow> matrix \<Rightarrow> matrix result" where
  "matrix_rows path [] entries = Inr entries"
| "matrix_rows path ((line_number, row) # rows) entries =
     (let here = path @ '':'' @ str_nat line_number @ '': '';
          get = \<lambda>key. strip (row_get row key);
          req_id = get ''requirement_id'';
          entry = \<lparr>me_req_id = req_id, me_component = get ''component'', me_verification_case = get ''verification_case'',
            me_evidence = get ''evidence'', me_status = get ''status'', me_notes = get ''notes''\<rparr>
      in if \<not> is_requirement_id req_id then Inl (ValueError (here @ ''invalid requirement ID '' @ quoted req_id))
         else if req_id \<in> set (dict_keys entries) then Inl (ValueError (here @ ''duplicate matrix entry '' @ req_id))
         else if me_component entry = [] then Inl (ValueError (here @ req_id @ '' has no component allocation''))
         else if me_status entry \<noteq> ''Planned'' \<and> me_verification_case entry = []
         then Inl (ValueError (here @ ''non-planned '' @ req_id @ '' has no verification case''))
         else matrix_rows path rows (dict_set req_id entry entries))"

definition parse_verification_matrix :: "files \<Rightarrow> string \<Rightarrow> matrix result" where
  "parse_verification_matrix fl path =
     (case fl_text fl path of
        None \<Rightarrow> Inl (ValueError (''verification matrix does not exist: '' @ path))
      | Some text \<Rightarrow>
          let (fieldnames, rows) = dict_reader text;
              missing_columns = sorted_set (filter (\<lambda>c. c \<notin> set fieldnames) required_columns)
          in if missing_columns \<noteq> []
             then Inl (ValueError (path @ '': missing required columns: '' @ join '', '' missing_columns))
             else matrix_rows path (List.enumerate 2 rows) [])"

section \<open>Registered tests\<close>

text \<open>\<open>add_test\s*\(\s*NAME\s+([A-Za-z0-9_.+-]+)\<close> at the start of a text: the name and the rest.\<close>

definition test_name_char :: "char \<Rightarrow> bool" where
  "test_name_char c \<longleftrightarrow> CHR ''0'' \<le> c \<and> c \<le> CHR ''9'' \<or> CHR ''A'' \<le> c \<and> c \<le> CHR ''Z'' \<or>
     CHR ''a'' \<le> c \<and> c \<le> CHR ''z'' \<or> c \<in> set ''_.+-''"

definition match_add_test :: "string \<Rightarrow> (string \<times> string) option" where
  "match_add_test s =
     (if \<not> startswith s ''add_test'' then None
      else let s1 = lstrip (drop 8 s) in
        if \<not> startswith s1 ''('' then None
        else let s2 = lstrip (drop 1 s1) in
          if \<not> startswith s2 ''NAME'' then None
          else let s3 = drop 4 s2; s4 = lstrip s3; name = takeWhile test_name_char s4 in
            if s4 = s3 \<or> name = [] then None else Some (name, drop (length name) s4))"

lemma match_add_test_shorter:
  assumes "match_add_test s = Some (name, rest)"
  shows "length rest < length s"
proof -
  have strip: "length (lstrip t) \<le> length t" for t
    unfolding lstrip_def by (rule length_dropWhile_le)
  let ?s1 = "lstrip (drop 8 s)" let ?s2 = "lstrip (drop 1 ?s1)" let ?s4 = "lstrip (drop 4 ?s2)"
  have "s \<noteq> []" using assms by (auto simp: match_add_test_def startswith_def)
  moreover have "rest = drop (length name) ?s4"
    using assms unfolding match_add_test_def Let_def by (simp only: option.inject prod.inject option.distinct split: if_split_asm) metis
  ultimately show ?thesis
    using strip [of "drop 8 s"] strip [of "drop 1 ?s1"] strip [of "drop 4 ?s2"] by (cases s) auto
qed

text \<open>\<open>findall\<close>: scan from the left, restarting after each match.\<close>

function find_tests :: "string \<Rightarrow> string list" where
  "find_tests [] = []"
| "find_tests (c # s) =
     (case match_add_test (c # s) of Some (name, rest) \<Rightarrow> name # find_tests rest | None \<Rightarrow> find_tests s)"
  by pat_completeness auto
termination
  by (relation "measure length") (auto dest: match_add_test_shorter)

definition parse_registered_ctests :: "files \<Rightarrow> string \<Rightarrow> string list result" where
  "parse_registered_ctests fl path =
     (case fl_text fl path of
        None \<Rightarrow> Inl (ValueError (''CMake file does not exist: '' @ path))
      | Some text \<Rightarrow> Inr (remdups (find_tests text)))"

definition matrix_verification_tokens :: "matrix \<Rightarrow> string list" where
  "matrix_verification_tokens matrix =
     remdups (filter (\<lambda>t. t \<noteq> [])
       (concat (map (\<lambda>(_, entry). map strip (split_char (CHR '';'') (me_verification_case entry))) matrix)))"

section \<open>Evidence\<close>

definition scenario_report_path :: "string \<Rightarrow> string \<Rightarrow> string" where
  "scenario_report_path repo scenario_name = repo @ ''/reports/scenario_'' @ scenario_name @ ''_output.txt''"

definition report_passed :: "files \<Rightarrow> string \<Rightarrow> bool" where
  "report_passed fl report_path =
     (case fl_text fl report_path of
        None \<Rightarrow> False
      | Some text \<Rightarrow> contains text ''Result: PASS'' \<or> contains text ''Scenario passed.'')"

text \<open>\<open>re.findall(r"`(reports/[^`]+)`", evidence)\<close>; \<open>after_tick\<close> reads what follows a backquote.\<close>

definition after_tick :: "string \<Rightarrow> (string \<times> string) option" where
  "after_tick s =
     (let path = takeWhile (\<lambda>c. c \<noteq> CHR ''`'') s; rest = drop (length path) s in
      if startswith path ''reports/'' \<and> length path > 8 \<and> rest \<noteq> [] then Some (path, tl rest) else None)"

function find_reports :: "string \<Rightarrow> string list" where
  "find_reports [] = []"
| "find_reports (c # s) =
     (if c = CHR ''`'' then
        (case after_tick s of Some (path, rest) \<Rightarrow> path # find_reports rest | None \<Rightarrow> find_reports s)
      else find_reports s)"
  by pat_completeness auto
termination
  by (relation "measure length") (auto simp: after_tick_def Let_def split: if_splits)

definition evidence_report_passed :: "files \<Rightarrow> string \<Rightarrow> bool" where
  "evidence_report_passed fl evidence =
     list_ex (\<lambda>report_path_text.
       case fl_text fl (fl_repo fl @ ''/'' @ report_path_text) of
         None \<Rightarrow> False
       | Some text \<Rightarrow> contains text ''Result: PASS'' \<or> contains text ''100% tests passed'' \<or>
           contains text (''overall_status'' @ [CHR 34] @ '': '' @ [CHR 34] @ ''passed''))
     (find_reports evidence)"

text \<open>\<open>str(...)\<close> of a loaded value; \<open>other\<close> stands for the text of floats and containers.\<close>

definition py_str :: "(json \<Rightarrow> string) \<Rightarrow> json \<Rightarrow> string" where
  "py_str other v = (case v of JStr s \<Rightarrow> s | JInt i \<Rightarrow> str_int i | JNull \<Rightarrow> ''None''
     | JBool b \<Rightarrow> (if b then ''True'' else ''False'') | _ \<Rightarrow> other v)"

text \<open>\<open>Path.stem\<close> of a YAML file: the last part of the path without its extension.\<close>

definition yaml_stem :: "string \<Rightarrow> string" where
  "yaml_stem path = (let name = last (split_char (CHR ''/'') path) in if name = ''.yaml'' then name else take (length name - 5) name)"

definition load_scenario :: "files \<Rightarrow> (json \<Rightarrow> string) \<Rightarrow> string \<times> json result \<Rightarrow> ScenarioEvidence result" where
  "load_scenario fl other = (\<lambda>(scenario_path, loaded).
     rbind loaded (\<lambda>data.
     case data of
       JObj d \<Rightarrow>
         let name = (case dict_get d ''name'' of None \<Rightarrow> yaml_stem scenario_path | Some v \<Rightarrow> py_str other v);
             report_path = scenario_report_path (fl_repo fl) name
         in (case (case dict_get d ''requirements'' of None \<Rightarrow> JArr [] | Some v \<Rightarrow> v) of
               JArr rs \<Rightarrow> Inr \<lparr>sv_name = name, sv_path = scenario_path, sv_requirements = map (py_str other) rs,
                 sv_report_path = report_path, sv_passed = report_passed fl report_path\<rparr>
             | _ \<Rightarrow> Inl (ValueError (scenario_path @ '': requirements must be a list'')))
     | _ \<Rightarrow> Inl (ValueError (scenario_path @ '': scenario root must be a mapping''))))"

definition load_scenarios :: "files \<Rightarrow> (json \<Rightarrow> string) \<Rightarrow> string \<Rightarrow> ScenarioEvidence list result" where
  "load_scenarios fl other path =
     (case fl_yaml fl path of
        None \<Rightarrow> Inl (ValueError (''scenario directory does not exist: '' @ path))
      | Some entries \<Rightarrow> rmap (load_scenario fl other) (sort_key (\<lambda>e. split_char (CHR ''/'') (fst e)) entries))"

section \<open>Consistency\<close>

definition set_minus :: "string list \<Rightarrow> string list \<Rightarrow> string list" where
  "set_minus xs ys = sorted_set (filter (\<lambda>x. x \<notin> set ys) xs)"

definition set_inter :: "string list \<Rightarrow> string list \<Rightarrow> string list" where
  "set_inter xs ys = sorted_set (filter (\<lambda>x. x \<in> set ys) xs)"

definition matrix_consistency_problems :: "requirements \<Rightarrow> matrix \<Rightarrow> string list" where
  "matrix_consistency_problems requirements matrix =
     map (\<lambda>req_id. ''Requirement missing from matrix: '' @ req_id) (set_minus (dict_keys requirements) (dict_keys matrix)) @
     map (\<lambda>req_id. ''Matrix references unknown requirement: '' @ req_id) (set_minus (dict_keys matrix) (dict_keys requirements)) @
     concat (map (\<lambda>req_id.
       case (dict_get requirements req_id, dict_get matrix req_id) of
         (Some requirement, Some entry) \<Rightarrow>
           if rq_status requirement \<noteq> me_status entry
           then [''Status mismatch for '' @ req_id @ '': requirements='' @ rq_status requirement @ '', matrix='' @ me_status entry]
           else []
       | _ \<Rightarrow> []) (set_inter (dict_keys requirements) (dict_keys matrix)))"

definition reverse_test_allocation_problems :: "string list \<Rightarrow> matrix \<Rightarrow> string list" where
  "reverse_test_allocation_problems registered_tests matrix =
     map (\<lambda>test_name. ''Registered CTest has no requirement allocation: '' @ test_name)
       (set_minus registered_tests (matrix_verification_tokens matrix))"

end
