(* ===== verification/Baseline.thy ===== *)
theory Baseline
  imports Requirements
begin

text \<open>
  \<open>tools/traceability_baseline.py\<close> and \<open>tools/update_traceability_baseline.py\<close>: the reviewed
  fingerprints of requirements and interfaces. SHA-256 is a parameter, a function on texts.
\<close>

section \<open>Fingerprints\<close>

definition json_hex :: "nat \<Rightarrow> char" where
  "json_hex d = (if d < 10 then char_of (48 + d) else char_of (87 + d))"

text \<open>A JSON string as \<open>json.dumps\<close> writes it, with everything but printable ASCII escaped.\<close>

definition json_char :: "char \<Rightarrow> string" where
  "json_char c =
     (if c = CHR 34 then [CHR 92, CHR 34]
      else if c = CHR 92 then [CHR 92, CHR 92]
      else if c = CHR 10 then [CHR 92, CHR ''n'']
      else if c = CHR 13 then [CHR 92, CHR ''r'']
      else if c = CHR 9 then [CHR 92, CHR ''t'']
      else if c = CHR 12 then [CHR 92, CHR ''f'']
      else if c = CHR 8 then [CHR 92, CHR ''b'']
      else if CHR 32 \<le> c \<and> c \<le> CHR 126 then [c]
      else [CHR 92, CHR ''u'', CHR ''0'', CHR ''0'', json_hex (of_char c div 16), json_hex (of_char c mod 16)])"

definition json_string :: "string \<Rightarrow> string" where
  "json_string s = CHR 34 # concat (map json_char s) @ [CHR 34]"

text \<open>\<open>json.dumps(payload, sort_keys=True, separators=(",", ":"))\<close> for a payload of strings.\<close>

definition json_strings :: "(string \<times> string) list \<Rightarrow> string" where
  "json_strings kvs = ''{'' @ join '','' (map (\<lambda>(k, v). json_string k @ '':'' @ json_string v) kvs) @ ''}''"

definition requirement_fingerprint :: "(string \<Rightarrow> string) \<Rightarrow> Requirement \<Rightarrow> string" where
  "requirement_fingerprint sha256 r = sha256 (json_strings
     [(''id'', rq_req_id r), (''method'', rq_method r), (''status'', rq_status r), (''text'', rq_text r)])"

definition CONTROLLED_INTERFACE_PATHS :: "string list" where
  "CONTROLLED_INTERFACE_PATHS =
     [''config/protocol_manifest.json'', ''fsw/include/astra/command_packet.hpp'',
      ''fsw/include/astra/command_processor.hpp'', ''fsw/include/astra/mode_manager.hpp'',
      ''fsw/include/astra/telemetry_packet.hpp'', ''tools/send_command.py'', ''tools/telemetry_receiver.py'']"

definition TRACEABILITY_SCHEMA :: string where
  "TRACEABILITY_SCHEMA = ''astra-os.traceability-baseline.v1''"

definition repo_text :: "files \<Rightarrow> string \<Rightarrow> string option" where
  "repo_text fl relative_path = fl_text fl (fl_repo fl @ ''/'' @ relative_path)"

section \<open>The payload\<close>

definition interface_hash :: "(string \<Rightarrow> string) \<Rightarrow> files \<Rightarrow> string \<Rightarrow> (string \<times> json) result" where
  "interface_hash sha256 fl relative_path =
     (case repo_text fl relative_path of
        None \<Rightarrow> Inl (ValueError (''controlled interface does not exist: '' @ relative_path))
      | Some text \<Rightarrow> Inr (relative_path, JStr (sha256 text)))"

definition build_traceability_payload :: "(string \<Rightarrow> string) \<Rightarrow> files \<Rightarrow> requirements \<Rightarrow> json_object result" where
  "build_traceability_payload sha256 fl requirements =
     rbind (rmap (interface_hash sha256 fl) CONTROLLED_INTERFACE_PATHS) (\<lambda>interfaces.
     rbind (rmap (\<lambda>req_id. rbind (dict_index requirements req_id)
              (\<lambda>r. Inr (req_id, JStr (requirement_fingerprint sha256 r)))) (sorted_set (dict_keys requirements)))
       (\<lambda>fingerprints.
       Inr [(''schema'', JStr TRACEABILITY_SCHEMA), (''requirements'', JObj fingerprints),
         (''controlled_interfaces'', JObj interfaces),
         (''review_note'', JStr (''Hashes are updated only after requirement and interface changes are reviewed. '' @
            ''A mismatch is treated as pending impact review.''))]))"

text \<open>\<open>read_traceability_payload\<close>: \<open>loaded\<close> is the parsed file, or the text of the \<open>OSError\<close> or
  \<open>JSONDecodeError\<close>. The result is the two objects that its caller uses.\<close>

definition read_traceability_payload :: "string \<Rightarrow> string + json \<Rightarrow> (json_object \<times> json_object) result" where
  "read_traceability_payload path loaded =
     (case loaded of
        Inl error \<Rightarrow> Inl (ValueError (''unable to read traceability baseline '' @ path @ '': '' @ error))
      | Inr (JObj payload) \<Rightarrow>
          if \<not> eq_str (dict_get payload ''schema'') TRACEABILITY_SCHEMA
          then Inl (ValueError (''unexpected traceability baseline schema in '' @ path))
          else (case dict_get payload ''requirements'' of
                  Some (JObj rs) \<Rightarrow>
                    (case dict_get payload ''controlled_interfaces'' of
                       Some (JObj ifs) \<Rightarrow> Inr (rs, ifs)
                     | _ \<Rightarrow> Inl (ValueError (''traceability baseline controlled_interfaces must be an object: '' @ path)))
                | _ \<Rightarrow> Inl (ValueError (''traceability baseline requirements must be an object: '' @ path)))
      | Inr _ \<Rightarrow> Inl (AttributeError ''object has no attribute get''))"

text \<open>\<open>main\<close> of \<open>update_traceability_baseline.py\<close>: the payload written, if any, and the exit status.\<close>

definition update_main ::
  "(string \<Rightarrow> string) \<Rightarrow> files \<Rightarrow> string \<Rightarrow> string \<Rightarrow> (string \<times> json_object) option \<times> int result" where
  "update_main sha256 fl requirements_arg output_arg =
     (let output_path = path_under (fl_repo fl) output_arg in
      case rbind (parse_requirements_doc fl (path_under (fl_repo fl) requirements_arg))
             (build_traceability_payload sha256 fl) of
        Inl (OSError _) \<Rightarrow> (None, Inr 1)
      | Inl (ValueError _) \<Rightarrow> (None, Inr 1)
      | Inl e \<Rightarrow> (None, Inl e)
      | Inr payload \<Rightarrow> (Some (output_path, payload), rbind (relative_to output_path (fl_repo fl)) (\<lambda>_. Inr 0)))"

section \<open>Comparison with the baseline\<close>

text \<open>\<open>reviewed_baseline_problems\<close>: \<open>baseline\<close> is the baseline file, if it exists, as loaded.\<close>

definition changed_requirements ::
  "(string \<Rightarrow> string) \<Rightarrow> (json \<Rightarrow> string) \<Rightarrow> requirements \<Rightarrow> json_object \<Rightarrow> string list" where
  "changed_requirements sha256 other requirements baseline_requirements =
     concat (map (\<lambda>req_id.
       case (dict_get requirements req_id, dict_get baseline_requirements req_id) of
         (Some r, Some expected) \<Rightarrow>
           if requirement_fingerprint sha256 r \<noteq> py_str other expected
           then [''Requirement changed since review baseline: '' @ req_id] else []
       | _ \<Rightarrow> []) (set_inter (dict_keys requirements) (dict_keys baseline_requirements)))"

definition changed_interfaces ::
  "(string \<Rightarrow> string) \<Rightarrow> (json \<Rightarrow> string) \<Rightarrow> files \<Rightarrow> json_object \<Rightarrow> string list" where
  "changed_interfaces sha256 other fl baseline_interfaces =
     concat (map (\<lambda>relative_path.
       case (repo_text fl relative_path, dict_get baseline_interfaces relative_path) of
         (None, _) \<Rightarrow> [''Controlled interface is missing: '' @ relative_path]
       | (Some text, Some expected) \<Rightarrow>
           if sha256 text \<noteq> py_str other expected
           then [''Controlled interface changed since review baseline: '' @ relative_path] else []
       | (Some _, None) \<Rightarrow> []) (set_inter CONTROLLED_INTERFACE_PATHS (dict_keys baseline_interfaces)))"

definition reviewed_baseline_problems ::
  "(string \<Rightarrow> string) \<Rightarrow> (json \<Rightarrow> string) \<Rightarrow> files \<Rightarrow> requirements \<Rightarrow> string \<Rightarrow> (string + json) option \<Rightarrow> string list result" where
  "reviewed_baseline_problems sha256 other fl requirements path baseline =
     (case baseline of
        None \<Rightarrow> Inr [''Traceability baseline is missing; run '' @
                  ''python3 tools/update_traceability_baseline.py after review'']
      | Some loaded \<Rightarrow>
          rbind (read_traceability_payload path loaded) (\<lambda>(rs, ifs).
            Inr (map (\<lambda>x. ''Requirement added since review baseline: '' @ x) (set_minus (dict_keys requirements) (dict_keys rs)) @
                 map (\<lambda>x. ''Requirement removed since review baseline: '' @ x) (set_minus (dict_keys rs) (dict_keys requirements)) @
                 changed_requirements sha256 other requirements rs @
                 map (\<lambda>x. ''Controlled interface missing from review baseline: '' @ x)
                   (set_minus CONTROLLED_INTERFACE_PATHS (dict_keys ifs)) @
                 map (\<lambda>x. ''Unexpected controlled interface in review baseline: '' @ x)
                   (set_minus (dict_keys ifs) CONTROLLED_INTERFACE_PATHS) @
                 changed_interfaces sha256 other fl ifs)))"

section \<open>Different requirements have different fingerprint texts\<close>

definition unhex :: "char \<Rightarrow> nat" where
  "unhex h = (let n = of_char h in if n < 58 then n - 48 else n - 87)"

lemma unhex_json_hex: "d < 16 \<Longrightarrow> unhex (json_hex d) = d"
  by (simp add: unhex_def json_hex_def Let_def)

text \<open>The character at the head of an escaped text, and the rest.\<close>

definition json_head :: "string \<Rightarrow> char \<times> string" where
  "json_head s =
     (if hd s \<noteq> CHR 92 then (hd s, tl s)
      else let e = s ! 1; r = drop 2 s in
        if e = CHR ''n'' then (CHR 10, r) else if e = CHR ''r'' then (CHR 13, r)
        else if e = CHR ''t'' then (CHR 9, r) else if e = CHR ''f'' then (CHR 12, r)
        else if e = CHR ''b'' then (CHR 8, r)
        else if e = CHR ''u'' then (char_of (16 * unhex (s ! 4) + unhex (s ! 5)), drop 6 s)
        else (e, r))"

lemma json_head_char: "json_head (json_char c @ x) = (c, x)"
proof -
  have "of_char c div 16 < (16 :: nat)" using nat_of_char_less_256 [of c] by linarith
  then have "unhex (json_hex (of_char c div 16)) = of_char c div 16" "unhex (json_hex (of_char c mod 16)) = of_char c mod 16"
    by (simp_all add: unhex_json_hex)
  then show ?thesis by (simp add: json_char_def json_head_def)
qed

lemma json_char_start: "\<exists>h t. json_char c = h # t \<and> h \<noteq> CHR 34"
  by (simp add: json_char_def)

lemma json_body_inject:
  "concat (map json_char s) @ CHR 34 # x = concat (map json_char t) @ CHR 34 # y \<Longrightarrow> s = t \<and> x = y"
proof (induction s arbitrary: t)
  case Nil
  then show ?case using json_char_start by (cases t) (auto, metis append_Cons list.inject)
next
  case (Cons c s)
  show ?case
  proof (cases t)
    case Nil
    with Cons.prems json_char_start [of c] show ?thesis by auto
  next
    case (Cons d u)
    then have eq: "json_char c @ (concat (map json_char s) @ CHR 34 # x) = json_char d @ (concat (map json_char u) @ CHR 34 # y)"
      using Cons.prems by simp
    from arg_cong [OF eq, of json_head] have "c = d"
      "concat (map json_char s) @ CHR 34 # x = concat (map json_char u) @ CHR 34 # y"
      by (simp_all add: json_head_char)
    with Cons.IH Cons show ?thesis by simp
  qed
qed

lemma json_string_inject: "json_string s @ x = json_string t @ y \<Longrightarrow> s = t \<and> x = y"
  using json_body_inject [of s x t y] by (simp add: json_string_def)

lemma fingerprint_text_inject:
  "json_strings [(''id'', i), (''method'', m), (''status'', st), (''text'', t)] =
     json_strings [(''id'', i'), (''method'', m'), (''status'', st'), (''text'', t')] \<longleftrightarrow>
   i = i' \<and> m = m' \<and> st = st' \<and> t = t'"
proof
  assume "json_strings [(''id'', i), (''method'', m), (''status'', st), (''text'', t)] =
     json_strings [(''id'', i'), (''method'', m'), (''status'', st'), (''text'', t')]"
  then have "json_string i @ '','' @ json_string ''method'' @ '':'' @ json_string m @ '','' @ json_string ''status'' @ '':'' @
      json_string st @ '','' @ json_string ''text'' @ '':'' @ json_string t @ ''}'' =
    json_string i' @ '','' @ json_string ''method'' @ '':'' @ json_string m' @ '','' @ json_string ''status'' @ '':'' @
      json_string st' @ '','' @ json_string ''text'' @ '':'' @ json_string t' @ ''}''"
    by (simp add: json_strings_def)
  from json_string_inject [OF this] have i: "i = i'" and 1: "json_string m @ '','' @ json_string ''status'' @ '':'' @
      json_string st @ '','' @ json_string ''text'' @ '':'' @ json_string t @ ''}'' =
    json_string m' @ '','' @ json_string ''status'' @ '':'' @
      json_string st' @ '','' @ json_string ''text'' @ '':'' @ json_string t' @ ''}''" by simp_all
  from json_string_inject [OF 1] have m: "m = m'" and 2: "json_string st @ '','' @ json_string ''text'' @ '':'' @ json_string t @ ''}'' =
      json_string st' @ '','' @ json_string ''text'' @ '':'' @ json_string t' @ ''}''" by simp_all
  from json_string_inject [OF 2] have st: "st = st'" and 3: "json_string t @ ''}'' = json_string t' @ ''}''" by simp_all
  from json_string_inject [OF 3] i m st show "i = i' \<and> m = m' \<and> st = st' \<and> t = t'" by simp
qed simp

end
