(* ===== verification/Requirement_Check.thy ===== *)
theory Requirement_Check
  imports Baseline
begin

text \<open>
  The report and \<open>main\<close> of \<open>tools/check_requirements.py\<close>, and what an exit status of 0 means.
\<close>

section \<open>The report\<close>

text \<open>\<open>req_to_scenarios[req_id]\<close>: a scenario that lists a requirement twice is linked twice.\<close>

definition linked_scenarios :: "ScenarioEvidence list \<Rightarrow> string \<Rightarrow> ScenarioEvidence list" where
  "linked_scenarios scenarios req_id =
     concat (map (\<lambda>s. map (\<lambda>_. s) (filter (\<lambda>r. r = req_id) (sv_requirements s))) scenarios)"

definition unknown_references :: "string \<Rightarrow> requirements \<Rightarrow> ScenarioEvidence list \<Rightarrow> string list result" where
  "unknown_references repo requirements scenarios =
     rmap (\<lambda>(s, req_id). rbind (relative_to (sv_path s) repo) (\<lambda>p.
         Inr (''Scenario '' @ p @ '' references unknown requirement '' @ req_id)))
       (concat (map (\<lambda>s. map (\<lambda>r. (s, r)) (filter (\<lambda>r. r \<notin> set (dict_keys requirements)) (sv_requirements s))) scenarios))"

definition requirement_result :: "files \<Rightarrow> Requirement \<Rightarrow> ScenarioEvidence list \<Rightarrow> string" where
  "requirement_result fl requirement linked =
     (if rq_status requirement = ''Planned'' then ''PLANNED''
      else if rq_status requirement = ''Historical'' then ''HISTORICAL''
      else if filter (\<lambda>s. \<not> sv_passed s) linked \<noteq> [] then ''FAIL''
      else if filter sv_passed linked \<noteq> [] \<or> evidence_report_passed fl (rq_evidence requirement) then ''PASS''
      else ''MANUAL'')"

type_synonym status_row = "string \<times> string \<times> string \<times> string \<times> string"

definition status_row :: "files \<Rightarrow> matrix \<Rightarrow> ScenarioEvidence list \<Rightarrow> string \<Rightarrow> Requirement \<Rightarrow> status_row" where
  "status_row fl matrix scenarios req_id requirement =
     (let entry = dict_get matrix req_id;
          linked = linked_scenarios scenarios req_id;
          names = join '', '' (map sv_name linked);
          names1 = (case entry of Some e \<Rightarrow> if names = [] then me_verification_case e else names | None \<Rightarrow> names);
          names2 = (if names1 = [] then rq_evidence requirement else names1)
      in (req_id, requirement_result fl requirement linked, rq_status requirement,
          (case entry of Some e \<Rightarrow> me_component e | None \<Rightarrow> ''MISSING''), names2))"

definition status_rows :: "files \<Rightarrow> requirements \<Rightarrow> matrix \<Rightarrow> ScenarioEvidence list \<Rightarrow> status_row list" where
  "status_rows fl requirements matrix scenarios =
     concat (map (\<lambda>req_id. case dict_get requirements req_id of
         Some r \<Rightarrow> [status_row fl matrix scenarios req_id r] | None \<Rightarrow> []) (sorted_set (dict_keys requirements)))"

definition count_result :: "status_row list \<Rightarrow> string \<Rightarrow> nat" where
  "count_result rows name = length (filter (\<lambda>(_, result, _). result = name) rows)"

definition result_names :: "string list" where
  "result_names = [''PASS'', ''MANUAL'', ''PLANNED'', ''HISTORICAL'', ''FAIL'']"

definition scenario_row :: "string \<Rightarrow> ScenarioEvidence \<Rightarrow> string result" where
  "scenario_row repo s =
     rbind (relative_to (sv_report_path s) repo) (\<lambda>report.
       Inr (''| '' @ sv_name s @ '' | '' @ pass_fail (sv_passed s) @ '' | '' @
         (if sv_requirements s \<noteq> [] then join '', '' (sv_requirements s) else ''NONE'') @ '' | `'' @ report @ ''` |''))"

definition check_report :: "status_row list \<Rightarrow> string list \<Rightarrow> nat \<Rightarrow> string list \<Rightarrow> string" where
  "check_report rows scenario_rows registered problems =
     join [CHR 10]
       ([''# Requirement Check Report'', '''', ''## Summary'', ''''] @
        map (\<lambda>name. ''- '' @ name @ '': '' @ str_nat (count_result rows name)) result_names @
        [''- REGISTERED_CTESTS: '' @ str_nat registered, ''- TRACEABILITY_PROBLEMS: '' @ str_nat (length problems), '''',
         ''A MANUAL result means the requirement has a matrix allocation but was '' @
         ''not automatically dispositioned by scenario or committed report logic. It is not equivalent to PASS.'', '''',
         ''## Requirement Results'', '''',
         ''| Requirement | Result | Doc Status | Component | Verification Case or Evidence |'', ''|---|---|---|---|---|''] @
        map (\<lambda>(req_id, result, doc_status, component, evidence).
          ''| '' @ req_id @ '' | '' @ result @ '' | '' @ doc_status @ '' | '' @ component @ '' | '' @ evidence @ '' |'') rows @
        ['''', ''## Scenario Evidence'', '''', ''| Scenario | Result | Requirements | Report |'', ''|---|---|---|---|''] @
        scenario_rows @
        ['''', ''## Reverse CTest Allocation'', '''', ''Registered CTests: `'' @ str_nat registered @ ''`'', '''',
         ''Every registered CTest name must appear in at least one verification-matrix case list.''] @
        (if problems \<noteq> [] then ['''', ''## Traceability Problems'', ''''] @ map (\<lambda>p. ''- '' @ p) problems else []))
     @ [CHR 10]"

record checker =
  ck_files :: files
  ck_sha256 :: "string \<Rightarrow> string"
  ck_str :: "json \<Rightarrow> string"
  ck_load :: "string \<Rightarrow> (string + json) option"

text \<open>\<open>write_report\<close>: the report, the number of failed requirements and the problems.\<close>

definition write_report ::
  "checker \<Rightarrow> requirements \<Rightarrow> matrix \<Rightarrow> ScenarioEvidence list \<Rightarrow> string list \<Rightarrow> string \<Rightarrow> (string \<times> nat \<times> string list) result" where
  "write_report ck requirements matrix scenarios registered_tests baseline_path =
     rbind (reviewed_baseline_problems (ck_sha256 ck) (ck_str ck) (ck_files ck) requirements baseline_path
              (ck_load ck baseline_path)) (\<lambda>baseline_problems.
     rbind (unknown_references (fl_repo (ck_files ck)) requirements scenarios) (\<lambda>unknown.
     rbind (rmap (scenario_row (fl_repo (ck_files ck))) scenarios) (\<lambda>scenario_rows.
       let problems = matrix_consistency_problems requirements matrix @
             reverse_test_allocation_problems registered_tests matrix @ baseline_problems @ unknown;
           rows = status_rows (ck_files ck) requirements matrix scenarios
       in Inr (check_report rows scenario_rows (length registered_tests) problems, count_result rows ''FAIL'', problems))))"

record check_args =
  ca_requirements :: string
  ca_matrix :: string
  ca_scenarios :: string
  ca_cmake :: string
  ca_traceability_baseline :: string
  ca_output :: string

text \<open>\<open>main\<close>: the report written, if any, and the exit status. A YAML error counts as a
  \<open>ValueError\<close> of the model.\<close>

definition check_main :: "checker \<Rightarrow> check_args \<Rightarrow> (string \<times> string) option \<times> int result" where
  "check_main ck args =
     (let fl = ck_files ck; repo = fl_repo fl; output_path = path_under repo (ca_output args) in
      case rbind (parse_requirements_doc fl (path_under repo (ca_requirements args))) (\<lambda>requirements.
           rbind (parse_verification_matrix fl (path_under repo (ca_matrix args))) (\<lambda>matrix.
           rbind (load_scenarios fl (ck_str ck) (path_under repo (ca_scenarios args))) (\<lambda>scenarios.
           rbind (parse_registered_ctests fl (path_under repo (ca_cmake args))) (\<lambda>registered_tests.
             write_report ck requirements matrix scenarios registered_tests
               (path_under repo (ca_traceability_baseline args)))))) of
        Inl (OSError _) \<Rightarrow> (None, Inr 1)
      | Inl (ValueError _) \<Rightarrow> (None, Inr 1)
      | Inl e \<Rightarrow> (None, Inl e)
      | Inr (report, failed, problems) \<Rightarrow>
          (Some (output_path, report),
           rbind (relative_to output_path repo) (\<lambda>_. Inr (if failed = 0 \<and> problems = [] then 0 else 1))))"

section \<open>What the checks establish\<close>

lemma set_minus_Nil [simp]: "set_minus xs ys = [] \<longleftrightarrow> set xs \<subseteq> set ys"
  by (auto simp: set_minus_def sorted_set_Nil_iff filter_empty_conv)

lemma set_set_inter [simp]: "set (set_inter xs ys) = set xs \<inter> set ys"
  by (auto simp: set_inter_def)

definition matrix_agrees :: "requirements \<Rightarrow> matrix \<Rightarrow> bool" where
  "matrix_agrees requirements matrix \<longleftrightarrow>
     set (dict_keys requirements) = set (dict_keys matrix) \<and>
     (\<forall>req_id r e. dict_get requirements req_id = Some r \<longrightarrow> dict_get matrix req_id = Some e \<longrightarrow>
        rq_status r = me_status e)"

lemma map_of_in_keys: "map_of d k = Some v \<Longrightarrow> k \<in> set (dict_keys d)"
  by (force dest: map_of_SomeD)

lemma in_keys_map_of: "k \<in> set (dict_keys d) \<Longrightarrow> \<exists>v. map_of d k = Some v"
  by (metis map_of_eq_None_iff not_None_eq set_map)

lemma common_keys_Nil:
  "concat (map (\<lambda>k. case (map_of a k, map_of b k) of (Some x, Some y) \<Rightarrow> if P x y then [m k x y] else [] | _ \<Rightarrow> [])
     (set_inter (dict_keys a) (dict_keys b))) = [] \<longleftrightarrow>
   (\<forall>k x y. map_of a k = Some x \<longrightarrow> map_of b k = Some y \<longrightarrow> \<not> P x y)"
  (is "?l \<longleftrightarrow> ?r")
proof
  assume l: ?l
  show ?r
  proof (intro allI impI)
    fix k x y
    assume k: "map_of a k = Some x" "map_of b k = Some y"
    then have "k \<in> set (set_inter (dict_keys a) (dict_keys b))" by (simp add: map_of_in_keys del: set_map)
    with l have "(case (map_of a k, map_of b k) of (Some x, Some y) \<Rightarrow> if P x y then [m k x y] else [] | _ \<Rightarrow> []) = []"
      by (simp del: set_set_inter)
    with k show "\<not> P x y" by (simp split: if_splits)
  qed
next
  assume ?r
  then show ?l by (auto split: option.splits)
qed

lemma matrix_consistency_iff: "matrix_consistency_problems requirements matrix = [] \<longleftrightarrow> matrix_agrees requirements matrix"
  unfolding matrix_consistency_problems_def common_keys_Nil append_is_Nil_conv map_is_Nil_conv set_minus_Nil matrix_agrees_def
  by auto

definition baseline_agrees ::
  "(string \<Rightarrow> string) \<Rightarrow> (json \<Rightarrow> string) \<Rightarrow> files \<Rightarrow> requirements \<Rightarrow> json_object \<Rightarrow> json_object \<Rightarrow> bool" where
  "baseline_agrees sha256 other fl requirements rs ifs \<longleftrightarrow>
     set (dict_keys requirements) = set (dict_keys rs) \<and>
     (\<forall>req_id r v. dict_get requirements req_id = Some r \<longrightarrow> dict_get rs req_id = Some v \<longrightarrow>
        requirement_fingerprint sha256 r = py_str other v) \<and>
     set (dict_keys ifs) = set CONTROLLED_INTERFACE_PATHS \<and>
     (\<forall>p v. dict_get ifs p = Some v \<longrightarrow> (\<exists>text. repo_text fl p = Some text \<and> sha256 text = py_str other v))"

lemma changed_interfaces_Nil:
  assumes "set (dict_keys ifs) = set CONTROLLED_INTERFACE_PATHS"
  shows "changed_interfaces sha256 other fl ifs = [] \<longleftrightarrow>
    (\<forall>p v. dict_get ifs p = Some v \<longrightarrow> (\<exists>text. repo_text fl p = Some text \<and> sha256 text = py_str other v))"
proof -
  have *: "(case (repo_text fl p, dict_get ifs p) of
         (None, _) \<Rightarrow> [m p]
       | (Some text, Some expected) \<Rightarrow> if sha256 text \<noteq> py_str other expected then [m' p] else []
       | (Some _, None) \<Rightarrow> []) = [] \<longleftrightarrow>
      (\<forall>v. dict_get ifs p = Some v \<longrightarrow> (\<exists>text. repo_text fl p = Some text \<and> sha256 text = py_str other v))"
    if "p \<in> set (dict_keys ifs)" for p and m m' :: "string \<Rightarrow> string"
    using in_keys_map_of [OF that] by (auto split: option.split)
  have s: "set (set_inter CONTROLLED_INTERFACE_PATHS (dict_keys ifs)) = set (dict_keys ifs)"
    using assms by (simp del: set_map)
  have "concat (map f xs) = [] \<longleftrightarrow> (\<forall>x\<in>set xs. f x = [])" for f :: "string \<Rightarrow> string list" and xs by simp
  then have "changed_interfaces sha256 other fl ifs = [] \<longleftrightarrow>
      (\<forall>p\<in>set (dict_keys ifs). \<forall>v. dict_get ifs p = Some v \<longrightarrow>
        (\<exists>text. repo_text fl p = Some text \<and> sha256 text = py_str other v))"
    unfolding changed_interfaces_def by (simp only: s * cong: ball_cong)
  then show ?thesis using map_of_in_keys [of ifs] by blast
qed

lemma changed_requirements_Nil:
  "changed_requirements sha256 other requirements rs = [] \<longleftrightarrow>
     (\<forall>req_id r v. dict_get requirements req_id = Some r \<longrightarrow> dict_get rs req_id = Some v \<longrightarrow>
        requirement_fingerprint sha256 r = py_str other v)"
  unfolding changed_requirements_def common_keys_Nil by simp

lemma reviewed_baseline_Nil:
  "reviewed_baseline_problems sha256 other fl requirements path baseline = Inr [] \<longleftrightarrow>
     (\<exists>loaded rs ifs. baseline = Some loaded \<and> read_traceability_payload path loaded = Inr (rs, ifs) \<and>
        baseline_agrees sha256 other fl requirements rs ifs)"
proof (cases baseline)
  case (Some loaded)
  have "(set CONTROLLED_INTERFACE_PATHS \<subseteq> set (dict_keys ifs) \<and> set (dict_keys ifs) \<subseteq> set CONTROLLED_INTERFACE_PATHS \<and>
       changed_interfaces sha256 other fl ifs = []) \<longleftrightarrow>
      set (dict_keys ifs) = set CONTROLLED_INTERFACE_PATHS \<and>
      (\<forall>p v. dict_get ifs p = Some v \<longrightarrow> (\<exists>text. repo_text fl p = Some text \<and> sha256 text = py_str other v))" for ifs
    using changed_interfaces_Nil [of ifs] by blast
  note interfaces = this
  have "reviewed_baseline_problems sha256 other fl requirements path (Some loaded) = Inr [] \<longleftrightarrow>
      (\<exists>rs ifs. read_traceability_payload path loaded = Inr (rs, ifs) \<and>
         baseline_agrees sha256 other fl requirements rs ifs)"
    unfolding reviewed_baseline_problems_def option.case rbind_Inr_iff baseline_agrees_def split_paired_Ex split_conv
      sum.inject append_is_Nil_conv map_is_Nil_conv set_minus_Nil changed_requirements_Nil interfaces
      set_eq_subset [of "set (dict_keys requirements)"] conj_assoc ..
  then show ?thesis by (simp add: Some)
qed (simp add: reviewed_baseline_problems_def)

lemma rmap_Nil_iff: "rmap f xs = Inr [] \<longleftrightarrow> xs = []"
  by (simp add: rmap_Inr_iff)

lemma unknown_references_Nil:
  "unknown_references repo requirements scenarios = Inr [] \<longleftrightarrow>
     (\<forall>s\<in>set scenarios. set (sv_requirements s) \<subseteq> set (dict_keys requirements))"
  unfolding unknown_references_def rmap_Nil_iff by (auto simp: filter_empty_conv)

lemma linked_iff: "s \<in> set (linked_scenarios scenarios req_id) \<longleftrightarrow> s \<in> set scenarios \<and> req_id \<in> set (sv_requirements s)"
  by (auto simp: linked_scenarios_def)

definition exempt :: "Requirement \<Rightarrow> bool" where
  "exempt r \<longleftrightarrow> rq_status r = ''Planned'' \<or> rq_status r = ''Historical''"

lemma requirement_result_FAIL:
  "requirement_result fl r linked = ''FAIL'' \<longleftrightarrow> \<not> exempt r \<and> (\<exists>s\<in>set linked. \<not> sv_passed s)"
  by (auto simp: requirement_result_def exempt_def filter_empty_conv)

lemma in_concat_map: "k \<in> set ks \<Longrightarrow> x \<in> set (f k) \<Longrightarrow> x \<in> set (concat (map f ks))"
  by auto

lemma rmap_member: "rmap f xs = Inr ys \<Longrightarrow> y \<in> set ys \<Longrightarrow> \<exists>x\<in>set xs. f x = Inr y"
  by (induction xs arbitrary: ys) (auto simp: rbind_Inr_iff)

lemma all_status_rows:
  "(\<forall>row\<in>set (status_rows fl requirements matrix scenarios). P row) \<longleftrightarrow>
     (\<forall>req_id r. dict_get requirements req_id = Some r \<longrightarrow> P (status_row fl matrix scenarios req_id r))"
  (is "?l \<longleftrightarrow> ?r")
proof
  assume l: ?l
  show ?r
  proof (intro allI impI)
    fix req_id r
    assume r: "dict_get requirements req_id = Some r"
    then have "req_id \<in> set (sorted_set (dict_keys requirements))" by (simp add: map_of_in_keys del: set_map)
    with r have "status_row fl matrix scenarios req_id r \<in> set (status_rows fl requirements matrix scenarios)"
      unfolding status_rows_def by (intro in_concat_map [of req_id]) simp_all
    with l show "P (status_row fl matrix scenarios req_id r)" by blast
  qed
next
  assume ?r
  then show ?l by (auto simp: status_rows_def split: option.splits)
qed

lemma no_failures_iff:
  "count_result (status_rows fl requirements matrix scenarios) ''FAIL'' = 0 \<longleftrightarrow>
     (\<forall>req_id r s. dict_get requirements req_id = Some r \<longrightarrow> s \<in> set scenarios \<longrightarrow> req_id \<in> set (sv_requirements s) \<longrightarrow>
        exempt r \<or> sv_passed s)"
proof -
  have result: "fst (snd (status_row fl matrix scenarios req_id r)) = requirement_result fl r (linked_scenarios scenarios req_id)"
    for req_id r by (simp add: status_row_def Let_def)
  have "count_result (status_rows fl requirements matrix scenarios) ''FAIL'' = 0 \<longleftrightarrow>
      (\<forall>row\<in>set (status_rows fl requirements matrix scenarios). fst (snd row) \<noteq> ''FAIL'')"
    by (simp only: count_result_def length_0_conv filter_empty_conv case_prod_unfold)
  then show ?thesis unfolding all_status_rows result requirement_result_FAIL Bex_def linked_iff by blast
qed

text \<open>What it means that the documents are traceable: requirements and matrix agree, every
  registered test is allocated, the reviewed baseline still fits, scenarios refer to known
  requirements only, and no scenario linked to a requirement that has to hold has failed.\<close>

definition traceable ::
  "checker \<Rightarrow> requirements \<Rightarrow> matrix \<Rightarrow> ScenarioEvidence list \<Rightarrow> string list \<Rightarrow> string \<Rightarrow> bool" where
  "traceable ck requirements matrix scenarios registered_tests baseline_path \<longleftrightarrow>
     matrix_agrees requirements matrix \<and>
     set registered_tests \<subseteq> set (matrix_verification_tokens matrix) \<and>
     (\<exists>loaded rs ifs. ck_load ck baseline_path = Some loaded \<and>
        read_traceability_payload baseline_path loaded = Inr (rs, ifs) \<and>
        baseline_agrees (ck_sha256 ck) (ck_str ck) (ck_files ck) requirements rs ifs) \<and>
     (\<forall>s\<in>set scenarios. set (sv_requirements s) \<subseteq> set (dict_keys requirements)) \<and>
     (\<forall>req_id r s. dict_get requirements req_id = Some r \<longrightarrow> s \<in> set scenarios \<longrightarrow> req_id \<in> set (sv_requirements s) \<longrightarrow>
        exempt r \<or> sv_passed s)"

lemma load_scenarios_reports:
  assumes "load_scenarios fl other path = Inr scenarios" and "s \<in> set scenarios"
  shows "\<exists>row. scenario_row (fl_repo fl) s = Inr row"
proof -
  from assms obtain entry where "load_scenario fl other entry = Inr s"
    by (auto simp: load_scenarios_def split: option.splits dest: rmap_member)
  moreover obtain p loaded where "entry = (p, loaded)" by (cases entry)
  ultimately obtain data where "load_scenario fl other (p, Inr data) = Inr s" by (auto simp: load_scenario_def rbind_Inr_iff)
  then have "sv_report_path s = scenario_report_path (fl_repo fl) (sv_name s)"
    by (cases data) (auto simp: load_scenario_def Let_def split: json.split_asm)
  then show ?thesis by (simp add: scenario_row_def relative_to_def scenario_report_path_def startswith_iff)
qed

lemma rmap_total: "\<forall>x\<in>set xs. \<exists>y. f x = Inr y \<Longrightarrow> \<exists>ys. rmap f xs = Inr ys"
  by (induction xs) auto

lemma write_report_clean:
  assumes "load_scenarios (ck_files ck) other path = Inr scenarios"
  shows "(\<exists>report. write_report ck requirements matrix scenarios tests baseline_path = Inr (report, 0, [])) \<longleftrightarrow>
    traceable ck requirements matrix scenarios tests baseline_path"
proof -
  obtain rows where rows: "rmap (scenario_row (fl_repo (ck_files ck))) scenarios = Inr rows"
    using rmap_total load_scenarios_reports [OF assms] by metis
  have "(\<exists>report. write_report ck requirements matrix scenarios tests baseline_path = Inr (report, 0, [])) \<longleftrightarrow>
    reviewed_baseline_problems (ck_sha256 ck) (ck_str ck) (ck_files ck) requirements baseline_path (ck_load ck baseline_path) = Inr [] \<and>
    unknown_references (fl_repo (ck_files ck)) requirements scenarios = Inr [] \<and>
    matrix_consistency_problems requirements matrix = [] \<and> reverse_test_allocation_problems tests matrix = [] \<and>
    count_result (status_rows (ck_files ck) requirements matrix scenarios) ''FAIL'' = 0"
    unfolding write_report_def rows rbind_Inr_iff rbind_simps Let_def by auto
  then show ?thesis
    unfolding reviewed_baseline_Nil unknown_references_Nil matrix_consistency_iff no_failures_iff traceable_def
      reverse_test_allocation_problems_def map_is_Nil_conv set_minus_Nil by blast
qed

text \<open>C26: the verdict of the traceability check. It exits with 0 exactly if all documents parse and
  they are traceable: the same requirements, with the same status, in document and matrix, every
  CTest registered in CMake allocated to a requirement, every requirement and every controlled
  interface as it was when the baseline was reviewed, no scenario that names an unknown
  requirement, and no failed or missing scenario report for a requirement that is neither planned
  nor historical (and the report path lies inside the repository).\<close>

theorem requirement_check_verdict:
  fixes ck :: checker and args :: check_args
  defines "fl \<equiv> ck_files ck" and "here \<equiv> path_under (fl_repo (ck_files ck))"
  shows "snd (check_main ck args) = Inr 0 \<longleftrightarrow>
    (\<exists>requirements matrix scenarios tests.
       parse_requirements_doc fl (here (ca_requirements args)) = Inr requirements \<and>
       parse_verification_matrix fl (here (ca_matrix args)) = Inr matrix \<and>
       load_scenarios fl (ck_str ck) (here (ca_scenarios args)) = Inr scenarios \<and>
       parse_registered_ctests fl (here (ca_cmake args)) = Inr tests \<and>
       traceable ck requirements matrix scenarios tests (here (ca_traceability_baseline args)) \<and>
       (\<exists>p. relative_to (here (ca_output args)) (fl_repo fl) = Inr p))"
proof -
  let ?w = "\<lambda>requirements matrix scenarios tests. write_report ck requirements matrix scenarios tests (here (ca_traceability_baseline args))"
  let ?run = "rbind (parse_requirements_doc fl (here (ca_requirements args))) (\<lambda>requirements.
       rbind (parse_verification_matrix fl (here (ca_matrix args))) (\<lambda>matrix.
       rbind (load_scenarios fl (ck_str ck) (here (ca_scenarios args))) (\<lambda>scenarios.
       rbind (parse_registered_ctests fl (here (ca_cmake args))) (?w requirements matrix scenarios))))"
  have "snd (check_main ck args) = Inr 0 \<longleftrightarrow>
      (\<exists>report. ?run = Inr (report, 0, [])) \<and> (\<exists>p. relative_to (here (ca_output args)) (fl_repo fl) = Inr p)"
    by (auto simp: check_main_def Let_def fl_def here_def rbind_Inr_iff split: sum.splits py_error.splits if_splits)
  also have "(\<exists>report. ?run = Inr (report, 0, [])) \<longleftrightarrow>
      (\<exists>requirements matrix scenarios tests.
         parse_requirements_doc fl (here (ca_requirements args)) = Inr requirements \<and>
         parse_verification_matrix fl (here (ca_matrix args)) = Inr matrix \<and>
         load_scenarios fl (ck_str ck) (here (ca_scenarios args)) = Inr scenarios \<and>
         parse_registered_ctests fl (here (ca_cmake args)) = Inr tests \<and>
         (\<exists>report. ?w requirements matrix scenarios tests = Inr (report, 0, [])))"
    unfolding rbind_Inr_iff by blast
  finally show ?thesis unfolding fl_def using write_report_clean by blast
qed

section \<open>The reviewed baseline\<close>

definition reviewed_part :: "Requirement \<Rightarrow> string \<times> string \<times> string \<times> string" where
  "reviewed_part r = (rq_req_id r, rq_method r, rq_status r, rq_text r)"

definition fingerprint_text :: "Requirement \<Rightarrow> string" where
  "fingerprint_text r = json_strings
     [(''id'', rq_req_id r), (''method'', rq_method r), (''status'', rq_status r), (''text'', rq_text r)]"

definition hashed_texts :: "files \<Rightarrow> requirements \<Rightarrow> string set" where
  "hashed_texts fl requirements = fingerprint_text ` ran (map_of requirements) \<union>
     {text. \<exists>p\<in>set CONTROLLED_INTERFACE_PATHS. repo_text fl p = Some text}"

lemma fingerprint_text_eq: "fingerprint_text r = fingerprint_text r' \<longleftrightarrow> reviewed_part r = reviewed_part r'"
  unfolding fingerprint_text_def reviewed_part_def fingerprint_text_inject by auto

lemma requirement_fingerprint_text: "requirement_fingerprint sha256 r = sha256 (fingerprint_text r)"
  by (simp add: requirement_fingerprint_def fingerprint_text_def)

lemma rmap_pairs:
  "rmap (\<lambda>k. rbind (f k) (\<lambda>v. Inr (k, g v))) ks = Inr kvs \<Longrightarrow>
     dict_keys kvs = ks \<and> (\<forall>k w. map_of kvs k = Some w \<longleftrightarrow> k \<in> set ks \<and> (\<exists>v. f k = Inr v \<and> w = g v))"
  by (induction ks arbitrary: kvs) (auto simp: rbind_Inr_iff split: if_splits)

lemma payload_shape:
  assumes "build_traceability_payload sha256 fl requirements = Inr payload"
  obtains rs ifs where "read_traceability_payload path (Inr (JObj payload)) = Inr (rs, ifs)"
    and "set (dict_keys rs) = set (dict_keys requirements)" and "dict_keys ifs = CONTROLLED_INTERFACE_PATHS"
    and "\<And>req_id v. dict_get rs req_id = Some v \<longleftrightarrow>
      (\<exists>r. dict_get requirements req_id = Some r \<and> v = JStr (sha256 (fingerprint_text r)))"
    and "\<And>p v. dict_get ifs p = Some v \<longleftrightarrow>
      p \<in> set CONTROLLED_INTERFACE_PATHS \<and> (\<exists>text. repo_text fl p = Some text \<and> v = JStr (sha256 text))"
proof -
  let ?f = "\<lambda>p. case repo_text fl p of None \<Rightarrow> Inl (ValueError (''controlled interface does not exist: '' @ p)) | Some t \<Rightarrow> Inr t"
  have hash: "interface_hash sha256 fl = (\<lambda>p. rbind (?f p) (\<lambda>t. Inr (p, JStr (sha256 t))))"
    by (auto simp: interface_hash_def split: option.splits)
  from assms obtain rs ifs where ifs: "rmap (interface_hash sha256 fl) CONTROLLED_INTERFACE_PATHS = Inr ifs"
    and rs: "rmap (\<lambda>req_id. rbind (dict_index requirements req_id)
         (\<lambda>r. Inr (req_id, JStr (requirement_fingerprint sha256 r)))) (sorted_set (dict_keys requirements)) = Inr rs"
    and payload: "dict_get payload ''schema'' = Some (JStr TRACEABILITY_SCHEMA)"
      "dict_get payload ''requirements'' = Some (JObj rs)" "dict_get payload ''controlled_interfaces'' = Some (JObj ifs)"
    by (auto simp: build_traceability_payload_def rbind_Inr_iff simp del: rmap.simps)
  note pr = rmap_pairs [OF rs] and pi = rmap_pairs [OF ifs [unfolded hash]]
  show thesis
  proof (rule that [of rs ifs])
    show "read_traceability_payload path (Inr (JObj payload)) = Inr (rs, ifs)"
      by (simp add: read_traceability_payload_def payload eq_str_def)
    show "dict_get rs req_id = Some v \<longleftrightarrow>
        (\<exists>r. dict_get requirements req_id = Some r \<and> v = JStr (sha256 (fingerprint_text r)))" for req_id v
      using pr map_of_in_keys [of requirements req_id]
      by (auto simp: dict_index_Inr_iff requirement_fingerprint_text simp del: set_map)
    show "dict_get ifs p = Some v \<longleftrightarrow>
        p \<in> set CONTROLLED_INTERFACE_PATHS \<and> (\<exists>text. repo_text fl p = Some text \<and> v = JStr (sha256 text))" for p v
      using pi by (auto split: option.splits)
  qed (use pr pi in \<open>simp_all del: set_map\<close>)
qed

definition unchanged :: "requirements \<Rightarrow> requirements \<Rightarrow> bool" where
  "unchanged requirements requirements' \<longleftrightarrow>
     set (dict_keys requirements') = set (dict_keys requirements) \<and>
     (\<forall>req_id r r'. dict_get requirements req_id = Some r \<longrightarrow> dict_get requirements' req_id = Some r' \<longrightarrow>
        reviewed_part r = reviewed_part r')"

lemma py_str_JStr [simp]: "py_str other (JStr s) = s"
  by (simp add: py_str_def)

text \<open>A hash that is injective on the texts at hand tells requirements and interfaces apart.\<close>

lemma hashes_tell_apart:
  assumes "inj_on sha256 (hashed_texts fl requirements \<union> hashed_texts fl' requirements')"
  shows "dict_get requirements req_id = Some r \<Longrightarrow> dict_get requirements' req_id = Some r' \<Longrightarrow>
      sha256 (fingerprint_text r') = sha256 (fingerprint_text r) \<longleftrightarrow> reviewed_part r = reviewed_part r'"
    and "p \<in> set CONTROLLED_INTERFACE_PATHS \<Longrightarrow> repo_text fl p = Some c \<Longrightarrow> repo_text fl' p = Some c' \<Longrightarrow>
      sha256 c' = sha256 c \<longleftrightarrow> c' = c"
proof -
  assume that: "dict_get requirements req_id = Some r" "dict_get requirements' req_id = Some r'"
  have "fingerprint_text r \<in> hashed_texts fl requirements \<union> hashed_texts fl' requirements'"
    "fingerprint_text r' \<in> hashed_texts fl requirements \<union> hashed_texts fl' requirements'"
    using that by (auto simp: hashed_texts_def intro: ranI)
  from inj_on_eq_iff [OF assms this]
  show "sha256 (fingerprint_text r') = sha256 (fingerprint_text r) \<longleftrightarrow> reviewed_part r = reviewed_part r'"
    using fingerprint_text_eq [of r r'] by metis
next
  assume "p \<in> set CONTROLLED_INTERFACE_PATHS" "repo_text fl p = Some c" "repo_text fl' p = Some c'"
  then show "sha256 c' = sha256 c \<longleftrightarrow> c' = c"
    using inj_on_eq_iff [OF assms, of c' c] by (auto simp: hashed_texts_def)
qed

text \<open>C27: the reviewed baseline detects changes, and nothing else. Let the baseline be the payload
  built from some requirements and interface files, and let SHA-256 have no collision among the
  texts hashed then and now. Then the comparison with later requirements and files reports no
  problem exactly if there are the same requirements, with the same identifier, text, method
  and status each, and every controlled interface file exists with the same content. In particular
  a baseline just written by the update tool is accepted; the evidence column is not covered.\<close>

theorem reviewed_baseline_detects_changes:
  assumes "build_traceability_payload sha256 fl requirements = Inr payload"
    and "inj_on sha256 (hashed_texts fl requirements \<union> hashed_texts fl' requirements')"
  shows "reviewed_baseline_problems sha256 other fl' requirements' path (Some (Inr (JObj payload))) = Inr [] \<longleftrightarrow>
    unchanged requirements requirements' \<and> (\<forall>p\<in>set CONTROLLED_INTERFACE_PATHS. repo_text fl' p = repo_text fl p)"
proof -
  obtain rs ifs where read: "read_traceability_payload path (Inr (JObj payload)) = Inr (rs, ifs)"
    and krs: "set (dict_keys rs) = set (dict_keys requirements)" and kifs: "dict_keys ifs = CONTROLLED_INTERFACE_PATHS"
    and rs: "\<And>req_id v. dict_get rs req_id = Some v \<longleftrightarrow>
      (\<exists>r. dict_get requirements req_id = Some r \<and> v = JStr (sha256 (fingerprint_text r)))"
    and ifs: "\<And>p v. dict_get ifs p = Some v \<longleftrightarrow>
      p \<in> set CONTROLLED_INTERFACE_PATHS \<and> (\<exists>text. repo_text fl p = Some text \<and> v = JStr (sha256 text))"
    using payload_shape [OF assms(1)] by blast
  note req = hashes_tell_apart(1) [OF assms(2)] and same = hashes_tell_apart(2) [OF assms(2)]
  have present: "\<exists>text. repo_text fl p = Some text" if "p \<in> set CONTROLLED_INTERFACE_PATHS" for p
    using ifs [of p] in_keys_map_of [of p ifs] that by (auto simp: kifs)
  have "baseline_agrees sha256 other fl' requirements' rs ifs \<longleftrightarrow>
    unchanged requirements requirements' \<and> (\<forall>p\<in>set CONTROLLED_INTERFACE_PATHS. repo_text fl' p = repo_text fl p)"
    (is "?l \<longleftrightarrow> ?r")
  proof
    assume l: ?l
    have "repo_text fl' p = repo_text fl p" if p: "p \<in> set CONTROLLED_INTERFACE_PATHS" for p
    proof -
      obtain c where t: "repo_text fl p = Some c" using present [OF p] by blast
      with l p have "\<exists>c'. repo_text fl' p = Some c' \<and> sha256 c' = sha256 c"
        unfolding baseline_agrees_def using ifs by (metis py_str_JStr)
      with same p t show ?thesis by auto
    qed
    moreover have "unchanged requirements requirements'"
      using l krs rs req unfolding baseline_agrees_def unchanged_def requirement_fingerprint_text by (metis py_str_JStr)
    ultimately show ?r by blast
  next
    assume ?r
    then show ?l
      using krs kifs unfolding baseline_agrees_def unchanged_def requirement_fingerprint_text rs ifs
      by (auto simp: req simp del: set_map)
  qed
  then show ?thesis unfolding reviewed_baseline_Nil using read by auto
qed

definition sample_files :: files where
  "sample_files = \<lparr>fl_text = (\<lambda>_. Some ''x''), fl_yaml = (\<lambda>_. None), fl_repo = ''/repo''\<rparr>"

definition sample_requirement :: "string \<Rightarrow> Requirement" where
  "sample_requirement status = \<lparr>rq_req_id = ''FSW-REQ-001'', rq_text = ''t'', rq_method = ''Test'', rq_evidence = ''e'',
     rq_status = status\<rparr>"

theorem reviewed_baseline_detects_changes_witness:
  "\<exists>payload. build_traceability_payload (\<lambda>x. x) sample_files [(''FSW-REQ-001'', sample_requirement ''Planned'')] = Inr payload \<and>
     reviewed_baseline_problems (\<lambda>x. x) (\<lambda>_. []) sample_files [(''FSW-REQ-001'', sample_requirement ''Planned'')] []
       (Some (Inr (JObj payload))) = Inr [] \<and>
     reviewed_baseline_problems (\<lambda>x. x) (\<lambda>_. []) sample_files [(''FSW-REQ-001'', sample_requirement ''Verified'')] []
       (Some (Inr (JObj payload))) \<noteq> Inr []"
proof -
  let ?rs = "\<lambda>s. [(''FSW-REQ-001'', sample_requirement s)]"
  have "\<exists>ys. rmap (interface_hash (\<lambda>x. x) sample_files) CONTROLLED_INTERFACE_PATHS = Inr ys"
    by (rule rmap_total) (simp add: interface_hash_def repo_text_def sample_files_def)
  then obtain payload where b: "build_traceability_payload (\<lambda>x. x) sample_files (?rs ''Planned'') = Inr payload"
    by (auto simp: build_traceability_payload_def sorted_set_def dict_index_def)
  have inj: "inj_on (\<lambda>x. x) A" for A :: "string set" by simp
  have "unchanged (?rs ''Planned'') (?rs ''Planned'')" by (simp add: unchanged_def)
  moreover have "\<not> unchanged (?rs ''Planned'') (?rs ''Verified'')"
    by (simp add: unchanged_def reviewed_part_def sample_requirement_def)
  ultimately show ?thesis
    using b reviewed_baseline_detects_changes [where fl' = sample_files and requirements' = "?rs ''Planned''" and other = "\<lambda>_. []" and path = "[]", OF b inj]
      reviewed_baseline_detects_changes [where fl' = sample_files and requirements' = "?rs ''Verified''" and other = "\<lambda>_. []" and path = "[]", OF b inj] by blast
qed

end
