(* ===== verification/Lcov.thy ===== *)
theory Lcov
  imports Csv Campaigns "HOL-Library.Multiset"
begin

text \<open>
  \<open>tools/summarize_lcov.py\<close>: per-module coverage summaries of an LCOV tracefile. Path resolution and
  the floating-point percentage \<open>round(100.0 * hit / found, 2)\<close> with its texts are parameters.
\<close>

section \<open>Records\<close>

record CoverageRecord =
  cv_path :: string
  cv_lines_found :: int
  cv_lines_hit :: int
  cv_functions_found :: int
  cv_functions_hit :: int
  cv_branches_found :: int
  cv_branches_hit :: int

definition coverage_record :: "string \<Rightarrow> CoverageRecord" where
  "coverage_record path = \<lparr>cv_path = path, cv_lines_found = 0, cv_lines_hit = 0, cv_functions_found = 0,
     cv_functions_hit = 0, cv_branches_found = 0, cv_branches_hit = 0\<rparr>"

text \<open>What the tool takes from its surroundings: \<open>Path.resolve\<close>, \<open>str(Path(...))\<close>, the resolved
  repository, and the percentage as a number, as \<open>repr\<close> and with two decimals.\<close>

record lcov_env =
  le_resolve :: "string \<Rightarrow> string"
  le_path_str :: "string \<Rightarrow> string"
  le_repo :: string
  le_percent :: "int \<Rightarrow> int \<Rightarrow> rat"
  le_repr :: "rat \<Rightarrow> string"
  le_fixed2 :: "rat \<Rightarrow> string"

definition percent :: "lcov_env \<Rightarrow> int \<Rightarrow> int \<Rightarrow> rat option" where
  "percent env hit found = (if found = 0 then None else Some (le_percent env hit found))"

definition normalize_source_path :: "lcov_env \<Rightarrow> string \<Rightarrow> string" where
  "normalize_source_path env source =
     (case relative_to (le_resolve env source) (le_repo env) of Inr p \<Rightarrow> p | Inl _ \<Rightarrow> le_path_str env source)"

section \<open>Parsing\<close>

definition set_count :: "string \<Rightarrow> string \<Rightarrow> CoverageRecord \<Rightarrow> CoverageRecord result" where
  "set_count key v r =
     (if key = ''LF'' then rbind (py_int v) (\<lambda>n. Inr (r\<lparr>cv_lines_found := n\<rparr>))
      else if key = ''LH'' then rbind (py_int v) (\<lambda>n. Inr (r\<lparr>cv_lines_hit := n\<rparr>))
      else if key = ''FNF'' then rbind (py_int v) (\<lambda>n. Inr (r\<lparr>cv_functions_found := n\<rparr>))
      else if key = ''FNH'' then rbind (py_int v) (\<lambda>n. Inr (r\<lparr>cv_functions_hit := n\<rparr>))
      else if key = ''BRF'' then rbind (py_int v) (\<lambda>n. Inr (r\<lparr>cv_branches_found := n\<rparr>))
      else if key = ''BRH'' then rbind (py_int v) (\<lambda>n. Inr (r\<lparr>cv_branches_hit := n\<rparr>))
      else Inr r)"

text \<open>The loop over the lines: the records so far and the current one.\<close>

fun parse_lines ::
  "lcov_env \<Rightarrow> string list \<Rightarrow> CoverageRecord list \<Rightarrow> CoverageRecord option \<Rightarrow> CoverageRecord list result" where
  "parse_lines env [] records current =
     (if current \<noteq> None then Inl (ValueError ''LCOV tracefile ended before end_of_record'') else Inr records)"
| "parse_lines env (raw_line # lines) records current =
     (let line = strip raw_line in
      if line = [] then parse_lines env lines records current
      else if startswith line ''SF:'' then
        (if current \<noteq> None then Inl (ValueError ''encountered a new source file before end_of_record'')
         else parse_lines env lines records (Some (coverage_record (normalize_source_path env (drop 3 line)))))
      else if line = ''end_of_record'' then
        (case current of
           None \<Rightarrow> Inl (ValueError ''end_of_record without source file'')
         | Some r \<Rightarrow> parse_lines env lines (records @ [r]) None)
      else case current of
        None \<Rightarrow> parse_lines env lines records None
      | Some r \<Rightarrow>
          (case split_once '':'' line of
             None \<Rightarrow> parse_lines env lines records (Some r)
           | Some (key, v) \<Rightarrow> rbind (set_count key v r) (\<lambda>r'. parse_lines env lines records (Some r'))))"

definition parse_lcov :: "lcov_env \<Rightarrow> string list \<Rightarrow> CoverageRecord list result" where
  "parse_lcov env lines = rbind (parse_lines env lines [] None) (\<lambda>records. Inr (sort_key cv_path records))"

definition add_record :: "CoverageRecord \<Rightarrow> CoverageRecord \<Rightarrow> CoverageRecord" where
  "add_record t r = t\<lparr>cv_lines_found := cv_lines_found t + cv_lines_found r,
     cv_lines_hit := cv_lines_hit t + cv_lines_hit r,
     cv_functions_found := cv_functions_found t + cv_functions_found r,
     cv_functions_hit := cv_functions_hit t + cv_functions_hit r,
     cv_branches_found := cv_branches_found t + cv_branches_found r,
     cv_branches_hit := cv_branches_hit t + cv_branches_hit r\<rparr>"

definition total_record :: "CoverageRecord list \<Rightarrow> CoverageRecord" where
  "total_record records = foldl add_record (coverage_record ''TOTAL'') records"

section \<open>Reports\<close>

definition percent_json :: "rat option \<Rightarrow> json" where
  "percent_json p = (case p of None \<Rightarrow> JNull | Some v \<Rightarrow> JFloat v)"

definition to_dict :: "lcov_env \<Rightarrow> CoverageRecord \<Rightarrow> json_object" where
  "to_dict env r =
     [(''path'', JStr (cv_path r)), (''lines_found'', JInt (cv_lines_found r)), (''lines_hit'', JInt (cv_lines_hit r)),
      (''functions_found'', JInt (cv_functions_found r)), (''functions_hit'', JInt (cv_functions_hit r)),
      (''branches_found'', JInt (cv_branches_found r)), (''branches_hit'', JInt (cv_branches_hit r)),
      (''line_percent'', percent_json (percent env (cv_lines_hit r) (cv_lines_found r))),
      (''function_percent'', percent_json (percent env (cv_functions_hit r) (cv_functions_found r))),
      (''branch_percent'', percent_json (percent env (cv_branches_hit r) (cv_branches_found r)))]"

definition percent_text :: "lcov_env \<Rightarrow> rat option \<Rightarrow> string" where
  "percent_text env p = (case p of None \<Rightarrow> ''N/A'' | Some v \<Rightarrow> le_fixed2 env v @ ''%'')"

text \<open>\<open>csv.DictWriter\<close>: fields are quoted when they need to be, lines end with CR LF.\<close>

definition csv_field :: "string \<Rightarrow> string" where
  "csv_field f = (if list_ex (\<lambda>c. c = CHR '','' \<or> c = CHR 34 \<or> newline_char c) f then quote_field f else f)"

definition csv_line :: "string list \<Rightarrow> string" where
  "csv_line cells = join '','' (map csv_field cells) @ [CHR 13, CHR 10]"

definition percent_cell :: "lcov_env \<Rightarrow> rat option \<Rightarrow> string" where
  "percent_cell env p = (case p of None \<Rightarrow> [] | Some v \<Rightarrow> le_repr env v)"

definition csv_cells :: "lcov_env \<Rightarrow> CoverageRecord \<Rightarrow> string list" where
  "csv_cells env r =
     [cv_path r, str_int (cv_lines_found r), str_int (cv_lines_hit r),
      percent_cell env (percent env (cv_lines_hit r) (cv_lines_found r)),
      str_int (cv_functions_found r), str_int (cv_functions_hit r),
      percent_cell env (percent env (cv_functions_hit r) (cv_functions_found r)),
      str_int (cv_branches_found r), str_int (cv_branches_hit r),
      percent_cell env (percent env (cv_branches_hit r) (cv_branches_found r))]"

definition csv_fieldnames :: "string list" where
  "csv_fieldnames = [''path'', ''lines_found'', ''lines_hit'', ''line_percent'', ''functions_found'', ''functions_hit'',
     ''function_percent'', ''branches_found'', ''branches_hit'', ''branch_percent'']"

definition write_csv :: "lcov_env \<Rightarrow> CoverageRecord list \<Rightarrow> string" where
  "write_csv env records = concat (map csv_line (csv_fieldnames # map (csv_cells env) (records @ [total_record records])))"

definition write_json :: "lcov_env \<Rightarrow> CoverageRecord list \<Rightarrow> json_object" where
  "write_json env records =
     [(''schema'', JStr ''astra-os.module-coverage.v1''),
      (''claim_boundary'', JStr (''Observed structural coverage for this exact run. No certification, '' @
         ''adequacy, or reliability conclusion is implied.'')),
      (''module_count'', JInt (int (length records))),
      (''modules'', JArr (map (\<lambda>r. JObj (to_dict env r)) records)),
      (''total'', JObj (to_dict env (total_record records)))]"

definition coverage_cells :: "lcov_env \<Rightarrow> CoverageRecord \<Rightarrow> string" where
  "coverage_cells env r =
     (let cell = \<lambda>hit found. str_int hit @ ''/'' @ str_int found @ '' ('' @ percent_text env (percent env hit found) @ '')''
      in cell (cv_lines_hit r) (cv_lines_found r) @ '' | '' @ cell (cv_functions_hit r) (cv_functions_found r) @ '' | '' @
         cell (cv_branches_hit r) (cv_branches_found r) @ '' |'')"

definition write_markdown :: "lcov_env \<Rightarrow> CoverageRecord list \<Rightarrow> string" where
  "write_markdown env records =
     join [CHR 10]
       ([''# ASTRA-OS Per-Module Structural Coverage'', '''',
         ''Observed coverage for the exact instrumented run that produced the linked LCOV tracefile. '' @
         ''No adequacy, certification, reliability, or safety conclusion is implied by these percentages.'', '''',
         ''| Production module | Lines | Functions | Branches |'', ''|---|---:|---:|---:|''] @
        map (\<lambda>r. ''| `'' @ cv_path r @ ''` | '' @ coverage_cells env r) records @
        [''| **TOTAL** | '' @ coverage_cells env (total_record records), '''', ''## Exclusions'', '''',
         ''The CI collection step removes system headers and `fsw/tests/*`. '' @
         ''It does not exclude production files merely because they have low coverage. '' @
         ''Any future exclusion must be documented with a technical justification.'']) @ [CHR 10]"

text \<open>\<open>main\<close>: exit status and the three reports; \<open>tracefile\<close> is the text of the file, or the text of
  the \<open>OSError\<close>.\<close>

definition lcov_main :: "lcov_env \<Rightarrow> string + string \<Rightarrow> (int \<times> (string \<times> json_object \<times> string) option) result" where
  "lcov_main env tracefile =
     (case tracefile of
        Inl error \<Rightarrow> Inr (1, None)
      | Inr text \<Rightarrow>
          (case parse_lcov env (splitlines text) of
             Inl (OSError _) \<Rightarrow> Inr (1, None)
           | Inl (ValueError _) \<Rightarrow> Inr (1, None)
           | Inl e \<Rightarrow> Inl e
           | Inr records \<Rightarrow>
               if records = [] then Inr (1, None)
               else Inr (0, Some (write_csv env records, write_json env records, write_markdown env records))))"

section \<open>Reading back a tracefile\<close>

text \<open>The lines that describe a record in a tracefile.\<close>

definition lcov_lines :: "CoverageRecord \<Rightarrow> string list" where
  "lcov_lines r =
     [''SF:'' @ cv_path r, ''FNF:'' @ str_int (cv_functions_found r), ''FNH:'' @ str_int (cv_functions_hit r),
      ''BRF:'' @ str_int (cv_branches_found r), ''BRH:'' @ str_int (cv_branches_hit r),
      ''LF:'' @ str_int (cv_lines_found r), ''LH:'' @ str_int (cv_lines_hit r), ''end_of_record'']"

definition clean_path :: "lcov_env \<Rightarrow> string \<Rightarrow> bool" where
  "clean_path env p \<longleftrightarrow> p \<noteq> [] \<and> strip p = p \<and> normalize_source_path env p = p"

lemma is_space_numerals: "\<not> is_space (CHR ''S'')" "\<not> is_space (CHR ''L'')" "\<not> is_space (CHR ''F'')" "\<not> is_space (CHR ''B'')"
  "\<not> is_space (CHR ''e'')"
  by (simp_all add: is_space_def)

lemma str_int_nonspace: "str_int i \<noteq> [] \<and> \<not> is_space (last (str_int i))"
proof -
  have "\<not> is_space (last (str_nat n))" for n
    using str_nat_digit_vals [of n] str_nat_nonempty [of n] digit_not_space last_in_set by blast
  then show ?thesis using str_nat_nonempty by (simp add: str_int_def)
qed

lemma strip_ends: "s \<noteq> [] \<Longrightarrow> \<not> is_space (hd s) \<Longrightarrow> \<not> is_space (last s) \<Longrightarrow> strip s = s"
  by (simp add: strip_def lstrip_id rstrip_id)

lemma clean_path_last: "clean_path env p \<Longrightarrow> p \<noteq> [] \<and> \<not> is_space (last p)"
  using rstrip_last [of "lstrip p"] by (auto simp: clean_path_def strip_def)

lemma source_line:
  assumes "clean_path env p"
  shows "parse_lines env ((''SF:'' @ p) # ls) recs None = parse_lines env ls recs (Some (coverage_record p))"
proof -
  have "strip (''SF:'' @ p) = ''SF:'' @ p" using clean_path_last [OF assms] by (intro strip_ends) (simp_all add: is_space_numerals)
  then show ?thesis using assms by (simp add: clean_path_def startswith_def Let_def)
qed

definition count_keys :: "string list" where
  "count_keys = [''LF'', ''LH'', ''FNF'', ''FNH'', ''BRF'', ''BRH'']"

lemma count_line:
  assumes "key \<in> set count_keys"
  shows "parse_lines env ((key @ '':'' @ str_int n) # ls) recs (Some r) =
    rbind (set_count key (str_int n) r) (\<lambda>r'. parse_lines env ls recs (Some r'))"
proof -
  have "strip (key @ '':'' @ str_int n) = key @ '':'' @ str_int n"
    using assms str_int_nonspace [of n] by (intro strip_ends) (auto simp: count_keys_def is_space_numerals)
  moreover have "split_once '':'' (key @ '':'' @ str_int n) = Some (key, str_int n)"
    using assms by (auto simp: count_keys_def startswith_def)
  moreover have "\<not> startswith (key @ '':'' @ str_int n) ''SF:''" "key @ '':'' @ str_int n \<noteq> ''end_of_record''"
    "key @ '':'' @ str_int n \<noteq> []"
    using assms by (auto simp: count_keys_def startswith_def)
  ultimately show ?thesis by (simp add: Let_def del: split_once.simps)
qed

lemma end_line:
  "parse_lines env (''end_of_record'' # ls) recs (Some r) = parse_lines env ls (recs @ [r]) None"
proof -
  have "strip ''end_of_record'' = ''end_of_record''" by (intro strip_ends) (simp_all add: is_space_def)
  then show ?thesis by (simp add: startswith_def)
qed

lemma count_lines:
  "parse_lines env ((''LF:'' @ str_int n) # ls) recs (Some r) = parse_lines env ls recs (Some (r\<lparr>cv_lines_found := n\<rparr>))"
  "parse_lines env ((''LH:'' @ str_int n) # ls) recs (Some r) = parse_lines env ls recs (Some (r\<lparr>cv_lines_hit := n\<rparr>))"
  "parse_lines env ((''FNF:'' @ str_int n) # ls) recs (Some r) = parse_lines env ls recs (Some (r\<lparr>cv_functions_found := n\<rparr>))"
  "parse_lines env ((''FNH:'' @ str_int n) # ls) recs (Some r) = parse_lines env ls recs (Some (r\<lparr>cv_functions_hit := n\<rparr>))"
  "parse_lines env ((''BRF:'' @ str_int n) # ls) recs (Some r) = parse_lines env ls recs (Some (r\<lparr>cv_branches_found := n\<rparr>))"
  "parse_lines env ((''BRH:'' @ str_int n) # ls) recs (Some r) = parse_lines env ls recs (Some (r\<lparr>cv_branches_hit := n\<rparr>))"
  using count_line [of "''LF''" env n ls recs r] count_line [of "''LH''" env n ls recs r] count_line [of "''FNF''" env n ls recs r]
    count_line [of "''FNH''" env n ls recs r] count_line [of "''BRF''" env n ls recs r] count_line [of "''BRH''" env n ls recs r]
  by (simp_all add: count_keys_def set_count_def py_int_str_int del: parse_lines.simps)

lemma record_lines:
  assumes "clean_path env (cv_path r)"
  shows "parse_lines env (lcov_lines r @ ls) recs None = parse_lines env ls (recs @ [r]) None"
proof -
  have "r = coverage_record (cv_path r)\<lparr>cv_functions_found := cv_functions_found r, cv_functions_hit := cv_functions_hit r,
      cv_branches_found := cv_branches_found r, cv_branches_hit := cv_branches_hit r,
      cv_lines_found := cv_lines_found r, cv_lines_hit := cv_lines_hit r\<rparr>"
    by (cases r) (simp add: coverage_record_def)
  then show ?thesis
    by (simp only: lcov_lines_def append.simps(2) [of "''SF:'' @ _"] append.simps source_line [OF assms, unfolded append.simps]
        count_lines [unfolded append.simps] end_line)
qed

lemma parse_lcov_lines:
  assumes "list_all (\<lambda>r. clean_path env (cv_path r)) records"
  shows "parse_lcov env (concat (map lcov_lines records)) = Inr (sort_key cv_path records)"
proof -
  have "parse_lines env (concat (map lcov_lines records)) recs None = Inr (recs @ records)" for recs
    using assms by (induction records arbitrary: recs) (simp_all add: record_lines)
  then show ?thesis by (simp add: parse_lcov_def)
qed

lemma lcov_lines_one_line: "one_line (cv_path r) \<Longrightarrow> l \<in> set (lcov_lines r) \<Longrightarrow> one_line l"
  by (auto simp: lcov_lines_def one_line_str_int line_end_def)

lemma total_record_fields:
  "cv_lines_found (total_record rs) = sum_list (map cv_lines_found rs)"
  "cv_lines_hit (total_record rs) = sum_list (map cv_lines_hit rs)"
  "cv_functions_found (total_record rs) = sum_list (map cv_functions_found rs)"
  "cv_functions_hit (total_record rs) = sum_list (map cv_functions_hit rs)"
  "cv_branches_found (total_record rs) = sum_list (map cv_branches_found rs)"
  "cv_branches_hit (total_record rs) = sum_list (map cv_branches_hit rs)"
proof -
  have "cv_lines_found (foldl add_record t rs) = cv_lines_found t + sum_list (map cv_lines_found rs) \<and>
    cv_lines_hit (foldl add_record t rs) = cv_lines_hit t + sum_list (map cv_lines_hit rs) \<and>
    cv_functions_found (foldl add_record t rs) = cv_functions_found t + sum_list (map cv_functions_found rs) \<and>
    cv_functions_hit (foldl add_record t rs) = cv_functions_hit t + sum_list (map cv_functions_hit rs) \<and>
    cv_branches_found (foldl add_record t rs) = cv_branches_found t + sum_list (map cv_branches_found rs) \<and>
    cv_branches_hit (foldl add_record t rs) = cv_branches_hit t + sum_list (map cv_branches_hit rs)" for t
    by (induction rs arbitrary: t) (simp_all add: add_record_def)
  from this [of "coverage_record ''TOTAL''"] show
    "cv_lines_found (total_record rs) = sum_list (map cv_lines_found rs)"
    "cv_lines_hit (total_record rs) = sum_list (map cv_lines_hit rs)"
    "cv_functions_found (total_record rs) = sum_list (map cv_functions_found rs)"
    "cv_functions_hit (total_record rs) = sum_list (map cv_functions_hit rs)"
    "cv_branches_found (total_record rs) = sum_list (map cv_branches_found rs)"
    "cv_branches_hit (total_record rs) = sum_list (map cv_branches_hit rs)"
    by (simp_all add: total_record_def coverage_record_def)
qed

lemma sum_list_sort_key: "sum_list (map f (sort_key k xs)) = sum_list (map f xs)" for f :: "'a \<Rightarrow> int"
  by (metis mset_map mset_sort sum_mset_sum_list)

text \<open>C30: the coverage summary reads back a tracefile. For the tracefile that describes some records,
  with paths inside the repository that need no normalization, the tool succeeds and reports
  exactly these records, sorted by path, with totals that are the sums over all of them.\<close>

theorem lcov_summary_of_tracefile:
  assumes "records \<noteq> []" and "list_all (\<lambda>r. clean_path env (cv_path r) \<and> one_line (cv_path r)) records"
  shows "\<exists>total. lcov_main env (Inr (unlines (concat (map lcov_lines records)))) =
      Inr (0, Some (write_csv env (sort_key cv_path records), write_json env (sort_key cv_path records),
        write_markdown env (sort_key cv_path records))) \<and>
    dict_get (write_json env (sort_key cv_path records)) ''total'' = Some (JObj (to_dict env total)) \<and>
    cv_lines_found total = sum_list (map cv_lines_found records) \<and> cv_lines_hit total = sum_list (map cv_lines_hit records) \<and>
    cv_functions_found total = sum_list (map cv_functions_found records) \<and>
    cv_functions_hit total = sum_list (map cv_functions_hit records) \<and>
    cv_branches_found total = sum_list (map cv_branches_found records) \<and>
    cv_branches_hit total = sum_list (map cv_branches_hit records)"
proof -
  have "splitlines (unlines (concat (map lcov_lines records))) = concat (map lcov_lines records)"
    using assms(2) by (intro splitlines_unlines) (auto simp: list_all_iff dest: lcov_lines_one_line)
  moreover have "parse_lcov env (concat (map lcov_lines records)) = Inr (sort_key cv_path records)"
    using assms(2) by (intro parse_lcov_lines) (simp add: list_all_iff)
  moreover have "sort_key cv_path records \<noteq> []" using assms(1) by (metis length_0_conv length_sort)
  ultimately have "lcov_main env (Inr (unlines (concat (map lcov_lines records)))) =
      Inr (0, Some (write_csv env (sort_key cv_path records), write_json env (sort_key cv_path records),
        write_markdown env (sort_key cv_path records)))" by (simp add: lcov_main_def)
  then show ?thesis
    by (intro exI [of _ "total_record (sort_key cv_path records)"])
      (simp add: total_record_fields sum_list_sort_key, simp add: write_json_def)
qed

definition sample_env :: lcov_env where
  "sample_env = \<lparr>le_resolve = (\<lambda>s. ''/repo/'' @ s), le_path_str = (\<lambda>s. s), le_repo = ''/repo'', le_percent = (\<lambda>_ _. 0),
     le_repr = (\<lambda>_. ''0.0''), le_fixed2 = (\<lambda>_. ''0.00'')\<rparr>"

theorem lcov_summary_of_tracefile_witness:
  "\<exists>reports. lcov_main sample_env (Inr (unlines (lcov_lines (coverage_record ''b.cpp'') @ lcov_lines (coverage_record ''a.cpp'')))) =
     Inr (0, Some reports)"
proof -
  have clean: "list_all (\<lambda>r. clean_path sample_env (cv_path r) \<and> one_line (cv_path r)) [coverage_record ''b.cpp'', coverage_record ''a.cpp'']"
    by (simp add: coverage_record_def clean_path_def normalize_source_path_def sample_env_def relative_to_def startswith_def
        strip_ends is_space_def line_end_def)
  from lcov_summary_of_tracefile [OF _ clean] show ?thesis by auto
qed

end
