(* ===== verification/Assistant.thy ===== *)
theory Assistant
  imports Requirements
begin

text \<open>
  \<open>tools/assurance_assistant.py\<close>: the permissioned interface to repository files and verification
  tools. A resolved path is the list of its parts below the root directory; resolving it, the file
  system and the child process are parameters. What the tool does to its surroundings is the list
  of its actions and the records it appends to the audit log.
\<close>

section \<open>Surroundings\<close>

text \<open>\<open>Path.resolve\<close> and \<open>Path.is_file\<close> may raise; \<open>as_str\<close> and \<open>as_repr\<close> are \<open>str\<close> of floats and
  containers and \<open>repr\<close> of texts; \<open>as_read\<close> is \<open>read_bytes\<close>, \<open>as_decode\<close> the lenient UTF-8 decoder
  and \<open>as_exec\<close> a child process, with its return code and output.\<close>

record assistant_env =
  as_resolve :: "string \<Rightarrow> string list result"
  as_is_file :: "string list \<Rightarrow> bool result"
  as_str :: "json \<Rightarrow> string"
  as_repr :: "string \<Rightarrow> string"
  as_read :: "string \<Rightarrow> string result"
  as_decode :: "string \<Rightarrow> string"
  as_exec :: "string list \<Rightarrow> (int \<times> string) result"
  as_utc_now :: string
  as_repo :: string

definition MAX_READ_BYTES :: nat where
  "MAX_READ_BYTES = 65536"

record Decision =
  dc_allowed :: bool
  dc_action :: string
  dc_target :: string
  dc_reason :: string
  dc_command :: "string list"
  dc_resolved_path :: "string option"

definition denied :: "string \<Rightarrow> string \<Rightarrow> string \<Rightarrow> Decision" where
  "denied action target reason = \<lparr>dc_allowed = False, dc_action = action, dc_target = target, dc_reason = reason,
     dc_command = [], dc_resolved_path = None\<rparr>"

definition decision_dict :: "Decision \<Rightarrow> json_object" where
  "decision_dict d =
     [(''allowed'', JBool (dc_allowed d)), (''action'', JStr (dc_action d)), (''target'', JStr (dc_target d)),
      (''reason'', JStr (dc_reason d)), (''command'', JArr (map JStr (dc_command d))),
      (''resolved_path'', case dc_resolved_path d of None \<Rightarrow> JNull | Some p \<Rightarrow> JStr p)]"

section \<open>The policy\<close>

record policy =
  po_approved_read_roots :: "json list"
  po_allowlisted_tools :: json_object
  po_explicitly_denied_actions :: "json list"

text \<open>\<open>load_policy\<close>: \<open>loaded\<close> is the parsed file or the text of the error; \<open>get\<close> on a value that is
  no object raises \<open>AttributeError\<close>. The entries the checks establish are kept.\<close>

definition load_policy :: "string \<Rightarrow> string + json \<Rightarrow> policy result" where
  "load_policy path loaded =
     (case loaded of
        Inl error \<Rightarrow> Inl (ValueError (''unable to read assistant policy '' @ path @ '': '' @ error))
      | Inr (JObj payload) \<Rightarrow>
          if \<not> eq_str (dict_get payload ''schema'') ''astra-os.assurance-assistant-policy.v1''
          then Inl (ValueError (''unexpected assistant policy schema in '' @ path))
          else (case dict_get payload ''approved_read_roots'' of
              Some (JArr roots) \<Rightarrow>
                (case dict_get payload ''allowlisted_tools'' of
                   Some (JObj tools) \<Rightarrow>
                     (case dict_get payload ''explicitly_denied_actions'' of
                        Some (JArr actions) \<Rightarrow> Inr \<lparr>po_approved_read_roots = roots, po_allowlisted_tools = tools,
                          po_explicitly_denied_actions = actions\<rparr>
                      | _ \<Rightarrow> Inl (ValueError ''explicitly_denied_actions must be a list''))
                 | _ \<Rightarrow> Inl (ValueError ''allowlisted_tools must be an object''))
            | _ \<Rightarrow> Inl (ValueError ''approved_read_roots must be a list''))
      | Inr _ \<Rightarrow> Inl (AttributeError ''object has no attribute get''))"

section \<open>Decisions\<close>

text \<open>\<open>path.relative_to(root)\<close> succeeds when the parts of \<open>root\<close> begin those of \<open>path\<close>.\<close>

definition is_relative_to :: "string list \<Rightarrow> string list \<Rightarrow> bool" where
  "is_relative_to path base \<longleftrightarrow> take (length base) path = base"

definition path_str :: "string list \<Rightarrow> string" where
  "path_str parts = ''/'' @ join ''/'' parts"

fun first_approved :: "assistant_env \<Rightarrow> string list \<Rightarrow> string list \<Rightarrow> json list \<Rightarrow> string list option result" where
  "first_approved env repository resolved [] = Inr None"
| "first_approved env repository resolved (root_text # roots) =
     rbind (as_resolve env (path_under (path_str repository) (py_str (as_str env) root_text))) (\<lambda>approved.
       if resolved = approved \<or> is_relative_to resolved approved then Inr (Some resolved)
       else first_approved env repository resolved roots)"

definition resolve_approved_read_path :: "assistant_env \<Rightarrow> string \<Rightarrow> policy \<Rightarrow> string list option result" where
  "resolve_approved_read_path env target policy =
     rbind (as_resolve env (path_under (as_repo env) target)) (\<lambda>resolved.
     rbind (as_resolve env (as_repo env)) (\<lambda>repository.
       if \<not> is_relative_to resolved repository then Inr None
       else first_approved env repository resolved (po_approved_read_roots policy)))"

text \<open>\<open>str(request.get(key, "")).strip()\<close>.\<close>

definition request_text :: "assistant_env \<Rightarrow> json_object \<Rightarrow> string \<Rightarrow> string" where
  "request_text env request key =
     strip (case dict_get request key of None \<Rightarrow> [] | Some v \<Rightarrow> py_str (as_str env) v)"

fun nonempty_text :: "json \<Rightarrow> string option" where
  "nonempty_text (JStr s) = (if s \<noteq> [] then Some s else None)"
| "nonempty_text _ = None"

definition decide_read :: "assistant_env \<Rightarrow> string \<Rightarrow> policy \<Rightarrow> Decision result" where
  "decide_read env target policy =
     (if target = [] then Inr (denied ''read'' target ''Read target is required'')
      else rbind (resolve_approved_read_path env target policy) (\<lambda>approved.
        case approved of
          None \<Rightarrow> Inr (denied ''read'' target ''Path is outside approved project sources'')
        | Some resolved \<Rightarrow>
            rbind (as_is_file env resolved) (\<lambda>is_file.
              Inr (if \<not> is_file then denied ''read'' target ''Approved read target is not a file''
                   else \<lparr>dc_allowed = True, dc_action = ''read'', dc_target = target,
                     dc_reason = ''Read target is within an approved project source root'',
                     dc_command = [], dc_resolved_path = Some (path_str resolved)\<rparr>))))"

definition decide_run :: "string \<Rightarrow> policy \<Rightarrow> Decision" where
  "decide_run target policy =
     (case dict_get (po_allowlisted_tools policy) target of
        None \<Rightarrow> denied ''run'' target ''Verification tool is not allow-listed''
      | Some (JArr items) \<Rightarrow>
          if list_all (\<lambda>item. nonempty_text item \<noteq> None) items
          then \<lparr>dc_allowed = True, dc_action = ''run'', dc_target = target,
            dc_reason = ''Verification tool exactly matches the allow-list'',
            dc_command = List.map_filter nonempty_text items, dc_resolved_path = None\<rparr>
          else denied ''run'' target ''Allow-listed tool definition is invalid''
      | Some _ \<Rightarrow> denied ''run'' target ''Allow-listed tool definition is invalid'')"

definition decide_request :: "assistant_env \<Rightarrow> json_object \<Rightarrow> policy \<Rightarrow> Decision result" where
  "decide_request env request policy =
     (let action = request_text env request ''action''; target = request_text env request ''target'' in
      if action = [] then Inr (denied action target ''Request action is required'')
      else if action \<in> set (map (py_str (as_str env)) (po_explicitly_denied_actions policy))
      then Inr (denied action target (''Action '' @ as_repr env action @ '' is explicitly denied''))
      else if action = ''read'' then decide_read env target policy
      else if action = ''run'' then Inr (decide_run target policy)
      else Inr (denied action target ''Only read and allow-listed run actions are supported''))"

section \<open>Execution and the audit log\<close>

datatype action = ReadFile string | RunProcess "string list"

definition TRUNCATED :: string where
  "TRUNCATED = CHR 10 # ''[TRUNCATED BY ASSURANCE ASSISTANT]'' @ [CHR 10]"

definition limit_read :: "string \<Rightarrow> string" where
  "limit_read data = (if length data > MAX_READ_BYTES then take MAX_READ_BYTES data @ TRUNCATED else data)"

text \<open>\<open>execute_decision\<close>: the actions and the return code with the output. A child process with an
  empty command raises \<open>IndexError\<close> before it starts.\<close>

definition execute_decision :: "assistant_env \<Rightarrow> Decision \<Rightarrow> action list \<times> (int \<times> string) result" where
  "execute_decision env d =
     (if \<not> dc_allowed d then ([], Inr (2, dc_reason d))
      else if dc_action d = ''read'' then
        (case dc_resolved_path d of
           None \<Rightarrow> ([], Inl (RuntimeError ''assertion failed''))
         | Some path \<Rightarrow> ([ReadFile path], rbind (as_read env path) (\<lambda>data. Inr (0, as_decode env (limit_read data)))))
      else if dc_action d = ''run'' then
        (if dc_command d = [] then ([], Inl (IndexError ''list index out of range''))
         else ([RunProcess (dc_command d)], as_exec env (dc_command d)))
      else ([], Inr (2, ''Unsupported approved action'')))"

definition audit_record :: "assistant_env \<Rightarrow> json_object \<Rightarrow> Decision \<Rightarrow> bool \<Rightarrow> int option \<Rightarrow> json_object" where
  "audit_record env request d executed return_code =
     [(''timestamp_utc'', JStr (as_utc_now env)), (''request'', JObj request), (''decision'', JObj (decision_dict d)),
      (''executed'', JBool executed), (''return_code'', case return_code of None \<Rightarrow> JNull | Some c \<Rightarrow> JInt c)]"

definition parse_request :: "string + json \<Rightarrow> json_object result" where
  "parse_request loaded =
     (case loaded of
        Inl error \<Rightarrow> Inl (ValueError (''request must be valid JSON: '' @ error))
      | Inr (JObj request) \<Rightarrow> Inr request
      | Inr _ \<Rightarrow> Inl (ValueError ''request JSON must be an object''))"

text \<open>What a run of the tool leaves behind; \<open>ar_printed\<close> is the decision printed, with the output of
  its execution.\<close>

record assistant_run =
  ar_actions :: "action list"
  ar_audit :: "json_object list"
  ar_printed :: "(json_object \<times> string) option"
  ar_exit :: "int result"

definition run_decision :: "assistant_env \<Rightarrow> json_object \<Rightarrow> bool \<Rightarrow> Decision \<Rightarrow> assistant_run" where
  "run_decision env request execute d =
     (let executed = execute \<and> dc_allowed d;
          (actions, outcome) = (if executed then execute_decision env d else ([], Inr (0, [])));
          finish = \<lambda>return_code output.
            \<lparr>ar_actions = actions, ar_audit = [audit_record env request d executed return_code],
             ar_printed = Some (decision_dict d, output),
             ar_exit = Inr (if \<not> dc_allowed d then 2
               else case return_code of Some c \<Rightarrow> if execute then c else 0 | None \<Rightarrow> 0)\<rparr>
      in if \<not> executed then finish None []
         else case outcome of
           Inr (return_code, output) \<Rightarrow> finish (Some return_code) output
         | Inl (OSError error) \<Rightarrow> finish (Some 1) (''ERROR: '' @ error)
         | Inl e \<Rightarrow> \<lparr>ar_actions = actions, ar_audit = [], ar_printed = None, ar_exit = Inl e\<rparr>)"

definition failed_run :: "int result \<Rightarrow> assistant_run" where
  "failed_run status = \<lparr>ar_actions = [], ar_audit = [], ar_printed = None, ar_exit = status\<rparr>"

definition assistant_main :: "assistant_env \<Rightarrow> string \<Rightarrow> string + json \<Rightarrow> string + json \<Rightarrow> bool \<Rightarrow> assistant_run" where
  "assistant_main env policy_path request_loaded policy_loaded execute =
     (case rbind (parse_request request_loaded) (\<lambda>request.
           rbind (load_policy policy_path policy_loaded) (\<lambda>policy.
           rbind (decide_request env request policy) (\<lambda>d. Inr (request, d)))) of
        Inl (OSError _) \<Rightarrow> failed_run (Inr 2)
      | Inl (ValueError _) \<Rightarrow> failed_run (Inr 2)
      | Inl e \<Rightarrow> failed_run (Inl e)
      | Inr (request, d) \<Rightarrow> run_decision env request execute d)"

section \<open>Confinement\<close>

text \<open>What the policy permits: a file below the repository and below an approved root, and a command
  of the allow-list as it stands there, for an action that is not explicitly denied.\<close>

definition below :: "string list \<Rightarrow> string list \<Rightarrow> bool" where
  "below base path \<longleftrightarrow> (\<exists>rest. path = base @ rest)"

definition may_read :: "assistant_env \<Rightarrow> policy \<Rightarrow> string \<Rightarrow> bool" where
  "may_read env policy path \<longleftrightarrow>
     (\<exists>repository root approved resolved.
        as_resolve env (as_repo env) = Inr repository \<and> root \<in> set (po_approved_read_roots policy) \<and>
        as_resolve env (path_under (path_str repository) (py_str (as_str env) root)) = Inr approved \<and>
        path = path_str resolved \<and> below repository resolved \<and> below approved resolved \<and>
        as_is_file env resolved = Inr True)"

definition may_run :: "policy \<Rightarrow> string list \<Rightarrow> bool" where
  "may_run policy command \<longleftrightarrow>
     (\<exists>tool. dict_get (po_allowlisted_tools policy) tool = Some (JArr (map JStr command))) \<and> [] \<notin> set command"

fun permitted :: "assistant_env \<Rightarrow> policy \<Rightarrow> action \<Rightarrow> bool" where
  "permitted env policy (ReadFile path) = may_read env policy path"
| "permitted env policy (RunProcess command) = (command \<noteq> [] \<and> may_run policy command)"

definition denied_action :: "assistant_env \<Rightarrow> policy \<Rightarrow> json_object \<Rightarrow> bool" where
  "denied_action env policy request \<longleftrightarrow>
     request_text env request ''action'' \<in> set (map (py_str (as_str env)) (po_explicitly_denied_actions policy))"

lemma is_relative_to_iff: "is_relative_to path base \<longleftrightarrow> below base path"
  unfolding is_relative_to_def below_def by (metis append_eq_conv_conj append_take_drop_id)

lemma first_approved_Some:
  assumes "first_approved env repository resolved roots = Inr (Some p)"
  shows "p = resolved \<and> (\<exists>root approved. root \<in> set roots \<and>
      as_resolve env (path_under (path_str repository) (py_str (as_str env) root)) = Inr approved \<and> below approved resolved)"
  using assms
proof (induction roots)
  case (Cons root roots)
  then obtain approved where
    a: "as_resolve env (path_under (path_str repository) (py_str (as_str env) root)) = Inr approved"
    by (auto simp: rbind_Inr_iff)
  show ?case
  proof (cases "resolved = approved \<or> is_relative_to resolved approved")
    case True
    then have "below approved resolved" by (auto simp: is_relative_to_iff below_def)
    with Cons.prems True a show ?thesis by auto
  next
    case False
    with Cons a show ?thesis by auto
  qed
qed simp

lemma decide_read_allowed:
  assumes "decide_read env target policy = Inr d" "dc_allowed d"
  shows "\<exists>p. dc_action d = ''read'' \<and> dc_resolved_path d = Some p \<and> may_read env policy p"
proof -
  have "target \<noteq> []" using assms by (auto simp: decide_read_def denied_def)
  with assms obtain resolved where r: "resolve_approved_read_path env target policy = Inr (Some resolved)"
      "as_is_file env resolved = Inr True"
      "dc_action d = ''read''" "dc_resolved_path d = Some (path_str resolved)"
    by (auto simp: decide_read_def rbind_Inr_iff denied_def split: option.splits if_splits)
  from r(1) obtain repository where repo: "as_resolve env (as_repo env) = Inr repository" "is_relative_to resolved repository"
      "first_approved env repository resolved (po_approved_read_roots policy) = Inr (Some resolved)"
    unfolding resolve_approved_read_path_def
    by (auto simp: rbind_Inr_iff split: if_splits dest: first_approved_Some)
  with first_approved_Some [OF repo(3)] r(2) have "may_read env policy (path_str resolved)"
    unfolding may_read_def by (auto simp: is_relative_to_iff)
  with r show ?thesis by simp
qed

lemma map_filter_texts:
  "list_all (\<lambda>item. nonempty_text item \<noteq> None) items \<Longrightarrow>
     items = map JStr (List.map_filter nonempty_text items) \<and> [] \<notin> set (List.map_filter nonempty_text items)"
proof (induction items)
  case (Cons item items)
  then show ?case by (cases item) (auto simp: map_filter_simps split: if_splits)
qed (simp add: map_filter_simps)

lemma decide_run_allowed:
  assumes "dc_allowed (decide_run target policy)"
  shows "dc_action (decide_run target policy) = ''run'' \<and> may_run policy (dc_command (decide_run target policy))"
proof -
  from assms obtain items where items: "dict_get (po_allowlisted_tools policy) target = Some (JArr items)"
      "list_all (\<lambda>item. nonempty_text item \<noteq> None) items"
    by (auto simp: decide_run_def denied_def split: option.splits json.splits if_splits)
  then have "decide_run target policy = \<lparr>dc_allowed = True, dc_action = ''run'', dc_target = target,
      dc_reason = ''Verification tool exactly matches the allow-list'',
      dc_command = List.map_filter nonempty_text items, dc_resolved_path = None\<rparr>"
    by (simp add: decide_run_def)
  with map_filter_texts [OF items(2)] items(1) show ?thesis unfolding may_run_def by auto
qed

lemma decide_request_allowed:
  assumes "decide_request env request policy = Inr d" "dc_allowed d"
  shows "\<not> denied_action env policy request"
    and "(\<exists>p. dc_action d = ''read'' \<and> dc_resolved_path d = Some p \<and> may_read env policy p) \<or>
         (dc_action d = ''run'' \<and> may_run policy (dc_command d))"
proof -
  have "\<not> denied_action env policy request \<and>
      (decide_read env (request_text env request ''target'') policy = Inr d \<or>
       d = decide_run (request_text env request ''target'') policy)"
    using assms by (auto simp: decide_request_def Let_def denied_action_def denied_def split: if_splits)
  with decide_read_allowed decide_run_allowed assms(2)
  show "\<not> denied_action env policy request"
    and "(\<exists>p. dc_action d = ''read'' \<and> dc_resolved_path d = Some p \<and> may_read env policy p) \<or>
         (dc_action d = ''run'' \<and> may_run policy (dc_command d))"
    by blast+
qed

text \<open>An allowed decision is executed by exactly one permitted action, unless its command is empty.\<close>

lemma execute_decision_actions:
  assumes "decide_request env request policy = Inr d" "dc_allowed d"
  shows "list_all (permitted env policy) (fst (execute_decision env d))"
    and "length (fst (execute_decision env d)) \<le> 1"
    and "fst (execute_decision env d) = [] \<Longrightarrow> \<exists>text. snd (execute_decision env d) = Inl (IndexError text)"
  using decide_request_allowed(2) [OF assms] assms(2)
  by (auto simp: execute_decision_def split: option.splits)

lemma run_decision_actions:
  "ar_actions (run_decision env request execute d) =
     (if execute \<and> dc_allowed d then fst (execute_decision env d) else [])"
  by (auto simp: run_decision_def Let_def split: prod.splits sum.splits py_error.splits)

lemma run_decision_audit:
  "case ar_exit (run_decision env request execute d) of
     Inl e \<Rightarrow> ar_audit (run_decision env request execute d) = [] \<and> execute \<and> dc_allowed d \<and> snd (execute_decision env d) = Inl e
   | Inr code \<Rightarrow> \<exists>rc. ar_audit (run_decision env request execute d) = [audit_record env request d (execute \<and> dc_allowed d) rc] \<and>
       (if dc_allowed d then code = (case rc of Some c \<Rightarrow> c | None \<Rightarrow> 0) else code = 2)"
  by (auto simp: run_decision_def Let_def split: prod.splits sum.splits py_error.splits)

lemma run_decision_exit:
  assumes "ar_exit (run_decision env request execute d) = Inr code" "execute" "dc_allowed d"
  shows "snd (execute_decision env d) \<noteq> Inl (IndexError text)"
  using assms by (auto simp: run_decision_def Let_def split: prod.splits)

lemma assistant_main_cases:
  fixes env policy_path request_loaded policy_loaded execute
  defines "run \<equiv> assistant_main env policy_path request_loaded policy_loaded execute"
  obtains (failed) "run = failed_run (Inr 2)"
  | (escaped) e where "run = failed_run (Inl e)"
  | (decided) request policy d where "parse_request request_loaded = Inr request"
      "load_policy policy_path policy_loaded = Inr policy" "decide_request env request policy = Inr d"
      "run = run_decision env request execute d"
proof -
  let ?r = "rbind (parse_request request_loaded) (\<lambda>request. rbind (load_policy policy_path policy_loaded)
      (\<lambda>policy. rbind (decide_request env request policy) (\<lambda>d. Inr (request, d))))"
  show thesis
  proof (cases ?r)
    case (Inl e)
    then have "run = failed_run (Inr 2) \<or> run = failed_run (Inl e)"
      by (cases e) (simp_all add: run_def assistant_main_def)
    with failed escaped show ?thesis by blast
  next
    case (Inr rd)
    then obtain request policy d where "parse_request request_loaded = Inr request"
      "load_policy policy_path policy_loaded = Inr policy" "decide_request env request policy = Inr d" "rd = (request, d)"
      by (auto simp: rbind_Inr_iff)
    with Inr decided show ?thesis by (simp add: run_def assistant_main_def)
  qed
qed

text \<open>The two sides of an execution: what was done, and what the audit log says of it.\<close>

definition within_policy :: "assistant_env \<Rightarrow> bool \<Rightarrow> json_object result \<Rightarrow> policy result \<Rightarrow> action list \<Rightarrow> bool" where
  "within_policy env execute request policy actions \<longleftrightarrow>
     actions = [] \<or>
     (case (request, policy) of
        (Inr request, Inr policy) \<Rightarrow>
          execute \<and> length actions = 1 \<and> list_all (permitted env policy) actions \<and> \<not> denied_action env policy request
      | _ \<Rightarrow> False)"

definition audited :: "assistant_env \<Rightarrow> json_object result \<Rightarrow> policy result \<Rightarrow> assistant_run \<Rightarrow> int \<Rightarrow> bool" where
  "audited env request policy run code \<longleftrightarrow>
     (\<exists>rq po d rc. request = Inr rq \<and> policy = Inr po \<and> decide_request env rq po = Inr d \<and>
        ar_audit run = [audit_record env rq d (ar_actions run \<noteq> []) rc] \<and>
        code = (if dc_allowed d then (case rc of Some c \<Rightarrow> c | None \<Rightarrow> 0) else 2))"

lemma decision_within_policy:
  assumes "decide_request env request policy = Inr d"
  shows "within_policy env execute (Inr request) (Inr policy) (ar_actions (run_decision env request execute d))"
proof (cases "execute \<and> dc_allowed d")
  case True
  let ?a = "fst (execute_decision env d)"
  have "list_all (permitted env policy) ?a" "length ?a \<le> 1" "\<not> denied_action env policy request"
    using execute_decision_actions(1,2) [OF assms] decide_request_allowed(1) [OF assms] True by auto
  then show ?thesis using True by (cases ?a) (simp_all add: within_policy_def run_decision_actions)
qed (auto simp: within_policy_def run_decision_actions)

lemma decision_audited:
  assumes "decide_request env request policy = Inr d" "ar_exit (run_decision env request execute d) = Inr code"
  shows "audited env (Inr request) (Inr policy) (run_decision env request execute d) code"
proof -
  let ?run = "run_decision env request execute d"
  have executed: "(ar_actions ?run \<noteq> []) = (execute \<and> dc_allowed d)"
    using execute_decision_actions(3) [OF assms(1)] run_decision_exit [OF assms(2)]
    unfolding run_decision_actions by (cases "execute \<and> dc_allowed d") auto
  have "\<exists>rc. ar_audit ?run = [audit_record env request d (execute \<and> dc_allowed d) rc] \<and>
      (if dc_allowed d then code = (case rc of Some c \<Rightarrow> c | None \<Rightarrow> 0) else code = 2)"
    using run_decision_audit [of env request execute d] unfolding assms(2) sum.case .
  then obtain rc where rc: "ar_audit ?run = [audit_record env request d (ar_actions ?run \<noteq> []) rc]"
      "if dc_allowed d then code = (case rc of Some c \<Rightarrow> c | None \<Rightarrow> 0) else code = 2"
    unfolding executed by blast
  from rc(2) have "code = (if dc_allowed d then (case rc of Some c \<Rightarrow> c | None \<Rightarrow> 0) else 2)" by (simp split: if_splits)
  with rc(1) assms(1) show ?thesis unfolding audited_def by blast
qed

lemma run_decision_raises:
  assumes "ar_exit (run_decision env request execute d) = Inl e"
  shows "ar_audit (run_decision env request execute d) = []"
  using run_decision_audit [of env request execute d] unfolding assms sum.case by blast

text \<open>C16: the assistant acts only within its policy, and what it does is audited. Whatever the
  request, the policy file, the file system and the meaning of the paths in it (symbolic links and
  parent references are resolved by the file system): a run performs at most one action, and one
  only if execution was requested, the request and the policy are well formed and the action is not
  explicitly denied; a file it reads lies below the repository and below an approved root, and a
  process it starts is a nonempty command of the allow-list, word for word. If the run returns an
  exit status, either it did nothing and returned 2, or it appended exactly one audit record, with
  the decision taken and with whether something was executed, and the status is 2 for a denied
  request and otherwise the return code recorded. A run that raises has appended no record.\<close>

theorem assistant_confined:
  "let run = assistant_main env policy_path request_loaded policy_loaded execute;
       request = parse_request request_loaded; policy = load_policy policy_path policy_loaded
   in within_policy env execute request policy (ar_actions run) \<and>
      (case ar_exit run of
         Inl e \<Rightarrow> ar_audit run = []
       | Inr code \<Rightarrow> ar_audit run = [] \<and> ar_actions run = [] \<and> code = 2 \<or> audited env request policy run code)"
proof (cases rule: assistant_main_cases [of env policy_path request_loaded policy_loaded execute])
  case failed
  then show ?thesis by (simp add: failed_run_def within_policy_def)
next
  case (escaped e)
  then show ?thesis by (simp add: failed_run_def within_policy_def)
next
  case (decided request policy d)
  show ?thesis
    unfolding Let_def decided(1,2,4)
    using decision_within_policy [OF decided(3)] decision_audited [OF decided(3)] run_decision_raises
    by (auto split: sum.split)
qed

end
