(* ===== verification/Repo_State.thy ===== *)
theory Repo_State
  imports Py_Text
begin

text \<open>
  \<open>tools/repository_state.py\<close> and \<open>tools/check_source_cleanliness.py\<close>: the working tree as
  \<open>git status --porcelain\<close> reports it, split into source and generated changes. The finished
  \<open>git\<close> process (exit status and output) is an argument.
\<close>

definition GENERATED_PREFIXES :: "string list" where
  "GENERATED_PREFIXES = [''reports/'', ''dist/'']"

record RepositoryState =
  dirty_paths :: "string list"
  source_dirty_paths :: "string list"
  generated_dirty_paths :: "string list"

definition dirty :: "RepositoryState \<Rightarrow> bool" where
  "dirty st \<longleftrightarrow> dirty_paths st \<noteq> []"

definition source_dirty :: "RepositoryState \<Rightarrow> bool" where
  "source_dirty st \<longleftrightarrow> source_dirty_paths st \<noteq> []"

definition normalize_porcelain_path :: "string \<Rightarrow> string" where
  "normalize_porcelain_path raw =
     (let value = strip raw;
          value1 = (case split_once '' -> '' value of None \<Rightarrow> value | Some (_, b) \<Rightarrow> b)
      in if startswith value1 [CHR 34] \<and> endswith value1 [CHR 34] then butlast (drop 1 value1) else value1)"

record completed_process =
  returncode :: int
  stdout :: string
  stderr :: string

definition porcelain_paths :: "string \<Rightarrow> string list" where
  "porcelain_paths out =
     filter (\<lambda>p. p \<noteq> [])
       (map (\<lambda>line. normalize_porcelain_path (drop 3 line)) (filter (\<lambda>line. \<not> length line < 4) (splitlines out)))"

definition is_generated :: "string \<Rightarrow> bool" where
  "is_generated path \<longleftrightarrow>
     list_ex (\<lambda>prefix. path = rstrip_char (CHR ''/'') prefix \<or> startswith path prefix) GENERATED_PREFIXES"

definition collect_repository_state :: "completed_process \<Rightarrow> RepositoryState result" where
  "collect_repository_state completed =
     (if returncode completed \<noteq> 0
      then Inl (RuntimeError (if strip (stderr completed) = [] then ''git status failed'' else strip (stderr completed)))
      else
        let unique = sorted_set (porcelain_paths (stdout completed));
            generated = filter is_generated unique;
            source = filter (\<lambda>path. path \<notin> set generated) unique
        in Inr \<lparr>dirty_paths = unique, source_dirty_paths = source, generated_dirty_paths = generated\<rparr>)"

text \<open>\<open>main\<close> of \<open>check_source_cleanliness.py\<close>: exit status and printed lines.\<close>

definition cleanliness_main :: "completed_process \<Rightarrow> (int \<times> string list) result" where
  "cleanliness_main completed =
     (case collect_repository_state completed of
        Inl (OSError e) \<Rightarrow> Inr (1, [''ERROR: '' @ e])
      | Inl (RuntimeError e) \<Rightarrow> Inr (1, [''ERROR: '' @ e])
      | Inl e \<Rightarrow> Inl e
      | Inr state \<Rightarrow>
          if source_dirty state
          then Inr (1, ''FAIL: uncommitted source or configuration changes detected:'' #
                 map (\<lambda>path. ''- '' @ path) (source_dirty_paths state))
          else Inr (0, ''PASS: no uncommitted source or configuration changes'' #
                 (if generated_dirty_paths state \<noteq> []
                  then ''Generated evidence changes are present and permitted:'' #
                    map (\<lambda>path. ''- '' @ path) (generated_dirty_paths state) else [])))"

section \<open>The reported paths\<close>

text \<open>An entry of \<open>git status --porcelain\<close> without a rename, for a path that git prints as it is.\<close>

definition plain_path :: "string \<Rightarrow> bool" where
  "plain_path p \<longleftrightarrow> p \<noteq> [] \<and> strip p = p \<and> \<not> contains p '' -> '' \<and> hd p \<noteq> CHR 34 \<and> one_line p"

definition entry_line :: "char \<times> char \<times> string \<Rightarrow> string" where
  "entry_line = (\<lambda>(x, y, p). [x, y, CHR '' ''] @ p)"

definition plain_entry :: "char \<times> char \<times> string \<Rightarrow> bool" where
  "plain_entry = (\<lambda>(x, y, p). \<not> line_end x \<and> \<not> line_end y \<and> plain_path p)"

definition in_generated_tree :: "string \<Rightarrow> bool" where
  "in_generated_tree p \<longleftrightarrow> p = ''reports'' \<or> p = ''dist'' \<or> (\<exists>q. p = ''reports/'' @ q) \<or> (\<exists>q. p = ''dist/'' @ q)"

lemma is_generated_iff: "is_generated p \<longleftrightarrow> in_generated_tree p"
proof -
  have "rstrip_char (CHR ''/'') ''reports/'' = ''reports''" "rstrip_char (CHR ''/'') ''dist/'' = ''dist''"
    by code_simp+
  then show ?thesis
    by (auto simp: is_generated_def GENERATED_PREFIXES_def in_generated_tree_def startswith_iff)
qed

lemma normalize_plain: "plain_path p \<Longrightarrow> normalize_porcelain_path p = p"
proof -
  assume p: "plain_path p"
  then have "split_once '' -> '' p = None" "strip p = p" unfolding plain_path_def contains_def by blast+
  moreover have "\<not> startswith p [CHR 34]" using p by (cases p) (auto simp: plain_path_def startswith_iff)
  ultimately show ?thesis by (simp add: normalize_porcelain_path_def Let_def)
qed

lemma porcelain_paths_entries:
  assumes "\<forall>e\<in>set es. plain_entry e"
  shows "porcelain_paths (unlines (map entry_line es)) = map (\<lambda>(x, y, p). p) es"
proof -
  have "\<forall>l\<in>set (map entry_line es). one_line l"
    using assms by (auto simp: plain_entry_def entry_line_def one_line_def plain_path_def line_end_def)
  then have lines: "splitlines (unlines (map entry_line es)) = map entry_line es" by (rule splitlines_unlines)
  have "normalize_porcelain_path (drop 3 (entry_line e)) = snd (snd e) \<and> \<not> length (entry_line e) < 4 \<and> snd (snd e) \<noteq> []"
    if "e \<in> set es" for e
    using assms that normalize_plain by (cases e) (auto simp: plain_entry_def entry_line_def plain_path_def)
  then show ?thesis
    unfolding porcelain_paths_def lines using assms
    by (induction es) (auto simp: split_beta)
qed

lemma collect_partition:
  assumes "collect_repository_state c = Inr st"
  shows "set (dirty_paths st) = set (source_dirty_paths st) \<union> set (generated_dirty_paths st)"
    "set (source_dirty_paths st) = {p \<in> set (porcelain_paths (stdout c)). \<not> in_generated_tree p}"
    "set (generated_dirty_paths st) = {p \<in> set (porcelain_paths (stdout c)). in_generated_tree p}"
    "sorted (source_dirty_paths st)" "sorted (generated_dirty_paths st)"
    "distinct (source_dirty_paths st)" "distinct (generated_dirty_paths st)"
  using assms by (auto simp: collect_repository_state_def Let_def is_generated_iff sorted_wrt_filter
      split: if_splits)

section \<open>Properties\<close>

text \<open>C40: the cleanliness check fails exactly on uncommitted source changes. When \<open>git status\<close>
  succeeds and lists plain entries (any two status letters, paths git prints unquoted, no
  renames), \<open>check_source_cleanliness.py\<close> exits with 0 if and only if every listed path lies in
  \<open>reports/\<close> or \<open>dist/\<close>; otherwise it exits with 1 and lists the other paths, each once, in
  ascending order.\<close>

theorem cleanliness_detects_source_changes:
  assumes "\<forall>e\<in>set es. plain_entry e"
    and "returncode c = 0" and "stdout c = unlines (map entry_line es)"
  shows "\<exists>source generated.
    set source = {p. (\<exists>x y. (x, y, p) \<in> set es) \<and> \<not> in_generated_tree p} \<and> sorted source \<and> distinct source \<and>
    set generated = {p. (\<exists>x y. (x, y, p) \<in> set es) \<and> in_generated_tree p} \<and>
    cleanliness_main c =
      (if source = []
       then Inr (0, ''PASS: no uncommitted source or configuration changes'' #
              (if generated = [] then [] else ''Generated evidence changes are present and permitted:'' #
                 map (\<lambda>path. ''- '' @ path) generated))
       else Inr (1, ''FAIL: uncommitted source or configuration changes detected:'' #
              map (\<lambda>path. ''- '' @ path) source))"
proof -
  obtain st where st: "collect_repository_state c = Inr st"
    using assms(2) by (simp add: collect_repository_state_def Let_def)
  note part = collect_partition [OF st]
  have "set (porcelain_paths (stdout c)) = {p. \<exists>x y. (x, y, p) \<in> set es}"
    unfolding assms(3) porcelain_paths_entries [OF assms(1)] by force
  then have "set (source_dirty_paths st) = {p. (\<exists>x y. (x, y, p) \<in> set es) \<and> \<not> in_generated_tree p}"
    "set (generated_dirty_paths st) = {p. (\<exists>x y. (x, y, p) \<in> set es) \<and> in_generated_tree p}"
    using part(2,3) by auto
  with part(4,6) show ?thesis
    by (intro exI [of _ "source_dirty_paths st"] exI [of _ "generated_dirty_paths st"])
      (simp add: cleanliness_main_def st source_dirty_def)
qed

theorem cleanliness_detects_source_changes_witness:
  "\<exists>lines. cleanliness_main \<lparr>returncode = 0,
     stdout = unlines (map entry_line [(CHR '' '', CHR ''M'', ''tools/a.py'')]), stderr = []\<rparr> = Inr (1, lines)"
proof -
  let ?es = "[(CHR '' '', CHR ''M'', ''tools/a.py'')]"
  have gen: "\<not> in_generated_tree ''tools/a.py''" by (simp add: in_generated_tree_def)
  have "plain_path ''tools/a.py''" by code_simp
  then have "\<forall>e\<in>set ?es. plain_entry e" by (simp add: plain_entry_def line_end_def)
  from cleanliness_detects_source_changes [OF this, of "\<lparr>returncode = 0, stdout = unlines (map entry_line ?es), stderr = []\<rparr>"]
  obtain source generated where "set source = {''tools/a.py''}" "cleanliness_main \<lparr>returncode = 0,
      stdout = unlines (map entry_line ?es), stderr = []\<rparr> = (if source = []
       then Inr (0, ''PASS: no uncommitted source or configuration changes'' #
              (if generated = [] then [] else ''Generated evidence changes are present and permitted:'' #
                 map (\<lambda>path. ''- '' @ path) generated))
       else Inr (1, ''FAIL: uncommitted source or configuration changes detected:'' #
              map (\<lambda>path. ''- '' @ path) source))"
    using gen by auto
  then show ?thesis by (cases "source = []") auto
qed

text \<open>A rename hides its origin: a source file moved into \<open>reports/\<close> leaves the tree clean.\<close>

lemma renamed_source_reported_clean:
  "cleanliness_main \<lparr>returncode = 0, stdout = ''R  fsw/src/watchdog.cpp -> reports/watchdog.cpp'' @ [CHR 10],
     stderr = []\<rparr> =
   Inr (0, [''PASS: no uncommitted source or configuration changes'',
     ''Generated evidence changes are present and permitted:'', ''- reports/watchdog.cpp''])"
  by code_simp

end
