(* ===== verification/Provenance.thy ===== *)
theory Provenance
  imports Repo_State Baseline
begin

text \<open>
  \<open>tools/generate_baseline_manifest.py\<close>: the provenance manifest of a build. Probes of the
  toolchain, the file system, SHA-256, the clock, the environment and the host are parameters.
\<close>

section \<open>Probes\<close>

text \<open>What \<open>subprocess.run\<close> makes of a probe: an \<open>OSError\<close> or a timeout, by its text, or the return
  code with both outputs.\<close>

record probes =
  pb_which :: "string \<Rightarrow> string option"
  pb_run :: "string list \<Rightarrow> string + completed_process"

definition probe_result :: "string list \<Rightarrow> bool \<Rightarrow> int option \<Rightarrow> string option \<Rightarrow> json_object" where
  "probe_result command available return_code output =
     [(''command'', JArr (map JStr command)), (''available'', JBool available),
      (''return_code'', case return_code of None \<Rightarrow> JNull | Some c \<Rightarrow> JInt c),
      (''output'', case output of None \<Rightarrow> JNull | Some t \<Rightarrow> JStr t)]"

definition run_probe :: "probes \<Rightarrow> string list \<Rightarrow> json_object" where
  "run_probe pb command =
     (case pb_which pb (hd command) of
        None \<Rightarrow> probe_result command False None None
      | Some executable \<Rightarrow>
          (case pb_run pb command of
             Inl error \<Rightarrow> probe_result command True None None @ [(''error'', JStr error)]
           | Inr completed \<Rightarrow> probe_result command True (Some (returncode completed))
               (Some (strip (if stdout completed \<noteq> [] then stdout completed else stderr completed)))))"

definition git_text :: "probes \<Rightarrow> string list \<Rightarrow> string option" where
  "git_text pb arguments =
     (let probe = run_probe pb (''git'' # arguments) in
      if \<not> eq_int (dict_get probe ''return_code'') 0 then None
      else case dict_get probe ''output'' of
        Some (JStr t) \<Rightarrow> if t = [] then None else Some (hd (splitlines t))
      | _ \<Rightarrow> None)"

section \<open>The hashed inputs\<close>

definition glob_patterns :: "string list" where
  "glob_patterns = [''*.md'', ''fsw/include/astra/*.hpp'', ''fsw/src/*.cpp'', ''fsw/tests/*.cpp'', ''fsw/fuzz/*.cpp'',
     ''config/*.json'', ''scenarios/*.yaml'', ''ci/*.sh'', ''tools/*.py'', ''.github/workflows/*.yml'', ''docs/*.md'', ''docs/*.csv'']"

text \<open>Relative paths stand for the paths below the repository; they sort by their parts. \<open>tr_glob\<close>
  lists the matches of a pattern, \<open>tr_content\<close> the content of a file.\<close>

record tree =
  tr_glob :: "string \<Rightarrow> string list"
  tr_content :: "string \<Rightarrow> string option"
  tr_sha256 :: "string \<Rightarrow> string"

definition evidence_inputs :: "tree \<Rightarrow> string list" where
  "evidence_inputs tr =
     sort_key (split_char (CHR ''/''))
       (remdups (filter (\<lambda>path. tr_content tr path \<noteq> None)
          ([''CMakeLists.txt'', ''.gitignore''] @ concat (map (tr_glob tr) glob_patterns))))"

definition file_record :: "tree \<Rightarrow> string \<Rightarrow> json" where
  "file_record tr path =
     (let content = (case tr_content tr path of None \<Rightarrow> [] | Some c \<Rightarrow> c) in
      JObj [(''path'', JStr path), (''size_bytes'', JInt (int (length content))), (''sha256'', JStr (tr_sha256 tr content))])"

definition file_manifest :: "tree \<Rightarrow> json list" where
  "file_manifest tr = map (file_record tr) (evidence_inputs tr)"

section \<open>The manifest\<close>

record manifest_args =
  mf_output :: string
  mf_verification_status :: string
  mf_test_command :: "string list"
  mf_note :: string
  mf_build_type :: string
  mf_warnings_as_errors :: bool
  mf_sanitizers_enabled :: bool
  mf_coverage_enabled :: bool

record surroundings =
  su_probes :: probes
  su_tree :: tree
  su_git_status :: completed_process
  su_environ :: "(string, string) dict"
  su_utc_now :: string
  su_repo :: string
  su_host :: json_object

definition optional_json :: "string option \<Rightarrow> json" where
  "optional_json v = (case v of None \<Rightarrow> JNull | Some s \<Rightarrow> JStr s)"

definition repository_json :: "surroundings \<Rightarrow> RepositoryState \<Rightarrow> json_object" where
  "repository_json su st =
     (let git = \<lambda>arguments. optional_json (git_text (su_probes su) arguments); strs = \<lambda>xs. JArr (map JStr xs) in
      [(''root'', JStr (su_repo su)), (''commit'', git [''rev-parse'', ''HEAD'']),
       (''branch'', git [''rev-parse'', ''--abbrev-ref'', ''HEAD'']),
       (''describe'', git [''describe'', ''--always'', ''--dirty'', ''--tags'']),
       (''dirty'', JBool (dirty st)), (''source_dirty'', JBool (source_dirty st)), (''dirty_paths'', strs (dirty_paths st)),
       (''source_dirty_paths'', strs (source_dirty_paths st)),
       (''generated_evidence_dirty_paths'', strs (generated_dirty_paths st)),
       (''remote'', git [''remote'', ''get-url'', ''origin''])])"

definition build_manifest :: "surroundings \<Rightarrow> manifest_args \<Rightarrow> json_object result" where
  "build_manifest su args =
     rbind (collect_repository_state (su_git_status su)) (\<lambda>repository_state.
       let cxx = dict_get_default (su_environ su) ''CXX'' ''c++'';
           environ = \<lambda>key. optional_json (dict_get (su_environ su) key);
           probe = \<lambda>command. JObj (run_probe (su_probes su) command)
       in Inr
         [(''schema'', JStr ''astra-os.provenance-manifest.v1''), (''generated_at_utc'', JStr (su_utc_now su)),
          (''verification'', JObj [(''status'', JStr (mf_verification_status args)),
             (''commands'', JArr (map JStr (mf_test_command args))), (''note'', JStr (mf_note args))]),
          (''repository'', JObj (repository_json su repository_state)),
          (''host'', JObj (su_host su)),
          (''toolchain'', JObj [(''cmake'', probe [''cmake'', ''--version'']), (''compiler'', probe [cxx, ''--version'']),
             (''ctest'', probe [''ctest'', ''--version'']), (''git'', probe [''git'', ''--version''])]),
          (''environment'', JObj [(''cxx'', JStr cxx), (''build_type'', JStr (mf_build_type args)),
             (''warnings_as_errors'', JBool (mf_warnings_as_errors args)),
             (''sanitizers_enabled'', JBool (mf_sanitizers_enabled args)),
             (''coverage_enabled'', JBool (mf_coverage_enabled args)),
             (''source_date_epoch'', environ ''SOURCE_DATE_EPOCH''), (''github_run_id'', environ ''GITHUB_RUN_ID''),
             (''github_run_attempt'', environ ''GITHUB_RUN_ATTEMPT''), (''github_workflow'', environ ''GITHUB_WORKFLOW'')]),
          (''inputs'', JArr (file_manifest (su_tree su)))])"

text \<open>\<open>main\<close>: the manifest written, if any, and the exit status.\<close>

definition manifest_main :: "surroundings \<Rightarrow> manifest_args \<Rightarrow> (string \<times> json_object) option \<times> int result" where
  "manifest_main su args =
     (let output = path_under (su_repo su) (mf_output args) in
      case build_manifest su args of
        Inl e \<Rightarrow> (None, Inl e)
      | Inr manifest \<Rightarrow> (Some (output, manifest), rbind (relative_to output (su_repo su)) (\<lambda>_. Inr 0)))"

section \<open>What the manifest records\<close>

text \<open>Every existing input is hashed exactly once.\<close>

lemma evidence_inputs_exact:
  "set (evidence_inputs tr) =
     {path. tr_content tr path \<noteq> None \<and>
        (path = ''CMakeLists.txt'' \<or> path = ''.gitignore'' \<or> (\<exists>pattern\<in>set glob_patterns. path \<in> set (tr_glob tr pattern)))}"
  "distinct (evidence_inputs tr)" "sorted (map (split_char (CHR ''/'')) (evidence_inputs tr))"
  by (auto simp: evidence_inputs_def distinct_sort)

text \<open>The manifest records a clean source tree exactly when the cleanliness gate passes.\<close>

lemma manifest_agrees_with_gate:
  assumes "build_manifest su args = Inr manifest"
  shows "\<exists>repository. dict_get manifest ''repository'' = Some (JObj repository) \<and>
    (dict_get repository ''source_dirty'' = Some (JBool False) \<longleftrightarrow>
       (\<exists>printed. cleanliness_main (su_git_status su) = Inr (0, printed)))"
proof -
  from assms obtain st where st: "collect_repository_state (su_git_status su) = Inr st"
    by (auto simp: build_manifest_def rbind_Inr_iff)
  with assms have "dict_get manifest ''repository'' = Some (JObj (repository_json su st))"
    by (auto simp: build_manifest_def Let_def)
  moreover have "dict_get (repository_json su st) ''source_dirty'' = Some (JBool (source_dirty st))"
    by (simp add: repository_json_def Let_def)
  moreover have "(\<exists>printed. cleanliness_main (su_git_status su) = Inr (0, printed)) \<longleftrightarrow> \<not> source_dirty st"
    by (simp add: cleanliness_main_def st)
  ultimately show ?thesis by auto
qed

end
