(* ===== verification/Protocol_Check.thy ===== *)
theory Protocol_Check
  imports Command_Link Telemetry_Link Campaigns
begin

text \<open>
  \<open>tools/check_protocol_conformance.py\<close>: the C++ headers and the Python tables must agree with the
  protocol manifest. The regular expressions that read the headers are written out as scanners; the
  texts of the headers, the parsed manifest and the loaded Python modules are parameters.
\<close>

section \<open>Scanning the headers\<close>

definition is_decimal :: "char \<Rightarrow> bool" where
  "is_decimal c \<longleftrightarrow> digit_val c \<noteq> None"

definition hex_val :: "char \<Rightarrow> nat option" where
  "hex_val c = (case digit_val c of Some d \<Rightarrow> Some d | None \<Rightarrow>
     if CHR ''A'' \<le> c \<and> c \<le> CHR ''F'' then Some (of_char c - 55)
     else if CHR ''a'' \<le> c \<and> c \<le> CHR ''f'' then Some (of_char c - 87) else None)"

text \<open>\<open>(0x[0-9A-Fa-f]+|\d+)\<close> at the start of a text: the literal and the rest.\<close>

definition cpp_number :: "string \<Rightarrow> (string \<times> string) option" where
  "cpp_number s =
     (let hex = takeWhile (\<lambda>c. hex_val c \<noteq> None) (drop 2 s); dec = takeWhile is_decimal s in
      if startswith s ''0x'' \<and> hex \<noteq> [] then Some (''0x'' @ hex, drop (2 + length hex) s)
      else if dec \<noteq> [] then Some (dec, drop (length dec) s) else None)"

text \<open>\<open>int(text, 0)\<close> of such a literal: a decimal one with a leading zero has to be zero.\<close>

definition digits_value :: "nat \<Rightarrow> (char \<Rightarrow> nat option) \<Rightarrow> string \<Rightarrow> nat" where
  "digits_value base val s = foldl (\<lambda>n c. base * n + (case val c of Some d \<Rightarrow> d | None \<Rightarrow> 0)) 0 s"

definition parse_integer :: "string \<Rightarrow> int result" where
  "parse_integer s =
     (if startswith s ''0x'' then Inr (int (digits_value 16 hex_val (drop 2 s)))
      else if startswith s ''0'' \<and> digits_value 10 digit_val s \<noteq> 0
      then Inl (ValueError ''invalid literal for int() with base 0'')
      else Inr (int (digits_value 10 digit_val s)))"

text \<open>\<open>constexpr\s+[^;=]+\s+NAME\s*=\s*(0x[0-9A-Fa-f]+|\d+)\s*;\<close> at the start of a text. What stands before
  the equals sign has to end with the name, preceded by at least three characters, the first and
  the last of them white space.\<close>

definition match_constant :: "string \<Rightarrow> string \<Rightarrow> string option" where
  "match_constant name s =
     (let t = drop 9 s;
          declaration = takeWhile (\<lambda>c. c \<noteq> CHR '';'' \<and> c \<noteq> CHR ''='') t;
          rest = drop (length declaration) t;
          stripped = rstrip declaration;
          before = take (length stripped - length name) stripped
      in if \<not> startswith s ''constexpr'' \<or> \<not> startswith rest ''='' \<or> \<not> endswith stripped name \<or>
            length before < 3 \<or> \<not> is_space (hd before) \<or> \<not> is_space (last before) then None
         else case cpp_number (lstrip (drop 1 rest)) of
           None \<Rightarrow> None
         | Some (literal, after) \<Rightarrow> if startswith (lstrip after) '';'' then Some literal else None)"

text \<open>\<open>search\<close>: the first position that matches.\<close>

fun search_from :: "(string \<Rightarrow> 'a option) \<Rightarrow> string \<Rightarrow> 'a option" where
  "search_from matches [] = matches []"
| "search_from matches (c # s) = (case matches (c # s) of Some x \<Rightarrow> Some x | None \<Rightarrow> search_from matches s)"

definition parse_cpp_constant :: "string \<Rightarrow> string \<Rightarrow> string \<Rightarrow> int result" where
  "parse_cpp_constant path text name =
     (case search_from (match_constant name) text of
        None \<Rightarrow> Inl (ValueError (path @ '': constant '' @ name @ '' not found''))
      | Some literal \<Rightarrow> parse_integer literal)"

text \<open>\<open>(?P<body>.*?)\}\s*;\<close>: the text before the first closing brace that a semicolon follows.\<close>

fun enum_body :: "string \<Rightarrow> string option" where
  "enum_body [] = None"
| "enum_body (c # s) =
     (if c = CHR ''}'' \<and> startswith (lstrip s) '';'' then Some [] else map_option (Cons c) (enum_body s))"

text \<open>\<open>word\s+\<close> at the start of a text.\<close>

definition skip_word :: "string \<Rightarrow> string \<Rightarrow> string option" where
  "skip_word word s =
     (let t = drop (length word) s in
      if startswith s word \<and> t \<noteq> [] \<and> is_space (hd t) then Some (lstrip t) else None)"

text \<open>\<open>enum\s+class\s+NAME\s*:\s*[^{]+\{(?P<body>.*?)\}\s*;\<close> at the start of a text.\<close>

definition match_enum :: "string \<Rightarrow> string \<Rightarrow> string option" where
  "match_enum enum_name s =
     (case skip_word ''enum'' s of
        None \<Rightarrow> None
      | Some s1 \<Rightarrow>
          (case skip_word ''class'' s1 of
             None \<Rightarrow> None
           | Some s2 \<Rightarrow>
               let t = lstrip (drop (length enum_name) s2);
                   base = takeWhile (\<lambda>c. c \<noteq> CHR ''{'') (drop 1 t);
                   rest = drop (1 + length base) t
               in if startswith s2 enum_name \<and> startswith t '':'' \<and> base \<noteq> [] \<and> rest \<noteq> []
                  then enum_body (drop 1 rest) else None))"

definition enumerator_char :: "char \<Rightarrow> bool" where
  "enumerator_char c \<longleftrightarrow> CHR ''A'' \<le> c \<and> c \<le> CHR ''Z'' \<or> is_decimal c \<or> c = CHR ''_''"

text \<open>\<open>fullmatch(r"([A-Z][A-Z0-9_]*)\s*=\s*(0x[0-9A-Fa-f]+|\d+)", entry)\<close>.\<close>

definition parse_enumerator :: "string \<Rightarrow> (string \<times> string) option" where
  "parse_enumerator s =
     (let name = takeWhile enumerator_char s; t = lstrip (drop (length name) s) in
      if name \<noteq> [] \<and> CHR ''A'' \<le> hd name \<and> hd name \<le> CHR ''Z'' \<and> startswith t ''=''
      then (case cpp_number (lstrip (drop 1 t)) of
              Some (literal, rest) \<Rightarrow> if rest = [] then Some (name, literal) else None
            | None \<Rightarrow> None)
      else None)"

definition enumerator_entry :: "string \<Rightarrow> string \<Rightarrow> string \<Rightarrow> (string \<times> int) result" where
  "enumerator_entry path enum_name stripped =
     (case parse_enumerator stripped of
        None \<Rightarrow> Inl (ValueError (path @ '': unsupported '' @ enum_name @ '' entry syntax: '' @ stripped))
      | Some (name, literal) \<Rightarrow> rbind (parse_integer literal) (\<lambda>v. Inr (name, v)))"

definition parse_cpp_enum :: "string \<Rightarrow> string \<Rightarrow> string \<Rightarrow> (string, int) dict result" where
  "parse_cpp_enum path text enum_name =
     (case search_from (match_enum enum_name) text of
        None \<Rightarrow> Inl (ValueError (path @ '': enum '' @ enum_name @ '' not found''))
      | Some body \<Rightarrow>
          rbind (rmap (enumerator_entry path enum_name) (filter (\<lambda>e. e \<noteq> []) (map strip (split_char (CHR '','') body))))
            (\<lambda>entries. Inr (foldl (\<lambda>d (k, v). dict_set k v d) [] entries)))"

definition invert_integer_map :: "(int, string) dict \<Rightarrow> (string, int) dict" where
  "invert_integer_map values = foldl (\<lambda>d (v, name). dict_set name v d) [] values"

section \<open>Comparison\<close>

text \<open>What is compared with an entry of the manifest: a number or a table.\<close>

datatype protocol_value = Number int | Table "(string, int) dict"

definition same_value :: "json \<Rightarrow> protocol_value \<Rightarrow> bool" where
  "same_value expected actual =
     (case actual of
        Number i \<Rightarrow> eq_int (Some expected) i
      | Table t \<Rightarrow> (case expected of
            JObj kvs \<Rightarrow> set (dict_keys kvs) = set (dict_keys t) \<and>
              list_all (\<lambda>k. case dict_get t k of Some i \<Rightarrow> eq_int (dict_get kvs k) i | None \<Rightarrow> False) (dict_keys kvs)
          | _ \<Rightarrow> False))"

definition value_json :: "protocol_value \<Rightarrow> json" where
  "value_json v = (case v of Number i \<Rightarrow> JInt i | Table t \<Rightarrow> JObj (map (\<lambda>(k, i). (k, JInt i)) t))"

record conformance =
  cf_label :: string
  cf_passed :: bool
  cf_expected :: json
  cf_actual :: protocol_value

definition compare :: "string \<times> json result \<times> protocol_value result \<Rightarrow> conformance result" where
  "compare = (\<lambda>(label, expected, actual).
     rbind expected (\<lambda>e. rbind actual (\<lambda>a.
       Inr \<lparr>cf_label = label, cf_passed = same_value e a, cf_expected = e, cf_actual = a\<rparr>)))"

definition conformance_json :: "conformance \<Rightarrow> json" where
  "conformance_json c = JObj [(''label'', JStr (cf_label c)), (''passed'', JBool (cf_passed c)),
     (''expected'', cf_expected c), (''actual'', value_json (cf_actual c))]"

section \<open>The checks\<close>

text \<open>The tables of the two loaded modules.\<close>

record sender_module =
  sm_COMMANDS :: "(string, int) dict"
  sm_MODES :: "(string, int) dict"
  sm_FAULTS :: "(string, int) dict"
  sm_COMMAND_MAGIC :: int
  sm_COMMAND_VERSION :: int

record receiver_module =
  rm_COMMANDS :: "(int, string) dict"
  rm_MODES :: "(int, string) dict"
  rm_FAULTS :: "(int, string) dict"
  rm_COMMAND_STATUSES :: "(int, string) dict"
  rm_TELEMETRY_MAGIC :: int
  rm_TELEMETRY_VERSION :: int
  rm_TELEMETRY_PACKET_TYPE_HEALTH :: int
  rm_TELEMETRY_PACKET_SIZE_BYTES :: int

record protocol_env =
  pe_manifest :: "string \<Rightarrow> json result"
  pe_text :: "string \<Rightarrow> string result"
  pe_sender :: "sender_module result"
  pe_receiver :: "receiver_module result"
  pe_repo :: string

text \<open>\<open>value[key]\<close> on a parsed value.\<close>

definition json_index :: "json \<Rightarrow> string \<Rightarrow> json result" where
  "json_index j key = (case j of JObj d \<Rightarrow> dict_index d key | _ \<Rightarrow> Inl (TypeError ''indices must be integers''))"

definition header :: "protocol_env \<Rightarrow> string \<Rightarrow> string" where
  "header env name = pe_repo env @ ''/fsw/include/astra/'' @ name"

definition cpp_enum :: "protocol_env \<Rightarrow> string \<Rightarrow> string \<Rightarrow> protocol_value result" where
  "cpp_enum env name enum_name =
     rbind (pe_text env (header env name)) (\<lambda>text.
     rbind (parse_cpp_enum (header env name) text enum_name) (\<lambda>t. Inr (Table t)))"

definition cpp_constant :: "protocol_env \<Rightarrow> string \<Rightarrow> string \<Rightarrow> protocol_value result" where
  "cpp_constant env name constant =
     rbind (pe_text env (header env name)) (\<lambda>text.
     rbind (parse_cpp_constant (header env name) text constant) (\<lambda>i. Inr (Number i)))"

definition protocol_checks ::
  "protocol_env \<Rightarrow> json \<Rightarrow> sender_module \<Rightarrow> receiver_module \<Rightarrow> (string \<times> json result \<times> protocol_value result) list" where
  "protocol_checks env manifest sender receiver =
     (let entry = json_index manifest;
          command = (\<lambda>key. rbind (entry ''command_packet'') (\<lambda>j. json_index j key));
          telemetry = (\<lambda>key. rbind (entry ''telemetry_packet'') (\<lambda>j. json_index j key));
          table = (\<lambda>t. Inr (Table t)); inverted = (\<lambda>t. Inr (Table (invert_integer_map t))); number = (\<lambda>i. Inr (Number i))
      in
      [(''C++ Mode enum'', entry ''modes'', cpp_enum env ''mode_manager.hpp'' ''Mode''),
       (''C++ FaultCode enum'', entry ''faults'', cpp_enum env ''mode_manager.hpp'' ''FaultCode''),
       (''C++ CommandId enum'', entry ''commands'', cpp_enum env ''command_packet.hpp'' ''CommandId''),
       (''C++ CommandStatus enum'', entry ''command_statuses'', cpp_enum env ''command_processor.hpp'' ''CommandStatus''),
       (''C++ command magic'', command ''magic'', cpp_constant env ''command_packet.hpp'' ''COMMAND_MAGIC''),
       (''C++ command version'', command ''version'', cpp_constant env ''command_packet.hpp'' ''COMMAND_VERSION''),
       (''C++ command size'', command ''size_bytes'', cpp_constant env ''command_packet.hpp'' ''COMMAND_PACKET_SIZE_BYTES''),
       (''C++ telemetry magic'', telemetry ''magic'', cpp_constant env ''telemetry_packet.hpp'' ''TELEMETRY_MAGIC''),
       (''C++ telemetry version'', telemetry ''version'', cpp_constant env ''telemetry_packet.hpp'' ''TELEMETRY_VERSION''),
       (''C++ telemetry type'', telemetry ''packet_type_health'',
          cpp_constant env ''telemetry_packet.hpp'' ''TELEMETRY_PACKET_TYPE_HEALTH''),
       (''C++ telemetry size'', telemetry ''size_bytes'',
          cpp_constant env ''telemetry_packet.hpp'' ''TELEMETRY_PACKET_SIZE_BYTES''),
       (''Python sender commands'', entry ''commands'', table (sm_COMMANDS sender)),
       (''Python sender modes'', entry ''modes'', table (sm_MODES sender)),
       (''Python sender faults'', entry ''faults'', table (sm_FAULTS sender)),
       (''Python sender command magic'', command ''magic'', number (sm_COMMAND_MAGIC sender)),
       (''Python sender command version'', command ''version'', number (sm_COMMAND_VERSION sender)),
       (''Python receiver commands'', entry ''commands'', inverted (rm_COMMANDS receiver)),
       (''Python receiver modes'', entry ''modes'', inverted (rm_MODES receiver)),
       (''Python receiver faults'', entry ''faults'', inverted (rm_FAULTS receiver)),
       (''Python receiver statuses'', entry ''command_statuses'', inverted (rm_COMMAND_STATUSES receiver)),
       (''Python telemetry magic'', telemetry ''magic'', number (rm_TELEMETRY_MAGIC receiver)),
       (''Python telemetry version'', telemetry ''version'', number (rm_TELEMETRY_VERSION receiver)),
       (''Python telemetry type'', telemetry ''packet_type_health'', number (rm_TELEMETRY_PACKET_TYPE_HEALTH receiver)),
       (''Python telemetry size'', telemetry ''size_bytes'', number (rm_TELEMETRY_PACKET_SIZE_BYTES receiver))])"

definition conformance_results :: "protocol_env \<Rightarrow> string \<Rightarrow> conformance list result" where
  "conformance_results env manifest_path =
     rbind (pe_manifest env manifest_path) (\<lambda>manifest. rbind (pe_sender env) (\<lambda>sender. rbind (pe_receiver env) (\<lambda>receiver.
       rmap compare (protocol_checks env manifest sender receiver))))"

fun caught :: "py_error \<Rightarrow> bool" where
  "caught (OSError _) = True"
| "caught (ValueError _) = True"
| "caught (KeyError _) = True"
| "caught (TypeError _) = True"
| "caught (RuntimeError _) = True"
| "caught _ = False"

text \<open>\<open>main\<close>: the report written, if any, and the exit status.\<close>

definition protocol_main :: "protocol_env \<Rightarrow> string \<Rightarrow> string \<Rightarrow> (string \<times> json_object) option \<times> int result" where
  "protocol_main env manifest_arg report_arg =
     (let manifest_path = path_under (pe_repo env) manifest_arg; report_path = path_under (pe_repo env) report_arg in
      case conformance_results env manifest_path of
        Inl e \<Rightarrow> (None, if caught e then Inr 1 else Inl e)
      | Inr results \<Rightarrow>
          let passed = list_all cf_passed results in
          (case relative_to manifest_path (pe_repo env) of
             Inl e \<Rightarrow> (None, Inl e)
           | Inr manifest_name \<Rightarrow>
               (Some (report_path,
                  [(''schema'', JStr ''astra-os.protocol-conformance.v1''), (''manifest'', JStr manifest_name),
                   (''passed'', JBool passed), (''check_count'', JInt (int (length results))),
                   (''failed_count'', JInt (int (length (filter (\<lambda>r. \<not> cf_passed r) results)))),
                   (''checks'', JArr (map conformance_json results))]),
                rbind (relative_to report_path (pe_repo env)) (\<lambda>_. Inr (if passed then 0 else 1)))))"

section \<open>One protocol\<close>

text \<open>A protocol: the values of four enumerations by name, and the constants of the two packets.\<close>

record protocol =
  pt_modes :: "string \<rightharpoonup> int"
  pt_faults :: "string \<rightharpoonup> int"
  pt_commands :: "string \<rightharpoonup> int"
  pt_statuses :: "string \<rightharpoonup> int"
  pt_command_magic :: int
  pt_command_version :: int
  pt_command_size :: int
  pt_telemetry_magic :: int
  pt_telemetry_version :: int
  pt_telemetry_type :: int
  pt_telemetry_size :: int

text \<open>How each source gives it. An object of the manifest describes a table if it has the same keys
  and numerically equal values.\<close>

definition describes :: "json result \<Rightarrow> (string \<rightharpoonup> int) \<Rightarrow> bool" where
  "describes j f \<longleftrightarrow> (\<exists>kvs. j = Inr (JObj kvs) \<and> dom (map_of kvs) = dom f \<and>
     (\<forall>k i. f k = Some i \<longrightarrow> eq_int (map_of kvs k) i))"

definition equals :: "json result \<Rightarrow> int \<Rightarrow> bool" where
  "equals j i \<longleftrightarrow> (\<exists>v. j = Inr v \<and> eq_int (Some v) i)"

definition packet_entry :: "json \<Rightarrow> string \<Rightarrow> string \<Rightarrow> json result" where
  "packet_entry manifest packet key = rbind (json_index manifest packet) (\<lambda>j. json_index j key)"

definition manifest_describes :: "json \<Rightarrow> protocol \<Rightarrow> bool" where
  "manifest_describes manifest p \<longleftrightarrow>
     describes (json_index manifest ''modes'') (pt_modes p) \<and> describes (json_index manifest ''faults'') (pt_faults p) \<and>
     describes (json_index manifest ''commands'') (pt_commands p) \<and>
     describes (json_index manifest ''command_statuses'') (pt_statuses p) \<and>
     equals (packet_entry manifest ''command_packet'' ''magic'') (pt_command_magic p) \<and>
     equals (packet_entry manifest ''command_packet'' ''version'') (pt_command_version p) \<and>
     equals (packet_entry manifest ''command_packet'' ''size_bytes'') (pt_command_size p) \<and>
     equals (packet_entry manifest ''telemetry_packet'' ''magic'') (pt_telemetry_magic p) \<and>
     equals (packet_entry manifest ''telemetry_packet'' ''version'') (pt_telemetry_version p) \<and>
     equals (packet_entry manifest ''telemetry_packet'' ''packet_type_health'') (pt_telemetry_type p) \<and>
     equals (packet_entry manifest ''telemetry_packet'' ''size_bytes'') (pt_telemetry_size p)"

definition declares_enum :: "protocol_env \<Rightarrow> string \<Rightarrow> string \<Rightarrow> (string \<rightharpoonup> int) \<Rightarrow> bool" where
  "declares_enum env name enum_name f \<longleftrightarrow> (\<exists>t. cpp_enum env name enum_name = Inr (Table t) \<and> map_of t = f)"

definition headers_declare :: "protocol_env \<Rightarrow> protocol \<Rightarrow> bool" where
  "headers_declare env p \<longleftrightarrow>
     declares_enum env ''mode_manager.hpp'' ''Mode'' (pt_modes p) \<and>
     declares_enum env ''mode_manager.hpp'' ''FaultCode'' (pt_faults p) \<and>
     declares_enum env ''command_packet.hpp'' ''CommandId'' (pt_commands p) \<and>
     declares_enum env ''command_processor.hpp'' ''CommandStatus'' (pt_statuses p) \<and>
     cpp_constant env ''command_packet.hpp'' ''COMMAND_MAGIC'' = Inr (Number (pt_command_magic p)) \<and>
     cpp_constant env ''command_packet.hpp'' ''COMMAND_VERSION'' = Inr (Number (pt_command_version p)) \<and>
     cpp_constant env ''command_packet.hpp'' ''COMMAND_PACKET_SIZE_BYTES'' = Inr (Number (pt_command_size p)) \<and>
     cpp_constant env ''telemetry_packet.hpp'' ''TELEMETRY_MAGIC'' = Inr (Number (pt_telemetry_magic p)) \<and>
     cpp_constant env ''telemetry_packet.hpp'' ''TELEMETRY_VERSION'' = Inr (Number (pt_telemetry_version p)) \<and>
     cpp_constant env ''telemetry_packet.hpp'' ''TELEMETRY_PACKET_TYPE_HEALTH'' = Inr (Number (pt_telemetry_type p)) \<and>
     cpp_constant env ''telemetry_packet.hpp'' ''TELEMETRY_PACKET_SIZE_BYTES'' = Inr (Number (pt_telemetry_size p))"

definition sender_defines :: "sender_module \<Rightarrow> protocol \<Rightarrow> bool" where
  "sender_defines sender p \<longleftrightarrow>
     map_of (sm_COMMANDS sender) = pt_commands p \<and> map_of (sm_MODES sender) = pt_modes p \<and>
     map_of (sm_FAULTS sender) = pt_faults p \<and> sm_COMMAND_MAGIC sender = pt_command_magic p \<and>
     sm_COMMAND_VERSION sender = pt_command_version p"

definition receiver_defines :: "receiver_module \<Rightarrow> protocol \<Rightarrow> bool" where
  "receiver_defines receiver p \<longleftrightarrow>
     map_of (invert_integer_map (rm_COMMANDS receiver)) = pt_commands p \<and>
     map_of (invert_integer_map (rm_MODES receiver)) = pt_modes p \<and>
     map_of (invert_integer_map (rm_FAULTS receiver)) = pt_faults p \<and>
     map_of (invert_integer_map (rm_COMMAND_STATUSES receiver)) = pt_statuses p \<and>
     rm_TELEMETRY_MAGIC receiver = pt_telemetry_magic p \<and> rm_TELEMETRY_VERSION receiver = pt_telemetry_version p \<and>
     rm_TELEMETRY_PACKET_TYPE_HEALTH receiver = pt_telemetry_type p \<and>
     rm_TELEMETRY_PACKET_SIZE_BYTES receiver = pt_telemetry_size p"

text \<open>Numbers and tables are compared by value: what an entry equals is unique.\<close>

lemma eq_int_unique: "eq_int v i \<Longrightarrow> eq_int v j \<Longrightarrow> i = j"
  by (simp add: eq_int_def)

lemma equals_unique: "equals j a \<Longrightarrow> equals j b \<longleftrightarrow> b = a"
  by (auto simp: equals_def dest: eq_int_unique)

lemma describes_unique: "describes j f \<Longrightarrow> describes j g \<longleftrightarrow> g = f"
proof
  assume "describes j f" "describes j g"
  then obtain kvs where "dom f = dom g" "\<forall>k i. f k = Some i \<longrightarrow> eq_int (map_of kvs k) i"
      "\<forall>k i. g k = Some i \<longrightarrow> eq_int (map_of kvs k) i"
    by (auto simp: describes_def)
  then show "g = f"
    by (intro ext) (metis domIff eq_int_unique option.exhaust)
qed simp

lemma in_dict_keys: "k \<in> set (dict_keys d) \<longleftrightarrow> (\<exists>v. map_of d k = Some v)"
  by (metis domIff dom_map_of_conv_image_fst image_set not_None_eq)

lemma same_value_object:
  "same_value (JObj kvs) (Table t) \<longleftrightarrow>
     dom (map_of kvs) = dom (map_of t) \<and> (\<forall>k i. map_of t k = Some i \<longrightarrow> eq_int (map_of kvs k) i)"
proof -
  have keys: "set (dict_keys kvs) = set (dict_keys t) \<longleftrightarrow> dom (map_of kvs) = dom (map_of t)"
    by (simp add: dom_map_of_conv_image_fst)
  have "list_all (\<lambda>k. case map_of t k of Some i \<Rightarrow> eq_int (map_of kvs k) i | None \<Rightarrow> False) (dict_keys kvs) \<longleftrightarrow>
      (\<forall>k i. map_of t k = Some i \<longrightarrow> eq_int (map_of kvs k) i)"
    if "set (dict_keys kvs) = set (dict_keys t)"
  proof -
    have "list_all (\<lambda>k. case map_of t k of Some i \<Rightarrow> eq_int (map_of kvs k) i | None \<Rightarrow> False) (dict_keys kvs) \<longleftrightarrow>
        (\<forall>k. k \<in> set (dict_keys t) \<longrightarrow> (case map_of t k of Some i \<Rightarrow> eq_int (map_of kvs k) i | None \<Rightarrow> False))"
      unfolding list_all_iff that by blast
    then show ?thesis unfolding in_dict_keys by (simp split: option.split)
  qed
  with keys show ?thesis by (simp add: same_value_def del: set_map) blast
qed

lemma same_value_Table: "(\<exists>e. j = Inr e \<and> same_value e (Table t)) \<longleftrightarrow> describes j (map_of t)"
proof -
  have "same_value e (Table t) \<Longrightarrow> \<exists>kvs. e = JObj kvs" for e
    by (simp add: same_value_def split: json.splits)
  then show ?thesis unfolding describes_def by (metis same_value_object)
qed

lemma same_value_Number: "(\<exists>e. j = Inr e \<and> same_value e (Number i)) \<longleftrightarrow> equals j i"
  by (simp add: same_value_def equals_def)

text \<open>A check passes when its entry exists, its value can be read, and they agree.\<close>

definition agrees :: "string \<times> json result \<times> protocol_value result \<Rightarrow> bool" where
  "agrees = (\<lambda>(_, expected, actual).
     (\<exists>t. actual = Inr (Table t) \<and> describes expected (map_of t)) \<or> (\<exists>i. actual = Inr (Number i) \<and> equals expected i))"

lemma compare_agrees: "agrees c \<longleftrightarrow> (\<exists>r. compare c = Inr r \<and> cf_passed r)"
proof (cases c)
  case (fields label expected actual)
  have "(\<exists>r. compare c = Inr r \<and> cf_passed r) \<longleftrightarrow> (\<exists>a. actual = Inr a \<and> (\<exists>e. expected = Inr e \<and> same_value e a))"
    by (auto simp: fields compare_def rbind_Inr_iff)
  also have "\<dots> \<longleftrightarrow> agrees c"
    unfolding agrees_def fields prod.case
    by (metis protocol_value.exhaust same_value_Number same_value_Table)
  finally show ?thesis by simp
qed

lemma rmap_all: "(\<exists>rs. rmap f xs = Inr rs \<and> list_all P rs) \<longleftrightarrow> list_all (\<lambda>x. \<exists>r. f x = Inr r \<and> P r) xs"
  by (induction xs) (auto simp: rbind_Inr_iff)

lemma agrees_simps:
  "agrees (label, e, Inr (Table t)) \<longleftrightarrow> describes e (map_of t)"
  "agrees (label, e, Inr (Number i)) \<longleftrightarrow> equals e i"
  "agrees (label, e, cpp_enum env name enum_name) \<longleftrightarrow> (\<exists>f. declares_enum env name enum_name f \<and> describes e f)"
  "agrees (label, e, cpp_constant env name constant) \<longleftrightarrow>
     (\<exists>i. cpp_constant env name constant = Inr (Number i) \<and> equals e i)"
  by (auto simp: agrees_def declares_enum_def cpp_enum_def cpp_constant_def rbind_Inr_iff)

lemmas source_defs = manifest_describes_def headers_declare_def sender_defines_def receiver_defines_def packet_entry_def

lemma checks_agree:
  "list_all agrees (protocol_checks env manifest sender receiver) \<longleftrightarrow>
     (\<exists>p. manifest_describes manifest p \<and> headers_declare env p \<and> sender_defines sender p \<and> receiver_defines receiver p)"
  (is "?all \<longleftrightarrow> ?one")
proof
  assume ?one
  then obtain p where "manifest_describes manifest p" "headers_declare env p" "sender_defines sender p"
    "receiver_defines receiver p" by blast
  then show ?all
    unfolding protocol_checks_def Let_def list.pred_inject agrees_simps source_defs
    by (intro conjI) (simp_all, blast+)
next
  assume ?all
  note checks = this [unfolded protocol_checks_def Let_def list.pred_inject agrees_simps packet_entry_def [symmetric]]
  from checks obtain modes faults commands statuses cm cv cs tm tv tt ts where cpp:
      "declares_enum env ''mode_manager.hpp'' ''Mode'' modes" "describes (json_index manifest ''modes'') modes"
      "declares_enum env ''mode_manager.hpp'' ''FaultCode'' faults" "describes (json_index manifest ''faults'') faults"
      "declares_enum env ''command_packet.hpp'' ''CommandId'' commands" "describes (json_index manifest ''commands'') commands"
      "declares_enum env ''command_processor.hpp'' ''CommandStatus'' statuses"
      "describes (json_index manifest ''command_statuses'') statuses"
      "cpp_constant env ''command_packet.hpp'' ''COMMAND_MAGIC'' = Inr (Number cm)"
      "equals (packet_entry manifest ''command_packet'' ''magic'') cm"
      "cpp_constant env ''command_packet.hpp'' ''COMMAND_VERSION'' = Inr (Number cv)"
      "equals (packet_entry manifest ''command_packet'' ''version'') cv"
      "cpp_constant env ''command_packet.hpp'' ''COMMAND_PACKET_SIZE_BYTES'' = Inr (Number cs)"
      "equals (packet_entry manifest ''command_packet'' ''size_bytes'') cs"
      "cpp_constant env ''telemetry_packet.hpp'' ''TELEMETRY_MAGIC'' = Inr (Number tm)"
      "equals (packet_entry manifest ''telemetry_packet'' ''magic'') tm"
      "cpp_constant env ''telemetry_packet.hpp'' ''TELEMETRY_VERSION'' = Inr (Number tv)"
      "equals (packet_entry manifest ''telemetry_packet'' ''version'') tv"
      "cpp_constant env ''telemetry_packet.hpp'' ''TELEMETRY_PACKET_TYPE_HEALTH'' = Inr (Number tt)"
      "equals (packet_entry manifest ''telemetry_packet'' ''packet_type_health'') tt"
      "cpp_constant env ''telemetry_packet.hpp'' ''TELEMETRY_PACKET_SIZE_BYTES'' = Inr (Number ts)"
      "equals (packet_entry manifest ''telemetry_packet'' ''size_bytes'') ts"
    by blast
  note unique = describes_unique [OF cpp(2)] describes_unique [OF cpp(4)] describes_unique [OF cpp(6)]
    describes_unique [OF cpp(8)] equals_unique [OF cpp(10)] equals_unique [OF cpp(12)] equals_unique [OF cpp(14)]
    equals_unique [OF cpp(16)] equals_unique [OF cpp(18)] equals_unique [OF cpp(20)] equals_unique [OF cpp(22)]
  let ?p = "\<lparr>pt_modes = modes, pt_faults = faults, pt_commands = commands, pt_statuses = statuses,
    pt_command_magic = cm, pt_command_version = cv, pt_command_size = cs, pt_telemetry_magic = tm,
    pt_telemetry_version = tv, pt_telemetry_type = tt, pt_telemetry_size = ts\<rparr>"
  have "manifest_describes manifest ?p" using cpp by (simp add: manifest_describes_def)
  moreover have "headers_declare env ?p" using cpp by (simp add: headers_declare_def)
  moreover have "sender_defines sender ?p" "receiver_defines receiver ?p"
    using checks unfolding unique by (simp_all add: sender_defines_def receiver_defines_def)
  ultimately show ?one by blast
qed

text \<open>C17: the protocol conformance check passes exactly when there is one protocol that all four
  sources give: the manifest describes it, the C++ headers declare it, and the tables of the command
  sender and (inverted) of the telemetry receiver define it, and manifest and report lie below the
  repository. Otherwise it exits with 1 or raises.\<close>

theorem conformance_verdict:
  "snd (protocol_main env manifest_arg report_arg) = Inr 0 \<longleftrightarrow>
     (\<exists>p manifest sender receiver manifest_name report_name.
        pe_manifest env (path_under (pe_repo env) manifest_arg) = Inr manifest \<and> manifest_describes manifest p \<and>
        headers_declare env p \<and> pe_sender env = Inr sender \<and> sender_defines sender p \<and>
        pe_receiver env = Inr receiver \<and> receiver_defines receiver p \<and>
        relative_to (path_under (pe_repo env) manifest_arg) (pe_repo env) = Inr manifest_name \<and>
        relative_to (path_under (pe_repo env) report_arg) (pe_repo env) = Inr report_name)"
proof -
  let ?m = "path_under (pe_repo env) manifest_arg" and ?r = "path_under (pe_repo env) report_arg"
  have "snd (protocol_main env manifest_arg report_arg) = Inr 0 \<longleftrightarrow>
      (\<exists>results. conformance_results env ?m = Inr results \<and> list_all cf_passed results) \<and>
      (\<exists>manifest_name. relative_to ?m (pe_repo env) = Inr manifest_name) \<and>
      (\<exists>report_name. relative_to ?r (pe_repo env) = Inr report_name)"
    by (auto simp: protocol_main_def Let_def rbind_Inr_iff split: sum.splits)
  moreover have "(\<exists>results. conformance_results env ?m = Inr results \<and> list_all cf_passed results) \<longleftrightarrow>
      (\<exists>manifest sender receiver. pe_manifest env ?m = Inr manifest \<and> pe_sender env = Inr sender \<and>
         pe_receiver env = Inr receiver \<and> list_all agrees (protocol_checks env manifest sender receiver))"
  proof -
    have "list_all agrees cs \<longleftrightarrow> (\<exists>rs. rmap compare cs = Inr rs \<and> list_all cf_passed rs)" for cs
      unfolding rmap_all by (simp only: compare_agrees [symmetric])
    then show ?thesis unfolding conformance_results_def rbind_Inr_iff by blast
  qed
  ultimately show ?thesis unfolding checks_agree by blast
qed

section \<open>The protocol of the modelled sources\<close>

text \<open>The enumerations and constants of the flight model as a protocol, and the Python tables of the
  modelled tools as the two modules: they define the same protocol.\<close>

definition flight_protocol :: protocol where
  "flight_protocol = \<lparr>
     pt_modes = map_of (map (\<lambda>m. (mode_to_string m, int (mode_value m)))
       [BOOT, NOMINAL, DEGRADED_SENSOR, DEGRADED_PAYLOAD, SAFE, RECOVERY, STANDBY, TEST]),
     pt_faults = map_of (map (\<lambda>f. (fault_to_string f, int (fault_value f)))
       [NONE, SENSOR_TIMEOUT, SENSOR_INVALID_DATA, PAYLOAD_HEARTBEAT_TIMEOUT, CPU_OVERLOAD, MEMORY_OVERLOAD,
        TELEMETRY_SOCKET_FAILURE, COMMAND_BAD_CRC, COMMAND_UNKNOWN_ID, COMMAND_TIMEOUT, WATCHDOG_DEADLINE_MISS]),
     pt_commands = map_of (map (\<lambda>c. (command_id_to_string c, int (command_value c)))
       [NOOP, SET_MODE, INJECT_FAULT, REQUEST_TELEMETRY, CLEAR_FAULT]),
     pt_statuses = map_of (map (\<lambda>s. (command_status_to_string s, int (status_value s)))
       [ACCEPTED, REJECTED_BAD_ARGUMENT, REJECTED_INVALID_TRANSITION, REJECTED_UNKNOWN_COMMAND,
        REJECTED_DUPLICATE_SEQUENCE, REJECTED_REPLAYED_SEQUENCE, REJECTED_STALE_TIMESTAMP, REJECTED_FUTURE_TIMESTAMP,
        REJECTED_GUARD_CONFIGURATION, REJECTED_UNAUTHORIZED, REJECTED_RECOVERY_LIMIT]),
     pt_command_magic = uint CPP_COMMAND_MAGIC, pt_command_version = uint CPP_COMMAND_VERSION,
     pt_command_size = int COMMAND_PACKET_SIZE_BYTES, pt_telemetry_magic = uint CPP_TELEMETRY_MAGIC,
     pt_telemetry_version = uint CPP_TELEMETRY_VERSION, pt_telemetry_type = uint CPP_TELEMETRY_PACKET_TYPE_HEALTH,
     pt_telemetry_size = int CPP_TELEMETRY_PACKET_SIZE_BYTES\<rparr>"

definition send_command_module :: sender_module where
  "send_command_module = \<lparr>sm_COMMANDS = COMMANDS, sm_MODES = MODES, sm_FAULTS = FAULTS,
     sm_COMMAND_MAGIC = COMMAND_MAGIC, sm_COMMAND_VERSION = COMMAND_VERSION\<rparr>"

definition telemetry_receiver_module :: receiver_module where
  "telemetry_receiver_module = \<lparr>rm_COMMANDS = COMMAND_NAMES, rm_MODES = MODE_NAMES, rm_FAULTS = FAULT_NAMES,
     rm_COMMAND_STATUSES = COMMAND_STATUSES, rm_TELEMETRY_MAGIC = TELEMETRY_MAGIC,
     rm_TELEMETRY_VERSION = TELEMETRY_VERSION, rm_TELEMETRY_PACKET_TYPE_HEALTH = TELEMETRY_PACKET_TYPE_HEALTH,
     rm_TELEMETRY_PACKET_SIZE_BYTES = TELEMETRY_PACKET_SIZE_BYTES\<rparr>"

lemma inverted_tables:
  "invert_integer_map COMMAND_NAMES = COMMANDS" "invert_integer_map MODE_NAMES = MODES"
  "invert_integer_map FAULT_NAMES = FAULTS"
  "invert_integer_map COMMAND_STATUSES = map (\<lambda>(v, name). (name, v)) COMMAND_STATUSES"
  by code_simp+

lemma ground_tables_define_flight_protocol:
  "sender_defines send_command_module flight_protocol" "receiver_defines telemetry_receiver_module flight_protocol"
  by (simp_all add: sender_defines_def receiver_defines_def send_command_module_def telemetry_receiver_module_def
      flight_protocol_def inverted_tables inverted_tables(4) [unfolded COMMAND_STATUSES_def] COMMANDS_def MODES_def FAULTS_def COMMAND_STATUSES_def
      COMMAND_MAGIC_def COMMAND_VERSION_def TELEMETRY_MAGIC_def TELEMETRY_VERSION_def TELEMETRY_PACKET_TYPE_HEALTH_def
      TELEMETRY_PACKET_SIZE_BYTES_def CPP_COMMAND_MAGIC_def CPP_COMMAND_VERSION_def CPP_TELEMETRY_MAGIC_def
      CPP_TELEMETRY_VERSION_def CPP_TELEMETRY_PACKET_TYPE_HEALTH_def CPP_TELEMETRY_PACKET_SIZE_BYTES_def)

end
