(* ===== verification/Rate_Groups.thy ===== *)
theory Rate_Groups
  imports Wire Step_System
begin

text \<open>
  The rate-group scheduler of the flight software (\<open>fsw/src/rate_group_scheduler.cpp\<close>): periodic
  tasks are released by a tick counter, completed by their callers, and their deadlines monitored.
  Ticks and counters are 64-bit words, periods, phases and deadlines 32-bit words.
\<close>

datatype SchedulerStatus = SCHEDULER_OK | SCHEDULER_INVALID_CONFIGURATION | TICK_DISCONTINUITY

datatype CompletionStatus = COMPLETED_ON_TIME | COMPLETED_LATE | UNKNOWN_TASK | NOT_PENDING | SCHEDULER_INVALID

record RateGroupConfig =
  rg_task_id :: u16
  rg_name :: string
  rg_period_ticks :: u32
  rg_phase_ticks :: u32
  rg_relative_deadline_ticks :: u32

record RateGroupRelease =
  rr_task_id :: u16
  rr_release_tick :: u64
  rr_absolute_deadline_tick :: u64
  rr_release_count :: u64

record DeadlineMiss =
  dm_task_id :: u16
  dm_release_tick :: u64
  dm_deadline_tick :: u64
  dm_observed_tick :: u64

record SchedulerStepResult =
  sp_status :: SchedulerStatus
  sp_tick :: u64
  sp_releases :: "RateGroupRelease list"
  sp_deadline_misses :: "DeadlineMiss list"

record CompletionResult =
  cm_status :: CompletionStatus
  cm_task_id :: u16
  cm_release_tick :: u64
  cm_deadline_tick :: u64
  cm_completion_tick :: u64

record TaskState =
  ts_config :: RateGroupConfig
  ts_pending :: bool
  ts_deadline_miss_recorded :: bool
  ts_release_tick :: u64
  ts_deadline_tick :: u64
  ts_release_count :: u64
  ts_completion_count :: u64
  ts_deadline_miss_count :: u64

record RateGroupStatistics =
  st_task_id :: u16
  st_release_count :: u64
  st_completion_count :: u64
  st_deadline_miss_count :: u64
  st_pending :: bool

record RateGroupScheduler =
  sc_valid :: bool
  sc_validation_error :: string
  sc_tasks :: "TaskState list"
  sc_tick_initialized :: bool
  sc_last_tick :: u64

section \<open>Construction\<close>

definition new_task :: "RateGroupConfig \<Rightarrow> TaskState" where
  "new_task config = \<lparr>ts_config = config, ts_pending = False, ts_deadline_miss_recorded = False, ts_release_tick = 0,
     ts_deadline_tick = 0, ts_release_count = 0, ts_completion_count = 0, ts_deadline_miss_count = 0\<rparr>"

fun admit_groups :: "RateGroupConfig list \<Rightarrow> TaskState list \<Rightarrow> string + TaskState list" where
  "admit_groups [] tasks = Inr tasks"
| "admit_groups (config # configs) tasks =
     (if rg_name config = [] then Inl ''rate-group name must not be empty''
      else if rg_period_ticks config = 0 then Inl ''rate-group period must be greater than zero''
      else if rg_phase_ticks config \<ge> rg_period_ticks config then Inl ''rate-group phase must be less than its period''
      else if rg_relative_deadline_ticks config = 0 \<or> rg_relative_deadline_ticks config > rg_period_ticks config
      then Inl ''rate-group deadline must be in the range [1, period]''
      else if list_ex (\<lambda>task. rg_task_id (ts_config task) = rg_task_id config) tasks
      then Inl ''rate-group task IDs must be unique''
      else admit_groups configs (tasks @ [new_task config]))"

definition rate_group_scheduler :: "RateGroupConfig list \<Rightarrow> RateGroupScheduler" where
  "rate_group_scheduler configuration =
     (let invalid = \<lambda>message. \<lparr>sc_valid = False, sc_validation_error = message, sc_tasks = [], sc_tick_initialized = False,
            sc_last_tick = 0\<rparr>
      in if configuration = [] then invalid ''scheduler requires at least one rate group''
         else case admit_groups configuration [] of
           Inl message \<Rightarrow> invalid message
         | Inr tasks \<Rightarrow> (invalid '''')\<lparr>sc_valid := True, sc_tasks := tasks\<rparr>)"

section \<open>A tick\<close>

definition record_miss :: "u64 \<Rightarrow> TaskState \<Rightarrow> DeadlineMiss list \<times> TaskState" where
  "record_miss tick task =
     ([\<lparr>dm_task_id = rg_task_id (ts_config task), dm_release_tick = ts_release_tick task,
        dm_deadline_tick = ts_deadline_tick task, dm_observed_tick = tick\<rparr>],
      task\<lparr>ts_deadline_miss_recorded := True, ts_deadline_miss_count := ts_deadline_miss_count task + 1\<rparr>)"

definition due :: "u64 \<Rightarrow> RateGroupConfig \<Rightarrow> bool" where
  "due tick config \<longleftrightarrow> tick \<ge> ucast (rg_phase_ticks config) \<and>
     (tick - ucast (rg_phase_ticks config)) mod ucast (rg_period_ticks config) = 0"

definition release_task :: "u64 \<Rightarrow> TaskState \<Rightarrow> TaskState" where
  "release_task tick task = task\<lparr>ts_pending := True, ts_deadline_miss_recorded := False, ts_release_tick := tick,
     ts_deadline_tick := tick + ucast (rg_relative_deadline_ticks (ts_config task)),
     ts_release_count := ts_release_count task + 1\<rparr>"

definition task_release :: "TaskState \<Rightarrow> RateGroupRelease" where
  "task_release task = \<lparr>rr_task_id = rg_task_id (ts_config task), rr_release_tick = ts_release_tick task,
     rr_absolute_deadline_tick = ts_deadline_tick task, rr_release_count = ts_release_count task\<rparr>"

text \<open>The body of the loop over the tasks: misses, releases and the task afterwards.\<close>

definition tick_task :: "u64 \<Rightarrow> TaskState \<Rightarrow> (DeadlineMiss list \<times> RateGroupRelease list) \<times> TaskState" where
  "tick_task tick task =
     (let (misses1, task1) = (if ts_pending task \<and> \<not> ts_deadline_miss_recorded task \<and> tick > ts_deadline_tick task
            then record_miss tick task else ([], task))
      in if \<not> due tick (ts_config task1) then ((misses1, []), task1)
         else
           let (misses2, task2) = (if ts_pending task1 \<and> \<not> ts_deadline_miss_recorded task1
                 then record_miss tick task1 else ([], task1));
               task3 = release_task tick task2
           in ((misses1 @ misses2, [task_release task3]), task3))"

definition scheduler_step :: "u64 \<Rightarrow> RateGroupScheduler \<Rightarrow> SchedulerStepResult \<times> RateGroupScheduler" where
  "scheduler_step tick s =
     (let refused = \<lambda>status. \<lparr>sp_status = status, sp_tick = tick, sp_releases = [], sp_deadline_misses = []\<rparr> in
      if \<not> sc_valid s then (refused SCHEDULER_INVALID_CONFIGURATION, s)
      else if (if \<not> sc_tick_initialized s then tick \<noteq> 0 else sc_last_tick s = - 1 \<or> tick \<noteq> sc_last_tick s + 1)
      then (refused TICK_DISCONTINUITY, s)
      else
        let ticked = map (tick_task tick) (sc_tasks s) in
        (\<lparr>sp_status = SCHEDULER_OK, sp_tick = tick, sp_releases = concat (map (\<lambda>t. snd (fst t)) ticked),
           sp_deadline_misses = concat (map (\<lambda>t. fst (fst t)) ticked)\<rparr>,
         s\<lparr>sc_tasks := map snd ticked, sc_tick_initialized := True, sc_last_tick := tick\<rparr>))"

section \<open>Completion and statistics\<close>

text \<open>\<open>find_task\<close>: the position of the first task with the identifier.\<close>

definition find_task :: "u16 \<Rightarrow> TaskState list \<Rightarrow> nat option" where
  "find_task task_id tasks =
     (let i = length (takeWhile (\<lambda>task. rg_task_id (ts_config task) \<noteq> task_id) tasks)
      in if i < length tasks then Some i else None)"

definition completed_on_time :: "u64 \<Rightarrow> TaskState \<Rightarrow> bool" where
  "completed_on_time completion_tick task \<longleftrightarrow> completion_tick \<ge> ts_release_tick task \<and>
     completion_tick \<le> ts_deadline_tick task \<and> \<not> ts_deadline_miss_recorded task"

definition complete_task :: "u64 \<Rightarrow> TaskState \<Rightarrow> TaskState" where
  "complete_task completion_tick task =
     (let task1 = task\<lparr>ts_completion_count := ts_completion_count task + 1\<rparr>;
          task2 = (if \<not> completed_on_time completion_tick task1 \<and> \<not> ts_deadline_miss_recorded task1
            then task1\<lparr>ts_deadline_miss_count := ts_deadline_miss_count task1 + 1\<rparr> else task1)
      in task2\<lparr>ts_pending := False, ts_deadline_miss_recorded := False\<rparr>)"

definition complete :: "u16 \<times> u64 \<Rightarrow> RateGroupScheduler \<Rightarrow> CompletionResult \<times> RateGroupScheduler" where
  "complete = (\<lambda>(task_id, completion_tick) s.
     let refused = \<lambda>status. \<lparr>cm_status = status, cm_task_id = task_id, cm_release_tick = 0, cm_deadline_tick = 0,
           cm_completion_tick = completion_tick\<rparr>
     in if \<not> sc_valid s then (refused SCHEDULER_INVALID, s)
        else case find_task task_id (sc_tasks s) of
          None \<Rightarrow> (refused UNKNOWN_TASK, s)
        | Some i \<Rightarrow>
            let task = sc_tasks s ! i in
            if \<not> ts_pending task then (refused NOT_PENDING, s)
            else
              (\<lparr>cm_status = (if completed_on_time completion_tick task then COMPLETED_ON_TIME else COMPLETED_LATE),
                 cm_task_id = task_id, cm_release_tick = ts_release_tick task, cm_deadline_tick = ts_deadline_tick task,
                 cm_completion_tick = completion_tick\<rparr>,
               s\<lparr>sc_tasks := (sc_tasks s)[i := complete_task completion_tick task]\<rparr>))"

definition task_statistics :: "TaskState \<Rightarrow> RateGroupStatistics" where
  "task_statistics task = \<lparr>st_task_id = rg_task_id (ts_config task), st_release_count = ts_release_count task,
     st_completion_count = ts_completion_count task, st_deadline_miss_count = ts_deadline_miss_count task,
     st_pending = ts_pending task\<rparr>"

definition statistics :: "RateGroupScheduler \<Rightarrow> RateGroupStatistics list" where
  "statistics s = map task_statistics (sc_tasks s)"

fun scheduler_status_to_string :: "SchedulerStatus \<Rightarrow> string" where
  "scheduler_status_to_string SCHEDULER_OK = ''OK''"
| "scheduler_status_to_string SCHEDULER_INVALID_CONFIGURATION = ''INVALID_CONFIGURATION''"
| "scheduler_status_to_string TICK_DISCONTINUITY = ''TICK_DISCONTINUITY''"

fun completion_status_to_string :: "CompletionStatus \<Rightarrow> string" where
  "completion_status_to_string COMPLETED_ON_TIME = ''COMPLETED_ON_TIME''"
| "completion_status_to_string COMPLETED_LATE = ''COMPLETED_LATE''"
| "completion_status_to_string UNKNOWN_TASK = ''UNKNOWN_TASK''"
| "completion_status_to_string NOT_PENDING = ''NOT_PENDING''"
| "completion_status_to_string SCHEDULER_INVALID = ''SCHEDULER_INVALID''"

section \<open>Histories\<close>

text \<open>A scheduler after \<open>n\<close> accepted ticks, with completions and refused ticks in between.\<close>

inductive ticked :: "RateGroupConfig list \<Rightarrow> nat \<Rightarrow> RateGroupScheduler \<Rightarrow> bool" for cs where
  start: "ticked cs 0 (rate_group_scheduler cs)"
| tick: "ticked cs n s \<Longrightarrow> Suc n < 2 ^ 64 \<Longrightarrow> ticked cs (Suc n) (snd (scheduler_step (of_nat n) s))"
| refused: "ticked cs n s \<Longrightarrow> tick \<noteq> of_nat n \<Longrightarrow> ticked cs n (snd (scheduler_step tick s))"
| completion: "ticked cs n s \<Longrightarrow> ticked cs n (snd (complete c s))"

definition due_at :: "nat \<Rightarrow> RateGroupConfig \<Rightarrow> bool" where
  "due_at n c \<longleftrightarrow> unat (rg_phase_ticks c) \<le> n \<and> (n - unat (rg_phase_ticks c)) mod unat (rg_period_ticks c) = 0"

text \<open>The number of due ticks before tick \<open>n\<close>.\<close>

definition due_count :: "RateGroupConfig \<Rightarrow> nat \<Rightarrow> nat" where
  "due_count c n = length (filter (\<lambda>t. due_at t c) [0..<n])"

lemma due_count_Suc: "due_count c (Suc n) = due_count c n + (if due_at n c then 1 else 0)"
  by (simp add: due_count_def)

lemma due_count_le: "due_count c n \<le> n"
  unfolding due_count_def by (rule order_trans [OF length_filter_le]) simp

lemma unat_ucast_u32 [simp]: "unat (ucast (x :: u32) :: u64) = unat x"
  by (simp add: unsigned_ucast_eq take_bit_nat_eq_self order_less_le_trans [OF unsigned_less])

lemma due_nat:
  assumes "n < 2 ^ 64"
  shows "due (of_nat n) c \<longleftrightarrow> due_at n c"
proof -
  let ?t = "of_nat n :: u64" and ?p = "ucast (rg_phase_ticks c) :: u64" and ?q = "ucast (rg_period_ticks c) :: u64"
  have t: "unat ?t = n" using assms by (simp add: unsigned_of_nat take_bit_nat_eq_self)
  have "?t \<ge> ?p \<longleftrightarrow> unat (rg_phase_ticks c) \<le> n" by (simp add: word_le_nat_alt t)
  moreover have "(?t - ?p) mod ?q = 0 \<longleftrightarrow> (n - unat (rg_phase_ticks c)) mod unat (rg_period_ticks c) = 0"
    if "?t \<ge> ?p"
  proof -
    have "(?t - ?p) mod ?q = 0 \<longleftrightarrow> unat ((?t - ?p) mod ?q) = 0" by (metis unat_0 word_unat_eq_iff)
    also have "\<dots> \<longleftrightarrow> (unat (?t - ?p)) mod unat ?q = 0" by (simp add: unat_mod_distrib)
    finally show ?thesis using unat_sub [OF that] by (simp add: t)
  qed
  ultimately show ?thesis unfolding due_def due_at_def by metis
qed

section \<open>The invariant\<close>

definition outstanding :: "TaskState \<Rightarrow> nat" where
  "outstanding t = (if ts_pending t \<and> \<not> ts_deadline_miss_recorded t then 1 else 0)"

text \<open>Per task, after \<open>n\<close> ticks: the releases are the due ticks; no release is completed or counted
  as missed twice, and every release is completed, counted as missed, or outstanding.\<close>

definition task_inv :: "nat \<Rightarrow> TaskState \<Rightarrow> bool" where
  "task_inv n t \<longleftrightarrow>
     unat (ts_release_count t) = due_count (ts_config t) n \<and>
     unat (ts_completion_count t) + (if ts_pending t then 1 else 0) \<le> due_count (ts_config t) n \<and>
     unat (ts_deadline_miss_count t) + outstanding t \<le> due_count (ts_config t) n \<and>
     due_count (ts_config t) n \<le> unat (ts_completion_count t) + unat (ts_deadline_miss_count t) + outstanding t"

lemma unat_Suc: "unat (w :: u64) < k \<Longrightarrow> k < 2 ^ 64 \<Longrightarrow> unat (w + 1) = unat w + 1"
  by (simp add: unatSuc unat_word_ariths)

lemma ticked_config [simp]: "ts_config (snd (tick_task t task)) = ts_config task"
  by (simp add: tick_task_def Let_def record_miss_def release_task_def split: prod.splits)

lemma record_miss_inv:
  assumes "task_inv n task" "ts_pending task" "\<not> ts_deadline_miss_recorded task" "n < 2 ^ 64"
  shows "task_inv n (snd (record_miss t task))"
proof -
  have "due_count (ts_config task) n < 2 ^ 64" using due_count_le assms(4) by (rule le_less_trans)
  then have "unat (ts_deadline_miss_count task + 1) = unat (ts_deadline_miss_count task) + 1"
    using assms(1-3) by (intro unat_Suc [of _ "due_count (ts_config task) n"]) (auto simp: task_inv_def outstanding_def)
  then show ?thesis using assms(1-3) by (auto simp: task_inv_def record_miss_def outstanding_def)
qed

lemma release_inv:
  assumes "task_inv n task" "\<not> (ts_pending task \<and> \<not> ts_deadline_miss_recorded task)" "due_at n (ts_config task)"
    and "Suc n < 2 ^ 64"
  shows "task_inv (Suc n) (release_task t task)"
proof -
  have "due_count (ts_config task) (Suc n) < 2 ^ 64" using due_count_le assms(4) by (rule le_less_trans)
  then have "unat (ts_release_count task + 1) = unat (ts_release_count task) + 1"
    using assms(1,3) by (intro unat_Suc [of _ "due_count (ts_config task) (Suc n)"]) (auto simp: task_inv_def due_count_Suc)
  then show ?thesis
    using assms(1-3) by (auto simp: task_inv_def release_task_def outstanding_def due_count_Suc split: if_splits)
qed

lemma tick_task_inv:
  assumes "task_inv n task" "Suc n < 2 ^ 64"
  shows "task_inv (Suc n) (snd (tick_task (of_nat n) task))"
proof -
  have n: "n < 2 ^ 64" using assms(2) by simp
  note due = due_nat [OF n, of "ts_config task"]
  let ?late = "ts_pending task \<and> \<not> ts_deadline_miss_recorded task"
  let ?m = "snd (record_miss (of_nat n) task)"
  have m: "task_inv n ?m" if ?late using record_miss_inv [OF assms(1) _ _ n] that by blast
  have fields: "ts_config ?m = ts_config task" "ts_deadline_miss_recorded ?m" by (simp_all add: record_miss_def)
  have keep: "task_inv (Suc n) t" if "task_inv n t" "\<not> due_at n (ts_config t)" for t
    using that by (simp add: task_inv_def due_count_Suc)
  consider (idle) "\<not> ?late" | (miss) ?late by blast
  then show ?thesis
  proof cases
    case idle
    then show ?thesis using keep assms release_inv [OF assms(1)]
      by (auto simp: tick_task_def Let_def due)
  next
    case miss
    then show ?thesis using keep assms m release_inv [OF m] fields
      by (auto simp: tick_task_def Let_def due split_beta)
  qed
qed

lemma complete_task_inv:
  assumes "task_inv n task" "ts_pending task" "n < 2 ^ 64"
  shows "task_inv n (complete_task t task)"
proof -
  have bound: "due_count (ts_config task) n < 2 ^ 64" using due_count_le assms(3) by (rule le_less_trans)
  have "unat (ts_completion_count task + 1) = unat (ts_completion_count task) + 1"
    using assms(1,2) bound by (intro unat_Suc [of _ "due_count (ts_config task) n"]) (auto simp: task_inv_def)
  moreover have "unat (ts_deadline_miss_count task + 1) = unat (ts_deadline_miss_count task) + 1"
    if "\<not> ts_deadline_miss_recorded task"
    using assms(1,2) bound that
    by (intro unat_Suc [of _ "due_count (ts_config task) n"]) (auto simp: task_inv_def outstanding_def)
  ultimately show ?thesis
    using assms(1,2) by (auto simp: task_inv_def complete_task_def completed_on_time_def Let_def outstanding_def)
qed

definition scheduler_inv :: "RateGroupConfig list \<Rightarrow> nat \<Rightarrow> RateGroupScheduler \<Rightarrow> bool" where
  "scheduler_inv cs n s \<longleftrightarrow> n < 2 ^ 64 \<and> sc_valid s \<and> map ts_config (sc_tasks s) = cs \<and>
     sc_tick_initialized s = (n > 0) \<and> (n > 0 \<longrightarrow> sc_last_tick s = of_nat (n - 1)) \<and> list_all (task_inv n) (sc_tasks s)"

lemma admit_groups_tasks: "admit_groups cs tasks = Inr tasks' \<Longrightarrow> tasks' = tasks @ map new_task cs"
  by (induction cs tasks rule: admit_groups.induct) (auto split: if_splits)

lemma initial_inv:
  assumes "sc_valid (rate_group_scheduler cs)"
  shows "scheduler_inv cs 0 (rate_group_scheduler cs)"
proof -
  from assms obtain tasks where "admit_groups cs [] = Inr tasks" "cs \<noteq> []"
    by (auto simp: rate_group_scheduler_def Let_def split: if_splits sum.splits)
  then have "rate_group_scheduler cs = \<lparr>sc_valid = True, sc_validation_error = '''', sc_tasks = map new_task cs,
      sc_tick_initialized = False, sc_last_tick = 0\<rparr>"
    by (auto simp: rate_group_scheduler_def Let_def dest: admit_groups_tasks)
  then show ?thesis
    by (simp add: scheduler_inv_def list_all_iff task_inv_def new_task_def outstanding_def due_count_def o_def)
qed

text \<open>A tick other than the next one is refused and changes nothing; the next one is accepted.\<close>

lemma tick_accepted:
  assumes "scheduler_inv cs n s"
  shows "(if \<not> sc_tick_initialized s then tick \<noteq> 0 else sc_last_tick s = - 1 \<or> tick \<noteq> sc_last_tick s + 1) \<longleftrightarrow> tick \<noteq> of_nat n"
proof (cases "n = 0")
  case True
  with assms show ?thesis by (simp add: scheduler_inv_def)
next
  case False
  with assms have s: "sc_tick_initialized s" "sc_last_tick s = of_nat (n - 1)" "n < 2 ^ 64" by (auto simp: scheduler_inv_def)
  have succ: "of_nat (n - 1) + 1 = (of_nat n :: u64)"
    using False by (metis Suc_pred' bot_nat_0.not_eq_extremum of_nat_Suc add.commute)
  have "unat (of_nat n :: u64) = n" using s(3) by (simp add: unsigned_of_nat take_bit_nat_eq_self)
  with False succ have "of_nat (n - 1) \<noteq> (- 1 :: u64)" by (metis add.left_inverse unsigned_0)
  with succ show ?thesis by (simp add: s)
qed

lemma step_accepted:
  assumes "scheduler_inv cs n s"
  shows "scheduler_step (of_nat n) s =
    (\<lparr>sp_status = SCHEDULER_OK, sp_tick = of_nat n, sp_releases = concat (map (\<lambda>t. snd (fst (tick_task (of_nat n) t))) (sc_tasks s)),
       sp_deadline_misses = concat (map (\<lambda>t. fst (fst (tick_task (of_nat n) t))) (sc_tasks s))\<rparr>,
     s\<lparr>sc_tasks := map (\<lambda>t. snd (tick_task (of_nat n) t)) (sc_tasks s), sc_tick_initialized := True, sc_last_tick := of_nat n\<rparr>)"
  using tick_accepted [OF assms, of "of_nat n"] assms
  by (simp add: scheduler_step_def Let_def scheduler_inv_def o_def)

lemma step_refused:
  assumes "scheduler_inv cs n s" "tick \<noteq> of_nat n"
  shows "scheduler_step tick s =
    (\<lparr>sp_status = TICK_DISCONTINUITY, sp_tick = tick, sp_releases = [], sp_deadline_misses = []\<rparr>, s)"
  using tick_accepted [OF assms(1), of tick] assms by (simp add: scheduler_step_def Let_def scheduler_inv_def)

lemma tick_inv:
  assumes "scheduler_inv cs n s" "Suc n < 2 ^ 64"
  shows "scheduler_inv cs (Suc n) (snd (scheduler_step (of_nat n) s))"
  using assms unfolding step_accepted [OF assms(1)]
  by (auto simp: scheduler_inv_def list_all_iff tick_task_inv o_def)

lemma find_task_Some: "find_task task_id tasks = Some i \<Longrightarrow> i < length tasks"
  by (auto simp: find_task_def Let_def split: if_splits)

lemma complete_inv:
  assumes "scheduler_inv cs n s"
  shows "scheduler_inv cs n (snd (complete c s))"
proof (cases "\<exists>i. find_task (fst c) (sc_tasks s) = Some i \<and> ts_pending (sc_tasks s ! i)")
  case True
  then obtain i where i: "find_task (fst c) (sc_tasks s) = Some i" "ts_pending (sc_tasks s ! i)" by blast
  then have len: "i < length (sc_tasks s)" by (simp add: find_task_Some)
  with assms i(2) have task: "task_inv n (complete_task (snd c) (sc_tasks s ! i))"
    by (intro complete_task_inv) (auto simp: scheduler_inv_def list_all_length)
  have "map ts_config ((sc_tasks s)[i := complete_task (snd c) (sc_tasks s ! i)]) = map ts_config (sc_tasks s)"
    by (simp add: map_update complete_task_def Let_def list_update_same_conv len)
  moreover have "list_all (task_inv n) ((sc_tasks s)[i := complete_task (snd c) (sc_tasks s ! i)])"
    using assms task len by (auto simp: scheduler_inv_def list_all_length nth_list_update)
  moreover have "snd (complete c s) = s\<lparr>sc_tasks := (sc_tasks s)[i := complete_task (snd c) (sc_tasks s ! i)]\<rparr>"
    using assms i by (simp add: complete_def Let_def scheduler_inv_def split_beta)
  ultimately show ?thesis using assms by (simp add: scheduler_inv_def)
next
  case False
  then have "snd (complete c s) = s" by (cases c) (auto simp: complete_def Let_def split: option.splits)
  with assms show ?thesis by simp
qed

lemma ticked_inv: "ticked cs n s \<Longrightarrow> sc_valid (rate_group_scheduler cs) \<Longrightarrow> scheduler_inv cs n s"
  by (induction rule: ticked.induct) (simp_all add: initial_inv tick_inv complete_inv step_refused)

lemma tick_task_release:
  assumes "task_inv n task" "n < 2 ^ 64"
  shows "snd (fst (tick_task (of_nat n) task)) =
    (if due_at n (ts_config task)
     then [\<lparr>rr_task_id = rg_task_id (ts_config task), rr_release_tick = of_nat n,
            rr_absolute_deadline_tick = of_nat n + ucast (rg_relative_deadline_ticks (ts_config task)),
            rr_release_count = of_nat (due_count (ts_config task) (Suc n))\<rparr>]
     else [])"
proof -
  have "ts_release_count task = of_nat (due_count (ts_config task) n)"
  proof -
    have "ts_release_count task = of_nat (unat (ts_release_count task))" by simp
    with assms(1) show ?thesis by (simp add: task_inv_def)
  qed
  then show ?thesis
    by (auto simp: tick_task_def Let_def record_miss_def release_task_def task_release_def due_nat [OF assms(2)]
        due_count_Suc split_beta)
qed

text \<open>The statistics of a task after \<open>n\<close> ticks.\<close>

definition accounted :: "nat \<Rightarrow> RateGroupConfig \<Rightarrow> RateGroupStatistics \<Rightarrow> bool" where
  "accounted n c st \<longleftrightarrow> st_task_id st = rg_task_id c \<and> unat (st_release_count st) = due_count c n \<and>
     unat (st_completion_count st) \<le> due_count c n \<and> unat (st_deadline_miss_count st) \<le> due_count c n \<and>
     due_count c n \<le> unat (st_completion_count st) + unat (st_deadline_miss_count st) + (if st_pending st then 1 else 0)"

lemma task_statistics_accounted: "task_inv n task \<Longrightarrow> accounted n (ts_config task) (task_statistics task)"
  by (simp add: task_inv_def accounted_def task_statistics_def outstanding_def split: if_splits)

text \<open>C19: rate groups are released exactly when they are due, and every release is accounted for.
  After any history of \<open>n\<close> accepted ticks, refused ticks and completions of a valid configuration:
  tick \<open>n\<close>, and no other, is accepted next; it releases, in the order of the configuration, exactly
  the tasks whose phase plus a multiple of their period is \<open>n\<close>, with their deadlines and numbered
  by the due ticks so far. The statistics of every task show as many releases as there were due
  ticks; a release is completed at most once and counted as a deadline miss at most once, and it is
  completed, counted as missed, or still pending.\<close>

theorem rate_groups_released_when_due:
  assumes "ticked cs n s" "sc_valid (rate_group_scheduler cs)"
  shows "sp_status (fst (scheduler_step (of_nat n) s)) = SCHEDULER_OK \<and>
    sp_releases (fst (scheduler_step (of_nat n) s)) =
      map (\<lambda>c. \<lparr>rr_task_id = rg_task_id c, rr_release_tick = of_nat n,
          rr_absolute_deadline_tick = of_nat n + ucast (rg_relative_deadline_ticks c),
          rr_release_count = of_nat (due_count c (Suc n))\<rparr>) (filter (due_at n) cs) \<and>
    (tick \<noteq> of_nat n \<longrightarrow> sp_status (fst (scheduler_step tick s)) = TICK_DISCONTINUITY \<and> snd (scheduler_step tick s) = s) \<and>
    list_all2 (accounted n) cs (statistics s)"
proof -
  have inv: "scheduler_inv cs n s" using assms by (rule ticked_inv)
  then have n: "n < 2 ^ 64" and cs: "map ts_config (sc_tasks s) = cs" and tasks: "list_all (task_inv n) (sc_tasks s)"
    by (simp_all add: scheduler_inv_def)
  have "concat (map (\<lambda>t. snd (fst (tick_task (of_nat n) t))) ts) =
      map (\<lambda>c. \<lparr>rr_task_id = rg_task_id c, rr_release_tick = of_nat n,
          rr_absolute_deadline_tick = of_nat n + ucast (rg_relative_deadline_ticks c),
          rr_release_count = of_nat (due_count c (Suc n))\<rparr>) (filter (due_at n) (map ts_config ts))"
    if "list_all (task_inv n) ts" for ts
    using that by (induction ts) (simp_all add: tick_task_release [OF _ n])
  note releases = this [OF tasks, unfolded cs]
  have "list_all2 (accounted n) (map ts_config (sc_tasks s)) (statistics s)"
    using tasks unfolding statistics_def
    by (simp add: list_all2_map1 list_all2_map2 list_all2_same list_all_iff task_statistics_accounted)
  with releases show ?thesis by (simp add: step_accepted [OF inv] step_refused [OF inv] cs)
qed

definition sample_groups :: "RateGroupConfig list" where
  "sample_groups =
     [\<lparr>rg_task_id = 1, rg_name = ''flight'', rg_period_ticks = 1, rg_phase_ticks = 0, rg_relative_deadline_ticks = 1\<rparr>,
      \<lparr>rg_task_id = 2, rg_name = ''housekeeping'', rg_period_ticks = 2, rg_phase_ticks = 0, rg_relative_deadline_ticks = 2\<rparr>]"

lemma sample_groups_valid: "sc_valid (rate_group_scheduler sample_groups)"
  by (simp add: rate_group_scheduler_def sample_groups_def new_task_def)

theorem rate_groups_released_when_due_witness:
  "sp_releases (fst (scheduler_step 1 (snd (complete (1, 0) (snd (scheduler_step 0 (rate_group_scheduler sample_groups))))))) =
     [\<lparr>rr_task_id = 1, rr_release_tick = 1, rr_absolute_deadline_tick = 2, rr_release_count = 2\<rparr>]"
proof -
  let ?s = "snd (complete (1, 0) (snd (scheduler_step 0 (rate_group_scheduler sample_groups))))"
  have "ticked sample_groups 1 ?s"
    using ticked.completion [OF ticked.tick [OF ticked.start, of sample_groups], of "(1, 0)"] by simp
  from rate_groups_released_when_due [OF this sample_groups_valid, of 5]
  have "sp_releases (fst (scheduler_step 1 ?s)) =
      map (\<lambda>c. \<lparr>rr_task_id = rg_task_id c, rr_release_tick = 1,
          rr_absolute_deadline_tick = 1 + ucast (rg_relative_deadline_ticks c),
          rr_release_count = of_nat (due_count c (Suc 1))\<rparr>) (filter (due_at 1) sample_groups)"
    by (simp del: One_nat_def)
  then show ?thesis by (simp add: sample_groups_def due_at_def due_count_def)
qed

end
