(* ===== verification/Executive.thy ===== *)
theory Executive
  imports Rate_Groups Flight_Runs
begin

text \<open>
  The flight software executive (\<open>fsw/src/flight_software_executive.cpp\<close>): the rate-group scheduler
  with two tasks, one that runs a step of the application and a housekeeping snapshot. A tick
  completes what it releases, so that the application is stepped exactly at the due ticks.
\<close>

record ExecutiveConfig =
  ec_app :: AppConfig
  ec_flight_period_ticks :: u32
  ec_flight_phase_ticks :: u32
  ec_flight_deadline_ticks :: u32
  ec_housekeeping_period_ticks :: u32
  ec_housekeeping_phase_ticks :: u32
  ec_housekeeping_deadline_ticks :: u32

definition default_executive_config :: ExecutiveConfig where
  "default_executive_config = \<lparr>ec_app = default_config, ec_flight_period_ticks = 1, ec_flight_phase_ticks = 0,
     ec_flight_deadline_ticks = 1, ec_housekeeping_period_ticks = 10, ec_housekeeping_phase_ticks = 0,
     ec_housekeeping_deadline_ticks = 2\<rparr>"

definition FLIGHT_SOFTWARE_STEP :: u16 where
  "FLIGHT_SOFTWARE_STEP = 1"

definition HOUSEKEEPING_SNAPSHOT :: u16 where
  "HOUSEKEEPING_SNAPSHOT = 2"

definition flight_group :: "ExecutiveConfig \<Rightarrow> RateGroupConfig" where
  "flight_group c = \<lparr>rg_task_id = FLIGHT_SOFTWARE_STEP, rg_name = ''flight_software_step'',
     rg_period_ticks = ec_flight_period_ticks c, rg_phase_ticks = ec_flight_phase_ticks c,
     rg_relative_deadline_ticks = ec_flight_deadline_ticks c\<rparr>"

definition housekeeping_group :: "ExecutiveConfig \<Rightarrow> RateGroupConfig" where
  "housekeeping_group c = \<lparr>rg_task_id = HOUSEKEEPING_SNAPSHOT, rg_name = ''housekeeping_snapshot'',
     rg_period_ticks = ec_housekeeping_period_ticks c, rg_phase_ticks = ec_housekeeping_phase_ticks c,
     rg_relative_deadline_ticks = ec_housekeeping_deadline_ticks c\<rparr>"

definition make_scheduler_configuration :: "ExecutiveConfig \<Rightarrow> RateGroupConfig list" where
  "make_scheduler_configuration c = [flight_group c, housekeeping_group c]"

record Executive =
  ex_scheduler :: RateGroupScheduler
  ex_app :: App

definition flight_software_executive :: "ExecutiveConfig \<Rightarrow> Executive" where
  "flight_software_executive c =
     \<lparr>ex_scheduler = rate_group_scheduler (make_scheduler_configuration c), ex_app = flight_software_app (ec_app c)\<rparr>"

definition executive_valid :: "Executive \<Rightarrow> bool" where
  "executive_valid ex \<longleftrightarrow> sc_valid (ex_scheduler ex) \<and> ap_valid (ex_app ex)"

definition executive_validation_error :: "Executive \<Rightarrow> string" where
  "executive_validation_error ex =
     (if \<not> sc_valid (ex_scheduler ex) then sc_validation_error (ex_scheduler ex) else ap_validation_error (ex_app ex))"

section \<open>A tick of the executive\<close>

record ExecutiveInput =
  xi_tick :: u64
  xi_flight_input :: StepInput
  xi_simulated_flight_completion_delay_ticks :: u32

text \<open>\<open>xo_flight\<close> joins \<open>flight_software_ran\<close>, \<open>flight_output\<close> and \<open>flight_completion\<close>; \<open>xo_housekeeping\<close> joins
  \<open>housekeeping_ran\<close> and \<open>housekeeping_completion\<close>.\<close>

record ExecutiveOutput =
  xo_scheduler_status :: SchedulerStatus
  xo_releases :: "RateGroupRelease list"
  xo_deadline_misses :: "DeadlineMiss list"
  xo_flight :: "(StepOutput \<times> CompletionResult) option"
  xo_housekeeping :: "CompletionResult option"
  xo_scheduler_statistics :: "RateGroupStatistics list"

text \<open>The completion tick saturates at the largest tick.\<close>

definition completion_tick :: "ExecutiveInput \<Rightarrow> u64" where
  "completion_tick input =
     (let delay = ucast (xi_simulated_flight_completion_delay_ticks input) :: u64 in
      if xi_simulated_flight_completion_delay_ticks input > 0
      then (if xi_tick input > - 1 - delay then - 1 else xi_tick input + delay)
      else xi_tick input)"

definition run_release :: "ExecutiveInput \<Rightarrow> ExecutiveOutput \<times> Executive \<Rightarrow> RateGroupRelease \<Rightarrow> ExecutiveOutput \<times> Executive" where
  "run_release input = (\<lambda>(output, ex) release.
     if rr_task_id release = FLIGHT_SOFTWARE_STEP then
       let (flight_output, app) = app_step (xi_flight_input input) (ex_app ex);
           (completion, scheduler) = complete (rr_task_id release, completion_tick input) (ex_scheduler ex)
       in (output\<lparr>xo_flight := Some (flight_output, completion)\<rparr>, \<lparr>ex_scheduler = scheduler, ex_app = app\<rparr>)
     else if rr_task_id release = HOUSEKEEPING_SNAPSHOT then
       let (completion, scheduler) = complete (rr_task_id release, xi_tick input) (ex_scheduler ex)
       in (output\<lparr>xo_housekeeping := Some completion\<rparr>, ex\<lparr>ex_scheduler := scheduler\<rparr>)
     else (output, ex))"

definition executive_step :: "ExecutiveInput \<Rightarrow> Executive \<Rightarrow> ExecutiveOutput \<times> Executive" where
  "executive_step input ex =
     (let (result, scheduler) = scheduler_step (xi_tick input) (ex_scheduler ex);
          ex1 = ex\<lparr>ex_scheduler := scheduler\<rparr>;
          output = \<lparr>xo_scheduler_status = sp_status result, xo_releases = sp_releases result,
            xo_deadline_misses = sp_deadline_misses result, xo_flight = None, xo_housekeeping = None,
            xo_scheduler_statistics = []\<rparr>;
          (output1, ex2) = (if sp_status result \<noteq> SCHEDULER_OK then (output, ex1)
            else foldl (run_release input) (output, ex1) (sp_releases result))
      in (output1\<lparr>xo_scheduler_statistics := statistics (ex_scheduler ex2)\<rparr>, ex2))"

section \<open>One tick, between ticks nothing is pending\<close>

definition exec_inv :: "ExecutiveConfig \<Rightarrow> nat \<Rightarrow> Executive \<Rightarrow> bool" where
  "exec_inv c n ex \<longleftrightarrow> scheduler_inv (make_scheduler_configuration c) n (ex_scheduler ex) \<and>
     list_all (\<lambda>t. \<not> ts_pending t) (sc_tasks (ex_scheduler ex))"

lemma idle_tick_task:
  assumes "\<not> ts_pending t" "n < 2 ^ 64"
  shows "tick_task (of_nat n) t =
    (([], if due_at n (ts_config t) then [task_release (release_task (of_nat n) t)] else []),
     if due_at n (ts_config t) then release_task (of_nat n) t else t)"
  using assms by (simp add: tick_task_def Let_def due_nat [OF assms(2)])

lemma task_release_id [simp]: "rr_task_id (task_release t) = rg_task_id (ts_config t)"
  by (simp add: task_release_def)

lemma release_task_sel [simp]:
  "ts_config (release_task tick t) = ts_config t" "ts_pending (release_task tick t)"
  "ts_release_tick (release_task tick t) = tick" "\<not> ts_deadline_miss_recorded (release_task tick t)"
  "ts_deadline_tick (release_task tick t) = tick + ucast (rg_relative_deadline_ticks (ts_config t))"
  by (simp_all add: release_task_def)

lemma complete_task_sel [simp]:
  "ts_config (complete_task tick t) = ts_config t" "\<not> ts_pending (complete_task tick t)"
  by (simp_all add: complete_task_def Let_def)

definition completion_status :: "u64 \<Rightarrow> u64 \<Rightarrow> RateGroupConfig \<Rightarrow> CompletionStatus" where
  "completion_status tick finished g =
     (if tick \<le> finished \<and> finished \<le> tick + ucast (rg_relative_deadline_ticks g) then COMPLETED_ON_TIME else COMPLETED_LATE)"

lemma complete_released:
  assumes "sc_valid s" "find_task task_id (sc_tasks s) = Some i" "sc_tasks s ! i = release_task tick t"
  shows "complete (task_id, finished) s =
    (\<lparr>cm_status = completion_status tick finished (ts_config t), cm_task_id = task_id, cm_release_tick = tick,
       cm_deadline_tick = tick + ucast (rg_relative_deadline_ticks (ts_config t)), cm_completion_tick = finished\<rparr>,
     s\<lparr>sc_tasks := (sc_tasks s)[i := complete_task finished (release_task tick t)]\<rparr>)"
  using assms by (simp add: complete_def Let_def completed_on_time_def completion_status_def)

text \<open>The deadline misses counted for the flight task.\<close>

definition flight_misses :: "Executive \<Rightarrow> u64" where
  "flight_misses ex = ts_deadline_miss_count (hd (sc_tasks (ex_scheduler ex)))"

lemma released_misses:
  "ts_deadline_miss_count (complete_task finished (release_task tick t)) =
     ts_deadline_miss_count t + (if completion_status tick finished (ts_config t) = COMPLETED_LATE then 1 else 0)"
  by (simp add: complete_task_def completed_on_time_def completion_status_def release_task_def Let_def)

lemma find_task_two:
  "rg_task_id (ts_config a) = i \<Longrightarrow> find_task i [a, b] = Some 0"
  "rg_task_id (ts_config a) \<noteq> i \<Longrightarrow> rg_task_id (ts_config b) = i \<Longrightarrow> find_task i [a, b] = Some 1"
  by (simp_all add: find_task_def)

text \<open>What a tick does: the application is stepped if the flight group is due, and a released task is
  completed at once.\<close>

lemma executive_tick:
  fixes c :: ExecutiveConfig and ex :: Executive
  assumes inv: "exec_inv c n ex" and n: "Suc n < 2 ^ 64" and tick: "xi_tick input = of_nat n"
  shows "exec_inv c (Suc n) (snd (executive_step input ex)) \<and>
    ex_app (snd (executive_step input ex)) =
      (if due_at n (flight_group c) then snd (app_step (xi_flight_input input) (ex_app ex)) else ex_app ex) \<and>
    xo_scheduler_status (fst (executive_step input ex)) = SCHEDULER_OK \<and>
    xo_deadline_misses (fst (executive_step input ex)) = [] \<and>
    map_option (\<lambda>(out, completion). (out, cm_status completion)) (xo_flight (fst (executive_step input ex))) =
      (if due_at n (flight_group c) then Some (fst (app_step (xi_flight_input input) (ex_app ex)),
         completion_status (of_nat n) (completion_tick input) (flight_group c)) else None) \<and>
    flight_misses (snd (executive_step input ex)) = flight_misses ex +
      (if due_at n (flight_group c) \<and>
          completion_status (of_nat n) (completion_tick input) (flight_group c) = COMPLETED_LATE then 1 else 0)"
proof -
  let ?s = "ex_scheduler ex" and ?f = "due_at n (flight_group c)" and ?hk = "due_at n (housekeeping_group c)"
  let ?s1 = "snd (scheduler_step (of_nat n) ?s)"
  have sinv: "scheduler_inv (make_scheduler_configuration c) n ?s" and idle: "list_all (\<lambda>t. \<not> ts_pending t) (sc_tasks ?s)"
    using inv by (simp_all add: exec_inv_def)
  then obtain t1 t2 where tasks: "sc_tasks ?s = [t1, t2]"
      and cfg: "ts_config t1 = flight_group c" "ts_config t2 = housekeeping_group c"
    by (auto simp: scheduler_inv_def make_scheduler_configuration_def)
  with idle have idle': "\<not> ts_pending t1" "\<not> ts_pending t2" by simp_all
  have n': "n < 2 ^ 64" using n by simp
  have ids: "rg_task_id (flight_group c) = 1" "rg_task_id (housekeeping_group c) = 2"
    by (simp_all add: flight_group_def housekeeping_group_def FLIGHT_SOFTWARE_STEP_def HOUSEKEEPING_SNAPSHOT_def)
  let ?r1 = "release_task (of_nat n) t1" and ?r2 = "release_task (of_nat n) t2"
  define result where "result = \<lparr>sp_status = SCHEDULER_OK, sp_tick = of_nat n,
      sp_releases = (if ?f then [task_release ?r1] else []) @ (if ?hk then [task_release ?r2] else []),
      sp_deadline_misses = []\<rparr>"
  define s1 where "s1 = ?s\<lparr>sc_tasks := [if ?f then ?r1 else t1, if ?hk then ?r2 else t2], sc_tick_initialized := True,
      sc_last_tick := of_nat n\<rparr>"
  have step: "scheduler_step (of_nat n) ?s = (result, s1)"
    unfolding step_accepted [OF sinv] tasks result_def s1_def
    by (simp add: idle_tick_task [OF idle'(1) n'] idle_tick_task [OF idle'(2) n'] cfg)
  have valid: "sc_valid s1" using sinv by (simp add: scheduler_inv_def s1_def)
  define s2 where "s2 = (if ?f then snd (complete (1, completion_tick input) s1) else s1)"
  define s3 where "s3 = (if ?hk then snd (complete (2, of_nat n) s2) else s2)"
  have c1: "cm_status (fst (complete (1, completion_tick input) s1)) =
        completion_status (of_nat n) (completion_tick input) (flight_group c) \<and>
      snd (complete (1, completion_tick input) s1) =
        s1\<lparr>sc_tasks := [complete_task (completion_tick input) ?r1, if ?hk then ?r2 else t2]\<rparr>" if ?f
    using complete_released [OF valid, of 1 0 "of_nat n" t1 "completion_tick input"] that
    by (simp add: s1_def find_task_two ids cfg)
  have s2: "sc_tasks s2 = [if ?f then complete_task (completion_tick input) ?r1 else t1, if ?hk then ?r2 else t2]"
    "sc_valid s2"
    using c1 valid by (auto simp: s2_def s1_def)
  have s3: "sc_tasks s3 = [if ?f then complete_task (completion_tick input) ?r1 else t1,
      if ?hk then complete_task (of_nat n) ?r2 else t2]"
    using complete_released [OF s2(2), of 2 1 "of_nat n" t2 "of_nat n"] s2(1)
    by (simp add: s3_def find_task_two ids cfg)
  have "scheduler_inv (make_scheduler_configuration c) (Suc n) s3"
    unfolding s3_def s2_def using tick_inv [OF sinv n] by (simp add: step complete_inv)
  with s3 idle' have "exec_inv c (Suc n) \<lparr>ex_scheduler = s3, ex_app = a\<rparr>" for a
    by (simp add: exec_inv_def)
  moreover have "flight_misses \<lparr>ex_scheduler = s3, ex_app = a\<rparr> = flight_misses ex +
      (if ?f \<and> completion_status (of_nat n) (completion_tick input) (flight_group c) = COMPLETED_LATE then 1 else 0)" for a
    using s3 tasks cfg by (simp add: flight_misses_def released_misses)
  moreover have ex: "snd (executive_step input ex) =
        \<lparr>ex_scheduler = s3, ex_app = if ?f then snd (app_step (xi_flight_input input) (ex_app ex)) else ex_app ex\<rparr>"
    and out: "xo_scheduler_status (fst (executive_step input ex)) = SCHEDULER_OK"
      "xo_deadline_misses (fst (executive_step input ex)) = []"
      "xo_flight (fst (executive_step input ex)) = (if ?f then Some (fst (app_step (xi_flight_input input) (ex_app ex)),
         fst (complete (1, completion_tick input) s1)) else None)"
    using ids cfg
    by (simp_all add: executive_step_def tick step result_def Let_def split_beta run_release_def s3_def s2_def
        FLIGHT_SOFTWARE_STEP_def HOUSEKEEPING_SNAPSHOT_def)
  ultimately show ?thesis using c1 by (simp add: split_beta)
qed

section \<open>Runs of the executive\<close>

text \<open>Inputs with consecutive ticks from \<open>n\<close>, and what of them reaches the application.\<close>

fun numbered :: "nat \<Rightarrow> ExecutiveInput list \<Rightarrow> bool" where
  "numbered n [] = True"
| "numbered n (input # inputs) = (xi_tick input = of_nat n \<and> numbered (Suc n) inputs)"

fun flight_inputs :: "ExecutiveConfig \<Rightarrow> nat \<Rightarrow> ExecutiveInput list \<Rightarrow> StepInput list" where
  "flight_inputs c n [] = []"
| "flight_inputs c n (input # inputs) =
     (if due_at n (flight_group c) then [xi_flight_input input] else []) @ flight_inputs c (Suc n) inputs"

definition flight_outputs :: "ExecutiveOutput list \<Rightarrow> StepOutput list" where
  "flight_outputs outs = concat (map (\<lambda>out. case xo_flight out of None \<Rightarrow> [] | Some (step_output, _) \<Rightarrow> [step_output]) outs)"

text \<open>An accepted tick without a deadline miss; if the application ran, it completed on time exactly
  when the simulated delay is within its deadline.\<close>

definition tick_ok :: "ExecutiveConfig \<Rightarrow> ExecutiveInput \<Rightarrow> ExecutiveOutput \<Rightarrow> bool" where
  "tick_ok c input out \<longleftrightarrow> xo_scheduler_status out = SCHEDULER_OK \<and> xo_deadline_misses out = [] \<and>
     (case xo_flight out of None \<Rightarrow> True | Some (_, completion) \<Rightarrow>
        cm_status completion = (if xi_simulated_flight_completion_delay_ticks input \<le> ec_flight_deadline_ticks c
          then COMPLETED_ON_TIME else COMPLETED_LATE))"

lemma completion_status_delay:
  assumes "n < 2 ^ 63" "xi_tick input = of_nat n"
  shows "completion_status (of_nat n) (completion_tick input) (flight_group c) =
    (if xi_simulated_flight_completion_delay_ticks input \<le> ec_flight_deadline_ticks c then COMPLETED_ON_TIME else COMPLETED_LATE)"
proof -
  let ?d = "xi_simulated_flight_completion_delay_ticks input" and ?r = "ec_flight_deadline_ticks c"
  have t: "unat (of_nat n :: u64) = n" using assms(1) by (simp add: unsigned_of_nat take_bit_nat_eq_self)
  have "unat ?d < 2 ^ 32" "unat ?r < 2 ^ 32" using unsigned_less [of ?d] unsigned_less [of ?r] by simp_all
  note small = this
  have add: "unat (of_nat n + ucast x :: u64) = n + unat x" if "unat x < 2 ^ 32" for x :: u32
    using that assms(1) by (simp add: unat_word_ariths t)
  have sub: "unat (- 1 - ucast ?d :: u64) = 2 ^ 64 - 1 - unat ?d"
  proof -
    have "(- 1 - ucast ?d :: u64) = of_nat (2 ^ 64 - 1 - unat ?d)"
      using small(1) by (simp add: of_nat_diff)
    then show ?thesis by (simp add: unsigned_of_nat take_bit_nat_eq_self)
  qed
  have zero: "unat ?d = 0 \<longleftrightarrow> ?d = 0" by (metis unsigned_0 word_unat_eq_iff)
  have "completion_tick input = of_nat n + ucast ?d"
    using sub small(1) assms zero by (cases "?d = 0") (auto simp: completion_tick_def Let_def word_less_nat_alt t)
  then show ?thesis
    using add [OF small(1)] add [OF small(2)] t
    by (simp add: completion_status_def word_le_nat_alt flight_group_def)
qed

lemma executive_run:
  assumes "exec_inv c n ex" "n + length inputs < 2 ^ 63" "numbered n inputs"
  shows "ex_app (run executive_step inputs ex) = run app_step (flight_inputs c n inputs) (ex_app ex) \<and>
    flight_outputs (outputs executive_step inputs ex) = outputs app_step (flight_inputs c n inputs) (ex_app ex) \<and>
    list_all2 (tick_ok c) inputs (outputs executive_step inputs ex)"
  using assms
proof (induction inputs arbitrary: n ex)
  case (Cons input inputs)
  have tick: "Suc n < 2 ^ 64" "n < 2 ^ 63" "xi_tick input = of_nat n" using Cons.prems(2,3) by simp_all
  note one = executive_tick [OF Cons.prems(1) tick(1,3)]
  let ?ex = "snd (executive_step input ex)" and ?out = "fst (executive_step input ex)"
  have prems: "exec_inv c (Suc n) ?ex" "Suc n + length inputs < 2 ^ 63" "numbered (Suc n) inputs"
    using one Cons.prems(2,3) by auto
  note IH = Cons.IH [OF prems] and status = completion_status_delay [OF tick(2,3), of c]
  have "tick_ok c input ?out" using one status by (auto simp: tick_ok_def split: if_splits option.splits)
  moreover have "flight_outputs (?out # outs) =
      (if due_at n (flight_group c) then [fst (app_step (xi_flight_input input) (ex_app ex))] else []) @ flight_outputs outs" for outs
    using one by (auto simp: flight_outputs_def split: if_splits option.splits)
  ultimately show ?case using one IH by simp
qed (simp add: flight_outputs_def)

lemma initial_exec_inv:
  assumes "executive_valid (flight_software_executive c)"
  shows "exec_inv c 0 (flight_software_executive c)"
proof -
  let ?cs = "make_scheduler_configuration c"
  have valid: "sc_valid (rate_group_scheduler ?cs)" using assms by (simp add: executive_valid_def flight_software_executive_def)
  then obtain tasks where "admit_groups ?cs [] = Inr tasks" "sc_tasks (rate_group_scheduler ?cs) = tasks"
    by (auto simp: rate_group_scheduler_def Let_def split: if_splits sum.splits)
  then have "list_all (\<lambda>t. \<not> ts_pending t) (sc_tasks (rate_group_scheduler ?cs))"
    by (auto dest!: admit_groups_tasks simp: new_task_def list_all_iff)
  with initial_inv [OF valid] show ?thesis by (simp add: exec_inv_def flight_software_executive_def)
qed

text \<open>C18: the executive refines the application. Started from a valid configuration and driven with
  consecutive ticks, it runs the application on exactly the inputs of the ticks at which the flight
  group is due: its state is the state of the application after these inputs, and the outputs are the
  application's. Every tick is accepted and reports no deadline miss, whatever the simulated delays,
  because a released task is completed in the tick that releases it; the completion is on time
  exactly when the delay is within the flight deadline. Every state the application reaches under
  the executive is well formed.\<close>

theorem executive_refines_application:
  assumes "executive_valid (flight_software_executive c)" "numbered 0 inputs" "length inputs < 2 ^ 63"
  shows "ex_app (run executive_step inputs (flight_software_executive c)) =
      run app_step (flight_inputs c 0 inputs) (flight_software_app (ec_app c)) \<and>
    flight_outputs (outputs executive_step inputs (flight_software_executive c)) =
      outputs app_step (flight_inputs c 0 inputs) (flight_software_app (ec_app c)) \<and>
    list_all2 (tick_ok c) inputs (outputs executive_step inputs (flight_software_executive c)) \<and>
    app_inv (ex_app (run executive_step inputs (flight_software_executive c)))"
proof -
  note run = executive_run [OF initial_exec_inv [OF assms(1)], of inputs]
  have app: "ex_app (flight_software_executive c) = flight_software_app (ec_app c)" by (simp add: flight_software_executive_def)
  have "app_inv (flight_software_app (ec_app c))"
    using assms(1) by (intro initial_app_inv) (simp add: executive_valid_def app)
  then show ?thesis using run assms(2,3) app_system.inv_run by (simp add: app)
qed

lemma default_executive_valid: "executive_valid (flight_software_executive default_executive_config)"
  by (simp add: executive_valid_def flight_software_executive_def default_executive_config_def rate_group_scheduler_def
      make_scheduler_configuration_def flight_group_def housekeeping_group_def new_task_def FLIGHT_SOFTWARE_STEP_def
      HOUSEKEEPING_SNAPSHOT_def flight_software_app_def Let_def default_config_def command_processor_def
      recovery_supervisor_def ground_command_guard_def event_logger_def log_valid_def)

theorem executive_refines_application_witness:
  "ex_app (run executive_step
      [\<lparr>xi_tick = 0, xi_flight_input = quiet_input, xi_simulated_flight_completion_delay_ticks = 0\<rparr>,
       \<lparr>xi_tick = 1, xi_flight_input = quiet_input, xi_simulated_flight_completion_delay_ticks = 3\<rparr>]
      (flight_software_executive default_executive_config)) =
   run app_step [quiet_input, quiet_input] (flight_software_app default_config)"
  using executive_refines_application [OF default_executive_valid, of
      "[\<lparr>xi_tick = 0, xi_flight_input = quiet_input, xi_simulated_flight_completion_delay_ticks = 0\<rparr>,
        \<lparr>xi_tick = 1, xi_flight_input = quiet_input, xi_simulated_flight_completion_delay_ticks = 3\<rparr>]"]
  by (simp add: default_executive_config_def flight_group_def due_at_def)

text \<open>The statistics reported by a tick are those of the scheduler afterwards, the flight task first.\<close>

lemma executive_statistics: "xo_scheduler_statistics (fst (executive_step input ex)) = statistics (ex_scheduler (snd (executive_step input ex)))"
  by (simp add: executive_step_def Let_def split_beta)

lemma first_statistics:
  assumes "exec_inv c n ex"
  shows "statistics (ex_scheduler ex) \<noteq> []" "st_deadline_miss_count (hd (statistics (ex_scheduler ex))) = flight_misses ex"
proof -
  have "sc_tasks (ex_scheduler ex) \<noteq> []"
    using assms by (auto simp: exec_inv_def scheduler_inv_def make_scheduler_configuration_def)
  then show "statistics (ex_scheduler ex) \<noteq> []" "st_deadline_miss_count (hd (statistics (ex_scheduler ex))) = flight_misses ex"
    by (simp_all add: statistics_def task_statistics_def flight_misses_def hd_map)
qed

end
