(* ===== verification/Configuration.thy ===== *)
theory Configuration
  imports Executive
begin

text \<open>
  The configuration service (\<open>fsw/src/configuration_service.cpp\<close>): a validated configuration is
  replaced only by a valid one of a higher revision, and not at all once it is locked.
\<close>

definition ASTRA_CONFIGURATION_SCHEMA_VERSION :: u32 where
  "ASTRA_CONFIGURATION_SCHEMA_VERSION = 1"

datatype ConfigurationApplyStatus = CONFIGURATION_ACCEPTED | REJECTED_INVALID_SCHEMA | REJECTED_INVALID_VALUE
  | REJECTED_REVISION_CONFLICT | REJECTED_NON_MONOTONIC_REVISION | REJECTED_LOCKED

record SystemConfiguration =
  sy_schema_version :: u32
  sy_revision :: u64
  sy_executive :: ExecutiveConfig

record ConfigurationValidationResult =
  vr_valid :: bool
  vr_field :: string
  vr_message :: string

record ConfigurationApplyResult =
  af_status :: ConfigurationApplyStatus
  af_previous_revision :: u64
  af_active_revision :: u64
  af_validation :: ConfigurationValidationResult

definition invalid :: "string \<Rightarrow> string \<Rightarrow> ConfigurationValidationResult" where
  "invalid name message = \<lparr>vr_valid = False, vr_field = name, vr_message = message\<rparr>"

definition valid_result :: ConfigurationValidationResult where
  "valid_result = \<lparr>vr_valid = True, vr_field = '''', vr_message = ''''\<rparr>"

definition validate_rate_group :: "string \<Rightarrow> u32 \<Rightarrow> u32 \<Rightarrow> u32 \<Rightarrow> ConfigurationValidationResult" where
  "validate_rate_group prefix period_ticks phase_ticks deadline_ticks =
     (if period_ticks = 0 then invalid prefix ''period must be greater than zero''
      else if phase_ticks \<ge> period_ticks then invalid prefix ''phase must be less than period''
      else if deadline_ticks = 0 then invalid prefix ''deadline must be greater than zero''
      else if deadline_ticks > period_ticks then invalid prefix ''deadline must not exceed period''
      else valid_result)"

definition validate_configuration :: "SystemConfiguration \<Rightarrow> ConfigurationValidationResult" where
  "validate_configuration configuration =
     (let ex = sy_executive configuration; app = ec_app ex in
      if sy_schema_version configuration \<noteq> ASTRA_CONFIGURATION_SCHEMA_VERSION
      then invalid ''schema_version'' ''unsupported configuration schema version''
      else if sy_revision configuration = 0 then invalid ''revision'' ''revision must be greater than zero''
      else if cfg_event_log_capacity app < 16 \<or> cfg_event_log_capacity app > 4096
      then invalid ''executive.app.event_log_capacity'' ''event capacity must be within [16, 4096]''
      else if cfg_maximum_age_ms app = - 1
      then invalid ''executive.app.ground_command_guard.maximum_age_ms'' ''maximum age must be bounded''
      else if cfg_maximum_future_skew_ms app = - 1
      then invalid ''executive.app.ground_command_guard.maximum_future_skew_ms'' ''future skew must be bounded''
      else if cfg_maximum_failed_attempts app = 0
      then invalid ''executive.app.recovery_supervisor.maximum_failed_attempts''
        ''maximum failed recovery attempts must be greater than zero''
      else
        let flight = validate_rate_group ''executive.flight_rate_group'' (ec_flight_period_ticks ex)
              (ec_flight_phase_ticks ex) (ec_flight_deadline_ticks ex)
        in if \<not> vr_valid flight then flight
           else
             let housekeeping = validate_rate_group ''executive.housekeeping_rate_group'' (ec_housekeeping_period_ticks ex)
                   (ec_housekeeping_phase_ticks ex) (ec_housekeeping_deadline_ticks ex)
             in if \<not> vr_valid housekeeping then housekeeping else valid_result)"

section \<open>The service\<close>

record ConfigurationService =
  cs_initial_validation :: ConfigurationValidationResult
  cs_active_configuration :: SystemConfiguration
  cs_valid :: bool
  cs_locked :: bool

definition configuration_service :: "SystemConfiguration \<Rightarrow> ConfigurationService" where
  "configuration_service initial =
     \<lparr>cs_initial_validation = validate_configuration initial, cs_active_configuration = initial,
      cs_valid = vr_valid (validate_configuration initial), cs_locked = False\<rparr>"

definition apply_configuration ::
  "SystemConfiguration \<Rightarrow> u64 \<Rightarrow> ConfigurationService \<Rightarrow> ConfigurationApplyResult \<times> ConfigurationService" where
  "apply_configuration candidate expected_active_revision s =
     (let revision = sy_revision (cs_active_configuration s);
          result = \<lparr>af_status = REJECTED_INVALID_VALUE, af_previous_revision = revision, af_active_revision = revision,
            af_validation = invalid '''' ''''\<rparr>
      in if cs_locked s then (result\<lparr>af_status := REJECTED_LOCKED\<rparr>, s)
         else if expected_active_revision \<noteq> revision then (result\<lparr>af_status := REJECTED_REVISION_CONFLICT\<rparr>, s)
         else if sy_revision candidate \<le> revision then (result\<lparr>af_status := REJECTED_NON_MONOTONIC_REVISION\<rparr>, s)
         else
           let result1 = result\<lparr>af_validation := validate_configuration candidate\<rparr> in
           if \<not> vr_valid (af_validation result1)
           then (result1\<lparr>af_status := (if sy_schema_version candidate \<noteq> ASTRA_CONFIGURATION_SCHEMA_VERSION
                    then REJECTED_INVALID_SCHEMA else REJECTED_INVALID_VALUE)\<rparr>, s)
           else (result1\<lparr>af_status := CONFIGURATION_ACCEPTED, af_active_revision := sy_revision candidate\<rparr>,
                 s\<lparr>cs_active_configuration := candidate, cs_valid := True\<rparr>))"

definition lock_configuration :: "ConfigurationService \<Rightarrow> bool \<times> ConfigurationService" where
  "lock_configuration s = (if \<not> cs_valid s \<or> cs_locked s then (False, s) else (True, s\<lparr>cs_locked := True\<rparr>))"

section \<open>What a valid configuration guarantees\<close>

text \<open>The service and the constructors agree: a validated configuration is one the executive accepts.\<close>

lemma validate_rate_group_valid:
  "vr_valid (validate_rate_group prefix period phase deadline) \<longleftrightarrow>
     period \<noteq> 0 \<and> phase < period \<and> deadline \<noteq> 0 \<and> deadline \<le> period"
  by (auto simp: validate_rate_group_def invalid_def valid_result_def)

lemma validated_executive_valid:
  assumes "vr_valid (validate_configuration s)"
  shows "executive_valid (flight_software_executive (sy_executive s))"
proof -
  let ?c = "sy_executive s"
  have app: "cfg_event_log_capacity (ec_app ?c) \<ge> 16" "cfg_maximum_age_ms (ec_app ?c) \<noteq> - 1"
      "cfg_maximum_future_skew_ms (ec_app ?c) \<noteq> - 1" "cfg_maximum_failed_attempts (ec_app ?c) \<noteq> 0"
    and groups: "vr_valid (validate_rate_group ''executive.flight_rate_group'' (ec_flight_period_ticks ?c)
        (ec_flight_phase_ticks ?c) (ec_flight_deadline_ticks ?c))"
      "vr_valid (validate_rate_group ''executive.housekeeping_rate_group'' (ec_housekeeping_period_ticks ?c)
        (ec_housekeeping_phase_ticks ?c) (ec_housekeeping_deadline_ticks ?c))"
    using assms by (auto simp: validate_configuration_def Let_def invalid_def split: if_splits)
  have "ap_valid (flight_software_app (ec_app ?c))"
    using app by (simp add: flight_software_app_def Let_def command_processor_def recovery_supervisor_def
        ground_command_guard_def event_logger_def log_valid_def)
  moreover have "sc_valid (rate_group_scheduler (make_scheduler_configuration ?c))"
    using groups by (auto simp: validate_rate_group_valid rate_group_scheduler_def make_scheduler_configuration_def
        flight_group_def housekeeping_group_def new_task_def FLIGHT_SOFTWARE_STEP_def HOUSEKEEPING_SNAPSHOT_def Let_def)
  ultimately show ?thesis by (simp add: executive_valid_def flight_software_executive_def)
qed

fun configuration_apply_status_to_string :: "ConfigurationApplyStatus \<Rightarrow> string" where
  "configuration_apply_status_to_string CONFIGURATION_ACCEPTED = ''ACCEPTED''"
| "configuration_apply_status_to_string REJECTED_INVALID_SCHEMA = ''REJECTED_INVALID_SCHEMA''"
| "configuration_apply_status_to_string REJECTED_INVALID_VALUE = ''REJECTED_INVALID_VALUE''"
| "configuration_apply_status_to_string REJECTED_REVISION_CONFLICT = ''REJECTED_REVISION_CONFLICT''"
| "configuration_apply_status_to_string REJECTED_NON_MONOTONIC_REVISION = ''REJECTED_NON_MONOTONIC_REVISION''"
| "configuration_apply_status_to_string REJECTED_LOCKED = ''REJECTED_LOCKED''"

section \<open>Sequences of calls\<close>

datatype configuration_call = Apply SystemConfiguration u64 | Lock

fun configuration_step :: "configuration_call \<Rightarrow> ConfigurationService \<Rightarrow> (ConfigurationApplyResult + bool) \<times> ConfigurationService" where
  "configuration_step (Apply candidate expected) s = map_prod Inl id (apply_configuration candidate expected s)"
| "configuration_step Lock s = map_prod Inr id (lock_configuration s)"

text \<open>An applied configuration is accepted, or the service is unchanged.\<close>

lemma apply_configuration_result:
  "snd (apply_configuration candidate expected s) = s \<and>
     af_status (fst (apply_configuration candidate expected s)) \<noteq> CONFIGURATION_ACCEPTED \<or>
   snd (apply_configuration candidate expected s) = s\<lparr>cs_active_configuration := candidate, cs_valid := True\<rparr> \<and>
     af_status (fst (apply_configuration candidate expected s)) = CONFIGURATION_ACCEPTED \<and> \<not> cs_locked s \<and>
     sy_revision (cs_active_configuration s) < sy_revision candidate \<and> vr_valid (validate_configuration candidate)"
  by (simp add: apply_configuration_def Let_def not_le)

definition service_inv :: "SystemConfiguration \<Rightarrow> ConfigurationService \<Rightarrow> bool" where
  "service_inv initial s \<longleftrightarrow> cs_valid s = vr_valid (validate_configuration (cs_active_configuration s)) \<and>
     (cs_valid s \<or> \<not> cs_locked s \<and> cs_active_configuration s = initial) \<and>
     sy_revision initial \<le> sy_revision (cs_active_configuration s)"

interpretation service_system: invariant_system configuration_step "service_inv initial"
  for initial :: SystemConfiguration
proof
  fix s :: ConfigurationService and call
  assume inv: "service_inv initial s"
  show "service_inv initial (snd (configuration_step call s))"
  proof (cases call)
    case (Apply candidate expected)
    have "sy_revision initial \<le> sy_revision (cs_active_configuration s)" using inv by (simp add: service_inv_def)
    with apply_configuration_result [of candidate expected s] inv Apply show ?thesis
      by (auto simp: service_inv_def intro: order_trans less_imp_le)
  next
    case Lock
    with inv show ?thesis by (auto simp: service_inv_def lock_configuration_def)
  qed
qed

interpretation locked_system: invariant_system configuration_step "\<lambda>s. cs_locked s \<and> s = frozen"
  for frozen :: ConfigurationService
proof
  fix s :: ConfigurationService and call
  assume "cs_locked s \<and> s = frozen"
  then show "cs_locked (snd (configuration_step call s)) \<and> snd (configuration_step call s) = frozen"
    by (cases call) (auto simp: apply_configuration_def lock_configuration_def Let_def)
qed

text \<open>C20: the active configuration. After any sequence of apply and lock calls, the service says it is
  valid exactly when its active configuration passes validation, and then the executive built from
  it, with its scheduler, guard, recovery supervisor and event log, is valid too; a service that is
  not valid still has its initial configuration and cannot be locked. The revision never
  decreases, and a locked service no longer changes, whatever is called.\<close>

theorem active_configuration_usable:
  "let s = run configuration_step calls (configuration_service initial) in
     cs_valid s = vr_valid (validate_configuration (cs_active_configuration s)) \<and>
     (if cs_valid s then executive_valid (flight_software_executive (sy_executive (cs_active_configuration s)))
      else \<not> cs_locked s \<and> cs_active_configuration s = initial) \<and>
     sy_revision initial \<le> sy_revision (cs_active_configuration s) \<and>
     (if cs_locked s then run configuration_step later s = s else True)"
proof -
  let ?s = "run configuration_step calls (configuration_service initial)"
  have "service_inv initial (configuration_service initial)"
    by (auto simp: service_inv_def configuration_service_def)
  then have "service_inv initial ?s" by (rule service_system.inv_run)
  moreover have "run configuration_step later ?s = ?s" if "cs_locked ?s"
    using locked_system.inv_run [of ?s ?s later] that by simp
  ultimately show ?thesis by (auto simp: service_inv_def Let_def validated_executive_valid)
qed

end
