(* ===== verification/Timing_Evidence.thy ===== *)
theory Timing_Evidence
  imports Json
begin

text \<open>
  \<open>tools/validate_timing_evidence.py\<close>: the checks on a timing report.
\<close>

definition REQUIRED_NUMERIC_FIELDS :: "string list" where
  "REQUIRED_NUMERIC_FIELDS = [''ticks'', ''mission_step_ms'', ''overload_every'', ''total_elapsed_ns'',
     ''mean_step_ns'', ''min_step_ns'', ''p50_step_ns'', ''p95_step_ns'', ''p99_step_ns'', ''max_step_ns'',
     ''scheduler_deadline_misses'']"

definition ordered_fields :: "string list" where
  "ordered_fields = [''min_step_ns'', ''p50_step_ns'', ''p95_step_ns'', ''p99_step_ns'', ''max_step_ns'']"

definition field_problems :: "json_object \<Rightarrow> string \<Rightarrow> string list" where
  "field_problems payload f =
     (let value = dict_get payload f in
      if \<not> isinstance_number value \<or> isinstance_bool value then [f @ '' must be numeric'']
      else if num_value value < 0 then [f @ '' must not be negative'']
      else [])"

text \<open>\<open>expect_misses\<close> is \<open>True\<close>, \<open>False\<close> or \<open>None\<close>.\<close>

definition validate :: "json_object \<Rightarrow> bool option \<Rightarrow> string list" where
  "validate payload expect_misses =
     (let ticks = dict_get payload ''ticks'';
          ordered_values = map (dict_get payload) ordered_fields;
          misses = dict_get payload ''scheduler_deadline_misses''
      in (if \<not> eq_str (dict_get payload ''schema'') ''astra-os.host-timing.v1''
          then [''unexpected or missing schema''] else []) @
         (if \<not> isinstance_str (dict_get payload ''claim_boundary'') \<or>
             dict_get payload ''claim_boundary'' = Some (JStr '''')
          then [''missing claim boundary''] else []) @
         concat (map (field_problems payload) REQUIRED_NUMERIC_FIELDS) @
         (if isinstance_int ticks \<and> num_value ticks \<le> 0 then [''ticks must be greater than zero''] else []) @
         (if list_all isinstance_number ordered_values \<and>
             map num_value ordered_values \<noteq> sort (map num_value ordered_values)
          then [''timing percentile fields are not monotonic''] else []) @
         (if \<not> eq_str (dict_get payload ''final_mode'') ''NOMINAL''
          then [''timing campaign did not finish in NOMINAL''] else []) @
         (if \<not> eq_str (dict_get payload ''final_fault'') ''NONE''
          then [''timing campaign finished with an unexpected fault''] else []) @
         (if isinstance_int misses \<and> expect_misses = Some True \<and> num_value misses \<le> 0
          then [''controlled-overrun campaign produced no deadline misses''] else []) @
         (if isinstance_int misses \<and> expect_misses = Some False \<and> num_value misses \<noteq> 0
          then [''nominal campaign produced scheduler deadline misses''] else []))"

record timing_args =
  ta_evidence :: string
  ta_expect_misses :: bool
  ta_expect_no_misses :: bool

text \<open>\<open>main\<close>: \<open>loaded\<close> is the parsed file, or the text of the \<open>OSError\<close> or
  \<open>JSONDecodeError\<close>; \<open>ta_evidence\<close> is the resolved path of the file. The result is the exit status with the printed lines.\<close>

definition timing_main :: "timing_args \<Rightarrow> string + json \<Rightarrow> (int \<times> string list) result" where
  "timing_main args loaded =
     (case loaded of
        Inl error \<Rightarrow> Inr (1, [''ERROR: '' @ error])
      | Inr (JObj payload) \<Rightarrow>
          let expectation = (if ta_expect_misses args then Some True
                else if ta_expect_no_misses args then Some False else None);
              problems = validate payload expectation
          in if problems \<noteq> [] then Inr (1, map (\<lambda>p. ''FAIL: '' @ p) problems)
             else Inr (0, [''PASS: timing evidence valid: '' @ ta_evidence args])
      | Inr _ \<Rightarrow> Inl (AttributeError ''object has no attribute get''))"

section \<open>What valid evidence is\<close>

definition is_num :: "json option \<Rightarrow> bool" where
  "is_num v \<longleftrightarrow> (\<exists>i. v = Some (JInt i)) \<or> (\<exists>r. v = Some (JFloat r))"

lemma is_num_iff: "isinstance_number v \<and> \<not> isinstance_bool v \<longleftrightarrow> is_num v"
  by (auto simp: is_num_def isinstance_number_def isinstance_int_def isinstance_bool_def
      split: option.splits json.splits)

definition valid_evidence :: "json_object \<times> bool option \<Rightarrow> bool" where
  "valid_evidence = (\<lambda>(p, expect).
     dict_get p ''schema'' = Some (JStr ''astra-os.host-timing.v1'') \<and>
     (\<exists>s. dict_get p ''claim_boundary'' = Some (JStr s) \<and> s \<noteq> []) \<and>
     (\<forall>f\<in>set REQUIRED_NUMERIC_FIELDS. is_num (dict_get p f) \<and> 0 \<le> num_value (dict_get p f)) \<and>
     (\<forall>i. dict_get p ''ticks'' = Some (JInt i) \<longrightarrow> 0 < i) \<and>
     sorted (map (\<lambda>f. num_value (dict_get p f)) ordered_fields) \<and>
     dict_get p ''final_mode'' = Some (JStr ''NOMINAL'') \<and> dict_get p ''final_fault'' = Some (JStr ''NONE'') \<and>
     (\<forall>i. dict_get p ''scheduler_deadline_misses'' = Some (JInt i) \<longrightarrow>
        (expect = Some True \<longrightarrow> 0 < i) \<and> (expect = Some False \<longrightarrow> i = 0)))"

lemma field_problems_iff:
  "field_problems p f = [] \<longleftrightarrow> is_num (dict_get p f) \<and> 0 \<le> num_value (dict_get p f)"
  using is_num_iff [of "dict_get p f"] by (auto simp: field_problems_def Let_def)

lemma is_num_int: "is_num v \<Longrightarrow> isinstance_int v \<longleftrightarrow> (\<exists>i. v = Some (JInt i))"
  by (auto simp: is_num_def)

lemma sort_fixpoint: "xs = sort xs \<longleftrightarrow> sorted (xs :: rat list)"
  by (metis sorted_sort sorted_sort_id)

lemma validate_iff: "validate p expect = [] \<longleftrightarrow> valid_evidence (p, expect)"
proof -
  let ?req = "\<forall>f\<in>set REQUIRED_NUMERIC_FIELDS. is_num (dict_get p f) \<and> 0 \<le> num_value (dict_get p f)"
  have ordered: "set ordered_fields \<subseteq> set REQUIRED_NUMERIC_FIELDS"
    and in_req: "''ticks'' \<in> set REQUIRED_NUMERIC_FIELDS"
      "''scheduler_deadline_misses'' \<in> set REQUIRED_NUMERIC_FIELDS"
    by (auto simp: ordered_fields_def REQUIRED_NUMERIC_FIELDS_def)
  have num: "isinstance_number (dict_get p f)" if ?req "f \<in> set REQUIRED_NUMERIC_FIELDS" for f
    using that is_num_iff by blast
  have "validate p expect = [] \<longleftrightarrow>
    eq_str (dict_get p ''schema'') ''astra-os.host-timing.v1'' \<and>
    isinstance_str (dict_get p ''claim_boundary'') \<and> dict_get p ''claim_boundary'' \<noteq> Some (JStr '''') \<and>
    ?req \<and>
    \<not> (isinstance_int (dict_get p ''ticks'') \<and> num_value (dict_get p ''ticks'') \<le> 0) \<and>
    (list_all isinstance_number (map (dict_get p) ordered_fields) \<longrightarrow>
       sorted (map num_value (map (dict_get p) ordered_fields))) \<and>
    eq_str (dict_get p ''final_mode'') ''NOMINAL'' \<and> eq_str (dict_get p ''final_fault'') ''NONE'' \<and>
    \<not> (isinstance_int (dict_get p ''scheduler_deadline_misses'') \<and> expect = Some True \<and>
       num_value (dict_get p ''scheduler_deadline_misses'') \<le> 0) \<and>
    \<not> (isinstance_int (dict_get p ''scheduler_deadline_misses'') \<and> expect = Some False \<and>
       num_value (dict_get p ''scheduler_deadline_misses'') \<noteq> 0)"
    unfolding validate_def Let_def append_is_Nil_conv sort_fixpoint concat_eq_Nil_conv
    by (auto simp: field_problems_iff)
  also have "\<dots> \<longleftrightarrow> valid_evidence (p, expect)"
  proof (cases ?req)
    case True
    have "list_all isinstance_number (map (dict_get p) ordered_fields)"
      using num [OF True] ordered by (auto simp: list_all_iff)
    moreover have "isinstance_int (dict_get p f) \<longleftrightarrow> (\<exists>i. dict_get p f = Some (JInt i))"
      if "f \<in> set REQUIRED_NUMERIC_FIELDS" for f using True that is_num_int by blast
    note this [OF in_req(1)] this [OF in_req(2)]
    moreover have "isinstance_str (dict_get p ''claim_boundary'') \<longleftrightarrow>
        (\<exists>s. dict_get p ''claim_boundary'' = Some (JStr s))"
      by (auto simp: isinstance_str_def split: option.splits json.splits)
    ultimately show ?thesis
      using True unfolding valid_evidence_def eq_str_def prod.case by (auto simp: comp_def)
  next
    case False
    then show ?thesis unfolding valid_evidence_def prod.case by blast
  qed
  finally show ?thesis .
qed

interpretation timing_check: problem_checker "\<lambda>(p, expect). validate p expect" valid_evidence
  by unfold_locales (auto simp: validate_iff)

section \<open>Properties\<close>

text \<open>\<open>validate_timing_evidence.py\<close> exits with 0 exactly on valid evidence: the schema and a
  non-empty claim boundary are there, all eleven numeric fields are numbers (no booleans) and not
  negative, an integer tick count is positive, the five percentile fields ascend, the campaign
  ended in NOMINAL without a fault, and an integer deadline-miss count is positive or zero as the
  command line expects. Otherwise it exits with 1 and prints one line per problem, at least one.\<close>

theorem timing_evidence_exit_status:
  "timing_main args (Inr (JObj payload)) =
     (let expectation = (if ta_expect_misses args then Some True
            else if ta_expect_no_misses args then Some False else None)
      in if valid_evidence (payload, expectation)
         then Inr (0, [''PASS: timing evidence valid: '' @ ta_evidence args])
         else Inr (1, map (\<lambda>p. ''FAIL: '' @ p) (validate payload expectation))) \<and>
   (validate payload expect = [] \<longleftrightarrow> valid_evidence (payload, expect))"
  by (simp add: timing_main_def Let_def validate_iff)

text \<open>The integer checks are skipped for floats: a report of zero ticks and no deadline miss,
  written as \<open>0.0\<close>, passes as a controlled-overrun campaign.\<close>

definition empty_campaign :: json_object where
  "empty_campaign = [(''schema'', JStr ''astra-os.host-timing.v1''), (''claim_boundary'', JStr ''host''),
     (''ticks'', JFloat 0), (''mission_step_ms'', JInt 10), (''overload_every'', JInt 5),
     (''total_elapsed_ns'', JInt 0), (''mean_step_ns'', JInt 0), (''min_step_ns'', JInt 0),
     (''p50_step_ns'', JInt 0), (''p95_step_ns'', JInt 0), (''p99_step_ns'', JInt 0), (''max_step_ns'', JInt 0),
     (''scheduler_deadline_misses'', JFloat 0), (''final_mode'', JStr ''NOMINAL''), (''final_fault'', JStr ''NONE'')]"

lemma empty_campaign_accepted: "validate empty_campaign (Some True) = []"
  unfolding validate_iff valid_evidence_def
  by (simp add: empty_campaign_def REQUIRED_NUMERIC_FIELDS_def ordered_fields_def is_num_def)

end
