(* ===== verification/Cpp_Numbers.thy ===== *)
theory Cpp_Numbers
  imports Wire Py_Strings
begin

text \<open>
  The conversions of the C++ library that the flight programs apply to their command lines:
  \<open>std::stoull\<close>, \<open>std::stoul\<close> and \<open>std::stoi\<close> in base 10, with \<open>unsigned long\<close> of 64 and \<open>int\<close> of 32 bits. A
  failure is the text of the exception, for which libstdc++ has the name of the function.
\<close>

definition c_space :: "char \<Rightarrow> bool" where
  "c_space c \<longleftrightarrow> c = CHR '' '' \<or> c = CHR 9 \<or> c = CHR 10 \<or> c = CHR 11 \<or> c = CHR 12 \<or> c = CHR 13"

text \<open>Leading white space, an optional sign, digits: whether the sign is a minus, the value of the
  digits, and the number of characters consumed; nothing if there is no digit.\<close>

definition scan_integer :: "string \<Rightarrow> (bool \<times> nat \<times> nat) option" where
  "scan_integer s =
     (let unspaced = dropWhile c_space s;
          signed = unspaced \<noteq> [] \<and> (hd unspaced = CHR ''-'' \<or> hd unspaced = CHR ''+'');
          negative = unspaced \<noteq> [] \<and> hd unspaced = CHR ''-'';
          body = (if signed then tl unspaced else unspaced);
          digits = takeWhile (\<lambda>c. digit_val c \<noteq> None) body
      in if digits = [] then None
         else Some (negative, foldl (\<lambda>n c. 10 * n + the (digit_val c)) 0 digits,
           length s - length body + length digits))"

text \<open>A minus sign negates modulo \<open>2 ^ 64\<close>.\<close>

definition scan_unsigned :: "string \<Rightarrow> string \<Rightarrow> string + (u64 \<times> nat)" where
  "scan_unsigned name s =
     (case scan_integer s of
        None \<Rightarrow> Inl name
      | Some (negative, v, consumed) \<Rightarrow>
          if v \<ge> 2 ^ 64 then Inl name else Inr (if negative then - of_nat v else of_nat v, consumed))"

definition stoull :: "string \<Rightarrow> string + (u64 \<times> nat)" where
  "stoull s = scan_unsigned ''stoull'' s"

text \<open>Called without a position, the functions ignore what follows the digits.\<close>

definition stoul :: "string \<Rightarrow> string + u64" where
  "stoul s = map_sum id fst (scan_unsigned ''stoul'' s)"

definition stoi :: "string \<Rightarrow> string + int" where
  "stoi s =
     (case scan_integer s of
        None \<Rightarrow> Inl ''stoi''
      | Some (negative, v, _) \<Rightarrow>
          let i = (if negative then - int v else int v) in
          if i < - (2 ^ 31) \<or> i \<ge> 2 ^ 31 then Inl ''stoi'' else Inr i)"

section \<open>Decimal texts\<close>

lemma digits_value_str_nat: "foldl (\<lambda>n c. 10 * n + the (digit_val c)) 0 (str_nat n) = n"
proof (induction n rule: str_nat.induct)
  case (1 n)
  then show ?case by (cases "n < 10") (simp_all add: str_nat.simps [of n])
qed

lemma takeWhile_str_nat: "takeWhile (\<lambda>c. digit_val c \<noteq> None) (str_nat n) = str_nat n"
  using str_nat_digit_vals [of n] by (simp add: takeWhile_eq_all_conv)

lemma scan_str_nat: "scan_integer (str_nat n) = Some (False, n, length (str_nat n))"
proof -
  obtain c cs where s: "str_nat n = c # cs" by (cases "str_nat n") auto
  then obtain d where d: "digit_val c = Some d" using str_nat_digit_vals [of n] by auto
  then have "\<not> c_space c" "c \<noteq> CHR ''-''" "c \<noteq> CHR ''+''"
    by (auto simp: digit_val_def c_space_def Let_def split: if_splits)
  with s have "dropWhile c_space (str_nat n) = str_nat n" "hd (str_nat n) = c" by simp_all
  with \<open>c \<noteq> CHR ''-''\<close> \<open>c \<noteq> CHR ''+''\<close> show ?thesis
    unfolding scan_integer_def Let_def by (simp add: takeWhile_str_nat digits_value_str_nat del: not_None_eq)
qed

lemma stoul_str_nat: "n < 2 ^ 64 \<Longrightarrow> stoul (str_nat n) = Inr (of_nat n)"
  by (simp add: stoul_def scan_unsigned_def scan_str_nat)

lemma stoi_str_nat: "n < 2 ^ 31 \<Longrightarrow> stoi (str_nat n) = Inr (int n)"
  by (simp add: stoi_def scan_str_nat Let_def)

end
