(* ===== verification/Timing_Campaign.thy ===== *)
theory Timing_Campaign
  imports Executive Nominal_Flight Timing_Evidence Cpp_Numbers
begin

text \<open>
  The host timing campaign (\<open>fsw/src/timing_campaign.cpp\<close>): it drives the flight software executive
  through a number of ticks, measures every step and writes the report that
  \<open>tools/validate_timing_evidence.py\<close> checks. The measured durations, and the mean that the program
  computes in \<open>long double\<close> and prints with three decimals, are parameters.
\<close>

section \<open>Command line\<close>

record Options =
  op_ticks :: u64
  op_mission_step_ms :: u64
  op_overload_every :: u64
  op_output_path :: string

definition default_options :: Options where
  "default_options = \<lparr>op_ticks = 100000, op_mission_step_ms = 10, op_overload_every = 0, op_output_path = ''''\<rparr>"

definition parse_u64 :: "string \<Rightarrow> string \<Rightarrow> string + u64" where
  "parse_u64 value option_name =
     (let error = \<lambda>what. Inl (option_name @ '' requires an unsigned integer: '' @ what) in
      case stoull value of
        Inl what \<Rightarrow> error what
      | Inr (parsed, consumed) \<Rightarrow> if consumed \<noteq> length value then error ''trailing characters'' else Inr parsed)"

text \<open>The loop over \<open>argv\<close>; \<open>Inr None\<close> is the exit after \<open>--help\<close>.\<close>

fun parse_arguments :: "string list \<Rightarrow> Options \<Rightarrow> string + Options option" where
  "parse_arguments [] options = Inr (Some options)"
| "parse_arguments (argument # arguments) options =
     (if argument = ''--ticks'' \<and> arguments \<noteq> [] then
        (case parse_u64 (hd arguments) ''--ticks'' of Inl e \<Rightarrow> Inl e
         | Inr n \<Rightarrow> parse_arguments (tl arguments) (options\<lparr>op_ticks := n\<rparr>))
      else if argument = ''--mission-step-ms'' \<and> arguments \<noteq> [] then
        (case parse_u64 (hd arguments) ''--mission-step-ms'' of Inl e \<Rightarrow> Inl e
         | Inr n \<Rightarrow> parse_arguments (tl arguments) (options\<lparr>op_mission_step_ms := n\<rparr>))
      else if argument = ''--overload-every'' \<and> arguments \<noteq> [] then
        (case parse_u64 (hd arguments) ''--overload-every'' of Inl e \<Rightarrow> Inl e
         | Inr n \<Rightarrow> parse_arguments (tl arguments) (options\<lparr>op_overload_every := n\<rparr>))
      else if argument = ''--output'' \<and> arguments \<noteq> [] then
        parse_arguments (tl arguments) (options\<lparr>op_output_path := hd arguments\<rparr>)
      else if argument = ''--help'' then Inr None
      else Inl (''unknown or incomplete option: '' @ argument))"

text \<open>The last check of the source compares with the largest \<open>size_t\<close>, which on the 64-bit host is the
  largest \<open>uint64_t\<close>, so that it never fails.\<close>

definition parse_options :: "string list \<Rightarrow> string + Options option" where
  "parse_options arguments =
     (case parse_arguments arguments default_options of
        Inl e \<Rightarrow> Inl e
      | Inr None \<Rightarrow> Inr None
      | Inr (Some options) \<Rightarrow>
          if op_ticks options = 0 then Inl ''--ticks must be greater than zero''
          else if op_mission_step_ms options = 0 then Inl ''--mission-step-ms must be greater than zero''
          else if op_ticks options > - 1 then Inl ''--ticks exceeds addressable sample count''
          else Inr (Some options))"

section \<open>The loop\<close>

text \<open>\<open>25.0F\<close> and \<open>30.0F\<close> are given by their bits.\<close>

definition campaign_input :: "Options \<Rightarrow> u64 \<Rightarrow> ExecutiveInput" where
  "campaign_input options tick =
     \<lparr>xi_tick = tick,
      xi_flight_input =
        \<lparr>si_command = (if tick = 0 then Some \<lparr>cp_sequence_number = 1, cp_timestamp_ms = 0, cp_command_id = SET_MODE,
             cp_argument = of_nat (mode_value NOMINAL)\<rparr> else None),
         si_timestamp_ms = tick * op_mission_step_ms options, si_cpu_load_percent = 0x41C80000,
         si_memory_load_percent = 0x41F00000, si_heartbeat_count = ucast tick, si_sensor_age_ms = 0,
         si_payload_age_ms = 0, si_loop_duration_ms = 1\<rparr>,
      xi_simulated_flight_completion_delay_ticks =
        (if op_overload_every options > 0 \<and> tick > 0 \<and> tick mod op_overload_every options = 0 then 2 else 0)\<rparr>"

text \<open>\<open>duration tick\<close> is the time measured for the step of that tick; the state of the loop is the
  samples, the deadline misses and the executive.\<close>

fun campaign_loop :: "(u64 \<Rightarrow> u64) \<Rightarrow> Options \<Rightarrow> u64 list \<Rightarrow> u64 list \<times> u64 \<times> Executive \<Rightarrow>
    string + (u64 list \<times> u64 \<times> Executive)" where
  "campaign_loop duration options [] state = Inr state"
| "campaign_loop duration options (tick # ticks) (samples, deadline_misses, executive) =
     (let (result, executive1) = executive_step (campaign_input options tick) executive;
          statistics = xo_scheduler_statistics result
      in if xo_scheduler_status result \<noteq> SCHEDULER_OK
         then Inl (''ERROR: scheduler failed at tick '' @ str_nat (unat tick) @ '' status='' @
                   scheduler_status_to_string (xo_scheduler_status result))
         else campaign_loop duration options ticks
           (samples @ [duration tick],
            if statistics \<noteq> [] then st_deadline_miss_count (hd statistics) else deadline_misses, executive1))"

section \<open>The report\<close>

text \<open>A natural number rounded to the 53 significant bits of a \<open>double\<close>.\<close>

definition round53 :: "nat \<Rightarrow> nat" where
  "round53 n = (let s = bit_length n - 53 in round_half_even n (2 ^ s) * 2 ^ s)"

text \<open>\<open>percentile_ns\<close>: the percentile is the double \<open>p / 2 ^ 53\<close>. The size is converted, multiplied and
  0.5 added, each time rounded; \<open>None\<close> is the exception of \<open>at\<close>.\<close>

definition percentile_index :: "nat \<Rightarrow> nat \<Rightarrow> nat" where
  "percentile_index p count = round53 (round53 (p * round53 (count - 1)) + 2 ^ 52) div 2 ^ 53"

definition percentile_ns :: "u64 list \<Rightarrow> nat \<Rightarrow> u64 option" where
  "percentile_ns sorted_samples p =
     (if sorted_samples = [] then Some 0
      else let index = percentile_index p (length sorted_samples) in
        if index < length sorted_samples then Some (sorted_samples ! index) else None)"

text \<open>The doubles 0.50, 0.95 and 0.99.\<close>

definition P50 :: nat where "P50 = 4503599627370496"
definition P95 :: nat where "P95 = 8556839292003942"
definition P99 :: nat where "P99 = 8917127262193582"

text \<open>\<open>build_json\<close>, as the object that is written: \<open>mean\<close> is the number Python reads back for the printed
  mean. The names of modes and faults contain nothing that \<open>json_escape\<close> changes. \<open>front\<close> and \<open>back\<close> of
  the samples are the first and last of the sorted list, which is not empty.\<close>

definition claim_boundary :: string where
  "claim_boundary = ''Host faster-than-real-time execution evidence only; not a real-time, HIL, or flight qualification claim.''"

definition build_json :: "Options \<Rightarrow> u64 list \<Rightarrow> rat \<Rightarrow> u64 \<Rightarrow> u64 \<Rightarrow> Mode \<Rightarrow> FaultCode \<Rightarrow> json_object option" where
  "build_json options samples mean total_elapsed_ns scheduler_deadline_misses final_mode final_fault =
     (let sorted_samples = sort samples; number = \<lambda>w :: u64. JInt (uint w) in
      case (percentile_ns sorted_samples P50, percentile_ns sorted_samples P95, percentile_ns sorted_samples P99) of
        (Some p50, Some p95, Some p99) \<Rightarrow> Some
          [(''schema'', JStr ''astra-os.host-timing.v1''), (''claim_boundary'', JStr claim_boundary),
           (''ticks'', number (op_ticks options)), (''mission_step_ms'', number (op_mission_step_ms options)),
           (''overload_every'', number (op_overload_every options)), (''total_elapsed_ns'', number total_elapsed_ns),
           (''mean_step_ns'', JFloat mean), (''min_step_ns'', number (hd sorted_samples)), (''p50_step_ns'', number p50),
           (''p95_step_ns'', number p95), (''p99_step_ns'', number p99), (''max_step_ns'', number (last sorted_samples)),
           (''scheduler_deadline_misses'', number scheduler_deadline_misses),
           (''final_mode'', JStr (mode_to_string final_mode)), (''final_fault'', JStr (fault_to_string final_fault))]
      | _ \<Rightarrow> None)"

text \<open>How the program ends: after \<open>--help\<close>, with a failure status and a line on \<open>stderr\<close>, by an exception
  that nothing catches, or with a report on \<open>stdout\<close> or in the output file.\<close>

datatype campaign_end = Helped | Failed string | Terminated string | Reported json_object

record measurements =
  ms_duration :: "u64 \<Rightarrow> u64"
  ms_mean :: "u64 list \<Rightarrow> rat"
  ms_total_elapsed :: u64

text \<open>\<open>reserve\<close> throws beyond the largest size of a vector of 8-byte elements, \<open>2 ^ 60 - 1\<close>;
  \<open>can_open\<close> says whether the output file can be opened.\<close>

definition campaign_main :: "measurements \<Rightarrow> (string \<Rightarrow> bool) \<Rightarrow> string list \<Rightarrow> campaign_end" where
  "campaign_main m can_open arguments =
     (case parse_options arguments of
        Inl e \<Rightarrow> Failed (''ERROR: '' @ e)
      | Inr None \<Rightarrow> Helped
      | Inr (Some options) \<Rightarrow>
          let executive = flight_software_executive default_executive_config in
          if \<not> executive_valid executive
          then Failed (''ERROR: invalid executive: '' @ executive_validation_error executive)
          else if unat (op_ticks options) > 2 ^ 60 - 1 then Terminated ''vector::reserve''
          else case campaign_loop (ms_duration m) options (map of_nat [0..<unat (op_ticks options)]) ([], 0, executive) of
            Inl e \<Rightarrow> Failed e
          | Inr (samples, deadline_misses, executive1) \<Rightarrow>
              (case build_json options samples (ms_mean m samples) (ms_total_elapsed m) deadline_misses
                  (ap_mode (ex_app executive1)) (pr_last_fault (ap_processor (ex_app executive1))) of
                 None \<Rightarrow> Terminated ''vector::_M_range_check''
               | Some json \<Rightarrow>
                   if op_output_path options \<noteq> '''' \<and> \<not> can_open (op_output_path options)
                   then Failed (''ERROR: cannot open output path: '' @ op_output_path options)
                   else Reported json))"

section \<open>Rounding and percentiles\<close>

lemma round_half_even_mono:
  assumes "m \<le> n" "0 < d"
  shows "round_half_even m d \<le> round_half_even n d"
proof (cases "m div d = n div d")
  case True
  with assms(1) have "m mod d \<le> n mod d"
    by (metis add_le_cancel_left div_mult_mod_eq)
  with True show ?thesis by (auto simp: round_half_even_def Let_def)
next
  case False
  with assms(1) have "m div d < n div d" by (metis div_le_mono le_neq_implies_less)
  then show ?thesis by (auto simp: round_half_even_def Let_def)
qed

lemma round_half_even_multiple: "0 < d \<Longrightarrow> round_half_even (k * d) d = k"
  by (simp add: round_half_even_def)

text \<open>Numbers with at most 53 significant bits are represented exactly.\<close>

lemma round53_exact:
  assumes "k < 2 ^ 53"
  shows "round53 (k * 2 ^ e) = k * 2 ^ e"
proof -
  let ?s = "bit_length (k * 2 ^ e) - 53"
  have "k * 2 ^ e < 2 ^ (53 + e)" using assms by (simp add: power_add)
  from bit_length_le [OF this] have "?s \<le> e" by simp
  then have "(2 :: nat) ^ e = 2 ^ (e - ?s) * 2 ^ ?s" by (simp flip: power_add)
  then have "k * 2 ^ e = (k * 2 ^ (e - ?s)) * 2 ^ ?s" by simp
  then show ?thesis unfolding round53_def Let_def by (metis round_half_even_multiple zero_less_numeral zero_less_power)
qed

lemma round_power:
  assumes "s \<le> k"
  shows "round_half_even (2 ^ k) (2 ^ s) * 2 ^ s = 2 ^ k"
proof -
  have "(2 :: nat) ^ k = 2 ^ (k - s) * 2 ^ s" using assms by (simp flip: power_add)
  then show ?thesis by (metis round_half_even_multiple zero_less_numeral zero_less_power)
qed

lemma round53_mono:
  assumes "m \<le> n"
  shows "round53 m \<le> round53 n"
proof (cases "bit_length m = bit_length n \<or> m = 0")
  case True
  then show ?thesis using assms
    by (auto simp: round53_def Let_def round_half_even_mono) (simp add: round_half_even_def)
next
  case False
  let ?l = "\<lambda>k n. round_half_even n (2 ^ (bit_length k - 53)) * 2 ^ (bit_length k - 53)"
  have "m < 2 ^ bit_length n" using assms bit_length_bounds(1) [of n] by simp
  with bit_length_le False have less: "bit_length m \<le> bit_length n - 1" "n \<noteq> 0" using assms by fastforce+
  have "?l m m \<le> ?l m (2 ^ bit_length m)"
    using bit_length_bounds(1) [of m] by (simp add: round_half_even_mono)
  also have "\<dots> = 2 ^ bit_length m" by (rule round_power) simp
  also have "\<dots> \<le> 2 ^ (bit_length n - 1)" using less(1) by (simp add: power_increasing)
  also have "\<dots> = ?l n (2 ^ (bit_length n - 1))" by (rule round_power [symmetric]) simp
  also have "\<dots> \<le> ?l n n" using bit_length_bounds(2) [OF less(2)] by (simp add: round_half_even_mono)
  finally show ?thesis by (simp add: round53_def Let_def)
qed

lemma percentile_index_mono: "p \<le> q \<Longrightarrow> percentile_index p n \<le> percentile_index q n"
  unfolding percentile_index_def by (intro div_le_mono round53_mono add_right_mono mult_right_mono) simp_all

text \<open>Below \<open>2 ^ 52\<close> samples the index is in range.\<close>

lemma percentile_index_bound:
  assumes "p \<le> 2 ^ 53" "0 < n" "n \<le> 2 ^ 52"
  shows "percentile_index p n < n"
proof -
  let ?r = "n - 1"
  have r: "?r < 2 ^ 53" "2 * ?r + 1 < 2 ^ 53" using assms(2,3) by simp_all
  have "round53 ?r = ?r" using round53_exact [OF r(1), of 0] by simp
  moreover have "round53 (p * ?r) \<le> round53 (?r * 2 ^ 53)" using assms(1) by (intro round53_mono) (simp add: mult.commute)
  ultimately have "round53 (round53 (p * round53 ?r) + 2 ^ 52) \<le> round53 (?r * 2 ^ 53 + 2 ^ 52)"
    using round53_exact [OF r(1), of 53] by (intro round53_mono) simp
  also have "?r * 2 ^ 53 + 2 ^ 52 = (2 * ?r + 1) * 2 ^ 52" by simp
  also have "round53 \<dots> = (2 * ?r + 1) * 2 ^ 52" by (rule round53_exact [OF r(2)])
  finally have "percentile_index p n \<le> (2 * ?r + 1) * 2 ^ 52 div 2 ^ 53"
    unfolding percentile_index_def by (rule div_le_mono)
  also have "\<dots> = ?r" by simp
  finally show ?thesis using assms(2) by simp
qed

section \<open>The run of a campaign\<close>

lemma unat_u64: "n < 2 ^ 64 \<Longrightarrow> unat (of_nat n :: u64) = n"
  by (simp add: unsigned_of_nat take_bit_nat_eq_self)

definition campaign_inputs :: "Options \<Rightarrow> nat \<Rightarrow> nat \<Rightarrow> ExecutiveInput list" where
  "campaign_inputs options k n = map (\<lambda>t. campaign_input options (of_nat t)) [k..<n]"

definition overrun_tick :: "Options \<Rightarrow> nat \<Rightarrow> bool" where
  "overrun_tick options t \<longleftrightarrow> op_overload_every options > 0 \<and> 0 < t \<and> t mod unat (op_overload_every options) = 0"

lemma campaign_inputs_Cons:
  "k < n \<Longrightarrow> campaign_inputs options k n = campaign_input options (of_nat k) # campaign_inputs options (Suc k) n"
  by (simp add: campaign_inputs_def upt_conv_Cons)

lemma default_always_due: "due_at n (flight_group default_executive_config)"
  by (simp add: due_at_def flight_group_def default_executive_config_def)

lemma campaign_delay:
  assumes "t < 2 ^ 64"
  shows "xi_simulated_flight_completion_delay_ticks (campaign_input options (of_nat t)) \<le> ec_flight_deadline_ticks default_executive_config
    \<longleftrightarrow> \<not> overrun_tick options t"
proof -
  note t = unat_u64 [OF assms]
  then have "(of_nat t :: u64) mod op_overload_every options = 0 \<longleftrightarrow> t mod unat (op_overload_every options) = 0"
    by (metis unat_mod_distrib unsigned_0 word_unat_eq_iff)
  moreover have "(0 :: u64) < of_nat t \<longleftrightarrow> 0 < t" by (simp add: word_less_nat_alt t)
  ultimately show ?thesis by (simp add: campaign_input_def overrun_tick_def default_executive_config_def word_le_nat_alt)
qed

lemma campaign_loop_run:
  assumes "exec_inv default_executive_config k ex" "k \<le> n" "n < 2 ^ 63"
  shows "campaign_loop duration options (map of_nat [k..<n]) (samples, flight_misses ex, ex) =
      (let ex1 = run executive_step (campaign_inputs options k n) ex
       in Inr (samples @ map (\<lambda>t. duration (of_nat t)) [k..<n], flight_misses ex1, ex1)) \<and>
    flight_misses (run executive_step (campaign_inputs options k n) ex) =
      flight_misses ex + of_nat (length (filter (overrun_tick options) [k..<n]))"
  using assms
proof (induction "n - k" arbitrary: k ex samples)
  case 0
  then show ?case by (simp add: campaign_inputs_def)
next
  case (Suc d)
  let ?i = "campaign_input options (of_nat k)" and ?c = default_executive_config
  let ?ex = "snd (executive_step ?i ex)"
  have k: "k < n" "Suc k < 2 ^ 64" "k < 2 ^ 63" "k < 2 ^ 64" "xi_tick ?i = of_nat k" "[k..<n] = k # [Suc k..<n]"
    using Suc.hyps(2) Suc.prems by (simp_all add: campaign_input_def upt_conv_Cons)
  note tick = executive_tick [OF Suc.prems(1) k(2,5)] and delay = completion_status_delay [OF k(3,5), of ?c]
  have inv: "exec_inv ?c (Suc k) ?ex" using tick by blast
  have misses: "flight_misses ?ex = flight_misses ex + (if overrun_tick options k then 1 else 0)"
    using tick delay campaign_delay [OF k(4), of options] by (simp add: default_always_due)
  have "xo_scheduler_statistics (fst (executive_step ?i ex)) \<noteq> []"
    "st_deadline_miss_count (hd (xo_scheduler_statistics (fst (executive_step ?i ex)))) = flight_misses ?ex"
    unfolding executive_statistics using first_statistics [OF inv] by simp_all
  with tick have "campaign_loop duration options (map of_nat [k..<n]) (samples, flight_misses ex, ex) =
      campaign_loop duration options (map of_nat [Suc k..<n]) (samples @ [duration (of_nat k)], flight_misses ?ex, ?ex)"
    by (simp add: k(6) Let_def split_beta)
  moreover note Suc.hyps(1) [OF _ inv, of "samples @ [duration (of_nat k)]"]
  ultimately show ?case using Suc.hyps(2) Suc.prems(3) k(1,6) misses
    by (simp add: campaign_inputs_Cons [OF k(1)] Let_def)
qed

lemma campaign_flight_inputs:
  "k \<le> n \<Longrightarrow> flight_inputs default_executive_config k (campaign_inputs options k n) =
     map (\<lambda>t. xi_flight_input (campaign_input options (of_nat t))) [k..<n]"
proof (induction "n - k" arbitrary: k)
  case (Suc d)
  then have "k < n" by simp
  with Suc show ?case by (simp add: campaign_inputs_Cons default_always_due upt_conv_Cons)
qed (simp add: campaign_inputs_def)

lemma campaign_numbered: "k \<le> n \<Longrightarrow> numbered k (campaign_inputs options k n)"
proof (induction "n - k" arbitrary: k)
  case (Suc d)
  then have "k < n" by simp
  with Suc show ?case by (simp add: campaign_inputs_Cons campaign_input_def)
qed (simp add: campaign_inputs_def)

text \<open>The application after \<open>n\<close> ticks.\<close>

definition campaign_app :: "Options \<Rightarrow> nat \<Rightarrow> App" where
  "campaign_app options n = run app_step (map (\<lambda>t. xi_flight_input (campaign_input options (of_nat t))) [0..<n])
     (flight_software_app default_config)"

lemma campaign_app_Suc:
  "campaign_app options (Suc n) = snd (app_step (xi_flight_input (campaign_input options (of_nat n))) (campaign_app options n))"
  by (simp add: campaign_app_def)

lemma campaign_executive_app:
  assumes "n < 2 ^ 63"
  shows "ex_app (run executive_step (campaign_inputs options 0 n) (flight_software_executive default_executive_config)) =
    campaign_app options n"
proof -
  have "ex_app (flight_software_executive default_executive_config) = flight_software_app default_config"
    by (simp add: flight_software_executive_def default_executive_config_def)
  moreover have "length (campaign_inputs options 0 n) = n" by (simp add: campaign_inputs_def)
  ultimately show ?thesis
    using executive_run [OF initial_exec_inv [OF default_executive_valid], of "campaign_inputs options 0 n"] assms
    by (simp add: campaign_app_def campaign_numbered campaign_flight_inputs)
qed

lemma campaign_within_limits: "within_limits (xi_flight_input (campaign_input options tick))"
  by (simp add: within_limits_def campaign_input_def float_ge_def float_nan_def float_key_def)

text \<open>As long as the mission clock does not wrap, steps closer than the watchdog's timeout keep the
  application in NOMINAL; wider ones end with the watchdog's fault.\<close>

lemma mission_time:
  assumes "n * unat (op_mission_step_ms options) < 2 ^ 64"
  shows "unat (of_nat n * op_mission_step_ms options) = n * unat (op_mission_step_ms options)"
proof -
  let ?m = "n * unat (op_mission_step_ms options)"
  have "of_nat n * op_mission_step_ms options = (of_nat ?m :: u64)" by simp
  with unat_u64 [OF assms] show ?thesis by (simp only:)
qed

lemma later_tick: "0 < n \<Longrightarrow> n < 2 ^ 64 \<Longrightarrow> (of_nat n :: u64) \<noteq> 0"
  using unat_u64 [of n] by auto

lemma campaign_first:
  "flight_state NOMINAL NONE (Some 1) (Some 0) (campaign_app options 1)"
proof -
  let ?a = "flight_software_app default_config" and ?i = "xi_flight_input (campaign_input options 0)"
  define p where "p = the (si_command ?i)"
  have p: "si_command ?i = Some p" "cp_timestamp_ms p = 0" "cp_sequence_number p = 1" "cp_command_id p = SET_MODE"
    "uint (cp_argument p) = 1" and t: "si_timestamp_ms ?i = 0"
    by (simp_all add: p_def campaign_input_def mode_value_def)
  have "ap_mode ?a = BOOT" "pr_last_fault (ap_processor ?a) = NONE"
    using initial_flight_state by (simp_all add: flight_state_def)
  moreover note commanded_step(1) [OF initial_flight_state _ campaign_within_limits p(1)]
  ultimately show ?thesis
    using set_mode_nominal(2) [OF p(4,5), of "ap_processor ?a"]
    by (simp add: campaign_app_def p t paced_def in_window_def accepted_next_def)
qed

lemma campaign_nominal:
  assumes "unat (op_mission_step_ms options) < 500" "n * unat (op_mission_step_ms options) < 2 ^ 64" "n < 2 ^ 64"
  shows "flight_state NOMINAL NONE (Some 1) (Some (of_nat n * op_mission_step_ms options)) (campaign_app options (Suc n))"
  using assms(2,3)
proof (induction n)
  case 0
  then show ?case using campaign_first by simp
next
  case (Suc n)
  let ?step = "op_mission_step_ms options" and ?i = "xi_flight_input (campaign_input options (of_nat (Suc n)))"
  have n: "n * unat ?step < 2 ^ 64" "n < 2 ^ 64" using Suc.prems by simp_all
  note state = Suc.IH [OF n]
  have le: "of_nat n * ?step \<le> of_nat (Suc n) * ?step"
    unfolding word_le_nat_alt mission_time [OF n(1)] mission_time [OF Suc.prems(1)] by simp
  then have "unat (of_nat (Suc n) * ?step - of_nat n * ?step) = unat ?step"
    unfolding unat_sub [OF le] mission_time [OF n(1)] mission_time [OF Suc.prems(1)] by simp
  then have "of_nat (Suc n) * ?step - of_nat n * ?step < 500"
    using assms(1) by (simp add: word_less_nat_alt)
  with le have "paced (Some (of_nat n * ?step)) (si_timestamp_ms ?i)" by (simp add: paced_def campaign_input_def)
  moreover have "si_command ?i = None"
    using later_tick [OF _ Suc.prems(2)] by (simp add: campaign_input_def)
  ultimately show ?case
    using quiet_step [OF state _ campaign_within_limits, of options "of_nat (Suc n)"]
    by (simp add: campaign_app_Suc [of options "Suc n"] campaign_input_def)
qed

lemma watchdog_after_step:
  assumes "app_inv a"
  shows "ap_watchdog_initialized (snd (app_step i a))" "wd_last_kick_ms (ap_watchdog (snd (app_step i a))) = si_timestamp_ms i"
    "wd_timeout_ms (ap_watchdog (snd (app_step i a))) = 500"
  using app_system.inv_step [OF assms, of i]
  by (simp_all add: app_step_fields watchdog_kick_def app_inv_def)

lemma watchdog_times_out:
  assumes "ap_watchdog_initialized a" "wd_timeout_ms (ap_watchdog a) = 500" "wd_last_kick_ms (ap_watchdog a) \<le> si_timestamp_ms i"
    "500 \<le> si_timestamp_ms i - wd_last_kick_ms (ap_watchdog a)"
  shows "primary_fault i a = WATCHDOG_DEADLINE_MISS"
proof -
  have "watchdog_expired i a"
    using assms by (simp add: watchdog_expired_def check_watchdog_snd watchdog_evaluate_def Let_def)
  then show ?thesis by (simp add: primary_fault_detected detected_fault_def)
qed

lemma campaign_expired:
  assumes "500 \<le> unat (op_mission_step_ms options)" "Suc n * unat (op_mission_step_ms options) < 2 ^ 64"
  shows "pr_last_fault (ap_processor (campaign_app options (Suc (Suc n)))) = WATCHDOG_DEADLINE_MISS"
proof -
  let ?step = "op_mission_step_ms options" and ?i = "xi_flight_input (campaign_input options (of_nat (Suc n)))"
  let ?a = "campaign_app options (Suc n)"
  have n: "n * unat ?step < 2 ^ 64" using assms(2) by simp
  have "app_inv (campaign_app options n)"
    unfolding campaign_app_def using default_executive_valid
    by (intro app_system.inv_run initial_app_inv)
      (simp add: executive_valid_def flight_software_executive_def default_executive_config_def)
  note kicked = watchdog_after_step [OF this, of "xi_flight_input (campaign_input options (of_nat n))", folded campaign_app_Suc]
  have kick: "wd_last_kick_ms (ap_watchdog ?a) = of_nat n * ?step" and now: "si_timestamp_ms ?i = of_nat (Suc n) * ?step"
    using kicked(2) by (simp_all add: campaign_input_def)
  have le: "of_nat n * ?step \<le> of_nat (Suc n) * ?step"
    unfolding word_le_nat_alt mission_time [OF n] mission_time [OF assms(2)] by simp
  then have "unat (of_nat (Suc n) * ?step - of_nat n * ?step) = unat ?step"
    unfolding unat_sub [OF le] mission_time [OF n] mission_time [OF assms(2)] by simp
  then have "500 \<le> of_nat (Suc n) * ?step - of_nat n * ?step" using assms(1) by (simp add: word_le_nat_alt)
  with le have "primary_fault ?i ?a = WATCHDOG_DEADLINE_MISS"
    using watchdog_times_out [OF kicked(1,3), of ?i] unfolding kick now by blast
  then show ?thesis using app_step_last_fault [of ?i ?a] by (simp add: campaign_app_Suc [of options "Suc n"])
qed

lemma campaign_ends_nominal:
  assumes "k * unat (op_mission_step_ms options) < 2 ^ 64" "k < 2 ^ 64"
  shows "ap_mode (campaign_app options (Suc k)) = NOMINAL \<and> pr_last_fault (ap_processor (campaign_app options (Suc k))) = NONE
    \<longleftrightarrow> unat (op_mission_step_ms options) < 500 \<or> k = 0"
proof (cases "unat (op_mission_step_ms options) < 500")
  case True
  then show ?thesis using campaign_nominal [OF True assms] by (simp add: flight_state_def)
next
  case False
  then show ?thesis
    using campaign_first [of options] campaign_expired [of options "k - 1"] assms(1) by (cases k) (auto simp: flight_state_def)
qed

lemma overruns_counted:
  "length (filter (overrun_tick options) [0..<n]) =
     (if op_overload_every options = 0 then 0 else (n - 1) div unat (op_overload_every options))"
proof (induction n)
  case (Suc n)
  then show ?case by (cases n) (auto simp: overrun_tick_def div_Suc word_gt_0)
qed simp

section \<open>The report is valid evidence\<close>

lemma percentile_sorted:
  assumes "xs \<noteq> []" "length xs \<le> 2 ^ 52" "sorted xs" "p \<le> q" "q \<le> 2 ^ 53"
  shows "\<exists>x y. percentile_ns xs p = Some x \<and> percentile_ns xs q = Some y \<and> hd xs \<le> x \<and> x \<le> y \<and> y \<le> last xs"
proof -
  let ?i = "percentile_index p (length xs)" and ?j = "percentile_index q (length xs)"
  have "?i \<le> ?j" "?j < length xs" using assms by (simp_all add: percentile_index_mono percentile_index_bound)
  moreover from this have "xs ! 0 \<le> xs ! ?i" "xs ! ?i \<le> xs ! ?j" "xs ! ?j \<le> xs ! (length xs - 1)"
    using assms(3) by (auto intro!: sorted_nth_mono)
  ultimately show ?thesis using assms(1) by (simp add: percentile_ns_def hd_conv_nth last_conv_nth)
qed

lemma unsigned_rat: "0 \<le> (unsigned (a :: u64) :: rat)" "(unsigned a :: rat) \<le> unsigned (b :: u64) \<longleftrightarrow> a \<le> b"
proof -
  have unsigned: "(unsigned w :: rat) = of_int (uint w)" for w :: u64 by simp
  show "0 \<le> (unsigned a :: rat)" unfolding unsigned by (simp only: of_int_0_le_iff uint_ge_0)
  show "(unsigned a :: rat) \<le> unsigned b \<longleftrightarrow> a \<le> b" unfolding unsigned word_le_def by (rule of_int_le_iff)
qed

lemma build_json_evidence:
  assumes "samples \<noteq> []" "length samples \<le> 2 ^ 52" "op_ticks options \<noteq> 0" "0 \<le> mean"
  shows "\<exists>report. build_json options samples mean total_ns misses mode fault = Some report \<and>
    dict_get report ''scheduler_deadline_misses'' = Some (JInt (uint misses)) \<and>
    (valid_evidence (report, Some (misses \<noteq> 0)) \<longleftrightarrow> mode = NOMINAL \<and> fault = NONE)"
proof -
  let ?xs = "sort samples"
  have xs: "?xs \<noteq> []" "length ?xs \<le> 2 ^ 52" "sorted ?xs"
    using assms(1,2) by (simp_all, metis length_0_conv length_sort)
  obtain p50 p95 p99 where p: "percentile_ns ?xs P50 = Some p50" "percentile_ns ?xs P95 = Some p95"
      "percentile_ns ?xs P99 = Some p99" "hd ?xs \<le> p50" "p50 \<le> p95" "p95 \<le> p99" "p99 \<le> last ?xs"
    using percentile_sorted [OF xs, of P50 P95] percentile_sorted [OF xs, of P95 P99]
    by (auto simp: P50_def P95_def P99_def)
  have pos: "0 < uint (op_ticks options)" using assms(3) uint_ge_0 [of "op_ticks options"] uint_0_iff [of "op_ticks options"] by linarith
  have "mode_to_string mode = ''NOMINAL'' \<longleftrightarrow> mode = NOMINAL" by (cases mode) simp_all
  moreover have "fault_to_string fault = ''NONE'' \<longleftrightarrow> fault = NONE" by (cases fault) simp_all
  moreover have "misses \<noteq> 0 \<longrightarrow> 0 < uint misses" using uint_ge_0 [of misses] uint_0_iff [of misses] by linarith
  moreover have "hd ?xs \<le> p95" "hd ?xs \<le> p99" "hd ?xs \<le> last ?xs" "p50 \<le> p99" "p50 \<le> last ?xs" "p95 \<le> last ?xs"
    using p(4-7) by (meson order_trans)+
  moreover note p pos assms(4)
  ultimately show ?thesis
    by (simp add: build_json_def Let_def valid_evidence_def claim_boundary_def REQUIRED_NUMERIC_FIELDS_def ordered_fields_def
        is_num_def unsigned_rat)
qed

lemma campaign_outcome:
  fixes options :: Options
  defines "n \<equiv> unat (op_ticks options)"
  assumes "op_ticks options \<noteq> 0" and small: "n < 2 ^ 63" and clock: "(n - 1) * unat (op_mission_step_ms options) < 2 ^ 64"
  shows "\<exists>ex. campaign_loop duration options (map of_nat [0..<n]) ([], 0, flight_software_executive default_executive_config) =
      Inr (map (\<lambda>t. duration (of_nat t)) [0..<n], of_nat (length (filter (overrun_tick options) [0..<n])), ex) \<and>
    (ap_mode (ex_app ex) = NOMINAL \<and> pr_last_fault (ap_processor (ex_app ex)) = NONE \<longleftrightarrow>
      unat (op_mission_step_ms options) < 500 \<or> n = 1)"
proof -
  let ?ex = "flight_software_executive default_executive_config"
  define ex where "ex = run executive_step (campaign_inputs options 0 n) ?ex"
  obtain k where k: "n = Suc k" using assms(2) unat_eq_zero not0_implies_Suc unfolding n_def by blast
  have "flight_misses ?ex = 0"
    by (simp add: flight_misses_def flight_software_executive_def default_executive_config_def rate_group_scheduler_def
        make_scheduler_configuration_def flight_group_def housekeeping_group_def new_task_def FLIGHT_SOFTWARE_STEP_def
        HOUSEKEEPING_SNAPSHOT_def)
  with campaign_loop_run [OF initial_exec_inv [OF default_executive_valid] _ small, of duration options "[]"]
  have "campaign_loop duration options (map of_nat [0..<n]) ([], 0, ?ex) =
      Inr (map (\<lambda>t. duration (of_nat t)) [0..<n], of_nat (length (filter (overrun_tick options) [0..<n])), ex)"
    by (simp add: ex_def Let_def)
  moreover have "ex_app ex = campaign_app options (Suc k)"
    using campaign_executive_app [OF small] k by (simp add: ex_def)
  ultimately show ?thesis using campaign_ends_nominal [of k options] clock small k by auto
qed

text \<open>C21: the timing campaign and the validator of its evidence. Whenever the command line is accepted, with
  at most \<open>2 ^ 52\<close> ticks, a mission clock that does not wrap, an output file that can be opened and a
  mean that is not negative, the campaign ends with a report, whatever durations were measured: no
  tick is refused and no percentile is out of range. The deadline misses in it are the positive
  multiples of \<open>--overload-every\<close> below the number of ticks. \<open>validate_timing_evidence.py\<close>, told to
  expect misses exactly when there are any, passes the report (exit status 0) if the mission step is
  below the watchdog's 500 ms or there is a single tick, and fails it (exit status 1) otherwise.\<close>

theorem timing_campaign_evidence:
  assumes "parse_options arguments = Inr (Some options)"
    and ticks: "unat (op_ticks options) \<le> 2 ^ 52"
    and clock: "(unat (op_ticks options) - 1) * unat (op_mission_step_ms options) < 2 ^ 64"
    and written: "op_output_path options = '''' \<or> can_open (op_output_path options)"
    and mean: "\<And>samples. 0 \<le> ms_mean m samples"
  defines "misses \<equiv> if op_overload_every options = 0 then 0 else (unat (op_ticks options) - 1) div unat (op_overload_every options)"
  shows "\<exists>report. campaign_main m can_open arguments = Reported report \<and>
    dict_get report ''scheduler_deadline_misses'' = Some (JInt (int misses)) \<and>
    map_sum id fst (timing_main \<lparr>ta_evidence = path, ta_expect_misses = misses > 0, ta_expect_no_misses = misses = 0\<rparr>
      (Inr (JObj report))) = Inr (if unat (op_mission_step_ms options) < 500 \<or> op_ticks options = 1 then 0 else 1)"
proof -
  let ?n = "unat (op_ticks options)" and ?ex = "flight_software_executive default_executive_config"
  have nonzero: "op_ticks options \<noteq> 0"
    using assms(1) by (auto simp: parse_options_def split: sum.splits option.splits if_splits)
  have n: "?n < 2 ^ 63" "\<not> ?n > 2 ^ 60 - 1" using ticks by simp_all
  define samples where "samples = map (\<lambda>t. ms_duration m (of_nat t)) [0..<?n]"
  obtain ex where loop: "campaign_loop (ms_duration m) options (map of_nat [0..<?n]) ([], 0, ?ex) = Inr (samples, of_nat misses, ex)"
    and nominal: "ap_mode (ex_app ex) = NOMINAL \<and> pr_last_fault (ap_processor (ex_app ex)) = NONE
      \<longleftrightarrow> unat (op_mission_step_ms options) < 500 \<or> ?n = 1"
    using campaign_outcome [OF nonzero n(1) clock, of "ms_duration m"]
    unfolding samples_def misses_def overruns_counted by blast
  have "misses \<le> ?n" unfolding misses_def by (simp add: le_trans [OF div_le_dividend])
  then have "misses < 2 ^ 64" using n(1) by simp
  note unat_misses = unat_u64 [OF this]
  then have misses: "uint (of_nat misses :: u64) = int misses" by (simp only: uint_nat)
  have some_misses: "(of_nat misses :: u64) \<noteq> 0 \<longleftrightarrow> misses > 0"
    using unat_misses unat_eq_zero [of "of_nat misses :: u64"] by linarith
  have samples: "samples \<noteq> []" "length samples \<le> 2 ^ 52"
    using nonzero ticks unat_eq_zero [of "op_ticks options"] by (simp_all add: samples_def)
  from build_json_evidence [OF samples nonzero mean, of samples "ms_total_elapsed m" "of_nat misses"
      "ap_mode (ex_app ex)" "pr_last_fault (ap_processor (ex_app ex))"]
  obtain report where report: "build_json options samples (ms_mean m samples) (ms_total_elapsed m) (of_nat misses)
        (ap_mode (ex_app ex)) (pr_last_fault (ap_processor (ex_app ex))) = Some report"
      "dict_get report ''scheduler_deadline_misses'' = Some (JInt (int misses))"
      "valid_evidence (report, Some (misses > 0)) \<longleftrightarrow> unat (op_mission_step_ms options) < 500 \<or> ?n = 1"
    unfolding misses some_misses nominal by blast
  have "campaign_main m can_open arguments = Reported report"
    unfolding campaign_main_def using assms(1) written n(2)
    by (simp add: default_executive_valid loop report(1) Let_def)
  moreover have "op_ticks options = 1 \<longleftrightarrow> ?n = 1" by (metis unat_1 word_unat_eq_iff)
  ultimately show ?thesis
    using report(2,3) by (auto simp: timing_main_def Let_def validate_iff)
qed

definition sample_measurements :: measurements where
  "sample_measurements = \<lparr>ms_duration = (\<lambda>tick. 1000 + tick), ms_mean = (\<lambda>_. 1001), ms_total_elapsed = 4000\<rparr>"

lemma sample_options:
  "parse_options [''--ticks'', ''3'', ''--overload-every'', ''2''] = Inr (Some (default_options\<lparr>op_ticks := 3, op_overload_every := 2\<rparr>))"
  by (simp add: parse_options_def parse_u64_def stoull_def scan_unsigned_def scan_integer_def c_space_def digit_val_def Let_def default_options_def)

theorem timing_campaign_evidence_witness:
  "\<exists>report. campaign_main sample_measurements (\<lambda>_. False) [''--ticks'', ''3'', ''--overload-every'', ''2''] = Reported report \<and>
    dict_get report ''scheduler_deadline_misses'' = Some (JInt 1) \<and>
    map_sum id fst (timing_main \<lparr>ta_evidence = ''t.json'', ta_expect_misses = True, ta_expect_no_misses = False\<rparr>
      (Inr (JObj report))) = Inr 0"
  using timing_campaign_evidence [OF sample_options, of "\<lambda>_. False" sample_measurements "''t.json''"]
  by (simp add: default_options_def sample_measurements_def)

text \<open>\<open>std::stoull\<close> negates: a negative number of ticks is accepted as a huge one, and \<open>reserve\<close> throws.\<close>

lemma negative_ticks_accepted:
  "campaign_main m can_open [''--ticks'', ''-1''] = Terminated ''vector::reserve''"
proof -
  have "parse_options [''--ticks'', ''-1''] = Inr (Some (default_options\<lparr>op_ticks := - 1\<rparr>))"
    by (simp add: parse_options_def parse_u64_def stoull_def scan_unsigned_def scan_integer_def c_space_def digit_val_def Let_def default_options_def)
  moreover have "2 ^ 60 - 1 < unat (- 1 :: u64)" by (simp add: unsigned_minus_1_eq_mask mask_eq_exp_minus_1)
  ultimately show ?thesis by (simp add: campaign_main_def default_executive_valid)
qed

end
