(* ===== verification/Ground_Loops.thy ===== *)
theory Ground_Loops
  imports Command_Link Telemetry_Link Json
begin

text \<open>
  The \<open>main\<close> functions around the wire formats: the endless receive loops of
  \<open>telemetry_receiver.py\<close> and \<open>telemetry_dashboard.py\<close>, on the datagrams their socket delivers, and the
  generator of the fuzz corpus (\<open>generate_command_fuzz_corpus.py\<close>), with SHA-256 a parameter.
\<close>

section \<open>Receive loops\<close>

text \<open>A turn receives at most 2048 bytes of a datagram with its sender's address. The result is what
  was printed for the datagrams so far, and the exception that ended the loop, if any.\<close>

fun receive_loop :: "(string \<times> int \<Rightarrow> byte list \<Rightarrow> string list result) \<Rightarrow> (byte list \<times> string \<times> int) list \<Rightarrow>
    string list list \<times> py_error option" where
  "receive_loop turn [] = ([], None)"
| "receive_loop turn ((data, address) # datagrams) =
     (case turn address (take 2048 data) of
        Inl e \<Rightarrow> ([], Some e)
      | Inr lines \<Rightarrow> let (printed, exception) = receive_loop turn datagrams in (lines # printed, exception))"

definition listening :: "string \<Rightarrow> int \<Rightarrow> string" where
  "listening host port = ''Listening for AstraSim-FSW telemetry on UDP '' @ host @ '':'' @ str_int port"

definition receiver_main :: "string \<Rightarrow> int \<Rightarrow> (byte list \<times> string \<times> int) list \<Rightarrow> string list list \<times> py_error option" where
  "receiver_main host port datagrams =
     map_prod (\<lambda>printed. [listening host port] # printed) id
       (receive_loop (\<lambda>address data. rbind (receiver_line address data) (\<lambda>line. Inr [line])) datagrams)"

definition dashboard_main :: "string \<Rightarrow> int \<Rightarrow> (byte list \<times> string \<times> int) list \<Rightarrow> string list list \<times> py_error option" where
  "dashboard_main host port datagrams =
     map_prod (\<lambda>printed. [listening host port] # printed) id (receive_loop dashboard_screen datagrams)"

text \<open>The dashboard has its own copies of the tables; but for the modes they are the receiver's.\<close>

definition DASHBOARD_FAULTS :: "(int, string) dict" where
  "DASHBOARD_FAULTS = [(0, ''NONE''), (100, ''SENSOR_TIMEOUT''), (101, ''SENSOR_INVALID_DATA''),
     (200, ''PAYLOAD_HEARTBEAT_TIMEOUT''), (300, ''CPU_OVERLOAD''), (301, ''MEMORY_OVERLOAD''),
     (400, ''TELEMETRY_SOCKET_FAILURE''), (500, ''COMMAND_BAD_CRC''), (501, ''COMMAND_UNKNOWN_ID''),
     (502, ''COMMAND_TIMEOUT''), (600, ''WATCHDOG_DEADLINE_MISS'')]"

definition DASHBOARD_COMMANDS :: "(int, string) dict" where
  "DASHBOARD_COMMANDS = [(0, ''NOOP''), (1, ''SET_MODE''), (2, ''INJECT_FAULT''), (3, ''REQUEST_TELEMETRY''),
     (4, ''CLEAR_FAULT'')]"

definition dashboard_command_name :: "int \<Rightarrow> string" where
  "dashboard_command_name command_id =
     (if command_id = 0 then ''NONE'' else dict_get_default DASHBOARD_COMMANDS command_id (unknown_name command_id))"

lemma dashboard_tables: "DASHBOARD_FAULTS = FAULT_NAMES" "dashboard_command_name = command_name"
  by (auto simp: DASHBOARD_FAULTS_def FAULT_NAMES_def dashboard_command_name_def command_name_def DASHBOARD_COMMANDS_def
      COMMAND_NAMES_def fun_eq_iff)

section \<open>The fuzz corpus\<close>

text \<open>The run of \<open>main\<close>: the files in the corpus directory, which is emptied first, in the order they are
  written, the manifest, and the lines printed. \<open>output\<close> is the absolute output path.\<close>

definition seed_entry :: "(byte list \<Rightarrow> string) \<Rightarrow> string \<times> byte list \<times> string \<Rightarrow> json" where
  "seed_entry sha256 = (\<lambda>(name, data, description).
     JObj [(''name'', JStr name), (''description'', JStr description), (''size_bytes'', JInt (int (length data))),
       (''sha256'', JStr (sha256 data))])"

definition corpus_manifest :: "(byte list \<Rightarrow> string) \<Rightarrow> (string \<times> byte list \<times> string) list \<Rightarrow> json_object" where
  "corpus_manifest sha256 seeds =
     [(''schema'', JStr ''astra-os.command-fuzz-corpus.v1''),
      (''command_magic'', JStr (hex_str 8 COMMAND_MAGIC)),
      (''command_version'', JInt COMMAND_VERSION), (''corpus_directory'', JStr ''corpus''),
      (''seeds'', JArr (map (seed_entry sha256) seeds))]"

definition corpus_main :: "(byte list \<Rightarrow> string) \<Rightarrow> string \<Rightarrow>
    ((string, byte list) dict \<times> json_object \<times> string list) result" where
  "corpus_main sha256 output_path =
     rbind seed_cases (\<lambda>seeds.
       let corpus = output_path @ ''/corpus'';
           files = foldl (\<lambda>files (name, data, _). dict_set name data files) [] seeds
       in Inr (files, corpus_manifest sha256 seeds,
            [''Generated '' @ str_nat (length seeds) @ '' command fuzz seeds in '' @ corpus,
             ''Manifest: '' @ output_path @ ''/manifest.json'']))"

section \<open>Properties\<close>

lemma receive_loop_total:
  assumes "\<And>data address. turn address (take 2048 data) = Inr (entry (data, address))"
  shows "receive_loop turn datagrams = (map entry datagrams, None)"
  using assms by (induction turn datagrams rule: receive_loop.induct) simp_all

text \<open>What both tools print for one datagram.\<close>

definition shown_together :: "byte list \<times> string \<times> int \<Rightarrow> string list \<Rightarrow> string list \<Rightarrow> bool" where
  "shown_together = (\<lambda>(data, address) line screen.
     case decode_packet data of
       Inr v \<Rightarrow> receiver_line address data = Inr (hd line) \<and> length line = 1 \<and> length screen = 13 \<and>
         screen ! 3 = ''Seq:    '' @ str_int (td_sequence_number v) \<and>
         screen ! 4 = ''Mode:   '' @ (if td_mode v = ''STANDBY'' then ''UNKNOWN(6)''
           else if td_mode v = ''TEST'' then ''UNKNOWN(7)'' else td_mode v) \<and>
         screen ! 5 = ''Fault:  '' @ td_last_fault v \<and>
         screen ! 10 = ''Ack seq:    '' @ str_int (td_last_command_sequence_number v) \<and>
         screen ! 11 = ''Ack command:'' @ td_last_command_id v
     | Inl _ \<Rightarrow> line = screen \<and> (\<exists>reason. line = [py_repr_address address @ '': rejected packet: '' @ reason]))"

lemma decode_truncated: "decode_packet (take 2048 data) = Inr v \<longleftrightarrow> decode_packet data = Inr v"
proof (cases "length data \<le> 2048")
  case False
  have "length bs = 43" if "decode_packet bs = Inr v" for bs
    using receiver_frame.decode_size [of bs v] that by (simp add: to_option_Some_iff)
  from this [of data] this [of "take 2048 data"] False show ?thesis by auto
qed simp

lemma turns_agree:
  "\<exists>line screen. receiver_line address (take 2048 data) = Inr line \<and> dashboard_screen address (take 2048 data) = Inr screen \<and>
     shown_together (data, address) [line] screen"
  using dashboard_agrees_with_receiver [of "take 2048 data"]
proof (elim disjE exE conjE)
  fix msg
  assume rejected: "decode_packet (take 2048 data) = Inl (ValueError msg)"
    "dashboard_decode_packet (take 2048 data) = Inl (ValueError msg)"
  then obtain e where "decode_packet data = Inl e" using decode_truncated [of data] by (cases "decode_packet data") auto
  with rejected show ?thesis by (simp add: receiver_line_def dashboard_screen_def shown_together_def)
next
  fix v w
  assume shown: "decode_packet (take 2048 data) = Inr v" "dashboard_decode_packet (take 2048 data) = Inr w"
  assume fields: "td_sequence_number w = td_sequence_number v" "td_timestamp_ms w = td_timestamp_ms v"
    "td_mode w = (if td_mode v = ''STANDBY'' then ''UNKNOWN(6)'' else if td_mode v = ''TEST'' then ''UNKNOWN(7)'' else td_mode v)"
    "td_last_fault w = td_last_fault v" "td_last_command_sequence_number w = td_last_command_sequence_number v"
    "td_last_command_id w = td_last_command_id v"
  from shown(1) have "decode_packet data = Inr v" using decode_truncated by blast
  with shown fields show ?thesis
    by (simp add: receiver_line_def dashboard_screen_def shown_together_def)
qed

text \<open>C34: the receive loops survive every datagram and agree. Whatever datagrams arrive, neither
  \<open>telemetry_receiver.py\<close> nor \<open>telemetry_dashboard.py\<close> ends with an exception, and each prints one entry
  per datagram in order. A datagram the decoder rejects is reported by both with the same line; for an
  accepted one the receiver prints its line and the dashboard a screen with the same sequence number,
  fault and acknowledged command. Only the modes differ: the dashboard's table ends at RECOVERY, so
  that STANDBY and TEST appear as \<open>UNKNOWN(6)\<close> and \<open>UNKNOWN(7)\<close>.\<close>

theorem ground_sessions_agree:
  "snd (receiver_main host port datagrams) = None \<and> snd (dashboard_main host port datagrams) = None \<and>
   (\<exists>lines screens. fst (receiver_main host port datagrams) = [listening host port] # lines \<and>
      fst (dashboard_main host port datagrams) = [listening host port] # screens \<and>
      length lines = length datagrams \<and> length screens = length datagrams \<and>
      list_all2 (\<lambda>datagram (line, screen). shown_together datagram line screen) datagrams (zip lines screens))"
proof -
  define line where "line data address = projr (receiver_line address (take 2048 data))" for data address
  define screen where "screen data address = projr (dashboard_screen address (take 2048 data))" for data address
  have turns: "receiver_line address (take 2048 data) = Inr (line data address) \<and>
      dashboard_screen address (take 2048 data) = Inr (screen data address) \<and>
      shown_together (data, address) [line data address] (screen data address)" for data address
    using turns_agree [of address data] by (auto simp: line_def screen_def)
  let ?lines = "map (\<lambda>(data, address). [line data address]) datagrams"
  let ?screens = "map (\<lambda>(data, address). screen data address) datagrams"
  have "receiver_main host port datagrams = ([listening host port] # ?lines, None)"
    unfolding receiver_main_def using turns by (subst receive_loop_total [where entry = "\<lambda>(data, address). [line data address]"]) simp_all
  moreover have "dashboard_main host port datagrams = ([listening host port] # ?screens, None)"
    unfolding dashboard_main_def using turns by (subst receive_loop_total [where entry = "\<lambda>(data, address). screen data address"]) simp_all
  moreover have "list_all2 (\<lambda>datagram (line, screen). shown_together datagram line screen) datagrams (zip ?lines ?screens)"
    using turns by (induction datagrams) auto
  ultimately show ?thesis by simp
qed

lemma dict_set_new: "k \<notin> fst ` set d \<Longrightarrow> dict_set k v d = d @ [(k, v)]"
  by (induction k v d rule: dict_set.induct) auto

lemma files_of_seeds:
  "distinct (map fst seeds) \<Longrightarrow> fst ` set files \<inter> fst ` set seeds = {} \<Longrightarrow>
     foldl (\<lambda>files (name, data, _). dict_set name data files) files seeds = files @ map (\<lambda>(name, data, _). (name, data)) seeds"
proof (induction seeds arbitrary: files)
  case (Cons seed seeds)
  obtain name data description where seed: "seed = (name, data, description)" by (cases seed)
  with Cons.prems have "dict_set name data files = files @ [(name, data)]" by (intro dict_set_new) auto
  then show ?case using Cons by (auto simp: seed)
qed simp

text \<open>C35: the fuzz corpus. \<open>generate_command_fuzz_corpus.py\<close> always succeeds: it writes fifteen files under
  distinct names, of which the flight decoder accepts exactly the five whose names begin with
  \<open>valid_\<close>, and a manifest that lists these files, in order, each with its size and hash.\<close>

theorem fuzz_corpus_generated:
  "\<exists>files manifest printed descriptions. corpus_main sha256 output_path = Inr (files, manifest, printed) \<and>
     length files = 15 \<and> distinct (map fst files) \<and>
     map fst (filter (\<lambda>(_, data). deserialize_command_packet data \<noteq> Some None) files) =
       [''valid_noop'', ''valid_set_mode'', ''valid_inject_fault'', ''valid_request_telemetry'', ''valid_clear_fault''] \<and>
     length descriptions = 15 \<and>
     dict_get manifest ''seeds'' = Some (JArr (map2 (\<lambda>(name, data) description.
       JObj [(''name'', JStr name), (''description'', JStr description), (''size_bytes'', JInt (int (length data))),
         (''sha256'', JStr (sha256 data))]) files descriptions)) \<and>
     dict_get manifest ''command_magic'' = Some (JStr ''0x434D4453'')"
proof -
  obtain seeds where seeds: "seed_cases = Inr seeds" "length seeds = 15" "distinct (map fst seeds)"
      "map fst (filter (\<lambda>(_, bs, _). deserialize_command_packet bs \<noteq> Some None) seeds) =
        [''valid_noop'', ''valid_set_mode'', ''valid_inject_fault'', ''valid_request_telemetry'', ''valid_clear_fault'']"
    by (rule exE [OF seed_corpus_classified]) (elim conjE, rule that)
  define files where "files = map (\<lambda>(name, data, _). (name, data)) seeds"
  define descriptions where "descriptions = map (\<lambda>(_, _, d). d) seeds"
  have written: "corpus_main sha256 output_path = Inr (files, corpus_manifest sha256 seeds,
      [''Generated '' @ str_nat (length seeds) @ '' command fuzz seeds in '' @ output_path @ ''/corpus'',
       ''Manifest: '' @ output_path @ ''/manifest.json''])"
    by (simp add: corpus_main_def seeds(1) files_of_seeds [OF seeds(3)] files_def)
  have names: "map fst files = map fst seeds" by (simp add: files_def split_beta)
  have accepted: "map fst (filter (\<lambda>(_, data). deserialize_command_packet data \<noteq> Some None) files) =
      map fst (filter (\<lambda>(_, bs, _). deserialize_command_packet bs \<noteq> Some None) seeds)"
    unfolding files_def by (induction seeds) auto
  have lengths: "length files = 15" "length descriptions = 15" using seeds(2) by (simp_all add: files_def descriptions_def)
  have entries: "map (seed_entry sha256) seeds = map2 (\<lambda>(name, data) description.
       JObj [(''name'', JStr name), (''description'', JStr description), (''size_bytes'', JInt (int (length data))),
         (''sha256'', JStr (sha256 data))]) files descriptions"
    unfolding files_def descriptions_def by (rule nth_equalityI) (simp_all add: seed_entry_def split_beta)
  have magic: "hex_str 8 COMMAND_MAGIC = ''0x434D4453''"
    by (simp add: hex_str_def COMMAND_MAGIC_def hex_nat.simps hex_char_def zero_pad_def char_of_def bit_0)
  have manifest: "dict_get (corpus_manifest sha256 seeds) ''seeds'' = Some (JArr (map (seed_entry sha256) seeds))"
    "dict_get (corpus_manifest sha256 seeds) ''command_magic'' = Some (JStr (hex_str 8 COMMAND_MAGIC))"
    by (simp_all add: corpus_manifest_def)
  show ?thesis
    using written lengths seeds(3) [folded names] seeds(4) [folded accepted] manifest [unfolded entries magic]
    by (intro exI conjI)
qed

end
