(* ===== verification/Demo_Program.thy ===== *)
theory Demo_Program
  imports Cpp_Numbers Flight_Runs
begin

text \<open>
  The flight programs that run on a console: \<open>fsw/src/command_telemetry_demo.cpp\<close>, the server that the
  scenario runner starts, as a whole (command line, loop, log lines, exit status), and the two
  demonstrations \<open>fsw/src/telemetry_demo.cpp\<close> and \<open>fsw/src/main.cpp\<close>. What the sockets and the clock
  do is a parameter: whether they can be opened, and per turn of the loop the time, the datagram
  received and whether the telemetry could be sent.
\<close>

section \<open>Command line of the command/telemetry demo\<close>

record demo_options =
  do_command_port :: u16
  do_telemetry_ip :: string
  do_telemetry_port :: u16
  do_loop_count :: u32
  do_sensor_timeout_loop :: u32
  do_watchdog_timeout_loop :: u32

definition default_demo_options :: demo_options where
  "default_demo_options = \<lparr>do_command_port = 6000, do_telemetry_ip = ''127.0.0.1'', do_telemetry_port = 5005,
     do_loop_count = 30, do_sensor_timeout_loop = 0, do_watchdog_timeout_loop = 0\<rparr>"

text \<open>\<open>static_cast<std::uint16_t>(std::stoi(arg))\<close> and \<open>static_cast<std::uint32_t>(std::stoul(arg))\<close>.\<close>

definition port_argument :: "string \<Rightarrow> string + u16" where
  "port_argument arg = map_sum id word_of_int (stoi arg)"

definition count_argument :: "string \<Rightarrow> string + u32" where
  "count_argument arg = map_sum id ucast (stoul arg)"

datatype 'a parsed_arguments = Usage int | Exception string | Parsed 'a

text \<open>The arguments after the program name.\<close>

definition demo_arguments :: "string list \<Rightarrow> demo_options parsed_arguments" where
  "demo_arguments args =
     (let parsed = \<lambda>r. case r of Inl e \<Rightarrow> Exception e | Inr options \<Rightarrow> Parsed options in
      if length args = 1 then
        (if hd args = ''--help'' \<or> hd args = ''-h'' then Usage 0
         else parsed (map_sum id (\<lambda>port. default_demo_options\<lparr>do_command_port := port\<rparr>) (port_argument (hd args))))
      else if length args = 4 \<or> length args = 5 \<or> length args = 6 then
        parsed (case port_argument (args ! 0) of Inl e \<Rightarrow> Inl e | Inr command_port \<Rightarrow>
          (case port_argument (args ! 2) of Inl e \<Rightarrow> Inl e | Inr telemetry_port \<Rightarrow>
          (case count_argument (args ! 3) of Inl e \<Rightarrow> Inl e | Inr loop_count \<Rightarrow>
          (case (if length args \<ge> 5 then count_argument (args ! 4) else Inr 0) of Inl e \<Rightarrow> Inl e | Inr sensor_timeout_loop \<Rightarrow>
          (case (if length args = 6 then count_argument (args ! 5) else Inr 0) of Inl e \<Rightarrow> Inl e | Inr watchdog_timeout_loop \<Rightarrow>
             Inr \<lparr>do_command_port = command_port, do_telemetry_ip = args ! 1, do_telemetry_port = telemetry_port,
               do_loop_count = loop_count, do_sensor_timeout_loop = sensor_timeout_loop,
               do_watchdog_timeout_loop = watchdog_timeout_loop\<rparr>)))))
      else if args \<noteq> [] then Usage 1
      else Parsed default_demo_options)"

section \<open>The loop\<close>

definition quoted :: "string \<Rightarrow> string" where
  "quoted s = [CHR 34] @ s @ [CHR 34]"

text \<open>The lines a turn prints.\<close>

definition command_line :: "CommandResult \<Rightarrow> string" where
  "command_line r = ''RX command seq='' @ str_nat (unat (cr_sequence_number r)) @
     '' id='' @ command_id_to_string (cr_command_id r) @ '' status='' @ command_status_to_string (cr_status r) @
     '' mode='' @ mode_to_string (cr_resulting_mode r) @ '' fault='' @ fault_to_string (cr_resulting_fault r) @
     '' msg='' @ quoted (cr_message r)"

definition fault_line :: "string \<Rightarrow> CommandResult \<Rightarrow> string" where
  "fault_line source r = ''AUTO '' @ source @ '' fault status='' @ command_status_to_string (cr_status r) @
     '' mode='' @ mode_to_string (cr_resulting_mode r) @ '' fault='' @ fault_to_string (cr_resulting_fault r)"

definition telemetry_line :: "TelemetryPacket \<Rightarrow> bool \<Rightarrow> string" where
  "telemetry_line p sent = ''TX telemetry seq='' @ str_nat (unat (tp_sequence_number p)) @
     '' mode='' @ mode_to_string (tp_mode p) @ '' fault='' @ fault_to_string (tp_last_fault p) @
     '' sent='' @ (if sent then ''yes'' else ''no'')"

definition turn_lines :: "StepOutput \<Rightarrow> bool \<Rightarrow> string list" where
  "turn_lines out sent =
     (if so_command_processed out then [command_line (so_command_result out)] else []) @
     (if so_watchdog_fault_processed out then [fault_line ''watchdog'' (so_watchdog_fault_result out)] else []) @
     (if so_health_fault_processed out then [fault_line ''health'' (so_health_fault_result out)] else []) @
     [telemetry_line (so_telemetry out) sent]"

text \<open>What a run has printed and sent so far; its exit status once it has ended.\<close>

record demo_run =
  dr_lines :: "string list"
  dr_telemetry :: "TelemetryPacket list"
  dr_exit :: "int option"

definition demo_config :: "demo_options \<Rightarrow> DemoConfig" where
  "demo_config options = \<lparr>dc_sensor_timeout_loop = do_sensor_timeout_loop options,
     dc_watchdog_timeout_loop = do_watchdog_timeout_loop options\<rparr>"

definition demo_complete :: demo_run where
  "demo_complete = \<lparr>dr_lines = [''Command/telemetry demo complete.''], dr_telemetry = [], dr_exit = Some 0\<rparr>"

text \<open>The loop consumes one turn of the environment at a time: the time after the injected delay, the
  datagram received, and whether the telemetry is sent. Without further turns it has not ended yet.\<close>

fun demo_loop :: "demo_options \<Rightarrow> (u64 \<times> byte list option \<times> bool) list \<Rightarrow> u32 \<times> App \<Rightarrow> demo_run" where
  "demo_loop options [] (loop, app) =
     (if \<not> loop \<le> do_loop_count options then demo_complete
      else \<lparr>dr_lines = [], dr_telemetry = [], dr_exit = None\<rparr>)"
| "demo_loop options ((now_ms, datagram, sent) # turns) (loop, app) =
     (if \<not> loop \<le> do_loop_count options then demo_complete
      else
        let (out, app1) = app_step (demo_input (demo_config options) loop now_ms datagram app) app;
            lines = turn_lines out sent; telemetry = so_telemetry out
        in if \<not> sent then \<lparr>dr_lines = lines, dr_telemetry = [telemetry], dr_exit = Some 1\<rparr>
           else
             let rest = demo_loop options turns (loop + 1, app1)
             in rest\<lparr>dr_lines := lines @ dr_lines rest, dr_telemetry := telemetry # dr_telemetry rest\<rparr>)"

text \<open>\<open>ds_bind\<close> gives the port the receiver is bound to, if it is ready; \<open>ds_destination\<close> says whether the
  sender is ready.\<close>

record demo_sockets =
  ds_bind :: "u16 \<Rightarrow> u16 option"
  ds_destination :: "string \<Rightarrow> u16 \<Rightarrow> bool"

datatype demo_end = DemoUsage int | DemoFailed string | DemoTerminated string | DemoRan demo_run

definition demo_banner :: "u16 \<Rightarrow> demo_options \<Rightarrow> string list" where
  "demo_banner bound_port options =
     [''AstraSim-FSW command/telemetry demo'', ''Using FlightSoftwareApp core loop'',
      ''Listening for UDP commands on port '' @ str_nat (unat bound_port),
      ''Sending UDP telemetry to '' @ do_telemetry_ip options @ '':'' @ str_nat (unat (do_telemetry_port options))]"

definition demo_main :: "demo_sockets \<Rightarrow> string list \<Rightarrow> (u64 \<times> byte list option \<times> bool) list \<Rightarrow> demo_end" where
  "demo_main sockets args turns =
     (case demo_arguments args of
        Usage status \<Rightarrow> DemoUsage status
      | Exception e \<Rightarrow> DemoTerminated e
      | Parsed options \<Rightarrow>
          (case ds_bind sockets (do_command_port options) of
             None \<Rightarrow> DemoFailed ''Command receiver failed to initialize.''
           | Some bound_port \<Rightarrow>
               if \<not> ds_destination sockets (do_telemetry_ip options) (do_telemetry_port options)
               then DemoFailed ''Telemetry sender failed to initialize.''
               else
                 let r = demo_loop options turns (1, flight_software_app default_config)
                 in DemoRan (r\<lparr>dr_lines := demo_banner bound_port options @ dr_lines r\<rparr>)))"

section \<open>The telemetry demonstration and the heartbeat program\<close>

text \<open>The bits of the float \<open>n / 2\<close>, for \<open>0 < n < 2 ^ 24\<close>.\<close>

definition float_halves :: "nat \<Rightarrow> u32" where
  "float_halves n = (let b = bit_length n - 1 in of_nat ((b + 126) * 2 ^ 23 + (n * 2 ^ 23 div 2 ^ b - 2 ^ 23)))"

text \<open>A turn of the loop of \<open>telemetry_demo.cpp\<close>: mode and last fault, then the packet.\<close>

definition telemetry_demo_state :: "nat \<Rightarrow> Mode \<times> FaultCode \<Rightarrow> Mode \<times> FaultCode" where
  "telemetry_demo_state heartbeat = (\<lambda>(mode, last_fault).
     let mode1 = (if heartbeat = 2 then snd (transition_to NOMINAL mode) else mode)
     in if heartbeat = 8 then (handle_fault CPU_OVERLOAD mode1, CPU_OVERLOAD) else (mode1, last_fault))"

definition telemetry_demo_packet :: "nat \<Rightarrow> u64 \<Rightarrow> Mode \<times> FaultCode \<Rightarrow> TelemetryPacket" where
  "telemetry_demo_packet heartbeat now_ms = (\<lambda>(mode, last_fault).
     \<lparr>tp_sequence_number = of_nat heartbeat, tp_timestamp_ms = now_ms, tp_mode = mode, tp_last_fault = last_fault,
      tp_cpu_load_percent = (if heartbeat < 8 then float_halves (2 * (18 + heartbeat)) else float_halves 182),
      tp_memory_load_percent = float_halves (80 + 3 * heartbeat), tp_heartbeat_count = of_nat heartbeat,
      tp_last_command_sequence_number = 0, tp_last_command_id = 0, tp_last_command_status = 0\<rparr>)"

text \<open>\<open>clock\<close> gives the time and \<open>send\<close> the success of each turn.\<close>

definition telemetry_demo_line :: "TelemetryPacket \<Rightarrow> bool \<Rightarrow> string" where
  "telemetry_demo_line p sent = ''TX seq='' @ str_nat (unat (tp_sequence_number p)) @
     '' mode='' @ mode_to_string (tp_mode p) @ '' fault='' @ fault_to_string (tp_last_fault p) @
     '' sent='' @ (if sent then ''yes'' else ''no'')"

fun telemetry_demo_loop :: "(nat \<Rightarrow> u64) \<Rightarrow> (nat \<Rightarrow> bool) \<Rightarrow> nat list \<Rightarrow> Mode \<times> FaultCode \<Rightarrow> demo_run" where
  "telemetry_demo_loop clock send [] state =
     \<lparr>dr_lines = [''Telemetry demo complete.''], dr_telemetry = [], dr_exit = Some 0\<rparr>"
| "telemetry_demo_loop clock send (heartbeat # heartbeats) state =
     (let state1 = telemetry_demo_state heartbeat state;
          packet = telemetry_demo_packet heartbeat (clock heartbeat) state1;
          line = telemetry_demo_line packet (send heartbeat)
      in if \<not> send heartbeat then \<lparr>dr_lines = [line], dr_telemetry = [packet], dr_exit = Some 1\<rparr>
         else let rest = telemetry_demo_loop clock send heartbeats state1
              in rest\<lparr>dr_lines := line # dr_lines rest, dr_telemetry := packet # dr_telemetry rest\<rparr>)"

definition telemetry_demo_arguments :: "string list \<Rightarrow> (string \<times> u16) parsed_arguments" where
  "telemetry_demo_arguments args =
     (if length args = 1 then
        (if hd args = ''--help'' \<or> hd args = ''-h'' then Usage 0 else Parsed (hd args, 5005))
      else if length args = 2 then
        (case port_argument (args ! 1) of Inl e \<Rightarrow> Exception e | Inr port \<Rightarrow> Parsed (args ! 0, port))
      else if length args > 2 then Usage 1
      else Parsed (''127.0.0.1'', 5005))"

definition telemetry_demo_main ::
  "(string \<Rightarrow> u16 \<Rightarrow> bool) \<Rightarrow> (nat \<Rightarrow> u64) \<Rightarrow> (nat \<Rightarrow> bool) \<Rightarrow> string list \<Rightarrow> demo_end" where
  "telemetry_demo_main destination clock send args =
     (case telemetry_demo_arguments args of
        Usage status \<Rightarrow> DemoUsage status
      | Exception e \<Rightarrow> DemoTerminated e
      | Parsed (destination_ip, destination_port) \<Rightarrow>
          if \<not> destination destination_ip destination_port then DemoFailed ''Telemetry sender failed to initialize.''
          else
            let r = telemetry_demo_loop clock send [1..<13] (BOOT, NONE)
            in DemoRan (r\<lparr>dr_lines := [''AstraSim-FSW live telemetry demo'',
                 ''Sending UDP telemetry to '' @ destination_ip @ '':'' @ str_nat (unat destination_port)] @ dr_lines r\<rparr>))"

text \<open>The console of \<open>main.cpp\<close>.\<close>

definition heartbeat_main :: "string list" where
  "heartbeat_main =
     (let mode0 = BOOT; (transitioned, mode1) = transition_to NOMINAL mode0; mode2 = handle_fault CPU_OVERLOAD mode1
      in [''AstraSim-FSW starting...'', ''Mode: '' @ mode_to_string mode0,
          if transitioned then ''Mode transition: '' @ mode_to_string mode0 @ '' -> '' @ mode_to_string mode1
          else ''Mode transition rejected.''] @
         map (\<lambda>i. ''Heartbeat '' @ str_nat (i + 1) @ '' | Mode: '' @ mode_to_string mode1) [0..<5] @
         [''Injecting simulated CPU overload fault...'',
          ''Mode transition: '' @ mode_to_string mode1 @ '' -> '' @ mode_to_string mode2 @ '' | Reason: '' @
            fault_to_string CPU_OVERLOAD,
          ''AstraSim-FSW shutdown.''])"

section \<open>The loop ends, and sends what the steps produce\<close>

lemma next_loop:
  assumes "(loop :: u32) \<le> count" "count \<noteq> - 1"
  shows "unat (loop + 1) = Suc (unat loop)"
proof -
  have "unat count \<noteq> unat (- 1 :: u32)" using assms(2) by (simp add: word_unat_eq_iff)
  moreover have "unat (- 1 :: u32) = 2 ^ 32 - 1" by (simp add: unsigned_minus_1_eq_mask mask_eq_exp_minus_1)
  moreover have "unat count < 2 ^ 32" "unat loop \<le> unat count"
    using unsigned_less [of count, where 'a = nat] assms(1) by (simp_all add: word_le_nat_alt)
  ultimately have "unat loop + 1 < 2 ^ 32" by simp
  then show ?thesis by (simp add: unat_word_ariths)
qed

text \<open>With one turn of the environment per remaining loop, and every packet sent, the loop completes.\<close>

lemma demo_loop_completes:
  assumes "do_loop_count options \<noteq> - 1" "list_all (\<lambda>(_, _, sent). sent) turns"
    and "unat loop + length turns = Suc (unat (do_loop_count options))"
  shows "dr_exit (demo_loop options turns (loop, app)) = Some 0 \<and>
    map serialize_telemetry_packet (dr_telemetry (demo_loop options turns (loop, app))) =
      outputs (demo_step (demo_config options)) (map (\<lambda>(now_ms, datagram, _). (now_ms, datagram)) turns) (loop, app)"
  using assms(2,3)
proof (induction turns arbitrary: loop app)
  case Nil
  then show ?case by (simp add: word_le_nat_alt demo_complete_def)
next
  case (Cons turn turns)
  obtain now_ms datagram where turn: "turn = (now_ms, datagram, True)" using Cons.prems(1) by (cases turn) auto
  have le: "loop \<le> do_loop_count options" using Cons.prems(2) by (simp add: word_le_nat_alt)
  with Cons.prems(2) next_loop [OF le assms(1)]
  have "unat (loop + 1) + length turns = Suc (unat (do_loop_count options))" by simp
  with Cons.IH [of "loop + 1"] Cons.prems(1) le show ?case by (simp add: turn demo_step_def split_beta Let_def)
qed

text \<open>With the largest loop count, which \<open>-1\<close> on the command line also gives, the counter wraps around and
  the loop ends only when a packet cannot be sent.\<close>

lemma demo_loop_forever:
  assumes "do_loop_count options = - 1" "list_all (\<lambda>(_, _, sent). sent) turns"
  shows "dr_exit (demo_loop options turns (loop, app)) = None"
  using assms(2)
proof (induction turns arbitrary: loop app)
  case (Cons turn turns)
  then obtain now_ms datagram where "turn = (now_ms, datagram, True)" by (cases turn) auto
  with Cons show ?case by (simp add: assms(1) split_beta Let_def)
qed (simp add: assms(1))

lemma minus_one_loop_count: "count_argument ''-1'' = Inr (- 1)"
proof -
  have "ucast (- 1 :: u64) = (- 1 :: u32)" by (rule bit_word_eqI) (simp add: bit_unsigned_iff)
  then show ?thesis by (simp add: count_argument_def stoul_def scan_unsigned_def scan_integer_def c_space_def digit_val_def)
qed

lemma demo_loop_numbers:
  "map tp_sequence_number (dr_telemetry (demo_loop options turns (loop, app))) =
     map (\<lambda>k. ap_telemetry_sequence app + of_nat k) [1..<Suc (length (dr_telemetry (demo_loop options turns (loop, app))))]"
proof (induction turns arbitrary: loop app)
  case (Cons turn turns)
  obtain now_ms datagram sent where turn: "turn = (now_ms, datagram, sent)" by (cases turn)
  let ?i = "demo_input (demo_config options) loop now_ms datagram app"
  have first: "tp_sequence_number (so_telemetry (fst (app_step ?i app))) = ap_telemetry_sequence app + 1"
    by (simp add: app_step_eq(2) app_telemetry_def app_step_fields)
  from Cons.IH [of "loop + 1" "snd (app_step ?i app)"] first show ?case
    by (simp add: turn demo_complete_def split_beta Let_def app_step_fields numbered_from [unfolded One_nat_def] upt_conv_Cons del: upt_Suc)
qed (simp add: demo_complete_def)

text \<open>The telemetry demonstration sends one heartbeat in BOOT, six in NOMINAL and five after the
  overload it injects; the loads it reports are the ones it computes.\<close>

lemma telemetry_demo_states:
  "map (\<lambda>p. (tp_mode p, tp_last_fault p)) (dr_telemetry (telemetry_demo_loop clock (\<lambda>_. True) [1..<13] (BOOT, NONE))) =
     [(BOOT, NONE), (NOMINAL, NONE), (NOMINAL, NONE), (NOMINAL, NONE), (NOMINAL, NONE), (NOMINAL, NONE), (NOMINAL, NONE),
      (DEGRADED_PAYLOAD, CPU_OVERLOAD), (DEGRADED_PAYLOAD, CPU_OVERLOAD), (DEGRADED_PAYLOAD, CPU_OVERLOAD), (DEGRADED_PAYLOAD, CPU_OVERLOAD), (DEGRADED_PAYLOAD, CPU_OVERLOAD)]"
proof -
  have fields: "tp_mode (telemetry_demo_packet h t s) = fst s" "tp_last_fault (telemetry_demo_packet h t s) = snd s" for h t s
    by (simp_all add: telemetry_demo_packet_def split_beta)
  have turn: "dr_telemetry (telemetry_demo_loop clock (\<lambda>_. True) (h # hs) s) =
      telemetry_demo_packet h (clock h) (telemetry_demo_state h s) #
      dr_telemetry (telemetry_demo_loop clock (\<lambda>_. True) hs (telemetry_demo_state h s))" for h hs s
    by (simp add: Let_def)
  have changes: "telemetry_demo_state 2 (BOOT, NONE) = (NOMINAL, NONE)" "telemetry_demo_state 8 (NOMINAL, NONE) = (DEGRADED_PAYLOAD, CPU_OVERLOAD)"
    by code_simp+
  have keeps: "h \<noteq> 2 \<Longrightarrow> h \<noteq> 8 \<Longrightarrow> telemetry_demo_state h s = s" for h s
    by (simp add: telemetry_demo_state_def split_beta)
  have heartbeats: "[1..<13] = [1, 2, 3, 4, 5, 6, 7, 8, 9, 10, 11, 12]" by code_simp
  show ?thesis unfolding heartbeats turn by (simp add: fields changes keeps)
qed

lemma telemetry_demo_loads:
  "format_2f (uint (float_halves (2 * (18 + 1)))) = ''19.00''" "format_2f (uint (float_halves (80 + 3 * 1))) = ''41.50''"
  "format_2f (uint (float_halves 182)) = ''91.00''" "format_2f (uint (float_halves (80 + 3 * 12))) = ''58.00''"
proof -
  have "bit_length 38 = 6" "bit_length 83 = 7" "bit_length 182 = 8" "bit_length 116 = 7"
    by (simp_all add: bit_length.simps)
  then have bits: "float_halves 38 = 0x41980000" "float_halves 83 = 0x42260000" "float_halves 182 = 0x42B60000" "float_halves 116 = 0x42680000"
    by (simp_all add: float_halves_def)
  have digits: "str_nat 19 = ''19''" "str_nat 41 = ''41''" "str_nat 91 = ''91''" "str_nat 58 = ''58''" "str_nat 0 = ''0''" "str_nat 50 = ''50''"
    by code_simp+
  show "format_2f (uint (float_halves (2 * (18 + 1)))) = ''19.00''" "format_2f (uint (float_halves (80 + 3 * 1))) = ''41.50''"
    "format_2f (uint (float_halves 182)) = ''91.00''" "format_2f (uint (float_halves (80 + 3 * 12))) = ''58.00''"
    using digits by (simp_all add: bits format_2f_def float_hundredths_def round_half_even_def Let_def zero_pad_def)
qed

end
