(* ===== verification/Results_Plots.thy ===== *)
theory Results_Plots
  imports Demo_Program Campaigns Py_Text
begin

text \<open>
  \<open>tools/generate_results_plots.py\<close>: timelines of mode and fault drawn from the log of the
  command/telemetry demo, and a summary of the scenario and Monte Carlo reports. The coordinate
  computed in floating point and formatted with one decimal is a parameter, and so are the texts
  of the files read.
\<close>

section \<open>The regular expressions\<close>

text \<open>\<open>re.search\<close>: the match at the first position that has one.\<close>

fun search :: "(string \<Rightarrow> 'a option) \<Rightarrow> string \<Rightarrow> 'a option" where
  "search matches [] = matches []"
| "search matches (c # s) = (case matches (c # s) of Some x \<Rightarrow> Some x | None \<Rightarrow> search matches s)"

definition after :: "string \<Rightarrow> string \<Rightarrow> string option" where
  "after prefix s = (if startswith s prefix then Some (drop (length prefix) s) else None)"

text \<open>A group of one or more characters; the character after the group is never one of them, so that the
  greedy match is the only one.\<close>

definition some_chars :: "(char \<Rightarrow> bool) \<Rightarrow> string \<Rightarrow> (string \<times> string) option" where
  "some_chars P s = (if takeWhile P s = [] then None else Some (takeWhile P s, dropWhile P s))"

definition is_digit_char :: "char \<Rightarrow> bool" where
  "is_digit_char c \<longleftrightarrow> digit_val c \<noteq> None"

definition is_name_char :: "char \<Rightarrow> bool" where
  "is_name_char c \<longleftrightarrow> CHR ''A'' \<le> c \<and> c \<le> CHR ''Z'' \<or> c = CHR ''_''"

definition digits_int :: "string \<Rightarrow> int" where
  "digits_int digits = int (foldl (\<lambda>n c. 10 * n + the (digit_val c)) 0 digits)"

text \<open>\<open>TX telemetry seq=(\d+) mode=([A-Z_]+) fault=([A-Z_]+)\<close>.\<close>

definition match_telemetry :: "string \<Rightarrow> (int \<times> string \<times> string) option" where
  "match_telemetry s =
     Option.bind (after ''TX telemetry seq='' s) (\<lambda>s1.
     Option.bind (some_chars is_digit_char s1) (\<lambda>(seq, s2).
     Option.bind (after '' mode='' s2) (\<lambda>s3.
     Option.bind (some_chars is_name_char s3) (\<lambda>(mode, s4).
     Option.bind (after '' fault='' s4) (\<lambda>s5.
     Option.bind (some_chars is_name_char s5) (\<lambda>(fault, _).
       Some (digits_int seq, mode, fault)))))))"

text \<open>\<open>Passed: `?(\d+)`?\<close>, and the same with \<open>Failed\<close>.\<close>

definition match_count :: "string \<Rightarrow> string \<Rightarrow> int option" where
  "match_count label s =
     Option.bind (after (label @ '': '') s) (\<lambda>s1.
     Option.bind (some_chars is_digit_char (if startswith s1 ''`'' then tl s1 else s1)) (\<lambda>(digits, _).
       Some (digits_int digits)))"

section \<open>The program\<close>

type_synonym point = "int \<times> string \<times> string"

definition line_points :: "string \<Rightarrow> point list" where
  "line_points line = (case search match_telemetry line of None \<Rightarrow> [] | Some p \<Rightarrow> [p])"

definition telemetry_points :: "string \<Rightarrow> point list" where
  "telemetry_points log_text = concat (map line_points (splitlines log_text))"

definition mode_y :: "(string, int) dict" where
  "mode_y = [(''BOOT'', 30), (''NOMINAL'', 80), (''DEGRADED_PAYLOAD'', 130), (''SAFE'', 180), (''RECOVERY'', 230)]"

definition fault_y :: "(string, int) dict" where
  "fault_y = [(''NONE'', 80), (''CPU_OVERLOAD'', 150), (''SENSOR_TIMEOUT'', 220), (''WATCHDOG_DEADLINE_MISS'', 290)]"

text \<open>The vertices of the polyline: sequence number and height.\<close>

definition vertices :: "(point \<Rightarrow> string) \<Rightarrow> (string, int) dict \<Rightarrow> point list \<Rightarrow> (int \<times> int) list" where
  "vertices value_of ymap points = map (\<lambda>row. (fst row, dict_get_default ymap (value_of row) 80)) points"

text \<open>\<open>x_text seq max_seq\<close> is the text of \<open>70 + (seq - 1) * (w - 120) / max(1, max_seq - 1)\<close> with one decimal.\<close>

definition svg_attribute :: "string \<Rightarrow> string \<Rightarrow> string" where
  "svg_attribute name value = name @ ''='' @ quoted value"

definition grid_rows :: "(string, int) dict \<Rightarrow> string list" where
  "grid_rows ymap = concat (map (\<lambda>(label, yy).
     [''<line '' @ join '' '' [svg_attribute ''x1'' ''60'', svg_attribute ''y1'' (str_int yy), svg_attribute ''x2'' (str_int (1000 - 40)),
        svg_attribute ''y2'' (str_int yy), svg_attribute ''stroke'' ''#ddd''] @ ''/>'',
      ''<text '' @ join '' '' [svg_attribute ''x'' ''10'', svg_attribute ''y'' (str_int (yy + 5)), svg_attribute ''font-size'' ''12''] @
        ''>'' @ label @ ''</text>'']) ymap)"

definition timeline_svg :: "(int \<Rightarrow> int \<Rightarrow> string) \<Rightarrow> string \<Rightarrow> (string, int) dict \<Rightarrow> int \<Rightarrow> (int \<times> int) list \<Rightarrow> string" where
  "timeline_svg x_text title ymap max_seq vs =
     join [CHR 10]
       [''<svg '' @ join '' '' [svg_attribute ''xmlns'' ''http://www.w3.org/2000/svg'', svg_attribute ''width'' ''1000'',
          svg_attribute ''height'' ''360''] @ ''>'',
        ''<rect '' @ join '' '' [svg_attribute ''width'' ''100%'', svg_attribute ''height'' ''100%'', svg_attribute ''fill'' ''white''] @ ''/>'',
        ''<text '' @ join '' '' [svg_attribute ''x'' ''20'', svg_attribute ''y'' ''28'', svg_attribute ''font-size'' ''22'',
          svg_attribute ''font-family'' ''Arial''] @ ''>'' @ title @ ''</text>'',
        concat (grid_rows ymap),
        ''<polyline '' @ join '' '' [svg_attribute ''points'' (join '' '' (map (\<lambda>(seq, y). x_text seq max_seq @ '','' @ str_int y) vs)),
          svg_attribute ''fill'' ''none'', svg_attribute ''stroke'' ''#2563eb'', svg_attribute ''stroke-width'' ''4''] @ ''/>'',
        ''<text '' @ join '' '' [svg_attribute ''x'' ''70'', svg_attribute ''y'' ''335'', svg_attribute ''font-size'' ''12''] @
          ''>Telemetry sequence</text>'',
        ''</svg>'', '''']"

definition make_timeline :: "(int \<Rightarrow> int \<Rightarrow> string) \<Rightarrow> point list \<Rightarrow> string \<Rightarrow> (point \<Rightarrow> string) \<Rightarrow> (string, int) dict \<Rightarrow> string result" where
  "make_timeline x_text points title value_of ymap =
     (if points = [] then Inl (ValueError ''max() iterable argument is empty'')
      else Inr (timeline_svg x_text title ymap (Max (set (map fst points))) (vertices value_of ymap points)))"

definition scenario_counts :: "string list \<Rightarrow> nat \<times> nat" where
  "scenario_counts texts = (length (filter (\<lambda>txt. contains txt ''Result: PASS'') texts), length texts)"

text \<open>\<open>int(re.search(...).group(1))\<close>: without a match, \<open>None\<close> has no attribute \<open>group\<close>.\<close>

definition report_count :: "string \<Rightarrow> string \<Rightarrow> int result" where
  "report_count label text =
     (case search (match_count label) text of
        None \<Rightarrow> Inl (AttributeError ''NoneType object has no attribute group'')
      | Some n \<Rightarrow> Inr n)"

definition results_summary :: "nat \<times> nat \<Rightarrow> int \<Rightarrow> int \<Rightarrow> string" where
  "results_summary = (\<lambda>(passed, total_reports) mc_pass mc_fail.
     join [CHR 10]
       [''# Results Summary'', '''', ''| Result | Value |'', ''|---|---:|'',
        ''| Scenario reports passed | '' @ str_nat passed @ ''/'' @ str_nat total_reports @ '' |'',
        ''| Monte Carlo trials passed | '' @ str_int mc_pass @ ''/'' @ str_int (mc_pass + mc_fail) @ '' |'',
        ''| Unit tests | 9/9 |'', ''| Requirement check problems | 0 |'', '''', ''Generated plots:'', '''',
        ''- `media/plots/mode_timeline.svg`'', ''- `media/plots/fault_timeline.svg`'', ''''])"

record results_inputs =
  ri_log :: "string result"
  ri_scenario_reports :: "string list"
  ri_monte_carlo :: "string result"

text \<open>The module as a script: the two timelines and the summary, with the files written before an exception.
  The second timeline is drawn from the same points as the first and fails only with it.\<close>

definition results_script :: "(int \<Rightarrow> int \<Rightarrow> string) \<Rightarrow> results_inputs \<Rightarrow> (string \<times> string) list \<times> py_error option" where
  "results_script x_text inputs =
     (let timelines = rbind (ri_log inputs) (\<lambda>log_text.
            let points = telemetry_points log_text in
            rbind (make_timeline x_text points ''AstraSim-FSW Mode Timeline'' (\<lambda>(_, mode, _). mode) mode_y) (\<lambda>mode_svg.
            rbind (make_timeline x_text points ''AstraSim-FSW Fault Timeline'' (\<lambda>(_, _, fault). fault) fault_y) (\<lambda>fault_svg.
              Inr [(''media/plots/mode_timeline.svg'', mode_svg), (''media/plots/fault_timeline.svg'', fault_svg)])));
          counts = rbind (ri_monte_carlo inputs) (\<lambda>mc.
            rbind (report_count ''Passed'' mc) (\<lambda>mc_pass.
            rbind (report_count ''Failed'' mc) (\<lambda>mc_fail. Inr (mc_pass, mc_fail))))
      in case timelines of Inl e \<Rightarrow> ([], Some e)
         | Inr svgs \<Rightarrow>
             (case counts of Inl e \<Rightarrow> (svgs, Some e)
              | Inr (mc_pass, mc_fail) \<Rightarrow>
                  (svgs @ [(''reports/results_summary.md'',
                     results_summary (scenario_counts (ri_scenario_reports inputs)) mc_pass mc_fail)], None)))"

section \<open>Reading back the log\<close>

lemma search_here: "matches s = Some x \<Longrightarrow> search matches s = Some x"
  by (cases s) simp_all

lemma search_None: "(\<And>a b. s = a @ b \<Longrightarrow> matches b = None) \<Longrightarrow> search matches s = None"
proof (induction s)
  case (Cons c s)
  have "matches (c # s) = None" using Cons.prems [of "[]"] by simp
  moreover have "search matches s = None" using Cons.prems by (intro Cons.IH) (metis append_Cons)
  ultimately show ?case by simp
qed simp

lemma search_skip:
  "(\<And>b c. a = b @ c \<Longrightarrow> c \<noteq> [] \<Longrightarrow> matches (c @ s) = None) \<Longrightarrow> search matches (a @ s) = search matches s"
proof (induction a)
  case (Cons x a)
  have "matches ((x # a) @ s) = None" by (rule Cons.prems [of "[]"]) simp_all
  moreover have "search matches (a @ s) = search matches s"
    using Cons.prems by (intro Cons.IH) (metis append_Cons)
  ultimately show ?case by simp
qed simp

lemma after_append [simp]: "after p (p @ s) = Some s"
  by (simp add: after_def startswith_iff)

lemma after_SomeD: "after p s = Some t \<Longrightarrow> s = p @ t"
  by (auto simp: after_def startswith_iff split: if_splits)

lemma some_chars_append:
  assumes "list_all P xs" "xs \<noteq> []" "ys = [] \<or> \<not> P (hd ys)"
  shows "some_chars P (xs @ ys) = Some (xs, ys)"
proof -
  have "takeWhile P (xs @ ys) = xs" "dropWhile P (xs @ ys) = ys"
    using assms by (cases ys; simp add: takeWhile_append2 list_all_iff dropWhile_append2)+
  with assms(2) show ?thesis by (simp add: some_chars_def)
qed

lemma digits_of_str_nat: "list_all is_digit_char (str_nat n)" "digits_int (str_nat n) = int n"
  using str_nat_digit_vals [of n] digits_value_str_nat [of n] by (auto simp: list_all_iff is_digit_char_def digits_int_def)

lemma mode_chars: "list_all is_name_char (mode_to_string m)" "mode_to_string m \<noteq> []"
  by (induct m; code_simp)+

lemma fault_chars: "list_all is_name_char (fault_to_string f)" "fault_to_string f \<noteq> []"
  by (induct f; code_simp)+

definition packet_point :: "TelemetryPacket \<Rightarrow> point" where
  "packet_point p = (uint (tp_sequence_number p), mode_to_string (tp_mode p), fault_to_string (tp_last_fault p))"

lemma telemetry_line_point: "search match_telemetry (telemetry_line p sent) = Some (packet_point p)"
proof (rule search_here)
  have no: "\<not> is_digit_char (CHR '' '')" "\<not> is_name_char (CHR '' '')" by code_simp+
  have "some_chars is_digit_char (str_nat n @ '' mode='' @ s) = Some (str_nat n, '' mode='' @ s)" for n s
    by (rule some_chars_append [OF digits_of_str_nat(1) str_nat_nonempty]) (simp add: no)
  moreover have "some_chars is_name_char (mode_to_string m @ '' fault='' @ s) = Some (mode_to_string m, '' fault='' @ s)" for m s
    by (rule some_chars_append [OF mode_chars]) (simp add: no)
  moreover have "some_chars is_name_char (fault_to_string f @ '' sent='' @ s) = Some (fault_to_string f, '' sent='' @ s)" for f s
    by (rule some_chars_append [OF fault_chars]) (simp add: no)
  ultimately show "match_telemetry (telemetry_line p sent) = Some (packet_point p)"
    by (simp only: match_telemetry_def telemetry_line_def after_append bind.simps prod.case digits_of_str_nat(2)
        packet_point_def unat_eq_nat_uint [symmetric] uint_nat)
qed

section \<open>Every line of the demo is one line, and only telemetry lines match\<close>

definition plain :: "string \<Rightarrow> bool" where
  "plain s \<longleftrightarrow> list_all (\<lambda>c. c \<noteq> CHR ''X'' \<and> \<not> line_end c) s"

lemma plain_simps [simp]: "plain (a @ b) \<longleftrightarrow> plain a \<and> plain b" "plain []"
  "plain (c # s) \<longleftrightarrow> c \<noteq> CHR ''X'' \<and> \<not> line_end c \<and> plain s"
  by (auto simp: plain_def)

lemma plain_str_nat [simp]: "plain (str_nat n)"
proof -
  have no: "digit_val (CHR ''X'') = None" by code_simp
  have "\<not> line_end c \<and> c \<noteq> CHR ''X''" if "is_digit_char c" for c
    using that digit_not_space [of c] line_end_is_space [of c] no by (auto simp: is_digit_char_def)
  then show ?thesis using digits_of_str_nat(1) [of n] by (auto simp: plain_def list_all_iff)
qed

lemma plain_mode [simp]: "plain (mode_to_string m)"
  by (induct m) (simp_all add: line_end_def)

lemma plain_fault [simp]: "plain (fault_to_string f)"
  by (induct f) (simp_all add: line_end_def)

lemma plain_command_id [simp]: "plain (command_id_to_string c)"
  by (induct c) (simp_all add: line_end_def)

lemma plain_command_status [simp]: "plain (command_status_to_string s)"
  by (induct s) (simp_all add: line_end_def)

lemma plain_severity [simp]: "plain (fault_severity_to_string v)"
  by (induct v) (simp_all add: line_end_def)

lemma plain_response [simp]: "plain (fault_response_to_string r)"
  by (induct r) (simp_all add: line_end_def)

lemma no_match_plain: "plain s \<Longrightarrow> search match_telemetry s = None"
proof (rule search_None)
  fix a b assume "plain s" "s = a @ b"
  then have "plain b" by simp
  then show "match_telemetry b = None"
    by (cases "after ''TX telemetry seq='' b") (auto simp: match_telemetry_def dest!: after_SomeD)
qed

lemma plain_process: "plain (cr_message (fst (process p state)))"
  by (cases state; cases "cp_command_id p")
    (auto simp: process_def process_set_mode_def process_inject_fault_def line_end_def split_beta Let_def split: option.splits if_splits)

lemma plain_auth [simp]: "plain (ar_message auth_ok)" "plain (ar_message (auth_rejected status message)) \<longleftrightarrow> plain message"
  by (simp_all add: auth_ok_def auth_rejected_def line_end_def)

lemma plain_authorize: "plain (ar_message (authorize c p))"
  by (cases "cp_command_id p") (simp_all only: authorize_def CommandId.case if_distrib [of ar_message] if_distrib [of plain]
      plain_auth if_bool_eq_conj, simp_all add: line_end_def)

lemma plain_command_message: "plain (cr_message (so_command_result (fst (app_step i a))))"
proof -
  have "plain (cr_message (snd (fst (dispose_command p g b))))" for p g b
    using plain_process [of p] plain_authorize
    by (cases "gr_status g") (auto simp: dispose_command_def process_packet_def reject_ground_command_def line_end_def split_beta Let_def)
  then show ?thesis unfolding app_step_eq(4)
    by (cases "si_command i") (simp_all add: ground_command_def no_result_def split_beta Let_def)
qed

lemma command_line_no_match:
  assumes "plain (cr_message r)"
  shows "search match_telemetry (command_line r) = None" "one_line (command_line r)"
proof -
  define rest where "rest = drop 2 (command_line r)"
  have line: "command_line r = ''RX'' @ rest" and plain: "plain rest"
    using assms by (simp_all add: rest_def command_line_def quoted_def line_end_def)
  then show "search match_telemetry (command_line r) = None"
    using no_match_plain [OF plain] by (simp add: match_telemetry_def after_def startswith_def)
  show "one_line (command_line r)" using plain unfolding line by (simp add: plain_def one_line_def list_all_iff line_end_def)
qed

lemma plain_line: "plain l \<Longrightarrow> line_points l = [] \<and> one_line l"
  by (simp add: line_points_def no_match_plain) (simp add: plain_def one_line_def list_all_iff)

lemma fault_line_plain: "plain source \<Longrightarrow> plain (fault_line source r)"
  by (simp add: fault_line_def line_end_def)

lemma telemetry_line_one_line: "one_line (telemetry_line p sent)"
proof -
  have "one_line (str_nat n)" "one_line (mode_to_string m)" "one_line (fault_to_string f)" for n m f
    using plain_line by simp_all
  then show ?thesis by (simp add: telemetry_line_def line_end_def)
qed

lemma turn_lines_points:
  assumes "out = fst (app_step i a)"
  shows "concat (map line_points (turn_lines out sent)) = [packet_point (so_telemetry out)]"
    and "\<forall>l\<in>set (turn_lines out sent). one_line l"
proof -
  have "plain ''watchdog''" "plain ''health''" by (simp_all add: line_end_def)
  note faults = this [THEN fault_line_plain, THEN plain_line]
  note command = command_line_no_match [OF plain_command_message [of i a, folded assms]]
  from faults command show "concat (map line_points (turn_lines out sent)) = [packet_point (so_telemetry out)]"
    by (simp add: turn_lines_def line_points_def telemetry_line_point)
  from faults command show "\<forall>l\<in>set (turn_lines out sent). one_line l"
    by (auto simp: turn_lines_def telemetry_line_one_line)
qed

lemma demo_complete_plain: "list_all plain (dr_lines demo_complete)" "dr_telemetry demo_complete = []"
  by (simp_all add: demo_complete_def line_end_def)

lemma demo_loop_points:
  fixes options :: demo_options
  defines "r \<equiv> \<lambda>turns loop app. demo_loop options turns (loop, app)"
  shows "concat (map line_points (dr_lines (r turns loop app))) = map packet_point (dr_telemetry (r turns loop app)) \<and>
    (\<forall>l\<in>set (dr_lines (r turns loop app)). one_line l)"
proof (induction turns arbitrary: loop app)
  case Nil
  then show ?case using demo_complete_plain by (auto simp: r_def demo_complete_def plain_line)
next
  case (Cons turn turns)
  obtain now_ms datagram sent where turn: "turn = (now_ms, datagram, sent)" by (cases turn)
  define i where "i = demo_input (demo_config options) loop now_ms datagram app"
  have step: "r (turn # turns) loop app =
    (if \<not> loop \<le> do_loop_count options then demo_complete
     else let out = fst (app_step i app); rest = r turns (loop + 1) (snd (app_step i app)) in
       if \<not> sent then \<lparr>dr_lines = turn_lines out sent, dr_telemetry = [so_telemetry out], dr_exit = Some 1\<rparr>
       else rest\<lparr>dr_lines := turn_lines out sent @ dr_lines rest, dr_telemetry := so_telemetry out # dr_telemetry rest\<rparr>)"
    by (simp add: r_def turn i_def split_beta Let_def)
  have complete: "concat (map line_points (dr_lines demo_complete)) = []" "\<forall>l\<in>set (dr_lines demo_complete). one_line l"
    using demo_complete_plain(1) plain_line by (auto simp: list_all_iff)
  show ?case using turn_lines_points [OF refl, of i app sent] Cons.IH [of "loop + 1" "snd (app_step i app)"] complete
    unfolding step by (auto simp: Let_def demo_complete_plain(2))
qed

lemma demo_log_points:
  assumes "plain (do_telemetry_ip options)"
  shows "telemetry_points (unlines (demo_banner port options @ dr_lines (demo_loop options turns (loop, app)))) =
    map packet_point (dr_telemetry (demo_loop options turns (loop, app)))"
proof -
  have "list_all plain (demo_banner port options)" using assms by (simp add: demo_banner_def line_end_def)
  then have banner: "concat (map line_points (demo_banner port options)) = []" "\<forall>l\<in>set (demo_banner port options). one_line l"
    using plain_line by (auto simp: list_all_iff)
  let ?r = "demo_loop options turns (loop, app)"
  have "splitlines (unlines (demo_banner port options @ dr_lines ?r)) = demo_banner port options @ dr_lines ?r"
    using demo_loop_points [of options turns loop app] banner(2) by (intro splitlines_unlines) auto
  then show ?thesis using demo_loop_points [of options turns loop app] banner(1) by (simp add: telemetry_points_def)
qed

text \<open>A run that completes prints the telemetry it sends, and the plotting script reads it back.\<close>

lemma demo_log_read_back:
  assumes "demo_arguments args = Parsed options" and "do_loop_count options \<noteq> - 1"
    and "ds_bind sockets (do_command_port options) = Some port"
    and "ds_destination sockets (do_telemetry_ip options) (do_telemetry_port options)"
    and "plain (do_telemetry_ip options)"
    and "list_all (\<lambda>(_, _, sent). sent) turns" and "length turns = unat (do_loop_count options)"
  shows "\<exists>r. demo_main sockets args turns = DemoRan r \<and> dr_exit r = Some 0 \<and>
    map serialize_telemetry_packet (dr_telemetry r) =
      outputs (demo_step (demo_config options)) (map (\<lambda>(now_ms, datagram, _). (now_ms, datagram)) turns)
        (1, flight_software_app default_config) \<and>
    telemetry_points (unlines (dr_lines r)) = map packet_point (dr_telemetry r) \<and>
    map fst (telemetry_points (unlines (dr_lines r))) = map int [1..<Suc (unat (do_loop_count options))]"
proof -
  define app where "app = flight_software_app default_config"
  define r where "r = demo_loop options turns (1, app)"
  define s where "s = r\<lparr>dr_lines := demo_banner port options @ dr_lines r\<rparr>"
  have ran: "demo_main sockets args turns = DemoRan s"
    using assms(1,3,4) by (simp add: demo_main_def s_def r_def app_def Let_def)
  have complete: "dr_exit s = Some 0" "map serialize_telemetry_packet (dr_telemetry s) =
      outputs (demo_step (demo_config options)) (map (\<lambda>(now_ms, datagram, _). (now_ms, datagram)) turns) (1, app)"
    using demo_loop_completes [OF assms(2,6), of 1 app] assms(7) by (simp_all add: s_def r_def)
  have points: "telemetry_points (unlines (dr_lines s)) = map packet_point (dr_telemetry s)"
    using demo_log_points [OF assms(5)] by (simp add: s_def r_def)
  have "length (dr_telemetry s) = length turns"
    using arg_cong [OF complete(2), of length] by (simp add: length_outputs)
  moreover have "ap_telemetry_sequence app = 0" by (simp add: app_def flight_software_app_def Let_def)
  ultimately have "map tp_sequence_number (dr_telemetry s) = map of_nat [1..<Suc (unat (do_loop_count options))]"
    using demo_loop_numbers [of options turns 1 app] assms(7) by (simp add: s_def r_def del: upt_Suc)
  then have "map (\<lambda>p. uint (tp_sequence_number p)) (dr_telemetry s) = map (\<lambda>k. uint (of_nat k :: u32)) [1..<Suc (unat (do_loop_count options))]"
    by (metis (no_types, lifting) comp_def map_eq_conv map_map)
  also have "\<dots> = map int [1..<Suc (unat (do_loop_count options))]"
  proof (rule map_cong [OF refl])
    fix k assume "k \<in> set [1..<Suc (unat (do_loop_count options))]"
    then have "k \<le> unat (do_loop_count options)" by auto
    then have "k < 2 ^ 32" using unsigned_less [of "do_loop_count options", where 'a = nat] by simp
    then show "uint (of_nat k :: u32) = int k" by (simp add: unsigned_of_nat take_bit_nat_eq_self)
  qed
  finally have "map fst (telemetry_points (unlines (dr_lines s))) = map int [1..<Suc (unat (do_loop_count options))]"
    unfolding points by (simp add: packet_point_def comp_def)
  with ran complete points show ?thesis unfolding app_def by blast
qed

section \<open>The demo as the scenario runner starts it\<close>

definition loop_value :: "json option \<Rightarrow> int" where
  "loop_value v = (case v of None \<Rightarrow> 0 | Some JNull \<Rightarrow> 0 | Some j \<Rightarrow> (case int_of j of Inl _ \<Rightarrow> 0 | Inr i \<Rightarrow> i))"

lemma port_argument_str_int: "0 \<le> i \<Longrightarrow> i < 2 ^ 16 \<Longrightarrow> port_argument (str_int i) = Inr (word_of_int i)"
  using stoi_str_nat [of "nat i"] by (simp add: port_argument_def str_int_def)

lemma count_argument_str_int:
  assumes "0 \<le> i" "i < 2 ^ 32"
  shows "count_argument (str_int i) = Inr (word_of_int i)"
proof -
  have "nat i < 2 ^ 64" using assms by simp
  then have "count_argument (str_int i) = Inr (ucast (of_nat (nat i) :: u64))"
    using assms(1) stoul_str_nat [of "nat i"] by (simp only: count_argument_def str_int_def not_less [symmetric] if_False map_sum.simps)
  moreover have "ucast (of_nat (nat i) :: u64) = (of_nat (nat i) :: u32)"
    by (rule bit_word_eqI) (simp add: bit_simps)
  ultimately show ?thesis using assms(1) by (metis of_int_of_nat_eq of_nat_nat)
qed

lemma server_args_parsed:
  assumes "server_args exe host command_port telemetry_port loop_count sensor watchdog = Inr args"
    and "command_port \<in> {0..<2 ^ 16}" "telemetry_port \<in> {0..<2 ^ 16}" "loop_count \<in> {0..<2 ^ 32}"
    and "loop_value sensor \<in> {0..<2 ^ 32}" "loop_value watchdog \<in> {0..<2 ^ 32}"
  shows "demo_arguments (tl args) = Parsed \<lparr>do_command_port = word_of_int command_port, do_telemetry_ip = host,
    do_telemetry_port = word_of_int telemetry_port, do_loop_count = word_of_int loop_count,
    do_sensor_timeout_loop = word_of_int (loop_value sensor), do_watchdog_timeout_loop = word_of_int (loop_value watchdog)\<rparr>"
proof -
  obtain e where empty: "py_int [] = Inl e" by (simp add: py_int_def)
  have "int_or_zero (case sensor of None \<Rightarrow> JNull | Some v \<Rightarrow> v) = Inr i \<Longrightarrow> i = loop_value sensor" for i
    by (auto simp: int_or_zero_def loop_value_def empty split: option.splits json.splits if_splits)
  moreover have "present watchdog \<Longrightarrow> int_of (the watchdog) = Inr i \<Longrightarrow> i = loop_value watchdog" for i
    by (auto simp: present_def loop_value_def split: option.splits json.splits)
  moreover have "\<not> present v \<Longrightarrow> loop_value v = 0" for v
    by (auto simp: present_def loop_value_def split: option.splits json.splits)
  ultimately have "args = [exe, str_int command_port, host, str_int telemetry_port, str_int loop_count] @
      (if present sensor \<or> present watchdog then [str_int (loop_value sensor)] else []) @
      (if present watchdog then [str_int (loop_value watchdog)] else [])" and "\<not> present sensor \<Longrightarrow> loop_value sensor = 0"
      "\<not> present watchdog \<Longrightarrow> loop_value watchdog = 0"
    using assms(1) by (auto simp: server_args_def rbind_Inr_iff split: if_splits)
  with assms(2-) show ?thesis
    by (auto simp: demo_arguments_def port_argument_str_int count_argument_str_int)
qed

text \<open>C22: From the scenario runner to the plots. The flight server started with the arguments that \<open>run_scenario.py\<close>
  composes, with ports of 16 bits, a loop count below the largest 32-bit number and timeouts of 32 bits, runs
  with exactly these values: when its sockets open and every packet is sent, it exits with status 0 after
  that many turns, and the telemetry it sent is the one of \<open>demo_step\<close> under the scenario's
  timeouts. The points that the plotting script extracts from its log are the sequence number, mode and
  fault of the packets sent, one per packet and numbered from 1: no command, fault or banner line
  is taken for telemetry.\<close>

theorem scenario_server_log:
  assumes "server_args exe host command_port telemetry_port loop_count sensor watchdog = Inr args"
    and "command_port \<in> {0..<2 ^ 16}" "telemetry_port \<in> {0..<2 ^ 16}" "loop_count \<in> {0..<2 ^ 32 - 1}"
    and "loop_value sensor \<in> {0..<2 ^ 32}" "loop_value watchdog \<in> {0..<2 ^ 32}"
    and "ds_bind sockets (word_of_int command_port) = Some port" "ds_destination sockets host (word_of_int telemetry_port)"
    and "plain host" "list_all (\<lambda>(_, _, sent). sent) turns" "length turns = nat loop_count"
  shows "\<exists>r. demo_main sockets (tl args) turns = DemoRan r \<and> dr_exit r = Some 0 \<and>
    map serialize_telemetry_packet (dr_telemetry r) =
      outputs (demo_step \<lparr>dc_sensor_timeout_loop = word_of_int (loop_value sensor),
          dc_watchdog_timeout_loop = word_of_int (loop_value watchdog)\<rparr>)
        (map (\<lambda>(now_ms, datagram, _). (now_ms, datagram)) turns) (1, flight_software_app default_config) \<and>
    telemetry_points (unlines (dr_lines r)) = map packet_point (dr_telemetry r) \<and>
    map fst (telemetry_points (unlines (dr_lines r))) = map int [1..<Suc (nat loop_count)]"
proof -
  define options where "options = \<lparr>do_command_port = word_of_int command_port, do_telemetry_ip = host,
    do_telemetry_port = word_of_int telemetry_port, do_loop_count = word_of_int loop_count,
    do_sensor_timeout_loop = word_of_int (loop_value sensor), do_watchdog_timeout_loop = word_of_int (loop_value watchdog)\<rparr>"
  have count: "unat (do_loop_count options) = nat loop_count"
    using assms(4) by (simp add: options_def unat_eq_nat_uint unsigned_of_int take_bit_int_eq_self)
  moreover have "unat (- 1 :: u32) = 2 ^ 32 - 1" by (simp add: unsigned_minus_1_eq_mask mask_eq_exp_minus_1)
  ultimately have "do_loop_count options \<noteq> - 1" using assms(4) by auto
  moreover have "demo_arguments (tl args) = Parsed options"
    using server_args_parsed [OF assms(1-3) _ assms(5,6)] assms(4) by (simp add: options_def)
  ultimately show ?thesis
    using demo_log_read_back [of "tl args" options sockets port turns] assms(7-) count
    by (simp add: options_def demo_config_def del: upt_Suc)
qed

definition open_sockets :: demo_sockets where
  "open_sockets = \<lparr>ds_bind = Some, ds_destination = (\<lambda>_ _. True)\<rparr>"

theorem scenario_server_log_witness:
  "\<exists>args r. server_args ''demo'' ''127.0.0.1'' 6000 5005 2 None (Some (JInt 1)) = Inr args \<and>
     demo_main open_sockets (tl args) [(5, None, True), (9, None, True)] = DemoRan r \<and>
     dr_exit r = Some 0 \<and> map fst (telemetry_points (unlines (dr_lines r))) = [1, 2]"
proof -
  obtain args where args: "server_args ''demo'' ''127.0.0.1'' 6000 5005 2 None (Some (JInt 1)) = Inr args"
    by (simp add: server_args_def int_or_zero_def present_def)
  then show ?thesis
    using scenario_server_log [OF args, of open_sockets 6000 "[(5, None, True), (9, None, True)]"]
    by (auto simp: open_sockets_def line_end_def upt_rec loop_value_def)
qed

section \<open>The summary\<close>

lemma count_found:
  assumes "label \<noteq> []" "hd label \<notin> set a"
  shows "search (match_count label) (a @ label @ '': `'' @ str_nat n @ ''`'' @ s) = Some (int n)"
proof -
  have no: "\<not> is_digit_char (CHR ''`'')" by code_simp
  have "match_count label (c @ t) = None" if "a = b @ c" "c \<noteq> []" for b c t
    using assms that by (cases c; cases label) (auto simp: match_count_def after_def startswith_iff)
  moreover have "after (label @ '': '') (label @ '': `'' @ str_nat n @ ''`'' @ s) = Some (''`'' @ str_nat n @ ''`'' @ s)"
    by (simp add: after_def startswith_iff)
  moreover have "some_chars is_digit_char (str_nat n @ ''`'' @ s) = Some (str_nat n, ''`'' @ s)"
    using no by (intro some_chars_append [OF digits_of_str_nat(1) str_nat_nonempty]) simp
  ultimately show ?thesis
    by (subst search_skip) (auto simp: match_count_def startswith_iff digits_of_str_nat(2) intro!: search_here)
qed

lemma monte_report_counts:
  defines "passed \<equiv> \<lambda>trials :: trial list. length (filter (\<lambda>(_, ok, _). ok) trials)"
  shows "report_count ''Passed'' (monte_report seed trials) = Inr (int (passed trials))"
    and "report_count ''Failed'' (monte_report seed trials) = Inr (int (length trials - passed trials))"
proof -
  define nl where "nl = [CHR 10]"
  define pre where "pre = ''# Monte Carlo Regression Report'' @ nl @ nl @ ''Seed: `'' @ str_int seed @ ''`'' @ nl @
    ''Trials: `'' @ str_nat (length trials) @ ''`'' @ nl"
  define mid where "mid = pre @ ''Passed: `'' @ str_nat (passed trials) @ ''`'' @ nl"
  have "c \<noteq> CHR ''P'' \<and> c \<noteq> CHR ''F''" if "c \<in> set (str_nat n)" for c n
    using that str_nat_digit_vals [of n] by (auto simp: digit_val_def)
  then have clean: "CHR ''P'' \<notin> set pre" "CHR ''F'' \<notin> set mid"
    by (auto simp: mid_def pre_def nl_def str_int_def)
  have "\<exists>rest. monte_report seed trials = mid @ ''Failed'' @ '': `'' @ str_nat (length trials - passed trials) @ ''`'' @ rest"
    by (simp add: monte_report_def mid_def pre_def nl_def passed_def Let_def)
  then obtain rest where report: "monte_report seed trials = mid @ ''Failed'' @ '': `'' @ str_nat (length trials - passed trials) @ ''`'' @ rest" ..
  also have "mid = pre @ ''Passed'' @ '': `'' @ str_nat (passed trials) @ ''`'' @ nl" by (simp add: mid_def)
  finally have "monte_report seed trials = pre @ ''Passed'' @ '': `'' @ str_nat (passed trials) @ ''`'' @
      (nl @ ''Failed'' @ '': `'' @ str_nat (length trials - passed trials) @ ''`'' @ rest)" by simp
  then show "report_count ''Passed'' (monte_report seed trials) = Inr (int (passed trials))"
    using count_found [of "''Passed''" pre] clean(1) by (simp add: report_count_def)
  show "report_count ''Failed'' (monte_report seed trials) = Inr (int (length trials - passed trials))"
    using count_found [of "''Failed''" mid] clean(2) unfolding report by (simp add: report_count_def)
qed

text \<open>The arguments of \<open>write_report\<close> for one scenario, its report, and the condition that no other
  line of the report than the verdict shows the words looked for.\<close>

type_synonym scenario_run = "string \<times> bool \<times> received list \<times> string \<times> json_object"

definition run_report :: "(json_object \<Rightarrow> string) \<Rightarrow> scenario_run \<Rightarrow> string" where
  "run_report yaml_dump = (\<lambda>(name, passed, packets, server_output, scenario).
     scenario_report yaml_dump name passed packets server_output scenario)"

definition verdict_free :: "(json_object \<Rightarrow> string) \<Rightarrow> scenario_run \<Rightarrow> bool" where
  "verdict_free yaml_dump = (\<lambda>(name, _, packets, server_output, scenario).
     list_all (\<lambda>s. \<not> contains s ''Result: PASS'')
       ([''# Scenario Output: '' @ name, yaml_dump scenario, server_output] @ map packet_line packets))"

lemma report_verdict:
  assumes "verdict_free yaml_dump r"
  shows "contains (run_report yaml_dump r) ''Result: PASS'' \<longleftrightarrow> fst (snd r)"
proof -
  obtain name ok packets server_output scenario where r: "r = (name, ok, packets, server_output, scenario)" by (cases r)
  define v where "v = ''Result: PASS''"
  define fixed where "fixed = ['''', ''## Scenario'', ''```yaml'', ''```'', ''## Telemetry Packets'', ''```text'', ''## C++ Server Output'']"
  define verdict where "verdict = ''Result: '' @ (if ok then ''PASS'' else ''FAIL'')"
  define heading where "heading = ''# Scenario Output: '' @ name"
  have fixed: "list_all (\<lambda>l. \<not> contains l v) fixed" unfolding v_def fixed_def by code_simp
  have "contains ''Result: PASS'' v" "\<not> contains ''Result: FAIL'' v" unfolding v_def by code_simp+
  then have verdict: "contains verdict v \<longleftrightarrow> ok" by (simp add: verdict_def)
  have v: "CHR 10 \<notin> set v" "v \<noteq> []" by (simp_all add: v_def)
  have "contains (run_report yaml_dump r) v \<longleftrightarrow>
      (\<exists>l\<in>{heading, verdict, rstrip (yaml_dump scenario), rstrip server_output} \<union> packet_line ` set packets \<union> set fixed. contains l v)"
    unfolding r run_report_def scenario_report_def prod.case contains_join [OF v] verdict_def [symmetric] heading_def [symmetric]
    by (rule bex_cong) (auto simp: fixed_def)
  with assms verdict fixed contains_rstrip [of _ v] show ?thesis
    unfolding v_def [symmetric] by (auto simp: r verdict_free_def list_all_iff v_def [symmetric] heading_def [symmetric] simp del: append.simps)
qed

text \<open>The summary shows the true counts: when the log has a telemetry line, the Monte Carlo report is the one
  the campaign writes and the scenario reports are the ones \<open>write_report\<close> writes, with the words of
  the verdict nowhere else in them, the script succeeds and its summary gives the number of
  scenarios that passed out of their number, and the numbers of trials that passed and failed.\<close>

theorem results_summary_counts:
  assumes "telemetry_points log_text \<noteq> []" and "list_all (verdict_free yaml_dump) runs"
  shows "\<exists>mode_svg fault_svg.
    results_script x_text \<lparr>ri_log = Inr log_text, ri_scenario_reports = map (run_report yaml_dump) runs,
      ri_monte_carlo = Inr (monte_report seed trials)\<rparr> =
    ([(''media/plots/mode_timeline.svg'', mode_svg), (''media/plots/fault_timeline.svg'', fault_svg),
      (''reports/results_summary.md'', results_summary (length (filter (\<lambda>(_, passed, _). passed) runs), length runs)
        (int (length (filter (\<lambda>(_, ok, _). ok) trials))) (int (length (filter (\<lambda>(_, ok, _). \<not> ok) trials))))], None)"
proof -
  have "scenario_counts (map (run_report yaml_dump) runs) = (length (filter (\<lambda>(_, passed, _). passed) runs), length runs)"
    using assms(2) report_verdict
    by (simp add: scenario_counts_def filter_map comp_def list_all_iff case_prod_unfold cong: filter_cong)
  moreover have "length trials - length (filter (\<lambda>(_, ok, _). ok) trials) = length (filter (\<lambda>(_, ok, _). \<not> ok) trials)"
    using sum_length_filter_compl [of "\<lambda>(_, ok, _). ok" trials] by (simp add: case_prod_unfold)
  ultimately show ?thesis
    using assms(1) by (simp add: results_script_def make_timeline_def monte_report_counts Let_def)
qed

fun mode_height :: "Mode \<Rightarrow> int" where
  "mode_height BOOT = 30" | "mode_height DEGRADED_PAYLOAD = 130" | "mode_height SAFE = 180" | "mode_height RECOVERY = 230"
| "mode_height _ = 80"

fun fault_height :: "FaultCode \<Rightarrow> int" where
  "fault_height CPU_OVERLOAD = 150" | "fault_height SENSOR_TIMEOUT = 220" | "fault_height WATCHDOG_DEADLINE_MISS = 290"
| "fault_height _ = 80"

lemma same_mode_height:
  "mode_height m = mode_height n \<longleftrightarrow> m = n \<or> {m, n} \<subseteq> {NOMINAL, DEGRADED_SENSOR, STANDBY, TEST}"
  by (cases m; cases n) simp_all

lemma same_fault_height:
  "fault_height f = fault_height g \<longleftrightarrow> f = g \<or> {f, g} \<inter> {CPU_OVERLOAD, SENSOR_TIMEOUT, WATCHDOG_DEADLINE_MISS} = {}"
proof -
  have "fault_height h = (if h = CPU_OVERLOAD then 150 else if h = SENSOR_TIMEOUT then 220
      else if h = WATCHDOG_DEADLINE_MISS then 290 else 80)" for h
    by (cases h) simp_all
  then show ?thesis by simp
qed

text \<open>What the timelines cannot show: two packets with different modes have the same height in the mode
  timeline exactly if both modes are among NOMINAL, DEGRADED_SENSOR, STANDBY and TEST, and with
  different faults the same height in the fault timeline exactly if neither fault has a row of its own
  but that of NONE: an unknown name is drawn on the row of NOMINAL or NONE.\<close>

theorem timeline_heights:
  "(map snd (vertices (\<lambda>(_, mode, _). mode) mode_y [packet_point p]) = map snd (vertices (\<lambda>(_, mode, _). mode) mode_y [packet_point q]) \<longleftrightarrow>
      tp_mode p = tp_mode q \<or> {tp_mode p, tp_mode q} \<subseteq> {NOMINAL, DEGRADED_SENSOR, STANDBY, TEST}) \<and>
   (map snd (vertices (\<lambda>(_, _, fault). fault) fault_y [packet_point p]) = map snd (vertices (\<lambda>(_, _, fault). fault) fault_y [packet_point q]) \<longleftrightarrow>
      tp_last_fault p = tp_last_fault q \<or>
      {tp_last_fault p, tp_last_fault q} \<inter> {CPU_OVERLOAD, SENSOR_TIMEOUT, WATCHDOG_DEADLINE_MISS} = {})"
proof -
  have mode: "map snd (vertices (\<lambda>(_, mode, _). mode) mode_y [packet_point r]) = [mode_height (tp_mode r)]" for r
    by (cases "tp_mode r") (simp_all add: vertices_def packet_point_def mode_y_def dict_get_default_def)
  have fault: "map snd (vertices (\<lambda>(_, _, fault). fault) fault_y [packet_point r]) = [fault_height (tp_last_fault r)]" for r
    by (cases "tp_last_fault r") (simp_all add: vertices_def packet_point_def fault_y_def dict_get_default_def)
  show ?thesis unfolding mode fault list.inject
    using same_mode_height [of "tp_mode p"] same_fault_height [of "tp_last_fault p"] by simp
qed

end
