(* ===== verification/Argparse.thy ===== *)
theory Argparse
  imports Py_Strings
begin

text \<open>
  What the tools use of Python's \<open>argparse\<close>: options with a long name that store one value, collect
  values or are flags, the help option, at most one positional argument and one group of
  mutually exclusive flags. Options may be abbreviated to an unambiguous prefix and carry their value
  after an equals sign; a text that looks like an option is not taken as a value. Help ends the
  program with status 0, an error with status 2, and both are reached in the order of the command line.
\<close>

section \<open>Parsers\<close>

datatype option_action = Store | StoreTrue | Append | Help

text \<open>\<open>op_accepts\<close> is the conversion named by \<open>type\<close> together with \<open>choices\<close>: whether it accepts a text.\<close>

record option_spec =
  op_string :: string
  op_action :: option_action
  op_required :: bool
  op_accepts :: "string \<Rightarrow> bool"

record arg_parser =
  ps_options :: "option_spec list"
  ps_positional :: "(string \<Rightarrow> bool) option"
  ps_exclusive :: "string list"

definition any_text :: "string \<Rightarrow> bool" where
  "any_text s \<longleftrightarrow> True"

definition int_text :: "string \<Rightarrow> bool" where
  "int_text s \<longleftrightarrow> (case py_int s of Inl _ \<Rightarrow> False | Inr _ \<Rightarrow> True)"

definition store :: "string \<Rightarrow> (string \<Rightarrow> bool) \<Rightarrow> option_spec" where
  "store name accepts = \<lparr>op_string = name, op_action = Store, op_required = False, op_accepts = accepts\<rparr>"

definition required :: "option_spec \<Rightarrow> option_spec" where
  "required spec = spec\<lparr>op_required := True\<rparr>"

definition store_true :: "string \<Rightarrow> option_spec" where
  "store_true name = (store name any_text)\<lparr>op_action := StoreTrue\<rparr>"

definition append_option :: "string \<Rightarrow> option_spec" where
  "append_option name = (store name any_text)\<lparr>op_action := Append\<rparr>"

definition options_only :: "option_spec list \<Rightarrow> arg_parser" where
  "options_only specs = \<lparr>ps_options = specs, ps_positional = None, ps_exclusive = []\<rparr>"

definition help_options :: "option_spec list" where
  "help_options = map (\<lambda>name. (store name any_text)\<lparr>op_action := Help\<rparr>) [''-h'', ''--help'']"

lemma spec_simps [simp]:
  "op_string (store name accepts) = name" "op_action (store name accepts) = Store"
  "op_required (store name accepts) = False" "op_accepts (store name accepts) = accepts"
  "op_string (store_true name) = name" "op_action (store_true name) = StoreTrue" "op_required (store_true name) = False"
  "op_string (append_option name) = name" "op_action (append_option name) = Append"
  "op_required (append_option name) = False" "op_accepts (append_option name) = any_text"
  by (simp_all add: store_def store_true_def append_option_def)

section \<open>Classification of the texts\<close>

text \<open>The value given with the option itself, after an equals sign or attached to a short option.\<close>

datatype explicit = Nothing | Equals string | Attached string

datatype arg_token = ArgText string | Dashes | Unknown | Opt option_spec explicit

text \<open>\<open>^-\d+$|^-\d*\.\d+$\<close>, where the end may be before a final newline.\<close>

definition negative_number :: "string \<Rightarrow> bool" where
  "negative_number s \<longleftrightarrow>
     (let body = tl (if s \<noteq> [] \<and> last s = CHR 10 then butlast s else s);
          digits = list_all (\<lambda>c. digit_val c \<noteq> None)
      in s \<noteq> [] \<and> hd s = CHR ''-'' \<and>
         (body \<noteq> [] \<and> digits body \<or>
          (case split_once ''.'' body of None \<Rightarrow> False | Some (a, b) \<Rightarrow> digits a \<and> b \<noteq> [] \<and> digits b)))"

definition option_tuples :: "option_spec list \<Rightarrow> string \<Rightarrow> (option_spec \<times> explicit) list" where
  "option_tuples specs s =
     (if s ! 1 = CHR ''-'' then
        let (prefix, explicit) = (case split_once ''='' s of None \<Rightarrow> (s, Nothing) | Some (a, b) \<Rightarrow> (a, Equals b))
        in map (\<lambda>spec. (spec, explicit)) (filter (\<lambda>spec. startswith (op_string spec) prefix) specs)
      else concat (map (\<lambda>spec.
        if op_string spec = take 2 s then [(spec, Attached (drop 2 s))]
        else if startswith (op_string spec) s then [(spec, Nothing)] else []) specs))"

text \<open>\<open>_parse_optional\<close>; \<open>None\<close> for an ambiguous abbreviation.\<close>

definition classify :: "option_spec list \<Rightarrow> string \<Rightarrow> arg_token option" where
  "classify specs s =
     (if s = [] \<or> hd s \<noteq> CHR ''-'' then Some (ArgText s)
      else case find (\<lambda>spec. op_string spec = s) specs of
        Some spec \<Rightarrow> Some (Opt spec Nothing)
      | None \<Rightarrow>
          if length s = 1 then Some (ArgText s)
          else case Option.bind (split_once ''='' s) (\<lambda>(a, b). map_option (\<lambda>spec. Opt spec (Equals b))
                 (find (\<lambda>spec. op_string spec = a) specs)) of
            Some t \<Rightarrow> Some t
          | None \<Rightarrow>
              (case option_tuples specs s of
                 [] \<Rightarrow> Some (if negative_number s \<or> contains s '' '' then ArgText s else Unknown)
               | [(spec, explicit)] \<Rightarrow> Some (Opt spec explicit)
               | _ \<Rightarrow> None))"

fun tokens :: "option_spec list \<Rightarrow> string list \<Rightarrow> arg_token list option" where
  "tokens specs [] = Some []"
| "tokens specs (s # ss) =
     (if s = ''--'' then Some (Dashes # map ArgText ss)
      else Option.bind (classify specs s) (\<lambda>t. map_option ((#) t) (tokens specs ss)))"

section \<open>Consumption\<close>

text \<open>After \<open>--\<close> there are only texts, of which the first is the positional argument if it is still missing; a
  \<open>--\<close> that no argument follows or needs is an error.

  The options given so far, in order and with their value if they take one, the positional argument, and
  whether there were texts that no argument takes.\<close>

record arg_state =
  an_given :: "(string \<times> string option) list"
  an_positional :: "string option"
  an_extras :: bool

text \<open>The texts attached to the short help option: whether help is shown.\<close>

fun help_attached :: "string \<Rightarrow> bool" where
  "help_attached [] = True"
| "help_attached (c # s) =
     (if c = CHR ''-'' then False
      else if c = CHR ''h'' then (s = [] \<or> hd s \<noteq> CHR ''='' \<and> help_attached s)
      else True)"

definition give :: "option_spec \<Rightarrow> string option \<Rightarrow> arg_state \<Rightarrow> arg_state" where
  "give spec v st = st\<lparr>an_given := an_given st @ [(op_string spec, v)]\<rparr>"

definition give_value :: "option_spec \<Rightarrow> string \<Rightarrow> arg_state \<Rightarrow> int + arg_state" where
  "give_value spec v st = (if op_accepts spec v then Inr (give spec (Some v) st) else Inl 2)"

definition give_flag :: "arg_parser \<Rightarrow> option_spec \<Rightarrow> arg_state \<Rightarrow> int + arg_state" where
  "give_flag p spec st =
     (if op_string spec \<in> set (ps_exclusive p) \<and>
         (\<exists>name\<in>set (ps_exclusive p). name \<noteq> op_string spec \<and> name \<in> fst ` set (an_given st))
      then Inl 2 else Inr (give spec None st))"

definition give_positional :: "arg_parser \<Rightarrow> string \<Rightarrow> arg_state \<Rightarrow> int + arg_state" where
  "give_positional p v st =
     (case ps_positional p of None \<Rightarrow> Inr (st\<lparr>an_extras := True\<rparr>)
      | Some accepts \<Rightarrow> if accepts v then Inr (st\<lparr>an_positional := Some v\<rparr>) else Inl 2)"

definition awaits_positional :: "arg_parser \<Rightarrow> arg_state \<Rightarrow> bool" where
  "awaits_positional p st \<longleftrightarrow> ps_positional p \<noteq> None \<and> an_positional st = None"

definition skip_dashes :: "arg_token list \<Rightarrow> arg_token list" where
  "skip_dashes ts = (case ts of Dashes # ts1 \<Rightarrow> ts1 | _ \<Rightarrow> ts)"

lemma length_skip_dashes: "length (skip_dashes ts) \<le> length ts"
  by (simp add: skip_dashes_def split: list.split arg_token.split)

function consume :: "arg_parser \<Rightarrow> arg_token list \<Rightarrow> arg_state \<Rightarrow> int + arg_state" where
  "consume p [] st = Inr st"
| "consume p (Unknown # ts) st = consume p ts (st\<lparr>an_extras := True\<rparr>)"
| "consume p (Opt spec explicit # ts) st =
     (case op_action spec of
        Help \<Rightarrow> (case explicit of Nothing \<Rightarrow> Inl 0 | Equals _ \<Rightarrow> Inl 2 | Attached v \<Rightarrow> Inl (if help_attached v then 0 else 2))
      | StoreTrue \<Rightarrow>
          if explicit \<noteq> Nothing then Inl 2
          else (case give_flag p spec st of Inl e \<Rightarrow> Inl e | Inr st1 \<Rightarrow> consume p ts st1)
      | _ \<Rightarrow>
          (case explicit of
             Nothing \<Rightarrow>
               (case ts of
                  ArgText v # ts1 \<Rightarrow> (case give_value spec v st of Inl e \<Rightarrow> Inl e | Inr st1 \<Rightarrow> consume p ts1 st1)
                | _ \<Rightarrow> Inl 2)
           | Equals v \<Rightarrow> (case give_value spec v st of Inl e \<Rightarrow> Inl e | Inr st1 \<Rightarrow> consume p ts st1)
           | Attached v \<Rightarrow> (case give_value spec v st of Inl e \<Rightarrow> Inl e | Inr st1 \<Rightarrow> consume p ts st1)))"
| "consume p (ArgText v # ts) st =
     (if awaits_positional p st
      then (case give_positional p v st of Inl e \<Rightarrow> Inl e
            | Inr st1 \<Rightarrow> consume p (skip_dashes ts) st1)
      else consume p ts (st\<lparr>an_extras := True\<rparr>))"
| "consume p (Dashes # ts) st =
     consume p ts (if awaits_positional p st \<and> ts \<noteq> [] then st else st\<lparr>an_extras := True\<rparr>)"
  by pat_completeness auto
termination
  by (relation "measure (\<lambda>(p, ts, st). length ts)") (auto simp: length_skip_dashes le_imp_less_Suc)

definition no_arguments :: arg_state where
  "no_arguments = \<lparr>an_given = [], an_positional = None, an_extras = False\<rparr>"

text \<open>\<open>parse_args\<close>: the exit status, or what was given.\<close>

definition parse_args :: "arg_parser \<Rightarrow> string list \<Rightarrow> int + arg_state" where
  "parse_args p argv =
     (case tokens (help_options @ ps_options p) argv of
        None \<Rightarrow> Inl 2
      | Some ts \<Rightarrow>
          (case consume p ts no_arguments of
             Inl e \<Rightarrow> Inl e
           | Inr st \<Rightarrow>
               if list_all (\<lambda>spec. op_required spec \<longrightarrow> op_string spec \<in> fst ` set (an_given st)) (ps_options p) \<and>
                  \<not> awaits_positional p st \<and> \<not> an_extras st
               then Inr st else Inl 2))"

text \<open>The attributes of the namespace.\<close>

definition flag_given :: "string \<Rightarrow> arg_state \<Rightarrow> bool" where
  "flag_given name st \<longleftrightarrow> name \<in> fst ` set (an_given st)"

definition values_given :: "string \<Rightarrow> arg_state \<Rightarrow> string list" where
  "values_given name st = concat (map (\<lambda>(n, v). case v of Some s \<Rightarrow> if n = name then [s] else [] | None \<Rightarrow> []) (an_given st))"

definition value_given :: "string \<Rightarrow> arg_state \<Rightarrow> string option" where
  "value_given name st = (if values_given name st = [] then None else Some (last (values_given name st)))"

definition value_or :: "string \<Rightarrow> string \<Rightarrow> arg_state \<Rightarrow> string" where
  "value_or d name st = (case value_given name st of None \<Rightarrow> d | Some v \<Rightarrow> v)"

definition int_value :: "string \<Rightarrow> arg_state \<Rightarrow> int option" where
  "int_value name st = Option.bind (value_given name st) (\<lambda>v. case py_int v of Inl _ \<Rightarrow> None | Inr i \<Rightarrow> Some i)"

definition int_or :: "int \<Rightarrow> string \<Rightarrow> arg_state \<Rightarrow> int" where
  "int_or d name st = (case int_value name st of None \<Rightarrow> d | Some i \<Rightarrow> i)"

section \<open>Composed command lines\<close>

text \<open>A text that is no option by its first character, and options that no number looks like.\<close>

definition not_option :: "string \<Rightarrow> bool" where
  "not_option s \<longleftrightarrow> s = [] \<or> hd s \<noteq> CHR ''-''"

definition named_options :: "option_spec list \<Rightarrow> bool" where
  "named_options specs \<longleftrightarrow> list_all (\<lambda>spec. length (op_string spec) > 1 \<and> hd (op_string spec) = CHR ''-'' \<and>
     digit_val (op_string spec ! 1) = None) specs"

lemma classify_text [simp]: "not_option s \<Longrightarrow> classify specs s = Some (ArgText s)"
  by (auto simp: classify_def not_option_def)

lemma classify_dash: "s \<noteq> [] \<Longrightarrow> hd s = CHR ''-'' \<Longrightarrow> find (\<lambda>spec. op_string spec = s) specs \<noteq> None
    \<Longrightarrow> classify specs s = Some (Opt (the (find (\<lambda>spec. op_string spec = s) specs)) Nothing)"
  by (auto simp: classify_def)

lemma not_option_simps [simp]: "not_option []" "not_option (c # s) \<longleftrightarrow> c \<noteq> CHR ''-''"
  "not_option (a @ b) \<longleftrightarrow> (if a = [] then not_option b else not_option a)"
  by (auto simp: not_option_def)

lemma not_option_str_nat [simp]: "not_option (str_nat n)"
  using str_nat_not_sign [of n] by (cases "str_nat n") (auto simp: not_option_def)

lemma no_equals_str_nat: "split_once ''='' (CHR ''-'' # str_nat n) = None"
proof (rule ccontr)
  assume "split_once ''='' (CHR ''-'' # str_nat n) \<noteq> None"
  then obtain a b where "CHR ''-'' # str_nat n = a @ ''='' @ b" using split_once_SomeD by fastforce
  then have "CHR ''='' \<in> set (str_nat n)" by (auto simp: Cons_eq_append_conv)
  then show False using str_nat_digit_vals [of n] by (auto simp: digit_val_def)
qed

lemma classify_negative:
  assumes "named_options specs"
  shows "classify specs (CHR ''-'' # str_nat n) = Some (ArgText (CHR ''-'' # str_nat n))"
proof -
  obtain c cs where s: "str_nat n = c # cs" by (cases "str_nat n") auto
  then obtain d where d: "digit_val c = Some d" using str_nat_digit_vals [of n] by auto
  then have c: "c \<noteq> CHR ''-''" by (auto simp: digit_val_def)
  have none: "\<not> startswith (op_string spec) (CHR ''-'' # c # t)" "op_string spec \<noteq> CHR ''-'' # c # t" if "spec \<in> set specs" for spec t
    using assms that d by (auto simp: named_options_def list_all_iff startswith_iff)
  have "find (\<lambda>spec. op_string spec = CHR ''-'' # c # cs) specs = None" using none(2) by (auto simp: find_None_iff)
  moreover have "option_tuples specs (CHR ''-'' # c # cs) = []" using c none by (auto simp: option_tuples_def)
  moreover have "negative_number (CHR ''-'' # c # cs)"
  proof -
    have "list_all (\<lambda>c. digit_val c \<noteq> None) (c # cs)" using str_nat_digit_vals [of n] by (auto simp: s list_all_iff)
    moreover have "last (CHR ''-'' # c # cs) \<noteq> CHR 10"
      using last_in_set [of "c # cs"] str_nat_digit_vals [of n] unfolding s by (auto simp: digit_val_def)
    ultimately show ?thesis by (simp add: negative_number_def)
  qed
  ultimately show ?thesis using no_equals_str_nat [of n] by (simp add: classify_def s)
qed

lemma classify_str_int: "named_options specs \<Longrightarrow> classify specs (str_int i) = Some (ArgText (str_int i))"
  by (simp add: str_int_def classify_negative)

lemma int_text_str_int [simp]: "int_text (str_int i)"
  by (simp add: int_text_def py_int_str_int)

lemma str_int_not_dashes [simp]: "str_int i \<noteq> ''--''"
proof
  assume "str_int i = ''--''"
  then have "CHR ''-'' \<in> set (str_nat (nat \<bar>i\<bar>))" by (cases "i < 0") (auto simp: str_int_def)
  then show False using str_nat_digit_vals [of "nat \<bar>i\<bar>"] by (auto simp: digit_val_def)
qed

lemma not_option_not_dashes: "not_option s \<Longrightarrow> s \<noteq> ''--''"
  by (auto simp: not_option_def)

text \<open>A repeated option of action \<open>append\<close>.\<close>

lemma tokens_repeated:
  assumes "classify specs name = Some (Opt spec Nothing)" "name \<noteq> ''--''" "list_all (\<lambda>v. not_option v) vs"
  shows "tokens specs (concat (map (\<lambda>v. [name, v]) vs)) = Some (concat (map (\<lambda>v. [Opt spec Nothing, ArgText v]) vs))"
  using assms(3) by (induction vs) (simp_all add: assms(1,2) not_option_not_dashes)

lemma consume_repeated:
  assumes "op_action spec = Append" "op_accepts spec = any_text"
  shows "consume p (concat (map (\<lambda>v. [Opt spec Nothing, ArgText v]) vs)) st =
    Inr (st\<lparr>an_given := an_given st @ map (\<lambda>v. (op_string spec, Some v)) vs\<rparr>)"
  by (induction vs arbitrary: st) (simp_all add: assms give_value_def give_def any_text_def)

section \<open>What every accepted command line satisfies\<close>

lemma option_tuples_member: "(spec, explicit) \<in> set (option_tuples specs s) \<Longrightarrow> spec \<in> set specs"
  by (auto simp: option_tuples_def split: if_splits option.splits prod.splits)

lemma classify_option: "classify specs s = Some (Opt spec explicit) \<Longrightarrow> spec \<in> set specs"
  using option_tuples_member [of spec explicit specs s]
  by (auto simp: classify_def find_Some_iff bind_eq_Some_conv split: if_splits option.splits list.splits)

lemma tokens_option: "tokens specs argv = Some ts \<Longrightarrow> Opt spec explicit \<in> set ts \<Longrightarrow> spec \<in> set specs"
  by (induction argv arbitrary: ts)
    (auto simp: bind_eq_Some_conv dest: classify_option split: if_splits)

text \<open>Of a group of mutually exclusive flags at most one is given.\<close>

definition exclusive :: "arg_parser \<Rightarrow> arg_state \<Rightarrow> bool" where
  "exclusive p st \<longleftrightarrow> (\<forall>a b. {a, b} \<subseteq> set (ps_exclusive p) \<longrightarrow> flag_given a st \<longrightarrow> flag_given b st \<longrightarrow> a = b)"

definition exclusive_flags :: "arg_parser \<Rightarrow> bool" where
  "exclusive_flags p \<longleftrightarrow> list_all (\<lambda>spec. op_string spec \<in> set (ps_exclusive p) \<longrightarrow> op_action spec = StoreTrue) (ps_options p)"

lemma exclusive_given: "an_given st1 = an_given st \<Longrightarrow> exclusive p st1 = exclusive p st"
  by (simp add: exclusive_def flag_given_def)

lemma exclusive_give:
  assumes "exclusive p st"
    and "op_string spec \<in> set (ps_exclusive p) \<Longrightarrow> \<forall>name\<in>set (ps_exclusive p). flag_given name st \<longrightarrow> name = op_string spec"
  shows "exclusive p (give spec v st)"
  unfolding exclusive_def
proof (intro allI impI)
  fix a b
  assume ab: "{a, b} \<subseteq> set (ps_exclusive p)" "flag_given a (give spec v st)" "flag_given b (give spec v st)"
  then have "a = op_string spec \<or> flag_given a st" "b = op_string spec \<or> flag_given b st"
    by (auto simp: flag_given_def give_def)
  with ab(1) assms show "a = b" unfolding exclusive_def by blast
qed

lemma exclusive_flag: "give_flag p spec st = Inr st1 \<Longrightarrow> exclusive p st \<Longrightarrow> exclusive p st1"
  by (auto simp: give_flag_def flag_given_def split: if_splits intro!: exclusive_give)

lemma exclusive_value:
  "give_value spec v st = Inr st1 \<Longrightarrow> op_string spec \<notin> set (ps_exclusive p) \<Longrightarrow> exclusive p st \<Longrightarrow> exclusive p st1"
  by (auto simp: give_value_def split: if_splits intro!: exclusive_give)

lemma exclusive_positional: "give_positional p v st = Inr st1 \<Longrightarrow> exclusive p st \<Longrightarrow> exclusive p st1"
  using exclusive_given [of st1 st p] by (auto simp: give_positional_def split: if_splits option.splits)

lemma exclusive_extras [simp]: "exclusive p (st\<lparr>an_extras := b\<rparr>) = exclusive p st"
  by (simp add: exclusive_def flag_given_def)

definition flag_token :: "arg_parser \<Rightarrow> arg_token \<Rightarrow> bool" where
  "flag_token p t \<longleftrightarrow> (case t of
     Opt spec _ \<Rightarrow> op_action spec \<in> {StoreTrue, Help} \<or> op_string spec \<notin> set (ps_exclusive p) | _ \<Rightarrow> True)"

lemma flag_token_simps [simp]: "flag_token p (ArgText v)" "flag_token p Dashes" "flag_token p Unknown"
  "flag_token p (Opt spec explicit) \<longleftrightarrow> op_action spec \<in> {StoreTrue, Help} \<or> op_string spec \<notin> set (ps_exclusive p)"
  by (simp_all add: flag_token_def)

lemma skip_dashes_flags: "list_all (flag_token p) ts \<Longrightarrow> list_all (flag_token p) (skip_dashes ts)"
  by (auto simp: skip_dashes_def split: list.splits arg_token.splits)

lemma consume_exclusive:
  "consume p ts st = Inr st1 \<Longrightarrow> exclusive p st \<Longrightarrow> list_all (flag_token p) ts \<Longrightarrow> exclusive p st1"
proof (induction p ts st rule: consume.induct)
  case (3 p spec explicit ts st)
  then show ?case
    by (cases "op_action spec")
      (auto split: explicit.splits sum.splits list.splits arg_token.splits if_splits dest: exclusive_flag exclusive_value)
next
  case (4 p v ts st)
  then show ?case
    by (auto split: sum.splits if_splits simp: skip_dashes_flags dest: exclusive_positional)
next
  case (5 p ts st)
  then show ?case by (auto split: if_splits)
qed auto

theorem parse_args_accepted:
  assumes "parse_args p argv = Inr st" "exclusive_flags p"
  shows "exclusive p st \<and> (\<forall>spec\<in>set (ps_options p). op_required spec \<longrightarrow> flag_given (op_string spec) st) \<and>
    (ps_positional p \<noteq> None \<longrightarrow> an_positional st \<noteq> None) \<and> \<not> an_extras st"
proof -
  obtain ts where ts: "tokens (help_options @ ps_options p) argv = Some ts" "consume p ts no_arguments = Inr st"
    using assms(1) by (auto simp: parse_args_def split: option.splits sum.splits if_splits)
  have "exclusive p no_arguments" by (simp add: exclusive_def flag_given_def no_arguments_def)
  moreover have "flag_token p t" if "t \<in> set ts" for t
    using tokens_option [OF ts(1), of "case t of Opt spec _ \<Rightarrow> spec" "case t of Opt _ e \<Rightarrow> e"] that assms(2)
    by (cases t) (auto simp: help_options_def exclusive_flags_def list_all_iff)
  ultimately have "exclusive p st" using consume_exclusive [OF ts(2)] by (simp add: list_all_iff)
  with assms(1) ts show ?thesis
    by (auto simp: parse_args_def list_all_iff flag_given_def awaits_positional_def split: if_splits)
qed

end
