(* ===== verification/Command_Lines.thy ===== *)
theory Command_Lines
  imports Argparse Assurance Requirement_Check Assistant_Eval Provenance Timing_Evidence
begin

text \<open>
  The command lines of the tools: the parser that each builds with \<open>argparse\<close>, and the record of arguments
  its \<open>main\<close> works with. \<open>repo\<close> is \<open>REPO_ROOT\<close>, a path is its text, and \<open>float_value\<close> is Python's
  \<open>float\<close> on a text. The tools start each other with command lines of their own: the theorems show that
  these are parsed as they were meant.
\<close>

section \<open>Link tools\<close>

definition send_parser :: arg_parser where
  "send_parser = options_only [store ''--host'' any_text, store ''--port'' int_text, store ''--sequence'' int_text,
     store ''--timestamp-ms'' int_text, required (store ''--command'' (\<lambda>s. s \<in> set (dict_keys COMMANDS))),
     store ''--argument'' any_text]"

definition send_arguments :: "string list \<Rightarrow> int + send_args" where
  "send_arguments argv = map_sum id (\<lambda>st.
     \<lparr>arg_host = value_or ''127.0.0.1'' ''--host'' st, arg_port = int_or 6000 ''--port'' st,
      arg_sequence = int_or 1 ''--sequence'' st, arg_timestamp_ms = int_value ''--timestamp-ms'' st,
      arg_command = value_or '''' ''--command'' st, arg_argument = value_given ''--argument'' st\<rparr>)
     (parse_args send_parser argv)"

definition receiver_parser :: arg_parser where
  "receiver_parser = options_only [store ''--host'' any_text, store ''--port'' int_text]"

definition receiver_arguments :: "string list \<Rightarrow> int + (string \<times> int)" where
  "receiver_arguments argv = map_sum id (\<lambda>st. (value_or ''0.0.0.0'' ''--host'' st, int_or 5005 ''--port'' st))
     (parse_args receiver_parser argv)"

definition dashboard_parser :: arg_parser where
  "dashboard_parser = options_only [store ''--host'' any_text, store ''--port'' int_text]"

definition dashboard_arguments :: "string list \<Rightarrow> int + (string \<times> int)" where
  "dashboard_arguments argv = map_sum id (\<lambda>st. (value_or ''0.0.0.0'' ''--host'' st, int_or 5005 ''--port'' st))
     (parse_args dashboard_parser argv)"

definition corpus_arguments :: "string \<Rightarrow> string list \<Rightarrow> int + string" where
  "corpus_arguments repo argv = map_sum id (value_or (repo @ ''/build-fuzz/command-corpus'') ''--output'')
     (parse_args (options_only [store ''--output'' any_text]) argv)"

section \<open>Scenarios and campaigns\<close>

record scenario_args =
  sa_scenario :: string
  sa_host :: string
  sa_expect_timeout :: rat
  sa_build_dir :: string

definition scenario_parser :: "(string \<Rightarrow> rat option) \<Rightarrow> arg_parser" where
  "scenario_parser float_value = (options_only [store ''--host'' any_text,
     store ''--expect-timeout'' (\<lambda>s. float_value s \<noteq> None), store ''--build-dir'' any_text])\<lparr>ps_positional := Some any_text\<rparr>"

definition scenario_arguments :: "(string \<Rightarrow> rat option) \<Rightarrow> string list \<Rightarrow> int + scenario_args" where
  "scenario_arguments float_value argv = map_sum id (\<lambda>st.
     \<lparr>sa_scenario = the (an_positional st), sa_host = value_or ''127.0.0.1'' ''--host'' st,
      sa_expect_timeout = (case Option.bind (value_given ''--expect-timeout'' st) float_value of None \<Rightarrow> 5 / 2 | Some r \<Rightarrow> r),
      sa_build_dir = value_or ''build'' ''--build-dir'' st\<rparr>)
     (parse_args (scenario_parser float_value) argv)"

definition fdir_parser :: arg_parser where
  "fdir_parser = options_only [store ''--build-dir'' any_text, store ''--output'' any_text]"

definition fdir_arguments :: "string \<Rightarrow> string list \<Rightarrow> int + (string \<times> string)" where
  "fdir_arguments repo argv = map_sum id (\<lambda>st.
     (value_or ''build'' ''--build-dir'' st, value_or (repo @ ''/reports/fdir_campaign_report.md'') ''--output'' st))
     (parse_args fdir_parser argv)"

definition hil_arguments :: "string list \<Rightarrow> int + string" where
  "hil_arguments argv = map_sum id (value_or ''build'' ''--build-dir'') (parse_args (options_only [store ''--build-dir'' any_text]) argv)"

text \<open>The default seed is the time in seconds.\<close>

definition monte_parser :: "(string \<Rightarrow> rat option) \<Rightarrow> arg_parser" where
  "monte_parser float_value = options_only [store ''--trials'' int_text, store ''--seed'' int_text, store ''--output'' any_text,
     store ''--build-dir'' any_text, store ''--trial-timeout-s'' (\<lambda>s. float_value s \<noteq> None)]"

definition monte_arguments :: "(string \<Rightarrow> rat option) \<Rightarrow> int \<Rightarrow> string list \<Rightarrow> int + (monte_args \<times> string)" where
  "monte_arguments float_value now_s argv = map_sum id (\<lambda>st.
     (\<lparr>ma_trials = int_or 25 ''--trials'' st, ma_seed = int_or now_s ''--seed'' st,
       ma_output = value_or ''reports/monte_carlo_report.md'' ''--output'' st,
       ma_trial_timeout_s = (case Option.bind (value_given ''--trial-timeout-s'' st) float_value of None \<Rightarrow> 45 | Some r \<Rightarrow> r)\<rparr>,
      value_or ''build'' ''--build-dir'' st))
     (parse_args (monte_parser float_value) argv)"

definition all_parser :: arg_parser where
  "all_parser = options_only [store ''--build-dir'' any_text, store_true ''--skip-build'', store_true ''--skip-requirements'',
     store_true ''--skip-protocol-check'', store_true ''--skip-fdir-campaign'', store_true ''--skip-assistant-eval'',
     store_true ''--skip-monte-carlo'', store_true ''--skip-pi-package'', store ''--monte-carlo-trials'' int_text,
     store ''--monte-carlo-seed'' int_text, store ''--pattern'' any_text]"

definition all_arguments :: "string list \<Rightarrow> int + all_args" where
  "all_arguments argv = map_sum id (\<lambda>st.
     \<lparr>aa_build_dir = value_or ''build'' ''--build-dir'' st, aa_skip_build = flag_given ''--skip-build'' st,
      aa_skip_requirements = flag_given ''--skip-requirements'' st, aa_skip_protocol_check = flag_given ''--skip-protocol-check'' st,
      aa_skip_fdir_campaign = flag_given ''--skip-fdir-campaign'' st, aa_skip_assistant_eval = flag_given ''--skip-assistant-eval'' st,
      aa_skip_monte_carlo = flag_given ''--skip-monte-carlo'' st, aa_skip_pi_package = flag_given ''--skip-pi-package'' st,
      aa_monte_carlo_trials = int_or 25 ''--monte-carlo-trials'' st, aa_monte_carlo_seed = int_or 20260626 ''--monte-carlo-seed'' st,
      aa_pattern = value_given ''--pattern'' st\<rparr>)
     (parse_args all_parser argv)"

definition assurance_parser :: arg_parser where
  "assurance_parser = options_only [store_true ''--quick'', store ''--build-dir'' any_text, store_true ''--skip-monte-carlo'',
     store_true ''--skip-pi-package'']"

definition assurance_arguments :: "string list \<Rightarrow> int + assurance_args" where
  "assurance_arguments argv = map_sum id (\<lambda>st.
     \<lparr>as_quick = flag_given ''--quick'' st, as_build_dir = value_or ''build'' ''--build-dir'' st,
      as_skip_monte_carlo = flag_given ''--skip-monte-carlo'' st, as_skip_pi_package = flag_given ''--skip-pi-package'' st\<rparr>)
     (parse_args assurance_parser argv)"

definition mutation_arguments :: "string list \<Rightarrow> int + bool" where
  "mutation_arguments argv = map_sum id (flag_given ''--keep-workdir'') (parse_args (options_only [store_true ''--keep-workdir'']) argv)"

section \<open>Checks of evidence\<close>

definition timing_parser :: arg_parser where
  "timing_parser = \<lparr>ps_options = [store_true ''--expect-misses'', store_true ''--expect-no-misses''],
     ps_positional = Some any_text, ps_exclusive = [''--expect-misses'', ''--expect-no-misses'']\<rparr>"

definition timing_arguments :: "string list \<Rightarrow> int + timing_args" where
  "timing_arguments argv = map_sum id (\<lambda>st.
     \<lparr>ta_evidence = the (an_positional st), ta_expect_misses = flag_given ''--expect-misses'' st,
      ta_expect_no_misses = flag_given ''--expect-no-misses'' st\<rparr>)
     (parse_args timing_parser argv)"

definition check_parser :: arg_parser where
  "check_parser = options_only (map (\<lambda>name. store name any_text)
     [''--requirements'', ''--matrix'', ''--scenarios'', ''--cmake'', ''--traceability-baseline'', ''--output''])"

definition check_arguments :: "string \<Rightarrow> string list \<Rightarrow> int + check_args" where
  "check_arguments repo argv = map_sum id (\<lambda>st.
     \<lparr>ca_requirements = value_or (repo @ ''/docs/REQUIREMENTS.md'') ''--requirements'' st,
      ca_matrix = value_or (repo @ ''/docs/VERIFICATION_MATRIX.csv'') ''--matrix'' st,
      ca_scenarios = value_or (repo @ ''/scenarios'') ''--scenarios'' st,
      ca_cmake = value_or (repo @ ''/CMakeLists.txt'') ''--cmake'' st,
      ca_traceability_baseline = value_or (repo @ ''/config/traceability_baseline.json'') ''--traceability-baseline'' st,
      ca_output = value_or ''reports/requirement_check_report.md'' ''--output'' st\<rparr>)
     (parse_args check_parser argv)"

definition update_arguments :: "string \<Rightarrow> string list \<Rightarrow> int + (string \<times> string)" where
  "update_arguments repo argv = map_sum id (\<lambda>st.
     (value_or (repo @ ''/docs/REQUIREMENTS.md'') ''--requirements'' st,
      value_or (repo @ ''/config/traceability_baseline.json'') ''--output'' st))
     (parse_args (options_only [store ''--requirements'' any_text, store ''--output'' any_text]) argv)"

definition protocol_arguments :: "string \<Rightarrow> string list \<Rightarrow> int + (string \<times> string)" where
  "protocol_arguments repo argv = map_sum id (\<lambda>st.
     (value_or (repo @ ''/config/protocol_manifest.json'') ''--manifest'' st,
      value_or (repo @ ''/reports/latest/protocol_conformance.json'') ''--report'' st))
     (parse_args (options_only [store ''--manifest'' any_text, store ''--report'' any_text]) argv)"

record lcov_args =
  la_tracefile :: string
  la_csv_path :: string
  la_json_path :: string
  la_markdown_path :: string

definition lcov_parser :: arg_parser where
  "lcov_parser = (options_only (map (\<lambda>name. required (store name any_text)) [''--csv'', ''--json'', ''--markdown'']))
     \<lparr>ps_positional := Some any_text\<rparr>"

definition lcov_arguments :: "string list \<Rightarrow> int + lcov_args" where
  "lcov_arguments argv = map_sum id (\<lambda>st.
     \<lparr>la_tracefile = the (an_positional st), la_csv_path = value_or '''' ''--csv'' st, la_json_path = value_or '''' ''--json'' st,
      la_markdown_path = value_or '''' ''--markdown'' st\<rparr>)
     (parse_args lcov_parser argv)"

definition verification_status :: "string \<Rightarrow> bool" where
  "verification_status s \<longleftrightarrow> s \<in> {''passed'', ''failed'', ''not-run''}"

definition manifest_parser :: arg_parser where
  "manifest_parser = options_only [store ''--output'' any_text,
     store ''--verification-status'' verification_status, append_option ''--test-command'',
     store ''--note'' any_text, store ''--build-type'' any_text, store_true ''--warnings-as-errors'',
     store_true ''--sanitizers-enabled'', store_true ''--coverage-enabled'']"

definition manifest_arguments :: "string \<Rightarrow> string list \<Rightarrow> int + manifest_args" where
  "manifest_arguments repo argv = map_sum id (\<lambda>st.
     \<lparr>mf_output = value_or (repo @ ''/reports/latest/baseline_manifest.json'') ''--output'' st,
      mf_verification_status = value_or ''not-run'' ''--verification-status'' st,
      mf_test_command = values_given ''--test-command'' st, mf_note = value_or '''' ''--note'' st,
      mf_build_type = value_or ''unknown'' ''--build-type'' st, mf_warnings_as_errors = flag_given ''--warnings-as-errors'' st,
      mf_sanitizers_enabled = flag_given ''--sanitizers-enabled'' st, mf_coverage_enabled = flag_given ''--coverage-enabled'' st\<rparr>)
     (parse_args manifest_parser argv)"

record assistant_args =
  aq_request :: string
  aq_policy :: string
  aq_audit_log :: string
  aq_execute :: bool

definition assistant_parser :: arg_parser where
  "assistant_parser = options_only [required (store ''--request'' any_text), store ''--policy'' any_text,
     store ''--audit-log'' any_text, store_true ''--execute'']"

definition assistant_arguments :: "string \<Rightarrow> string list \<Rightarrow> int + assistant_args" where
  "assistant_arguments repo argv = map_sum id (\<lambda>st.
     \<lparr>aq_request = value_or '''' ''--request'' st,
      aq_policy = value_or (repo @ ''/config/assurance_assistant_policy.json'') ''--policy'' st,
      aq_audit_log = value_or (repo @ ''/reports/latest/assurance_assistant_audit.jsonl'') ''--audit-log'' st,
      aq_execute = flag_given ''--execute'' st\<rparr>)
     (parse_args assistant_parser argv)"

definition eval_parser :: arg_parser where
  "eval_parser = options_only (map (\<lambda>name. store name any_text) [''--policy'', ''--evaluation'', ''--json'', ''--markdown''])"

definition eval_arguments :: "string \<Rightarrow> string list \<Rightarrow> int + eval_args" where
  "eval_arguments repo argv = map_sum id (\<lambda>st.
     \<lparr>ea_policy = value_or (repo @ ''/config/assurance_assistant_policy.json'') ''--policy'' st,
      ea_evaluation = value_or (repo @ ''/config/assurance_assistant_eval.json'') ''--evaluation'' st,
      ea_json_output = value_or (repo @ ''/reports/assurance_assistant_eval.json'') ''--json'' st,
      ea_markdown_output = value_or (repo @ ''/reports/assurance_assistant_eval.md'') ''--markdown'' st\<rparr>)
     (parse_args eval_parser argv)"

definition generator_arguments :: "string \<Rightarrow> string list \<Rightarrow> int + string" where
  "generator_arguments repo argv = map_sum id (value_or (repo @ ''/config/assurance_assistant_eval.json'') ''--output'')
     (parse_args (options_only [store ''--output'' any_text]) argv)"

text \<open>The validator never sees both expectations, and the tracefile and the outputs of the summary are there.\<close>

lemma timing_expectation_exclusive:
  assumes "timing_arguments argv = Inr args"
  shows "\<not> (ta_expect_misses args \<and> ta_expect_no_misses args)"
proof -
  obtain st where st: "parse_args timing_parser argv = Inr st" and args: "ta_expect_misses args = flag_given ''--expect-misses'' st"
      "ta_expect_no_misses args = flag_given ''--expect-no-misses'' st"
    using assms by (auto simp: timing_arguments_def map_sum_def split: sum.splits)
  have "exclusive timing_parser st"
    using parse_args_accepted [OF st] by (simp add: exclusive_flags_def timing_parser_def)
  from this [unfolded exclusive_def, rule_format, of "''--expect-misses''" "''--expect-no-misses''"]
  have "\<not> (flag_given ''--expect-misses'' st \<and> flag_given ''--expect-no-misses'' st)" by (auto simp: timing_parser_def)
  with args show ?thesis by auto
qed

section \<open>How the tools start each other\<close>

lemmas parser_simps = parse_args_def options_only_def store_def required_def store_true_def append_option_def help_options_def
  any_text_def no_arguments_def awaits_positional_def give_value_def give_def give_flag_def give_positional_def skip_dashes_def
  value_or_def value_given_def values_given_def flag_given_def int_or_def int_value_def classify_dash not_option_not_dashes

text \<open>\<open>run_scenario.py\<close> starts \<open>send_command.py\<close> with this command line.\<close>

definition send_command_line :: "string \<Rightarrow> int \<Rightarrow> int \<Rightarrow> string \<Rightarrow> string option \<Rightarrow> int option \<Rightarrow> string list" where
  "send_command_line host port sequence command argument timestamp_ms =
     [''--host'', host, ''--port'', str_int port, ''--sequence'', str_int sequence, ''--command'', command] @
     (case argument of None \<Rightarrow> [] | Some a \<Rightarrow> [''--argument'', a]) @
     (case timestamp_ms of None \<Rightarrow> [] | Some t \<Rightarrow> [''--timestamp-ms'', str_int t])"

lemma scenario_command_parsed:
  assumes "not_option scenario" "not_option build_dir"
  shows "scenario_arguments float_value (drop 2 (scenario_command python repo build_dir scenario)) =
    Inr \<lparr>sa_scenario = scenario, sa_host = ''127.0.0.1'', sa_expect_timeout = 5 / 2, sa_build_dir = build_dir\<rparr>"
  using assms by (simp add: scenario_command_def scenario_arguments_def scenario_parser_def parser_simps)

lemma named_send: "named_options (help_options @ ps_options send_parser)"
  by (simp add: named_options_def send_parser_def parser_simps digit_val_def)

lemma send_command_line_parsed:
  assumes "not_option host" "command \<in> set (dict_keys COMMANDS)" "argument = None \<or> not_option (the argument)"
  shows "send_arguments (send_command_line host port sequence command argument timestamp_ms) =
    Inr \<lparr>arg_host = host, arg_port = port, arg_sequence = sequence, arg_timestamp_ms = timestamp_ms, arg_command = command,
      arg_argument = argument\<rparr>"
proof -
  have command: "not_option command" using assms(2) by (auto simp: COMMANDS_def)
  note numbers = classify_str_int [OF named_send]
  from assms command numbers show ?thesis
    by (cases argument; cases timestamp_ms)
      (simp_all add: send_command_line_def send_arguments_def send_parser_def parser_simps py_int_str_int)
qed

text \<open>What \<open>child_args\<close> states of the child process is what its parser does, as far as success and the arguments go.\<close>

lemma child_arguments:
  assumes "not_option host" "command \<in> set (dict_keys COMMANDS)" "argument = None \<or> not_option (the argument)"
  shows "map_sum (\<lambda>_. ()) id (child_args host port sequence command argument timestamp_ms) =
    map_sum (\<lambda>_. ()) id (send_arguments (send_command_line host port sequence command argument timestamp_ms))"
  unfolding send_command_line_parsed [OF assms] using assms(2)
  by (cases timestamp_ms) (simp_all add: child_args_def py_int_str_int)

lemma fdir_command_parsed:
  "not_option build_dir \<Longrightarrow> fdir_arguments repo [''--build-dir'', build_dir] = Inr (build_dir, repo @ ''/reports/fdir_campaign_report.md'')"
  by (simp add: fdir_arguments_def fdir_parser_def parser_simps)

lemma named_monte: "named_options (help_options @ ps_options (monte_parser float_value))"
  by (simp add: named_options_def monte_parser_def parser_simps digit_val_def)

lemma monte_command_parsed:
  assumes "not_option build_dir"
  shows "monte_arguments float_value now_s [''--trials'', str_int trials, ''--seed'', str_int seed, ''--build-dir'', build_dir] =
    Inr (\<lparr>ma_trials = trials, ma_seed = seed, ma_output = ''reports/monte_carlo_report.md'', ma_trial_timeout_s = 45\<rparr>, build_dir)"
  using assms classify_str_int [OF named_monte]
  by (simp add: monte_arguments_def monte_parser_def parser_simps py_int_str_int)

lemma full_verification_parsed:
  assumes "not_option (as_build_dir args)"
  shows "all_arguments (drop 2 (full_verification_command h args)) =
    Inr \<lparr>aa_build_dir = as_build_dir args, aa_skip_build = False, aa_skip_requirements = False, aa_skip_protocol_check = False,
      aa_skip_fdir_campaign = False, aa_skip_assistant_eval = False, aa_skip_monte_carlo = as_skip_monte_carlo args,
      aa_skip_pi_package = as_skip_pi_package args, aa_monte_carlo_trials = 25, aa_monte_carlo_seed = 20260626, aa_pattern = None\<rparr>"
  using assms by (simp add: full_verification_command_def all_arguments_def all_parser_def parser_simps)

lemma ps_exclusive_manifest: "ps_exclusive manifest_parser = []" and ps_positional_manifest: "ps_positional manifest_parser = None"
  and ps_options_manifest: "\<forall>spec\<in>set (ps_options manifest_parser). \<not> op_required spec"
  by (simp_all add: manifest_parser_def options_only_def)

lemma manifest_command_parsed:
  assumes "not_option (h_repo h)" "status \<in> {''passed'', ''failed'', ''not-run''}"
    and "list_all (\<lambda>c. not_option (join '' '' c)) commands"
  shows "manifest_arguments repo (drop 2 (manifest_command h status commands sanitizers)) =
    Inr \<lparr>mf_output = h_repo h @ ''/reports/latest/baseline_manifest.json'', mf_verification_status = status,
      mf_test_command = map (join '' '') commands, mf_note = ''Generated by tools/run_astra_os_assurance.py.'',
      mf_build_type = ''Debug'', mf_warnings_as_errors = True, mf_sanitizers_enabled = sanitizers, mf_coverage_enabled = False\<rparr>"
proof -
  define vs where "vs = map (join '' '') commands"
  define tests where "tests = concat (map (\<lambda>v. [''--test-command'', v]) vs)"
  let ?specs = "help_options @ ps_options manifest_parser"
  have status: "not_option status" "verification_status status" using assms(2) by (auto simp: verification_status_def)
  have line: "drop 2 (manifest_command h status commands sanitizers) =
      [''--output'', h_repo h @ ''/reports/latest/baseline_manifest.json'', ''--verification-status'', status,
       ''--build-type'', ''Debug'', ''--warnings-as-errors'', ''--note'', ''Generated by tools/run_astra_os_assurance.py.''] @
      (if sanitizers then [''--sanitizers-enabled''] else []) @ tests"
    by (simp add: manifest_command_def tests_def vs_def comp_def)
  have name: "classify ?specs ''--test-command'' = Some (Opt (append_option ''--test-command'') Nothing)"
    by (simp add: manifest_parser_def parser_simps)
  have tests: "tokens ?specs tests = Some (concat (map (\<lambda>v. [Opt (append_option ''--test-command'') Nothing, ArgText v]) vs))"
    unfolding tests_def using assms(3) by (intro tokens_repeated [OF name]) (simp_all add: list_all_iff vs_def)
  have taken: "consume manifest_parser (concat (map (\<lambda>v. [Opt (append_option ''--test-command'') Nothing, ArgText v]) vs)) st =
      Inr (st\<lparr>an_given := an_given st @ map (\<lambda>v. (''--test-command'', Some v)) vs\<rparr>)" for st
    by (subst consume_repeated) (simp_all add: append_option_def store_def)
  have parsed: "tokens ?specs (drop 2 (manifest_command h status commands sanitizers)) = Some
      ([Opt (store ''--output'' any_text) Nothing, ArgText (h_repo h @ ''/reports/latest/baseline_manifest.json''),
        Opt (store ''--verification-status'' verification_status) Nothing, ArgText status,
        Opt (store ''--build-type'' any_text) Nothing, ArgText ''Debug'', Opt (store_true ''--warnings-as-errors'') Nothing,
        Opt (store ''--note'' any_text) Nothing, ArgText ''Generated by tools/run_astra_os_assurance.py.''] @
       (if sanitizers then [Opt (store_true ''--sanitizers-enabled'') Nothing] else []) @
       concat (map (\<lambda>v. [Opt (append_option ''--test-command'') Nothing, ArgText v]) vs))"
    using assms(1) status(1) tests unfolding line
    by (simp add: manifest_parser_def options_only_def classify_dash not_option_not_dashes help_options_def)
  have "parse_args manifest_parser (drop 2 (manifest_command h status commands sanitizers)) =
      Inr \<lparr>an_given = [(''--output'', Some (h_repo h @ ''/reports/latest/baseline_manifest.json'')),
        (''--verification-status'', Some status), (''--build-type'', Some ''Debug''), (''--warnings-as-errors'', None),
        (''--note'', Some ''Generated by tools/run_astra_os_assurance.py.'')] @
        (if sanitizers then [(''--sanitizers-enabled'', None)] else []) @
        map (\<lambda>v. (''--test-command'', Some v)) vs, an_positional = None, an_extras = False\<rparr>"
    unfolding parse_args_def parsed using status(2)
    by (simp add: give_value_def give_flag_def give_def no_arguments_def any_text_def taken [unfolded any_text_def] awaits_positional_def
        ps_exclusive_manifest ps_positional_manifest ps_options_manifest list_all_iff)
  then show ?thesis
    by (auto simp: vs_def manifest_arguments_def value_or_def value_given_def values_given_def flag_given_def comp_def)
qed

lemma default_command_lines:
  "check_arguments repo [] = Inr \<lparr>ca_requirements = repo @ ''/docs/REQUIREMENTS.md'', ca_matrix = repo @ ''/docs/VERIFICATION_MATRIX.csv'',
     ca_scenarios = repo @ ''/scenarios'', ca_cmake = repo @ ''/CMakeLists.txt'',
     ca_traceability_baseline = repo @ ''/config/traceability_baseline.json'', ca_output = ''reports/requirement_check_report.md''\<rparr>"
  "protocol_arguments repo [] = Inr (repo @ ''/config/protocol_manifest.json'', repo @ ''/reports/latest/protocol_conformance.json'')"
  "eval_arguments repo [] = Inr \<lparr>ea_policy = repo @ ''/config/assurance_assistant_policy.json'',
     ea_evaluation = repo @ ''/config/assurance_assistant_eval.json'', ea_json_output = repo @ ''/reports/assurance_assistant_eval.json'',
     ea_markdown_output = repo @ ''/reports/assurance_assistant_eval.md''\<rparr>"
  "mutation_arguments [] = Inr False"
  by (simp_all add: check_arguments_def check_parser_def protocol_arguments_def eval_arguments_def eval_parser_def mutation_arguments_def
      parser_simps)

text \<open>Whether the tool that a command of \<open>run_all_scenarios.py\<close> starts works with the arguments meant for it.\<close>

definition as_intended :: "(string \<Rightarrow> rat option) \<Rightarrow> int \<Rightarrow> string \<Rightarrow> all_args \<Rightarrow> string list \<Rightarrow> bool" where
  "as_intended float_value now_s repo args command \<longleftrightarrow>
     (let tool = drop (length repo) (command ! 1); argv = drop 2 command in
      if tool = ''/tools/run_scenario.py'' then scenario_arguments float_value argv =
        Inr \<lparr>sa_scenario = command ! 2, sa_host = ''127.0.0.1'', sa_expect_timeout = 5 / 2, sa_build_dir = aa_build_dir args\<rparr>
      else if tool = ''/tools/run_fdir_campaign.py'' then
        fdir_arguments repo argv = Inr (aa_build_dir args, repo @ ''/reports/fdir_campaign_report.md'')
      else if tool = ''/tools/run_monte_carlo.py'' then monte_arguments float_value now_s argv =
        Inr (\<lparr>ma_trials = aa_monte_carlo_trials args, ma_seed = aa_monte_carlo_seed args,
          ma_output = ''reports/monte_carlo_report.md'', ma_trial_timeout_s = 45\<rparr>, aa_build_dir args)
      else if tool = ''/tools/check_protocol_conformance.py'' then protocol_arguments repo argv = protocol_arguments repo []
      else if tool = ''/tools/check_requirements.py'' then check_arguments repo argv = check_arguments repo []
      else if tool = ''/tools/run_assurance_assistant_eval.py'' then eval_arguments repo argv = eval_arguments repo []
      else hd command = ''bash'')"

lemma planned_as_intended:
  assumes "not_option (aa_build_dir args)" "list_all not_option (scenario_files glob (aa_pattern args))"
  shows "list_all (as_intended float_value now_s repo args) (planned_commands python repo glob args)"
proof -
  have "as_intended float_value now_s repo args (scenario_command python repo (aa_build_dir args) f)" if "not_option f" for f
    using scenario_command_parsed [OF that assms(1)] by (simp add: as_intended_def scenario_command_def)
  moreover have "as_intended float_value now_s repo args [''bash'', repo @ ''/ci/run_local_tests.sh'']"
    by (simp add: as_intended_def)
  moreover have "list_all (as_intended float_value now_s repo args) (map fst (later_stages python repo args))"
    using fdir_command_parsed [OF assms(1)] monte_command_parsed [OF assms(1)]
    by (simp add: later_stages_def unless_def as_intended_def)
  ultimately show ?thesis using assms(2) by (auto simp: planned_commands_def unless_def list_all_iff)
qed

text \<open>C25: The tools understand each other's command lines. When the build directory of \<open>run_astra_os_assurance.py\<close>
  does not start with a minus sign, \<open>run_all_scenarios.py\<close> parses the command line composed for it to that build
  directory, the two forwarded flags, and the defaults otherwise; and each tool that it starts in turn, for
  scenario files that do not start with a minus sign, parses its own command line to the arguments meant
  for it: the scenario and the build directory, the number of trials and the seed, or the defaults. None
  of them exits with a usage error.\<close>

theorem command_lines_understood:
  assumes "not_option (as_build_dir args)" and "list_all not_option (scenario_files glob None)"
  shows "\<exists>aa. all_arguments (drop 2 (full_verification_command h args)) = Inr aa \<and>
    aa_build_dir aa = as_build_dir args \<and> aa_skip_monte_carlo aa = as_skip_monte_carlo args \<and>
    aa_skip_pi_package aa = as_skip_pi_package args \<and> \<not> aa_skip_build aa \<and> aa_pattern aa = None \<and>
    aa_monte_carlo_trials aa = 25 \<and> aa_monte_carlo_seed aa = 20260626 \<and>
    list_all (as_intended float_value now_s (h_repo h) aa) (planned_commands (h_executable h) (h_repo h) glob aa)"
  unfolding full_verification_parsed [OF assms(1)] sum.inject
  using planned_as_intended [where args = "\<lparr>aa_build_dir = as_build_dir args, aa_skip_build = False, aa_skip_requirements = False,
    aa_skip_protocol_check = False, aa_skip_fdir_campaign = False, aa_skip_assistant_eval = False,
    aa_skip_monte_carlo = as_skip_monte_carlo args, aa_skip_pi_package = as_skip_pi_package args,
    aa_monte_carlo_trials = 25, aa_monte_carlo_seed = 20260626, aa_pattern = None\<rparr>"] assms
  by simp

definition sample_host :: "unit host" where
  "sample_host = \<lparr>h_exec = (\<lambda>_ _ w. (Inr 0, w)), h_write = (\<lambda>_ w. (Inr (), w)), h_utc_now = (\<lambda>_. ''now''), h_environ = [], h_executable = ''python3'', h_repo = ''/astra''\<rparr>"

theorem command_lines_understood_witness:
  "\<exists>aa. all_arguments (drop 2 (full_verification_command sample_host
       \<lparr>as_quick = False, as_build_dir = ''out'', as_skip_monte_carlo = True, as_skip_pi_package = False\<rparr>)) = Inr aa \<and>
     aa_build_dir aa = ''out'' \<and> aa_skip_monte_carlo aa \<and>
     list_all (as_intended (\<lambda>_. None) 0 ''/astra'' aa) (planned_commands ''python3'' ''/astra'' (\<lambda>_. [''/astra/scenarios/a.yaml'']) aa)"
  using command_lines_understood [of "\<lparr>as_quick = False, as_build_dir = ''out'', as_skip_monte_carlo = True, as_skip_pi_package = False\<rparr>"
      "\<lambda>_. [''/astra/scenarios/a.yaml'']" sample_host "\<lambda>_. None" 0]
  by (auto simp: scenario_files_def sample_host_def)

end
