(* ===== verification/Spec2Isabelle.thy ===== *)
theory Spec2Isabelle
  imports Campaign_Flight Assurance Controlled_Mutation Requirement_Check Lcov Assistant_Eval Provenance Protocol_Check
    Configuration Timing_Campaign Ground_Loops Results_Plots Command_Lines
begin

text \<open>
  AstraSim-FSW is a flight software simulation: a C++ flight core (\<open>src/fsw\<close>) that decodes commands,
  keeps a mode, detects and answers faults and emits telemetry over UDP, and Python ground tools
  (\<open>src/tools\<close>) that send commands, decode telemetry, run test scenarios and campaigns against the core,
  and check the evidence they leave. This development models both sides and the way they meet.

  \<^bold>\<open>Foundations.\<close> \<open>Prelude\<close>: exceptions as values, dictionaries. \<open>Py_Strings\<close>, \<open>Py_Text\<close>: the string operations
  the tools call. \<open>Json\<close>: parsed JSON and YAML values with Python's type tests, and the locale
  \<open>problem_checker\<close>. \<open>Step_System\<close>: a component as a step function, runs over a list of inputs, and the
  locales \<open>invariant_system\<close> and \<open>latching_system\<close> that carry what one step promises to all runs.
  \<open>Wire\<close>, \<open>Cpp_Bytes\<close>: \<open>struct\<close> packing, the append and read helpers, and CRC-16-CCITT as both sides
  write it, proved equal. \<open>Cpp_Numbers\<close>: the conversions \<open>std::stoi\<close>, \<open>std::stoul\<close> and \<open>std::stoull\<close>. \<open>Frames\<close>: the locale \<open>crc_frame\<close> of a decoder guarded by a CRC, with the error
  bursts such a decoder detects.

  \<^bold>\<open>The link.\<close> \<open>Command_Link\<close>: \<open>send_command.py\<close>, \<open>command_packet.cpp\<close>, the seeds of the fuzz corpus.
  The flight decoder accepts exactly what the sender builds; corrupted frames are rejected, with the
  straddling burst that is not; arguments are truncated. \<open>Telemetry_Link\<close>: \<open>telemetry_packet.cpp\<close>,
  \<open>telemetry_receiver.py\<close>, \<open>telemetry_dashboard.py\<close>: round trip and what is shown. \<open>Ground_Loops\<close>: the
  receive loops and the corpus generator as whole programs.

  \<^bold>\<open>The flight core.\<close> \<open>Flight_Types\<close>: the enumerations. \<open>Flight_Modes\<close>: \<open>mode_manager.cpp\<close>,
  \<open>fdir_manager.cpp\<close>, \<open>recovery_supervisor.cpp\<close>. \<open>Command_Guard\<close>: \<open>ground_command_guard.cpp\<close> and
  \<open>command_authorizer.cpp\<close>; accepted commands are fresh and never replayed. \<open>Event_Log\<close>:
  \<open>event_logger.cpp\<close>, a ring that refines the last entries of a list. \<open>Flight_App\<close>:
  \<open>command_processor.cpp\<close>, \<open>health_monitor.cpp\<close>, \<open>watchdog.cpp\<close> and \<open>flight_software_app.cpp\<close>; one step handles
  a detected fault, ignores rejected commands and leaves SAFE only on command. \<open>Flight_Runs\<close>: invariants
  of all runs, and the loop of \<open>command_telemetry_demo.cpp\<close> that joins application and link.
  \<open>Demo_Program\<close>: that program as a whole, from its command line to its log and exit status, and the
  demonstrations \<open>telemetry_demo.cpp\<close> and \<open>main.cpp\<close>; it completes after the loops asked for, except with the
  largest loop count, where it never does.
  \<open>Nominal_Flight\<close>: steps without disturbance. \<open>Rate_Groups\<close>: \<open>rate_group_scheduler.cpp\<close>, releases exactly
  at due ticks, every release accounted for. \<open>Executive\<close>: \<open>flight_software_executive.cpp\<close>, a refinement of
  the application. \<open>Configuration\<close>: \<open>configuration_service.cpp\<close>, whose active configuration always
  builds a valid executive. \<open>Timing_Campaign\<close>: \<open>timing_campaign.cpp\<close> on top of the executive, up to the
  verdict of the validator on its report.

  \<^bold>\<open>Scenarios and campaigns.\<close> \<open>Scenario_Runner\<close>: \<open>run_scenario.py\<close>, with what a wait examines
  and what a pass shows for each type of expectation. \<open>Campaigns\<close>: \<open>run_fdir_campaign.py\<close>,
  \<open>run_monte_carlo.py\<close>, \<open>run_hil_smoke_test.py\<close>. \<open>Campaign_Flight\<close>: the scenarios of the FDIR campaign pass
  on the modelled flight core. \<open>Verification_Runner\<close>: \<open>run_all_scenarios.py\<close>, with the locale \<open>fail_fast\<close>
  of loops that stop at the first failure. \<open>Assurance\<close>:
  \<open>run_astra_os_assurance.py\<close>, where any exception may leave a stage, a write or the manifest; only
  \<open>OSError\<close> and \<open>KeyboardInterrupt\<close> of a stage are handled. \<open>Controlled_Mutation\<close>: \<open>run_controlled_mutation.py\<close>.

  \<^bold>\<open>Command lines.\<close> \<open>Argparse\<close>: what the tools use of Python's \<open>argparse\<close> (as in CPython 3.11), from the
  classification of the texts to the exit status; accepted command lines have their required arguments and at most one
  of a group of exclusive flags. \<open>Command_Lines\<close>: the parser of each tool and its record of arguments, and that the
  tools parse the command lines they compose for each other to the arguments meant.

  \<^bold>\<open>Checks of evidence.\<close> \<open>Timing_Evidence\<close>: \<open>validate_timing_evidence.py\<close>. \<open>Repo_State\<close>:
  \<open>repository_state.py\<close>, \<open>check_source_cleanliness.py\<close>. \<open>Csv\<close>, \<open>Requirements\<close>, \<open>Baseline\<close>, \<open>Requirement_Check\<close>:
  \<open>check_requirements.py\<close>, \<open>traceability_baseline.py\<close>, \<open>update_traceability_baseline.py\<close>; exit status 0
  exactly for traceable documents. \<open>Lcov\<close>: \<open>summarize_lcov.py\<close>. \<open>Protocol_Check\<close>:
  \<open>check_protocol_conformance.py\<close>. \<open>Provenance\<close>: \<open>generate_baseline_manifest.py\<close>. \<open>Assistant\<close>,
  \<open>Assistant_Eval\<close>: \<open>assurance_assistant.py\<close> confined to its policy, and its frozen evaluation.
  \<open>Results_Plots\<close>: \<open>generate_results_plots.py\<close>; its regular expression recovers exactly the telemetry that
  the demo sent from the log, and its summary shows the counts of the campaign reports.

  \<^bold>\<open>Correspondence.\<close> Definitions have the names of the functions they model; a struct or class is a
  record, an enumeration a datatype, C++ integers are words of their width, Python integers \<open>int\<close>. A
  method that changes its object returns the changed record; a Python function that may raise returns
  \<open>result\<close>, the exception on the left. Single-precision floats are their 32 bits; the few float operations
  of the code (comparison, rounding of an integer, two decimals, the percentile index in \<open>double\<close>) are
  written out on integers.

  \<^bold>\<open>Bounds.\<close> No fuel is used: all loops are structural or have a measure, and endless loops are modelled on
  the finite sequence of inputs received so far. The scheduler is described up to \<open>2 ^ 64\<close> ticks and the
  executive up to \<open>2 ^ 63\<close> (beyond, sums of ticks and deadlines wrap); the timing campaign up to
  \<open>2 ^ 52\<close> samples, where the percentile index is exact enough to stay in range.

  \<^bold>\<open>Parameters.\<close> What the code takes from outside is an argument: datagrams, clocks and measured
  durations, child processes and their output, file contents and path resolution, the parsed JSON and
  YAML values, Python's \<open>float\<close> on a text, SHA-256, random numbers, and percentages, means or
  coordinates computed in floating point. Hypotheses on them say what the code relies on, and witnesses
  instantiate them.

  \<^bold>\<open>Not modelled.\<close> The system calls of the UDP socket classes (what they return is a parameter), pauses, the
  project site (presentation of fixed data), and the layout of files written by \<open>json.dump\<close> where only
  the object matters.
\<close>

end
